(* ===== verification/Prelude.thy ===== *)
theory Prelude
  imports Main "HOL-Library.Sublist"
begin

text \<open>
  What the components share: the JavaScript operators the sources use on values that may be
  absent (\<open>??\<close>, truthiness, the \<open>in\<close> test), the string and array methods they call
  (\<open>trim\<close>, \<open>join\<close>, \<open>some\<close>, \<open>map\<close> with a replacement by id), and the generic
  lemmas about them.

  Strings are lists of 8-bit code units. A value of type \<open>T | null | undefined\<close> is
  \<open>T option\<close>; the sources never tell \<open>null\<close> from \<open>undefined\<close> except through the
  \<open>in\<close> operator, and the three properties tested with it have the type \<open>'a jsprop\<close>.
\<close>

named_theorems js_simps \<open>unfolding of the JavaScript operators\<close>
named_theorems reducer_simps \<open>definitions of the slice reducers\<close>

section \<open>Values that may be absent\<close>

text \<open>A property of an object: not there, there and null, there with a value.\<close>

datatype 'a jsprop = Absent | Null | Val 'a

text \<open>The operator \<open>in\<close>: is the key there at all.\<close>

definition in_obj :: "'a jsprop \<Rightarrow> bool" where
  "in_obj p \<longleftrightarrow> p \<noteq> Absent"

text \<open>Reading the property; an absent one reads as \<open>undefined\<close>.\<close>

definition get_prop :: "'a jsprop \<Rightarrow> 'a option" where
  "get_prop p = (case p of Val x \<Rightarrow> Some x | _ \<Rightarrow> None)"

text \<open>The operator \<open>??\<close>.\<close>

definition nullish :: "'a option \<Rightarrow> 'a \<Rightarrow> 'a" where
  "nullish v d = (case v of None \<Rightarrow> d | Some x \<Rightarrow> x)"

text \<open>A string used as a condition: absent and empty are both false.\<close>

definition truthy :: "string option \<Rightarrow> bool" where
  "truthy v \<longleftrightarrow> v \<noteq> None \<and> v \<noteq> Some []"

text \<open>An optional flag used as a condition.\<close>

definition truthy_flag :: "bool option \<Rightarrow> bool" where
  "truthy_flag v \<longleftrightarrow> v = Some True"

text \<open>\<open>s || d\<close> for a string on the left.\<close>

definition or_else :: "string \<Rightarrow> 'a \<Rightarrow> (string \<Rightarrow> 'a) \<Rightarrow> 'a" where
  "or_else s d f = (if s = [] then d else f s)"

declare in_obj_def [js_simps] get_prop_def [js_simps] nullish_def [js_simps]
  truthy_def [js_simps] truthy_flag_def [js_simps] or_else_def [js_simps]

lemma nullish_simps [simp]:
  "nullish None d = d"
  "nullish (Some x) d = x"
  by (simp_all add: nullish_def)

lemma truthy_simps [simp]:
  "\<not> truthy None"
  "truthy (Some s) \<longleftrightarrow> s \<noteq> []"
  by (simp_all add: truthy_def)

lemma truthy_E:
  assumes "truthy v"
  obtains s where "v = Some s" and "s \<noteq> []"
  using assms by (cases v) auto

lemma get_prop_simps [simp]:
  "get_prop Absent = None"
  "get_prop Null = None"
  "get_prop (Val x) = Some x"
  by (simp_all add: get_prop_def)

lemma get_prop_Some_in_obj: "get_prop p = Some x \<Longrightarrow> in_obj p"
  by (cases p) (auto simp: in_obj_def)

section \<open>Strings\<close>

text \<open>The white space \<open>String.prototype.trim\<close> strips, among 8-bit code units.\<close>

definition is_space :: "char \<Rightarrow> bool" where
  "is_space c \<longleftrightarrow> c \<in> {CHR 0x09, CHR 0x0A, CHR 0x0B, CHR 0x0C, CHR 0x0D, CHR 0x20, CHR 0xA0}"

definition trim :: "string \<Rightarrow> string" where
  "trim s = rev (dropWhile is_space (rev (dropWhile is_space s)))"

text \<open>\<open>xs.join(sep)\<close>.\<close>

fun join :: "string \<Rightarrow> string list \<Rightarrow> string" where
  "join sep [] = []"
| "join sep [x] = x"
| "join sep (x # y # ys) = x @ sep @ join sep (y # ys)"

text \<open>\<open>[a, b].filter(Boolean)\<close> on strings that may be absent.\<close>

fun filter_truthy :: "string option list \<Rightarrow> string list" where
  "filter_truthy [] = []"
| "filter_truthy (v # vs) =
     (case v of
        None \<Rightarrow> filter_truthy vs
      | Some s \<Rightarrow> if s = [] then filter_truthy vs else s # filter_truthy vs)"

lemma filter_truthy_nonempty: "s \<in> set (filter_truthy vs) \<Longrightarrow> s \<noteq> []"
  by (induction vs) (auto split: option.splits if_splits)

lemma join_eq_Nil: "(\<And>x. x \<in> set xs \<Longrightarrow> x \<noteq> []) \<Longrightarrow> join sep xs = [] \<longleftrightarrow> xs = []"
  by (induction sep xs rule: join.induct) auto

lemma trim_no_space: "trim s \<noteq> [] \<Longrightarrow> \<not> is_space (hd (trim s))"
proof -
  assume ne: "trim s \<noteq> []"
  let ?t = "dropWhile is_space s"
  have "suffix (dropWhile is_space (rev ?t)) (rev ?t)"
    by (rule suffix_dropWhile)
  then have "prefix (trim s) ?t"
    unfolding trim_def by (metis rev_rev_ident suffix_to_prefix)
  then obtain zs where zs: "?t = trim s @ zs" by (auto simp: prefix_def)
  with ne have "?t \<noteq> []" and "hd ?t = hd (trim s)" by (cases "trim s"; simp)+
  then show ?thesis using hd_dropWhile[of is_space s] by simp
qed

section \<open>Arrays of records with an id\<close>

text \<open>\<open>list.map((r) => (key(r) === k ? v : r))\<close>.\<close>

definition replace_by :: "('a \<Rightarrow> bool) \<Rightarrow> 'a \<Rightarrow> 'a list \<Rightarrow> 'a list" where
  "replace_by p v = map (\<lambda>x. if p x then v else x)"

lemma length_replace_by [simp]: "length (replace_by p v xs) = length xs"
  by (simp add: replace_by_def)

lemma set_replace_by: "y \<in> set (replace_by p v xs) \<Longrightarrow> y = v \<or> (y \<in> set xs \<and> \<not> p y)"
  by (auto simp: replace_by_def split: if_splits)

lemma map_key_replace_by:
  assumes "\<And>x. p x \<longleftrightarrow> key x = key v"
  shows "map key (replace_by p v xs) = map key xs"
  using assms by (auto simp: replace_by_def)

lemma replace_by_idem: "p v \<Longrightarrow> replace_by p v (replace_by p v xs) = replace_by p v xs"
  by (auto simp: replace_by_def)

lemma replace_by_agree:
  assumes "\<And>x. p x \<longleftrightarrow> key x = key v" and "y \<in> set (replace_by p v xs)" and "key y = key v"
  shows "y = v"
  using set_replace_by[OF assms(2)] assms(1,3) by auto

lemma filter_key_gone: "k \<notin> key ` set (filter (\<lambda>x. key x \<noteq> k) xs)"
  by auto

lemma distinct_map_filter_key: "distinct (map key xs) \<Longrightarrow> distinct (map key (filter p xs))"
  by (induction xs) auto

section \<open>Looking up by id\<close>

definition lookup_by :: "('a \<Rightarrow> 'k) \<Rightarrow> 'k \<Rightarrow> 'a list \<Rightarrow> 'a option" where
  "lookup_by key k xs = List.find (\<lambda>x. key x = k) xs"

lemma lookup_by_Nil [simp]: "lookup_by key k [] = None"
  by (simp add: lookup_by_def)

lemma lookup_by_Cons [simp]:
  "lookup_by key k (x # xs) = (if key x = k then Some x else lookup_by key k xs)"
  by (simp add: lookup_by_def)

lemma lookup_by_None_iff: "lookup_by key k xs = None \<longleftrightarrow> k \<notin> key ` set xs"
  by (induction xs) auto

lemma lookup_by_Some: "lookup_by key k xs = Some x \<Longrightarrow> x \<in> set xs \<and> key x = k"
  by (induction xs) (auto split: if_splits)

lemma lookup_by_filter:
  "lookup_by key k (filter (\<lambda>x. key x \<noteq> k') xs) = (if k = k' then None else lookup_by key k xs)"
  by (induction xs) auto

text \<open>An array of records read as a finite map from ids to records; the first copy counts.\<close>

definition entries :: "('a \<Rightarrow> 'k) \<Rightarrow> 'a list \<Rightarrow> 'k \<rightharpoonup> 'a" where
  "entries key xs = (\<lambda>k. lookup_by key k xs)"

lemma entries_Nil [simp]: "entries key [] = Map.empty"
  by (simp add: entries_def)

lemma entries_Cons [simp]: "entries key (x # xs) = (entries key xs)(key x \<mapsto> x)"
  by (auto simp: entries_def fun_eq_iff)

lemma entries_filter [simp]:
  "entries key (filter (\<lambda>x. key x \<noteq> k) xs) = (entries key xs)(k := None)"
  by (auto simp: entries_def fun_eq_iff lookup_by_filter)

lemma entries_None_iff: "entries key xs k = None \<longleftrightarrow> k \<notin> key ` set xs"
  by (simp add: entries_def lookup_by_None_iff)

text \<open>
  The interface of a slice that keeps records with an id: \<open>key\<close> reads the id, \<open>same u x\<close> is the
  test its reducer writes to find the copies of \<open>u\<close>. What the list operations of the reducers do
  to a lookup is proved once here.
\<close>

locale keyed =
  fixes key :: "'a \<Rightarrow> 'k" and same :: "'a \<Rightarrow> 'a \<Rightarrow> bool"
  assumes same_iff: "same u x \<longleftrightarrow> key x = key u"
begin

lemma same_refl: "same u u"
  by (simp add: same_iff)

lemma lookup_replace:
  "lookup_by key k (replace_by (same u) u xs) =
     (if k = key u then map_option (\<lambda>_. u) (lookup_by key k xs) else lookup_by key k xs)"
  by (induction xs) (auto simp: replace_by_def same_iff)

lemma keys_replace: "map key (replace_by (same u) u xs) = map key xs"
  by (rule map_key_replace_by) (simp add: same_iff)

lemma copies_agree: "x \<in> set (replace_by (same u) u xs) \<Longrightarrow> key x = key u \<Longrightarrow> x = u"
  by (rule replace_by_agree[where key = key]) (simp_all add: same_iff)

lemma others_kept: "x \<in> set xs \<Longrightarrow> key x \<noteq> key u \<Longrightarrow> x \<in> set (replace_by (same u) u xs)"
  by (auto simp: replace_by_def same_iff image_iff)

lemma entries_replace:
  "entries key (replace_by (same u) u xs) =
     (if entries key xs (key u) = None then entries key xs else (entries key xs)(key u \<mapsto> u))"
  by (auto simp: entries_def fun_eq_iff lookup_replace)

lemma some_same: "list_ex (same u) xs \<longleftrightarrow> key u \<in> key ` set xs"
  by (induction xs) (auto simp: same_iff)

lemma some_same_entries: "list_ex (same u) xs \<longleftrightarrow> entries key xs (key u) \<noteq> None"
  by (auto simp: some_same entries_None_iff)

end

text \<open>
  The interface of a reducer: a step per action and what every step keeps. A run is a list of
  actions in any order, so a fact about runs holds for every interleaving of thunks.
\<close>

locale reducer =
  fixes step :: "'a \<Rightarrow> 's \<Rightarrow> 's" and inv :: "'s \<Rightarrow> bool"
  assumes step_inv: "inv s \<Longrightarrow> inv (step a s)"
begin

lemma run_inv: "inv s \<Longrightarrow> inv (fold step as s)"
  by (induction as arbitrary: s) (auto intro: step_inv)

end

end
