(* ===== verification/Json.thy ===== *)
theory Json
  imports Prelude
begin

text \<open>
  JSON as the sources use it: the values that travel, \<open>JSON.stringify\<close> and
  \<open>JSON.parse\<close> of the language, on strings of 8-bit code units. An integer is kept as an
  \<open>int\<close>; a number that is not an integer is kept as its literal, since no code computes
  with one.
\<close>

datatype jnum = JInt int | JDec string | JNaN

datatype json =
    JNull
  | JBool bool
  | JNum jnum
  | JStr string
  | JArr "json list"
  | JObj "(string \<times> json) list"

section \<open>JSON.stringify\<close>

definition digit :: "nat \<Rightarrow> char" where
  "digit n = char_of (48 + n)"

fun show_nat :: "nat \<Rightarrow> string" where
  "show_nat n = (if n < 10 then [digit n] else show_nat (n div 10) @ [digit (n mod 10)])"

declare show_nat.simps [simp del]

definition show_int :: "int \<Rightarrow> string" where
  "show_int i = (if i < 0 then CHR ''-'' # show_nat (nat (- i)) else show_nat (nat i))"

definition hexdigit :: "nat \<Rightarrow> char" where
  "hexdigit n = (if n < 10 then char_of (48 + n) else char_of (87 + n))"

abbreviation quote :: char where "quote \<equiv> CHR 0x22"
abbreviation backslash :: char where "backslash \<equiv> CHR 0x5C"

definition esc_char :: "char \<Rightarrow> string" where
  "esc_char c =
     (if c = quote then [backslash, quote]
      else if c = backslash then [backslash, backslash]
      else if c = CHR 0x08 then [backslash, CHR ''b'']
      else if c = CHR 0x0C then [backslash, CHR ''f'']
      else if c = CHR 0x0A then [backslash, CHR ''n'']
      else if c = CHR 0x0D then [backslash, CHR ''r'']
      else if c = CHR 0x09 then [backslash, CHR ''t'']
      else if (of_char c :: nat) < 32
      then [backslash, CHR ''u'', CHR ''0'', CHR ''0'',
            hexdigit (of_char c div 16), hexdigit (of_char c mod 16)]
      else [c])"

definition show_str :: "string \<Rightarrow> string" where
  "show_str s = quote # concat (map esc_char s) @ [quote]"

fun show_num :: "jnum \<Rightarrow> string" where
  "show_num (JInt i) = show_int i"
| "show_num (JDec t) = t"
| "show_num JNaN = ''null''"

fun stringify :: "json \<Rightarrow> string"
  and stringify_list :: "json list \<Rightarrow> string"
  and stringify_members :: "(string \<times> json) list \<Rightarrow> string" where
  "stringify JNull = ''null''"
| "stringify (JBool b) = (if b then ''true'' else ''false'')"
| "stringify (JNum n) = show_num n"
| "stringify (JStr s) = show_str s"
| "stringify (JArr xs) = CHR ''['' # stringify_list xs @ '']''"
| "stringify (JObj kvs) = CHR ''{'' # stringify_members kvs @ ''}''"
| "stringify_list [] = []"
| "stringify_list [x] = stringify x"
| "stringify_list (x # y # ys) = stringify x @ CHR '','' # stringify_list (y # ys)"
| "stringify_members [] = []"
| "stringify_members [(k, v)] = show_str k @ CHR '':'' # stringify v"
| "stringify_members ((k, v) # m # ms) =
     show_str k @ CHR '':'' # stringify v @ CHR '','' # stringify_members (m # ms)"

section \<open>JSON.parse\<close>

definition is_ws :: "char \<Rightarrow> bool" where
  "is_ws c \<longleftrightarrow> c \<in> {CHR 0x20, CHR 0x09, CHR 0x0A, CHR 0x0D}"

definition skip_ws :: "string \<Rightarrow> string" where
  "skip_ws = dropWhile is_ws"

definition is_digit :: "char \<Rightarrow> bool" where
  "is_digit c \<longleftrightarrow> 48 \<le> (of_char c :: nat) \<and> (of_char c :: nat) \<le> 57"

definition is_num_char :: "char \<Rightarrow> bool" where
  "is_num_char c \<longleftrightarrow> is_digit c \<or> c \<in> set ''+-.eE''"

definition read_nat :: "string \<Rightarrow> nat" where
  "read_nat = foldl (\<lambda>n c. 10 * n + (of_char c - 48)) 0"

text \<open>The integer part of a JSON number: no leading zero unless it is the only digit.\<close>

definition int_part :: "string \<Rightarrow> bool" where
  "int_part t \<longleftrightarrow> t \<noteq> [] \<and> list_all is_digit t \<and> (hd t = CHR ''0'' \<longrightarrow> length t = 1)"

definition exp_part :: "string \<Rightarrow> bool" where
  "exp_part t \<longleftrightarrow>
     (case t of
        [] \<Rightarrow> True
      | e # r \<Rightarrow>
          (e = CHR ''e'' \<or> e = CHR ''E'') \<and>
          (let d = (if r \<noteq> [] \<and> (hd r = CHR ''+'' \<or> hd r = CHR ''-'') then tl r else r)
           in d \<noteq> [] \<and> list_all is_digit d))"

definition frac_part :: "string \<Rightarrow> bool" where
  "frac_part t \<longleftrightarrow>
     (if t \<noteq> [] \<and> hd t = CHR ''.''
      then takeWhile is_digit (tl t) \<noteq> [] \<and> exp_part (dropWhile is_digit (tl t))
      else exp_part t)"

definition unsigned_part :: "string \<Rightarrow> string" where
  "unsigned_part t = (if t \<noteq> [] \<and> hd t = CHR ''-'' then tl t else t)"

definition number_literal :: "string \<Rightarrow> bool" where
  "number_literal t \<longleftrightarrow>
     (let u = unsigned_part t
      in int_part (takeWhile is_digit u) \<and> frac_part (dropWhile is_digit u))"

definition read_number :: "string \<Rightarrow> jnum option" where
  "read_number t =
     (let u = unsigned_part t
      in if int_part u
         then Some (JInt (if u = t then int (read_nat u) else - int (read_nat u)))
         else if number_literal t then Some (JDec t) else None)"

definition parse_number :: "string \<Rightarrow> (json \<times> string) option" where
  "parse_number s =
     map_option (\<lambda>n. (JNum n, dropWhile is_num_char s)) (read_number (takeWhile is_num_char s))"

definition unhex :: "char \<Rightarrow> nat option" where
  "unhex c =
     (let n = (of_char c :: nat)
      in if 48 \<le> n \<and> n \<le> 57 then Some (n - 48)
         else if 97 \<le> n \<and> n \<le> 102 then Some (n - 87)
         else if 65 \<le> n \<and> n \<le> 70 then Some (n - 55)
         else None)"

text \<open>A \<open>\uXXXX\<close> escape; the model's strings hold code units below 256.\<close>

definition unicode_escape :: "char \<Rightarrow> char \<Rightarrow> char \<Rightarrow> char \<Rightarrow> char option" where
  "unicode_escape a b c d =
     (case (unhex a, unhex b, unhex c, unhex d) of
        (Some 0, Some 0, Some x, Some y) \<Rightarrow> Some (char_of (16 * x + y))
      | _ \<Rightarrow> None)"

definition simple_escape :: "char \<Rightarrow> char option" where
  "simple_escape e =
     map_of [(quote, quote), (backslash, backslash), (CHR ''/'', CHR ''/''),
             (CHR ''b'', CHR 0x08), (CHR ''f'', CHR 0x0C), (CHR ''n'', CHR 0x0A),
             (CHR ''r'', CHR 0x0D), (CHR ''t'', CHR 0x09)] e"

text \<open>The characters of a string after its opening quote, and what follows the closing one.\<close>

definition cons_fst :: "char \<Rightarrow> (string \<times> string) option \<Rightarrow> (string \<times> string) option" where
  "cons_fst c = map_option (\<lambda>(t, r). (c # t, r))"

fun parse_string :: "string \<Rightarrow> (string \<times> string) option" where
  "parse_string [] = None"
| "parse_string (c # r) =
     (if c = quote then Some ([], r)
      else if c = backslash then
        (case r of
           e # r' \<Rightarrow>
             if e = CHR ''u'' then
               (case r' of
                  h1 # h2 # h3 # h4 # r'' \<Rightarrow>
                    (case unicode_escape h1 h2 h3 h4 of
                       Some x \<Rightarrow> cons_fst x (parse_string r'')
                     | None \<Rightarrow> None)
                | _ \<Rightarrow> None)
             else
               (case simple_escape e of
                  Some x \<Rightarrow> cons_fst x (parse_string r')
                | None \<Rightarrow> None)
         | [] \<Rightarrow> None)
      else if (of_char c :: nat) < 32 then None
      else cons_fst c (parse_string r))"

fun strip :: "string \<Rightarrow> string \<Rightarrow> string option" where
  "strip [] s = Some s"
| "strip (x # xs) [] = None"
| "strip (x # xs) (y # ys) = (if x = y then strip xs ys else None)"

text \<open>
  The recursive descent. One unit of fuel per call; \<open>2 * length s + 1\<close> is enough for
  \<open>s\<close>, because a nested value is parsed after its bracket has been consumed.
\<close>

fun parse_value :: "nat \<Rightarrow> string \<Rightarrow> (json \<times> string) option"
  and parse_elems :: "nat \<Rightarrow> string \<Rightarrow> (json list \<times> string) option"
  and parse_members :: "nat \<Rightarrow> string \<Rightarrow> ((string \<times> json) list \<times> string) option" where
  "parse_value 0 s = None"
| "parse_value (Suc n) s =
     (case skip_ws s of
        [] \<Rightarrow> None
      | c # r \<Rightarrow>
          if c = CHR ''n'' then map_option (\<lambda>r'. (JNull, r')) (strip ''ull'' r)
          else if c = CHR ''t'' then map_option (\<lambda>r'. (JBool True, r')) (strip ''rue'' r)
          else if c = CHR ''f'' then map_option (\<lambda>r'. (JBool False, r')) (strip ''alse'' r)
          else if c = quote then map_option (\<lambda>(t, r'). (JStr t, r')) (parse_string r)
          else if c = CHR ''['' then
            (case skip_ws r of
               d # r' \<Rightarrow> if d = CHR '']'' then Some (JArr [], r')
                         else map_option (\<lambda>(xs, r''). (JArr xs, r'')) (parse_elems n r)
             | [] \<Rightarrow> None)
          else if c = CHR ''{'' then
            (case skip_ws r of
               d # r' \<Rightarrow> if d = CHR ''}'' then Some (JObj [], r')
                         else map_option (\<lambda>(ms, r''). (JObj ms, r'')) (parse_members n r)
             | [] \<Rightarrow> None)
          else parse_number (c # r))"
| "parse_elems 0 s = None"
| "parse_elems (Suc n) s =
     (case parse_value n s of
        None \<Rightarrow> None
      | Some (v, r) \<Rightarrow>
          (case skip_ws r of
             d # r' \<Rightarrow>
               if d = CHR '','' then map_option (\<lambda>(vs, r''). (v # vs, r'')) (parse_elems n r')
               else if d = CHR '']'' then Some ([v], r') else None
           | [] \<Rightarrow> None))"
| "parse_members 0 s = None"
| "parse_members (Suc n) s =
     (case skip_ws s of
        q # s' \<Rightarrow>
          if q \<noteq> quote then None
          else
            (case parse_string s' of
               None \<Rightarrow> None
             | Some (k, r) \<Rightarrow>
                 (case skip_ws r of
                    e # r1 \<Rightarrow>
                      if e \<noteq> CHR '':'' then None
                      else
                        (case parse_value n r1 of
                           None \<Rightarrow> None
                         | Some (v, r2) \<Rightarrow>
                             (case skip_ws r2 of
                                d # r3 \<Rightarrow>
                                  if d = CHR '','' then
                                    map_option (\<lambda>(ms, r4). ((k, v) # ms, r4)) (parse_members n r3)
                                  else if d = CHR ''}'' then Some ([(k, v)], r3) else None
                              | [] \<Rightarrow> None))
                  | [] \<Rightarrow> None))
      | [] \<Rightarrow> None)"

text \<open>\<open>None\<close> is the \<open>SyntaxError\<close>.\<close>

definition json_parse :: "string \<Rightarrow> json option" where
  "json_parse s =
     (case parse_value (2 * length s + 1) s of
        Some (v, r) \<Rightarrow> if skip_ws r = [] then Some v else None
      | None \<Rightarrow> None)"

section \<open>Reading an object\<close>

text \<open>\<open>o.k\<close>; where a key is written twice the last one counts.\<close>

fun field :: "json \<Rightarrow> string \<Rightarrow> json option" where
  "field (JObj kvs) k = map_of (rev kvs) k"
| "field _ k = None"

fun as_str :: "json \<Rightarrow> string option" where
  "as_str (JStr s) = Some s"
| "as_str _ = None"

fun as_int :: "json \<Rightarrow> int option" where
  "as_int (JNum (JInt i)) = Some i"
| "as_int _ = None"

fun as_bool :: "json \<Rightarrow> bool option" where
  "as_bool (JBool b) = Some b"
| "as_bool _ = None"

definition str_field :: "json \<Rightarrow> string \<Rightarrow> string option" where
  "str_field j k = Option.bind (field j k) as_str"

definition int_field :: "json \<Rightarrow> string \<Rightarrow> int option" where
  "int_field j k = Option.bind (field j k) as_int"

definition bool_field :: "json \<Rightarrow> string \<Rightarrow> bool option" where
  "bool_field j k = Option.bind (field j k) as_bool"

text \<open>A property of an object that the code tests with \<open>in\<close>.\<close>

definition prop_field :: "json \<Rightarrow> string \<Rightarrow> string jsprop" where
  "prop_field j k =
     (case field j k of
        None \<Rightarrow> Absent
      | Some v \<Rightarrow> (case v of JNull \<Rightarrow> Null | JStr s \<Rightarrow> Val s | _ \<Rightarrow> Val (stringify v)))"

definition list_field :: "(json \<Rightarrow> 'a) \<Rightarrow> json \<Rightarrow> string \<Rightarrow> 'a list option" where
  "list_field f j k = (case field j k of Some (JArr xs) \<Rightarrow> Some (map f xs) | _ \<Rightarrow> None)"

fun as_list :: "(json \<Rightarrow> 'a) \<Rightarrow> json \<Rightarrow> 'a list" where
  "as_list f (JArr xs) = map f xs"
| "as_list f _ = []"

text \<open>The members of an object literal: one whose value is \<open>undefined\<close> is not written.\<close>

definition opt_member :: "string \<Rightarrow> ('a \<Rightarrow> json) \<Rightarrow> 'a option \<Rightarrow> (string \<times> json) list" where
  "opt_member k f v = (case v of None \<Rightarrow> [] | Some x \<Rightarrow> [(k, f x)])"

end
