(* ===== verification/JsonCodec.thy ===== *)
theory JsonCodec
  imports Json
begin

text \<open>
  The two facts about \<open>JSON.stringify\<close> and \<open>JSON.parse\<close> the components rest on: a printed
  value parses back to itself, and the fuel of the recursive descent never runs out. The
  interface the components see is the locale \<open>codec\<close>.
\<close>

section \<open>Numbers and strings\<close>


lemma is_digit_digit: "n < 10 \<Longrightarrow> is_digit (digit n)"
  by (simp add: is_digit_def digit_def)

lemma of_char_digit: "n < 10 \<Longrightarrow> (of_char (digit n) :: nat) = 48 + n"
  by (simp add: digit_def)

lemma show_nat_digits: "list_all is_digit (show_nat n)"
proof (induction n rule: show_nat.induct)
  case (1 n)
  then show ?case
    by (subst show_nat.simps) (simp add: is_digit_digit)
qed

lemma show_nat_nonempty [simp]: "show_nat n \<noteq> []"
  by (subst show_nat.simps) simp

lemma hd_show_nat: "0 < n \<Longrightarrow> hd (show_nat n) \<noteq> CHR ''0''"
proof (induction n rule: show_nat.induct)
  case (1 n)
  show ?case
  proof (cases "n < 10")
    case True
    have "(of_char (digit n) :: nat) \<noteq> of_char CHR ''0''"
      using True "1.prems" by (simp add: of_char_digit)
    then show ?thesis using True by (subst show_nat.simps) auto
  next
    case False
    then have "hd (show_nat (n div 10)) \<noteq> CHR ''0''" using "1.IH" by simp
    then show ?thesis using False by (subst show_nat.simps) simp
  qed
qed

lemma int_part_show_nat: "int_part (show_nat n)"
proof (cases "n = 0")
  case True
  then show ?thesis
    by (subst show_nat.simps) (simp add: int_part_def is_digit_digit)
next
  case False
  then show ?thesis
    by (simp add: int_part_def show_nat_digits hd_show_nat)
qed

lemma read_nat_show_nat: "read_nat (show_nat n) = n"
proof (induction n rule: show_nat.induct)
  case (1 n)
  show ?case
  proof (cases "n < 10")
    case True
    then show ?thesis by (subst show_nat.simps) (simp add: read_nat_def of_char_digit)
  next
    case False
    then have "read_nat (show_nat (n div 10)) = n div 10" using "1.IH" by simp
    then show ?thesis using False
      by (subst show_nat.simps) (simp add: read_nat_def of_char_digit)
  qed
qed

lemma digit_not_minus: "is_digit c \<Longrightarrow> c \<noteq> CHR ''-''"
  by (auto simp: is_digit_def)

lemma hd_show_nat_digit: "is_digit (hd (show_nat n))"
  using show_nat_digits[of n] show_nat_nonempty[of n] by (cases "show_nat n") auto

lemma unsigned_show_int:
  "unsigned_part (show_int i) = show_nat (nat \<bar>i\<bar>)"
  using digit_not_minus[OF hd_show_nat_digit[of "nat i"]]
  by (auto simp: unsigned_part_def show_int_def)

lemma read_number_show_int: "read_number (show_int i) = Some (JInt i)"
proof (cases "i < 0")
  case True
  then show ?thesis
    by (simp add: read_number_def unsigned_show_int int_part_show_nat read_nat_show_nat)
       (simp add: show_int_def read_nat_show_nat)
next
  case False
  then show ?thesis
    by (simp add: read_number_def unsigned_show_int int_part_show_nat read_nat_show_nat)
       (simp add: show_int_def read_nat_show_nat)
qed

lemma unhex_hexdigit: "n < 16 \<Longrightarrow> unhex (hexdigit n) = Some n"
  by (auto simp: unhex_def hexdigit_def)

lemma unhex_zero: "unhex CHR ''0'' = Some 0"
  by (simp add: unhex_def)

lemma unicode_escape_low:
  assumes "(of_char c :: nat) < 256"
  shows "unicode_escape CHR ''0'' CHR ''0'' (hexdigit (of_char c div 16)) (hexdigit (of_char c mod 16)) = Some c"
proof -
  have "of_char c div (16::nat) < 16" using assms by arith
  then show ?thesis
    by (simp add: unicode_escape_def unhex_zero unhex_hexdigit)
qed

lemma parse_string_esc_char:
  "parse_string (esc_char c @ r) = cons_fst c (parse_string r)"
proof (cases "c \<in> {quote, backslash, CHR 0x08, CHR 0x0C, CHR 0x0A, CHR 0x0D, CHR 0x09}")
  case True
  then show ?thesis by (auto simp: esc_char_def simple_escape_def)
next
  case False
  then show ?thesis
    using unicode_escape_low[of c] by (auto simp: esc_char_def)
qed

lemma parse_string_esc:
  "parse_string (concat (map esc_char s) @ quote # r) = Some (s, r)"
  by (induction s) (auto simp: parse_string_esc_char cons_fst_def)

section \<open>Round trip\<close>

fun wf_num :: "jnum \<Rightarrow> bool" where
  "wf_num (JInt i) = True"
| "wf_num (JDec t) = (number_literal t \<and> \<not> int_part (unsigned_part t) \<and> list_all is_num_char t)"
| "wf_num JNaN = False"

fun wf_json :: "json \<Rightarrow> bool" where
  "wf_json (JNum n) = wf_num n"
| "wf_json (JArr xs) = list_all wf_json xs"
| "wf_json (JObj kvs) = list_all (\<lambda>(k, v). wf_json v) kvs"
| "wf_json _ = True"

definition stops :: "string \<Rightarrow> bool" where
  "stops r \<longleftrightarrow> r = [] \<or> \<not> is_num_char (hd r)"

lemma is_num_char_digit: "is_digit c \<Longrightarrow> is_num_char c"
  by (simp add: is_num_char_def)

lemma show_num_chars: "wf_num n \<Longrightarrow> list_all is_num_char (show_num n)"
proof (cases n)
  case (JInt i)
  have "list_all is_num_char (show_nat k)" for k
    using show_nat_digits[of k] by (auto simp: list_all_iff is_num_char_digit)
  with JInt show ?thesis by (simp add: show_int_def is_num_char_def)
qed auto

lemma span_stop:
  assumes "list_all p t" and "r = [] \<or> \<not> p (hd r)"
  shows "takeWhile p (t @ r) = t" and "dropWhile p (t @ r) = r"
  using assms by (induction t) (auto simp: takeWhile_eq_Nil_iff dropWhile_eq_self_iff)

lemma read_number_show_num: "wf_num n \<Longrightarrow> read_number (show_num n) = Some n"
proof (cases n)
  case (JDec t)
  then show "wf_num n \<Longrightarrow> ?thesis" by (simp add: read_number_def)
qed (auto simp: read_number_show_int)

lemma parse_number_show_num:
  "wf_num n \<Longrightarrow> stops r \<Longrightarrow> parse_number (show_num n @ r) = Some (JNum n, r)"
  using span_stop[OF show_num_chars, of n r]
  by (simp add: parse_number_def stops_def read_number_show_num)

lemma number_literal_start:
  "number_literal t \<Longrightarrow> t \<noteq> [] \<and> (is_digit (hd t) \<or> hd t = CHR ''-'')"
proof -
  assume "number_literal t"
  then have ip: "int_part (takeWhile is_digit (unsigned_part t))"
    by (simp add: number_literal_def Let_def)
  then show ?thesis
    by (cases t) (auto simp: int_part_def unsigned_part_def split: if_splits)
qed

lemma show_num_start:
  assumes "wf_num n"
  obtains c t where "show_num n = c # t" and "is_digit c \<or> c = CHR ''-''"
proof -
  have "show_num n \<noteq> [] \<and> (is_digit (hd (show_num n)) \<or> hd (show_num n) = CHR ''-'')"
    using assms number_literal_start
    by (cases n) (auto simp: show_int_def hd_show_nat_digit)
  then show ?thesis using that by (cases "show_num n") auto
qed

text \<open>The first character of a printed value.\<close>

definition value_start :: "char \<Rightarrow> bool" where
  "value_start c \<longleftrightarrow> \<not> is_ws c \<and> c \<noteq> CHR '']'' \<and> c \<noteq> CHR ''}''"

lemma number_start_value_start: "is_digit c \<or> c = CHR ''-'' \<Longrightarrow> value_start c"
  by (auto simp: value_start_def is_digit_def is_ws_def)

lemma stringify_start:
  assumes "wf_json j"
  obtains c t where "stringify j = c # t" and "value_start c"
proof (cases j)
  case (JNum n)
  with assms have "wf_num n" by simp
  then obtain c t where "show_num n = c # t" "is_digit c \<or> c = CHR ''-''"
    by (rule show_num_start)
  with JNum show ?thesis using that number_start_value_start by auto
next
  case (JBool b)
  then show ?thesis using that by (cases b) (auto simp: value_start_def is_ws_def)
qed (use that in \<open>auto simp: value_start_def is_ws_def show_str_def\<close>)

lemma skip_ws_start: "value_start c \<Longrightarrow> skip_ws (c # t) = c # t"
  by (simp add: value_start_def skip_ws_def)

lemma skip_ws_punct [simp]:
  "skip_ws (CHR '','' # r) = CHR '','' # r"
  "skip_ws (CHR '']'' # r) = CHR '']'' # r"
  "skip_ws (CHR ''}'' # r) = CHR ''}'' # r"
  "skip_ws (CHR '':'' # r) = CHR '':'' # r"
  "skip_ws (quote # r) = quote # r"
  by (simp_all add: skip_ws_def is_ws_def)

lemma stops_punct [simp]:
  "stops (CHR '','' # r)" "stops (CHR '']'' # r)" "stops (CHR ''}'' # r)" "stops []"
  by (simp_all add: stops_def is_num_char_def is_digit_def)

lemma parse_number_branch:
  assumes "is_digit c \<or> c = CHR ''-''"
  shows "parse_value (Suc n) (c # t) = parse_number (c # t)"
proof -
  have "c \<noteq> CHR ''n''" "c \<noteq> CHR ''t''" "c \<noteq> CHR ''f''" "c \<noteq> quote" "c \<noteq> CHR ''[''" "c \<noteq> CHR ''{''"
    using assms by (auto simp: is_digit_def)
  then show ?thesis
    using skip_ws_start[OF number_start_value_start[OF assms], of t] by simp
qed

text \<open>One step of each parsing function on what \<open>stringify\<close> writes.\<close>

lemma parse_num_step:
  assumes "wf_num m" and "stops r"
  shows "parse_value (Suc n) (show_num m @ r) = Some (JNum m, r)"
proof -
  obtain c t where ct: "show_num m = c # t" "is_digit c \<or> c = CHR ''-''"
    using show_num_start[OF assms(1)] .
  then show ?thesis
    using parse_number_branch[OF ct(2)] parse_number_show_num[OF assms] by simp
qed

lemma parse_arr_step:
  assumes "wf_json y" and "parse_elems n (stringify_list (y # ys) @ CHR '']'' # r) = Some (y # ys, r)"
  shows "parse_value (Suc n) (stringify (JArr (y # ys)) @ r) = Some (JArr (y # ys), r)"
proof -
  obtain c t where c: "stringify y = c # t" "value_start c" using stringify_start[OF assms(1)] .
  then obtain t' where "stringify_list (y # ys) @ CHR '']'' # r = c # t'" by (cases ys) auto
  with assms(2) c(2) skip_ws_start[OF c(2), of t'] show ?thesis
    by (simp add: skip_ws_def is_ws_def value_start_def)
qed

lemma parse_obj_step:
  assumes "kvs \<noteq> []" and "parse_members n (stringify_members kvs @ CHR ''}'' # r) = Some (kvs, r)"
  shows "parse_value (Suc n) (stringify (JObj kvs) @ r) = Some (JObj kvs, r)"
proof -
  obtain t' where "stringify_members kvs @ CHR ''}'' # r = quote # t'"
    using assms(1) by (cases kvs rule: stringify_members.cases) (auto simp: show_str_def)
  with assms(2) show ?thesis by (simp add: skip_ws_def is_ws_def)
qed

lemma parse_elems_step:
  assumes "parse_value n (stringify x @ CHR '','' # s) = Some (x, CHR '','' # s)"
    and "parse_elems n s = Some (ys, r)"
  shows "parse_elems (Suc n) (stringify x @ CHR '','' # s) = Some (x # ys, r)"
  using assms by simp

lemma parse_members_last:
  assumes "parse_value n (stringify v @ CHR ''}'' # r) = Some (v, CHR ''}'' # r)"
  shows "parse_members (Suc n) (stringify_members [(k, v)] @ CHR ''}'' # r) = Some ([(k, v)], r)"
  using assms by (simp add: show_str_def parse_string_esc)

lemma parse_members_step:
  assumes "parse_value n (stringify v @ CHR '','' # stringify_members (m # ms) @ CHR ''}'' # r) =
      Some (v, CHR '','' # stringify_members (m # ms) @ CHR ''}'' # r)"
    and "parse_members n (stringify_members (m # ms) @ CHR ''}'' # r) = Some (m # ms, r)"
  shows "parse_members (Suc n) (stringify_members ((k, v) # m # ms) @ CHR ''}'' # r) =
      Some ((k, v) # m # ms, r)"
  using assms by (simp add: show_str_def parse_string_esc)

text \<open>The three statements proved together, one per parsing function.\<close>

lemma parse_stringify_all:
  "wf_json j \<Longrightarrow> stops r \<Longrightarrow> 2 * length (stringify j) + 1 \<le> n \<Longrightarrow>
     parse_value n (stringify j @ r) = Some (j, r)"
  "list_all wf_json xs \<Longrightarrow> xs \<noteq> [] \<Longrightarrow> 2 * length (stringify_list xs) + 2 \<le> n \<Longrightarrow>
     parse_elems n (stringify_list xs @ CHR '']'' # r) = Some (xs, r)"
  "list_all (\<lambda>(k, v). wf_json v) kvs \<Longrightarrow> kvs \<noteq> [] \<Longrightarrow>
     2 * length (stringify_members kvs) + 2 \<le> n \<Longrightarrow>
     parse_members n (stringify_members kvs @ CHR ''}'' # r) = Some (kvs, r)"
proof (induction j and xs and kvs arbitrary: n r and n r and n r
    rule: stringify_stringify_list_stringify_members.induct)
  case (3 m)
  then obtain n' where "n = Suc n'" by (cases n) auto
  with 3 parse_num_step[of m r n'] show ?case by (simp only: wf_json.simps stringify.simps)
next
  case (5 xs)
  then obtain n' where n: "n = Suc n'" by (cases n) auto
  show ?case
  proof (cases xs)
    case (Cons y ys)
    have "parse_elems n' (stringify_list xs @ CHR '']'' # r) = Some (xs, r)" using 5 n Cons by simp
    then show ?thesis using 5 unfolding n Cons by (intro parse_arr_step) simp_all
  qed (simp add: n skip_ws_def is_ws_def)
next
  case (6 kvs)
  then obtain n' where n: "n = Suc n'" by (cases n) auto
  show ?case
  proof (cases "kvs = []")
    case False
    then show ?thesis using 6 unfolding n by (intro parse_obj_step) simp_all
  qed (simp add: n skip_ws_def is_ws_def)
next
  case (8 x)
  then show ?case by (cases n) simp_all
next
  case (9 x y ys)
  then obtain n' where n: "n = Suc n'" by (cases n) auto
  show ?case
    using 9 n parse_elems_step[of n' x "stringify_list (y # ys) @ CHR '']'' # r" "y # ys" r] by simp
next
  case (11 k v)
  then obtain n' where n: "n = Suc n'" by (cases n) auto
  show ?case using 11 unfolding n by (intro parse_members_last) simp
next
  case (12 k v m ms)
  then obtain n' where n: "n = Suc n'" by (cases n) auto
  show ?case using 12 unfolding n by (intro parse_members_step) simp_all
next
  case (2 b)
  then show ?case by (cases n; cases b) (auto simp: skip_ws_def is_ws_def)
next
  case (4 s)
  then show ?case by (cases n) (auto simp: show_str_def parse_string_esc)
next
  case 1
  then show ?case by (cases n) (auto simp: skip_ws_def is_ws_def)
qed simp_all

lemma json_parse_stringify_ok: "wf_json j \<Longrightarrow> json_parse (stringify j) = Some j"
  using parse_stringify_all(1)[of j "[]" "2 * length (stringify j) + 1"]
  by (simp add: json_parse_def skip_ws_def)


section \<open>The fuel is enough\<close>

lemma skip_ws_length: "length (skip_ws s) \<le> length s"
  by (simp add: skip_ws_def length_dropWhile_le)

lemma skip_ws_Cons_length: "skip_ws s = c # r \<Longrightarrow> length r < length s"
  using skip_ws_length[of s] by simp

lemma strip_length: "strip xs s = Some r \<Longrightarrow> length r \<le> length s"
  by (induction xs s rule: strip.induct) (auto split: if_splits)

lemma parse_string_length: "parse_string s = Some (t, r) \<Longrightarrow> length r < length s"
proof (induction s arbitrary: t rule: parse_string.induct)
  case 1
  then show ?case by simp
next
  case (2 c r0)
  then show ?case
    by (fastforce simp: cons_fst_def split: if_splits list.splits option.splits)
qed

lemma parse_number_length: "parse_number (c # s) = Some (v, r) \<Longrightarrow> length r \<le> length s"
proof -
  assume a: "parse_number (c # s) = Some (v, r)"
  then have "takeWhile is_num_char (c # s) \<noteq> []" and r: "r = dropWhile is_num_char (c # s)"
    by (auto simp: parse_number_def read_number_def unsigned_part_def number_literal_def
        int_part_def Let_def split: if_splits)
  then have "is_num_char c" by (auto split: if_splits)
  with r show ?thesis by (simp add: length_dropWhile_le)
qed

lemma parse_shrinks:
  "parse_value n s = Some (v, r) \<Longrightarrow> length r < length s"
  "parse_elems n s = Some (vs, r) \<Longrightarrow> length r < length s"
  "parse_members n s = Some (ms, r) \<Longrightarrow> length r < length s"
proof (induction n s and n s and n s arbitrary: v r and vs r and ms r
    rule: parse_value_parse_elems_parse_members.induct)
  case (2 n s)
  show ?case
  proof (cases "skip_ws s")
    case (Cons c t)
    then have "length t < length s" by (rule skip_ws_Cons_length)
    moreover have "length r \<le> length t"
      using 2 Cons
      by (fastforce dest: strip_length parse_string_length parse_number_length skip_ws_Cons_length
          split: if_splits list.splits intro: less_imp_le)
    ultimately show ?thesis by simp
  qed (use 2 in simp)
next
  case (4 n s)
  then show ?case
    by (fastforce dest: skip_ws_Cons_length split: if_splits list.splits option.splits)
next
  case (6 n s)
  then show ?case
    by (fastforce dest: skip_ws_Cons_length parse_string_length
        split: if_splits list.splits option.splits)
qed auto

text \<open>Beyond the bound more fuel changes nothing.\<close>

lemma parse_fuel_value:
  assumes "\<And>t. 2 * length t + 2 \<le> n \<Longrightarrow> 2 * length t + 2 \<le> m \<Longrightarrow> parse_elems n t = parse_elems m t"
    and "\<And>t. 2 * length t + 2 \<le> n \<Longrightarrow> 2 * length t + 2 \<le> m \<Longrightarrow> parse_members n t = parse_members m t"
    and "2 * length s \<le> n" and "2 * length s \<le> m"
  shows "parse_value (Suc n) s = parse_value (Suc m) s"
proof (cases "skip_ws s")
  case (Cons c t)
  then have "length t < length s" by (rule skip_ws_Cons_length)
  then have "parse_elems n t = parse_elems m t" and "parse_members n t = parse_members m t"
    using assms by auto
  with Cons show ?thesis by (simp split: list.split)
qed simp

lemma parse_fuel_elems:
  assumes "\<And>t. 2 * length t + 2 \<le> n \<Longrightarrow> 2 * length t + 2 \<le> m \<Longrightarrow> parse_elems n t = parse_elems m t"
    and "parse_value n s = parse_value m s"
    and "2 * length s + 1 \<le> n" and "2 * length s + 1 \<le> m"
  shows "parse_elems (Suc n) s = parse_elems (Suc m) s"
proof (cases "parse_value m s")
  case (Some vr)
  then obtain v r where vr: "parse_value m s = Some (v, r)" by (cases vr) auto
  then have "length r < length s" by (rule parse_shrinks)
  moreover have "skip_ws r = d # t \<Longrightarrow> length t < length r" for d t
    by (rule skip_ws_Cons_length)
  ultimately have "skip_ws r = d # t \<Longrightarrow> parse_elems n t = parse_elems m t" for d t
    using assms by fastforce
  with vr assms(2) show ?thesis by (auto split: list.split)
qed (use assms(2) in simp)

lemma parse_fuel_members:
  assumes mem: "\<And>t. 2 * length t + 2 \<le> n \<Longrightarrow> 2 * length t + 2 \<le> m \<Longrightarrow> parse_members n t = parse_members m t"
    and val: "\<And>t. 2 * length t + 1 \<le> n \<Longrightarrow> 2 * length t + 1 \<le> m \<Longrightarrow> parse_value n t = parse_value m t"
    and "2 * length s + 1 \<le> n" and "2 * length s + 1 \<le> m"
  shows "parse_members (Suc n) s = parse_members (Suc m) s"
proof -
  have v: "parse_value n r1 = parse_value m r1"
    and ms: "parse_value m r1 = Some (v, r2) \<Longrightarrow> skip_ws r2 = d # r3 \<Longrightarrow>
      parse_members n r3 = parse_members m r3"
    if "skip_ws s = q # s'" "parse_string s' = Some (k, r)" "skip_ws r = e # r1"
    for q s' k r e r1 v r2 d r3
  proof -
    have "length r1 < length s"
      using that by (fastforce dest: skip_ws_Cons_length parse_string_length)
    then show "parse_value n r1 = parse_value m r1" using val assms(3,4) by simp
    show "parse_members n r3 = parse_members m r3"
      if "parse_value m r1 = Some (v, r2)" "skip_ws r2 = d # r3"
    proof -
      have "length r3 < length s"
        using that \<open>length r1 < length s\<close>
        by (fastforce dest: skip_ws_Cons_length parse_shrinks(1))
      then show ?thesis using mem assms(3,4) by simp
    qed
  qed
  show ?thesis
    by (auto simp: v ms split: list.split option.split)
qed

lemma parse_fuel:
  "(\<forall>s. 2 * length s + 1 \<le> n \<longrightarrow> 2 * length s + 1 \<le> m \<longrightarrow> parse_value n s = parse_value m s) \<and>
   (\<forall>s. 2 * length s + 2 \<le> n \<longrightarrow> 2 * length s + 2 \<le> m \<longrightarrow> parse_elems n s = parse_elems m s) \<and>
   (\<forall>s. 2 * length s + 2 \<le> n \<longrightarrow> 2 * length s + 2 \<le> m \<longrightarrow> parse_members n s = parse_members m s)"
proof (induction n arbitrary: m)
  case (Suc n)
  show ?case
  proof (cases m)
    case (Suc m')
    note IH = Suc.IH[of m']
    show ?thesis
      using IH parse_fuel_value[of n m'] parse_fuel_elems[of n m'] parse_fuel_members[of n m']
      unfolding Suc by auto
  qed auto
qed auto

section \<open>The interface\<close>

text \<open>What a client of an encoding relies on: on the values it may write, reading undoes writing.\<close>

locale codec =
  fixes enc :: "'a \<Rightarrow> string"
    and dec :: "string \<Rightarrow> 'a option"
    and ok :: "'a \<Rightarrow> bool"
  assumes dec_enc: "ok x \<Longrightarrow> dec (enc x) = Some x"
begin

lemma enc_inj: "ok x \<Longrightarrow> ok y \<Longrightarrow> enc x = enc y \<Longrightarrow> x = y"
  using dec_enc by (metis option.inject)

lemma dec_enc_map: "ok x \<Longrightarrow> map_option f (dec (enc x)) = Some (f x)"
  by (simp add: dec_enc)

end

interpretation json_text: codec stringify json_parse wf_json
  by unfold_locales (rule json_parse_stringify_ok)

end
