(* ===== verification/Schema.thy ===== *)
theory Schema
  imports JsonCodec
begin

text \<open>
  The shapes of \<open>frontend/src/api/schema/*.ts\<close> under the names \<open>frontend/src/api/types.ts\<close>
  gives them: one record per schema, an optional property as an \<open>option\<close>. The type argument
  of \<open>api<T>\<close> is a cast and checks nothing; its counterpart is the view \<open>as_T\<close>, which reads
  the declared properties off the decoded value.
\<close>

section \<open>Accounts\<close>

datatype role = CUSTOMER | SELLER | ADMIN

fun role_name :: "role \<Rightarrow> string" where
  "role_name CUSTOMER = ''CUSTOMER''"
| "role_name SELLER = ''SELLER''"
| "role_name ADMIN = ''ADMIN''"

definition role_of_name :: "string \<Rightarrow> role option" where
  "role_of_name s = List.find (\<lambda>r. role_name r = s) [CUSTOMER, SELLER, ADMIN]"

record user =
  usr_userId :: "string option"
  usr_email :: "string option"
  usr_phoneNumber :: "string option"
  usr_role :: "role option"
  usr_status :: "string option"
  usr_createdAt :: "string option"
  usr_updatedAt :: "string option"

definition as_user :: "json \<Rightarrow> user" where
  "as_user j =
     \<lparr>usr_userId = str_field j ''userId'',
      usr_email = str_field j ''email'',
      usr_phoneNumber = str_field j ''phoneNumber'',
      usr_role = Option.bind (str_field j ''role'') role_of_name,
      usr_status = str_field j ''status'',
      usr_createdAt = str_field j ''createdAt'',
      usr_updatedAt = str_field j ''updatedAt''\<rparr>"

record auth_tokens =
  tok_accessToken :: "string option"
  tok_refreshToken :: "string option"
  tok_expiresIn :: "int option"
  tok_tokenType :: "string option"

definition as_tokens :: "json \<Rightarrow> auth_tokens" where
  "as_tokens j =
     \<lparr>tok_accessToken = str_field j ''accessToken'',
      tok_refreshToken = str_field j ''refreshToken'',
      tok_expiresIn = int_field j ''expiresIn'',
      tok_tokenType = str_field j ''tokenType''\<rparr>"

record register_request =
  rr_email :: string
  rr_password :: string
  rr_phoneNumber :: string

definition register_json :: "register_request \<Rightarrow> json" where
  "register_json b =
     JObj [(''email'', JStr (rr_email b)), (''password'', JStr (rr_password b)),
           (''phoneNumber'', JStr (rr_phoneNumber b))]"

record login_request =
  lr_email :: string
  lr_password :: string

definition login_json :: "login_request \<Rightarrow> json" where
  "login_json b = JObj [(''email'', JStr (lr_email b)), (''password'', JStr (lr_password b))]"

section \<open>Role profiles\<close>

text \<open>
  \<open>Customer | Seller\<close> is one object whose keys tell the two apart; the three keys tested
  with \<open>in\<close> are kept as properties.
\<close>

record profile =
  prof_firstName :: "string jsprop"
  prof_lastName :: "string jsprop"
  prof_storeName :: "string jsprop"
  prof_customerId :: "string option"
  prof_sellerId :: "string option"
  prof_userId :: "string option"
  prof_profileStatus :: "string option"
  prof_description :: "string option"
  prof_city :: "string option"
  prof_address :: "string option"
  prof_rating :: "json option"
  prof_createdAt :: "string option"
  prof_updatedAt :: "string option"

definition as_profile :: "json \<Rightarrow> profile" where
  "as_profile j =
     \<lparr>prof_firstName = prop_field j ''firstName'',
      prof_lastName = prop_field j ''lastName'',
      prof_storeName = prop_field j ''storeName'',
      prof_customerId = str_field j ''customerId'',
      prof_sellerId = str_field j ''sellerId'',
      prof_userId = str_field j ''userId'',
      prof_profileStatus = str_field j ''profileStatus'',
      prof_description = str_field j ''description'',
      prof_city = str_field j ''city'',
      prof_address = str_field j ''address'',
      prof_rating = field j ''rating'',
      prof_createdAt = str_field j ''createdAt'',
      prof_updatedAt = str_field j ''updatedAt''\<rparr>"

section \<open>Purchase requests\<close>

record purchase_request =
  req_category :: "string option"
  req_createdAt :: "string option"
  req_createdBy :: "string option"
  req_description :: "string option"
  req_exact :: "bool option"
  req_hasImage :: "bool option"
  req_itemName :: "string option"
  req_requestId :: "string option"
  req_similarity :: "json option"
  req_status :: "string option"
  req_totalCustomers :: "int option"
  req_totalOffers :: "int option"
  req_totalQuantity :: "int option"
  req_updatedAt :: "string option"

definition as_request :: "json \<Rightarrow> purchase_request" where
  "as_request j =
     \<lparr>req_category = str_field j ''category'',
      req_createdAt = str_field j ''createdAt'',
      req_createdBy = str_field j ''createdBy'',
      req_description = str_field j ''description'',
      req_exact = bool_field j ''exact'',
      req_hasImage = bool_field j ''hasImage'',
      req_itemName = str_field j ''itemName'',
      req_requestId = str_field j ''requestId'',
      req_similarity = field j ''similarity'',
      req_status = str_field j ''status'',
      req_totalCustomers = int_field j ''totalCustomers'',
      req_totalOffers = int_field j ''totalOffers'',
      req_totalQuantity = int_field j ''totalQuantity'',
      req_updatedAt = str_field j ''updatedAt''\<rparr>"

text \<open>\<open>quantity\<close> comes from \<open>Number(value)\<close> of a form field, so it is any number.\<close>

record create_request_body =
  crb_category :: "string option"
  crb_description :: "string option"
  crb_itemName :: "string option"
  crb_quantity :: "jnum option"

definition create_request_json :: "create_request_body \<Rightarrow> json" where
  "create_request_json b =
     JObj (opt_member ''category'' JStr (crb_category b) @
           opt_member ''description'' JStr (crb_description b) @
           opt_member ''itemName'' JStr (crb_itemName b) @
           opt_member ''quantity'' JNum (crb_quantity b))"

definition quantity_json :: "jnum \<Rightarrow> json" where
  "quantity_json q = JObj [(''quantity'', JNum q)]"

section \<open>Offers\<close>

text \<open>
  \<open>Offer\<close> and \<open>CompetingOffer\<close> share the endpoint; the rival's projection withholds
  \<open>sellerId\<close>, \<open>description\<close>, \<open>updatedAt\<close> and \<open>hasImage\<close>.
\<close>

record offer =
  off_offerId :: string
  off_requestId :: string
  off_sellerId :: "string jsprop"
  off_availableQuantity :: "int option"
  off_pricePerUnit :: "string option"
  off_currency :: "string option"
  off_description :: "string option"
  off_status :: "string option"
  off_createdAt :: "string option"
  off_updatedAt :: "string option"
  off_hasImage :: "bool option"

definition as_offer :: "json \<Rightarrow> offer" where
  "as_offer j =
     \<lparr>off_offerId = nullish (str_field j ''offerId'') [],
      off_requestId = nullish (str_field j ''requestId'') [],
      off_sellerId = prop_field j ''sellerId'',
      off_availableQuantity = int_field j ''availableQuantity'',
      off_pricePerUnit = str_field j ''pricePerUnit'',
      off_currency = str_field j ''currency'',
      off_description = str_field j ''description'',
      off_status = str_field j ''status'',
      off_createdAt = str_field j ''createdAt'',
      off_updatedAt = str_field j ''updatedAt'',
      off_hasImage = bool_field j ''hasImage''\<rparr>"

definition isFullOffer :: "offer \<Rightarrow> bool" where
  "isFullOffer offer \<longleftrightarrow> in_obj (off_sellerId offer) \<and> get_prop (off_sellerId offer) \<noteq> None"

record requested_item =
  it_itemName :: string
  it_description :: string
  it_category :: string

record offer_create =
  oc_requestId :: "string option"
  oc_item :: "requested_item option"
  oc_availableQuantity :: jnum
  oc_pricePerUnit :: string
  oc_currency :: string
  oc_description :: string

record offer_update =
  ou_availableQuantity :: jnum
  ou_pricePerUnit :: string
  ou_currency :: string
  ou_description :: string

definition item_json :: "requested_item \<Rightarrow> json" where
  "item_json i =
     JObj [(''itemName'', JStr (it_itemName i)), (''description'', JStr (it_description i)),
           (''category'', JStr (it_category i))]"

definition offer_create_json :: "offer_create \<Rightarrow> json" where
  "offer_create_json b =
     JObj (opt_member ''requestId'' JStr (oc_requestId b) @
           opt_member ''item'' item_json (oc_item b) @
           [(''availableQuantity'', JNum (oc_availableQuantity b)),
            (''pricePerUnit'', JStr (oc_pricePerUnit b)),
            (''currency'', JStr (oc_currency b)),
            (''description'', JStr (oc_description b))])"

definition offer_update_json :: "offer_update \<Rightarrow> json" where
  "offer_update_json b =
     JObj [(''availableQuantity'', JNum (ou_availableQuantity b)),
           (''pricePerUnit'', JStr (ou_pricePerUnit b)),
           (''currency'', JStr (ou_currency b)),
           (''description'', JStr (ou_description b))]"

section \<open>The admin queue and contact access\<close>

record pending_offer =
  po_availableQuantity :: "int option"
  po_currency :: "string option"
  po_description :: "string option"
  po_hasImage :: "bool option"
  po_offerId :: "string option"
  po_pricePerUnit :: "string option"
  po_requestId :: "string option"
  po_sellerId :: "string option"
  po_status :: "string option"

definition as_pending :: "json \<Rightarrow> pending_offer" where
  "as_pending j =
     \<lparr>po_availableQuantity = int_field j ''availableQuantity'',
      po_currency = str_field j ''currency'',
      po_description = str_field j ''description'',
      po_hasImage = bool_field j ''hasImage'',
      po_offerId = str_field j ''offerId'',
      po_pricePerUnit = str_field j ''pricePerUnit'',
      po_requestId = str_field j ''requestId'',
      po_sellerId = str_field j ''sellerId'',
      po_status = str_field j ''status''\<rparr>"

record decision =
  dec_adminUserId :: "string option"
  dec_contactsGranted :: "int option"
  dec_decidedAt :: "string option"
  dec_decision :: "string option"
  dec_decisionId :: "string option"
  dec_offerId :: "string option"
  dec_reason :: "string option"

definition as_decision :: "json \<Rightarrow> decision" where
  "as_decision j =
     \<lparr>dec_adminUserId = str_field j ''adminUserId'',
      dec_contactsGranted = int_field j ''contactsGranted'',
      dec_decidedAt = str_field j ''decidedAt'',
      dec_decision = str_field j ''decision'',
      dec_decisionId = str_field j ''decisionId'',
      dec_offerId = str_field j ''offerId'',
      dec_reason = str_field j ''reason''\<rparr>"

record contact_access =
  ca_accessId :: "string option"
  ca_customerId :: "string option"
  ca_expiresAt :: "string option"
  ca_grantedAt :: "string option"
  ca_grantedBy :: "string option"
  ca_offerId :: "string option"
  ca_requestId :: "string option"
  ca_sellerId :: "string option"
  ca_status :: "string option"

definition as_access :: "json \<Rightarrow> contact_access" where
  "as_access j =
     \<lparr>ca_accessId = str_field j ''accessId'',
      ca_customerId = str_field j ''customerId'',
      ca_expiresAt = str_field j ''expiresAt'',
      ca_grantedAt = str_field j ''grantedAt'',
      ca_grantedBy = str_field j ''grantedBy'',
      ca_offerId = str_field j ''offerId'',
      ca_requestId = str_field j ''requestId'',
      ca_sellerId = str_field j ''sellerId'',
      ca_status = str_field j ''status''\<rparr>"

record contact =
  ct_customerId :: "string option"
  ct_firstName :: "string option"
  ct_lastName :: "string option"
  ct_phoneNumber :: "string option"

definition as_contact :: "json \<Rightarrow> contact" where
  "as_contact j =
     \<lparr>ct_customerId = str_field j ''customerId'',
      ct_firstName = str_field j ''firstName'',
      ct_lastName = str_field j ''lastName'',
      ct_phoneNumber = str_field j ''phoneNumber''\<rparr>"

record contact_list =
  cl_contacts :: "contact list option"
  cl_requestId :: "string option"

definition as_contacts :: "json \<Rightarrow> contact_list" where
  "as_contacts j =
     \<lparr>cl_contacts = list_field as_contact j ''contacts'',
      cl_requestId = str_field j ''requestId''\<rparr>"

definition decision_json :: "string \<Rightarrow> json" where
  "decision_json reason = JObj [(''reason'', JStr reason)]"

section \<open>Notifications\<close>

record notification =
  nt_notificationId :: string
  nt_userId :: "string option"
  nt_type :: "string option"
  nt_channel :: "string option"
  nt_title :: "string option"
  nt_message :: "string option"
  nt_status :: "string option"
  nt_createdAt :: "string option"
  nt_sentAt :: "string option"

definition as_notification :: "json \<Rightarrow> notification" where
  "as_notification j =
     \<lparr>nt_notificationId = nullish (str_field j ''notificationId'') [],
      nt_userId = str_field j ''userId'',
      nt_type = str_field j ''type'',
      nt_channel = str_field j ''channel'',
      nt_title = str_field j ''title'',
      nt_message = str_field j ''message'',
      nt_status = str_field j ''status'',
      nt_createdAt = str_field j ''createdAt'',
      nt_sentAt = str_field j ''sentAt''\<rparr>"

definition as_unread :: "json \<Rightarrow> int option" where
  "as_unread j = int_field j ''unreadCount''"

section \<open>Facts\<close>

lemma role_of_name_role_name [simp]: "role_of_name (role_name r) = Some r"
  by (cases r) (simp_all add: role_of_name_def)

lemma isFullOffer_iff: "isFullOffer f \<longleftrightarrow> (\<exists>s. off_sellerId f = Val s)"
  by (cases "off_sellerId f") (auto simp: isFullOffer_def in_obj_def)

lemma as_offer_full:
  "isFullOffer (as_offer j) \<longleftrightarrow> (\<exists>v. field j ''sellerId'' = Some v \<and> v \<noteq> JNull)"
  by (auto simp: isFullOffer_iff as_offer_def prop_field_def split: option.splits json.splits)

end
