(* ===== verification/Endpoints.thy ===== *)
theory Endpoints
  imports Schema
begin

text \<open>
  The contract the services publish, as \<open>frontend/src/api/schema/*.ts\<close> records it: one
  definition per operation (its query, header and path parameters with whether each is
  required, the content types its body may have, the statuses it answers with) and one table
  per service of the paths and the methods they accept. A request conforms to the contract when
  some path accepts its method and the operation's required parameters are there.
\<close>

datatype http_method = GET | POST | PUT | PATCH | DELETE

datatype segment = Lit string | Param string

record operation =
  op_query :: "(string \<times> bool) list"
  op_header :: "(string \<times> bool) list"
  op_path :: "string list"
  op_body :: "string list"
  op_body_required :: bool
  op_responses :: "(nat \<times> string list) list"

section \<open>\<open>auth.ts\<close>\<close>

definition op_auth_getCurrentUser :: operation where
  "op_auth_getCurrentUser =
     \<lparr>op_query = [],
      op_header = [],
      op_path = [],
      op_body = [],
      op_body_required = False,
      op_responses = [(200, [''*/*''])]\<rparr>"

definition op_auth_updateCurrentUser :: operation where
  "op_auth_updateCurrentUser =
     \<lparr>op_query = [],
      op_header = [],
      op_path = [],
      op_body = [''application/json''],
      op_body_required = True,
      op_responses = [(200, [''*/*''])]\<rparr>"

definition op_auth_registerSeller :: operation where
  "op_auth_registerSeller =
     \<lparr>op_query = [],
      op_header = [],
      op_path = [],
      op_body = [''application/json''],
      op_body_required = True,
      op_responses = [(200, [''*/*''])]\<rparr>"

definition op_auth_registerCustomer :: operation where
  "op_auth_registerCustomer =
     \<lparr>op_query = [],
      op_header = [],
      op_path = [],
      op_body = [''application/json''],
      op_body_required = True,
      op_responses = [(200, [''*/*''])]\<rparr>"

definition op_auth_refreshToken :: operation where
  "op_auth_refreshToken =
     \<lparr>op_query = [],
      op_header = [(''X-Refresh-Token'', True)],
      op_path = [],
      op_body = [],
      op_body_required = False,
      op_responses = [(200, [''*/*''])]\<rparr>"

definition op_auth_logout :: operation where
  "op_auth_logout =
     \<lparr>op_query = [],
      op_header = [],
      op_path = [],
      op_body = [],
      op_body_required = False,
      op_responses = [(200, [])]\<rparr>"

definition op_auth_login :: operation where
  "op_auth_login =
     \<lparr>op_query = [],
      op_header = [],
      op_path = [],
      op_body = [''application/json''],
      op_body_required = True,
      op_responses = [(200, [''*/*''])]\<rparr>"

definition paths_auth :: "(segment list \<times> (http_method \<times> operation) list) list" where
  "paths_auth =
    [([Lit ''api'', Lit ''users'', Lit ''me''], [(GET, op_auth_getCurrentUser), (PUT, op_auth_updateCurrentUser)]),
     ([Lit ''api'', Lit ''auth'', Lit ''register'', Lit ''seller''], [(POST, op_auth_registerSeller)]),
     ([Lit ''api'', Lit ''auth'', Lit ''register'', Lit ''customer''], [(POST, op_auth_registerCustomer)]),
     ([Lit ''api'', Lit ''auth'', Lit ''refresh''], [(POST, op_auth_refreshToken)]),
     ([Lit ''api'', Lit ''auth'', Lit ''logout''], [(POST, op_auth_logout)]),
     ([Lit ''api'', Lit ''auth'', Lit ''login''], [(POST, op_auth_login)])]"

lemmas contract_auth =
  paths_auth_def op_auth_getCurrentUser_def op_auth_updateCurrentUser_def
  op_auth_registerSeller_def op_auth_registerCustomer_def op_auth_refreshToken_def
  op_auth_logout_def op_auth_login_def

section \<open>\<open>customer.ts\<close>\<close>

definition op_customer_getMyProfile :: operation where
  "op_customer_getMyProfile =
     \<lparr>op_query = [],
      op_header = [],
      op_path = [],
      op_body = [],
      op_body_required = False,
      op_responses = [(200, [''*/*''])]\<rparr>"

definition op_customer_updateMyProfile :: operation where
  "op_customer_updateMyProfile =
     \<lparr>op_query = [],
      op_header = [],
      op_path = [],
      op_body = [''application/json''],
      op_body_required = True,
      op_responses = [(200, [''*/*''])]\<rparr>"

definition op_customer_createProfile :: operation where
  "op_customer_createProfile =
     \<lparr>op_query = [],
      op_header = [],
      op_path = [],
      op_body = [''application/json''],
      op_body_required = True,
      op_responses = [(200, [''*/*''])]\<rparr>"

definition paths_customer :: "(segment list \<times> (http_method \<times> operation) list) list" where
  "paths_customer =
    [([Lit ''api'', Lit ''customers'', Lit ''me''], [(GET, op_customer_getMyProfile), (PUT, op_customer_updateMyProfile)]),
     ([Lit ''api'', Lit ''customers''], [(POST, op_customer_createProfile)])]"

lemmas contract_customer =
  paths_customer_def op_customer_getMyProfile_def op_customer_updateMyProfile_def
  op_customer_createProfile_def

section \<open>\<open>seller.ts\<close>\<close>

definition op_seller_getMyProfile :: operation where
  "op_seller_getMyProfile =
     \<lparr>op_query = [],
      op_header = [],
      op_path = [],
      op_body = [],
      op_body_required = False,
      op_responses = [(200, [''*/*''])]\<rparr>"

definition op_seller_updateMyProfile :: operation where
  "op_seller_updateMyProfile =
     \<lparr>op_query = [],
      op_header = [],
      op_path = [],
      op_body = [''application/json''],
      op_body_required = True,
      op_responses = [(200, [''*/*''])]\<rparr>"

definition op_seller_createSeller :: operation where
  "op_seller_createSeller =
     \<lparr>op_query = [],
      op_header = [],
      op_path = [],
      op_body = [''application/json''],
      op_body_required = True,
      op_responses = [(200, [''*/*''])]\<rparr>"

definition op_seller_getPublicProfile :: operation where
  "op_seller_getPublicProfile =
     \<lparr>op_query = [],
      op_header = [],
      op_path = [''sellerId''],
      op_body = [],
      op_body_required = False,
      op_responses = [(200, [''*/*''])]\<rparr>"

definition paths_seller :: "(segment list \<times> (http_method \<times> operation) list) list" where
  "paths_seller =
    [([Lit ''api'', Lit ''sellers'', Lit ''me''], [(GET, op_seller_getMyProfile), (PUT, op_seller_updateMyProfile)]),
     ([Lit ''api'', Lit ''sellers''], [(POST, op_seller_createSeller)]),
     ([Lit ''api'', Lit ''sellers'', Param ''sellerId''], [(GET, op_seller_getPublicProfile)])]"

lemmas contract_seller =
  paths_seller_def op_seller_getMyProfile_def op_seller_updateMyProfile_def
  op_seller_createSeller_def op_seller_getPublicProfile_def

section \<open>\<open>request.ts\<close>\<close>

definition op_request_get_requests :: operation where
  "op_request_get_requests =
     \<lparr>op_query = [(''q'', False), (''category'', False), (''status'', False), (''limit'', False), (''offset'', False)],
      op_header = [],
      op_path = [],
      op_body = [],
      op_body_required = False,
      op_responses = [(200, [''application/json'']), (400, [''application/json''])]\<rparr>"

definition op_request_post_requests :: operation where
  "op_request_post_requests =
     \<lparr>op_query = [],
      op_header = [],
      op_path = [],
      op_body = [''application/json'', ''multipart/form-data''],
      op_body_required = True,
      op_responses = [(201, [''application/json'']), (400, [''application/json'']), (401, [''application/json'']), (403, [''application/json'']), (409, [''application/json''])]\<rparr>"

definition op_request_get_requests_me :: operation where
  "op_request_get_requests_me =
     \<lparr>op_query = [],
      op_header = [],
      op_path = [],
      op_body = [],
      op_body_required = False,
      op_responses = [(200, [''application/json'']), (401, [''application/json'']), (403, [''application/json''])]\<rparr>"

definition op_request_get_requests_similar :: operation where
  "op_request_get_requests_similar =
     \<lparr>op_query = [(''itemName'', True)],
      op_header = [],
      op_path = [],
      op_body = [],
      op_body_required = False,
      op_responses = [(200, [''application/json'']), (400, [''application/json''])]\<rparr>"

definition op_request_get_requests_requestId :: operation where
  "op_request_get_requests_requestId =
     \<lparr>op_query = [],
      op_header = [],
      op_path = [''requestId''],
      op_body = [],
      op_body_required = False,
      op_responses = [(200, [''application/json'']), (400, [''application/json'']), (404, [''application/json''])]\<rparr>"

definition op_request_get_requests_requestId_image :: operation where
  "op_request_get_requests_requestId_image =
     \<lparr>op_query = [],
      op_header = [],
      op_path = [''requestId''],
      op_body = [],
      op_body_required = False,
      op_responses = [(200, [''image/png'']), (404, [''image/png''])]\<rparr>"

definition op_request_post_requests_requestId_participants :: operation where
  "op_request_post_requests_requestId_participants =
     \<lparr>op_query = [],
      op_header = [],
      op_path = [''requestId''],
      op_body = [''application/json''],
      op_body_required = True,
      op_responses = [(201, [''application/json'']), (400, [''application/json'']), (401, [''application/json'']), (403, [''application/json'']), (404, [''application/json'']), (409, [''application/json''])]\<rparr>"

definition op_request_put_requests_requestId_participants_me :: operation where
  "op_request_put_requests_requestId_participants_me =
     \<lparr>op_query = [],
      op_header = [],
      op_path = [''requestId''],
      op_body = [''application/json''],
      op_body_required = True,
      op_responses = [(200, [''application/json'']), (400, [''application/json'']), (401, [''application/json'']), (403, [''application/json'']), (404, [''application/json'']), (409, [''application/json''])]\<rparr>"

definition op_request_delete_requests_requestId_participants_me :: operation where
  "op_request_delete_requests_requestId_participants_me =
     \<lparr>op_query = [],
      op_header = [],
      op_path = [''requestId''],
      op_body = [],
      op_body_required = False,
      op_responses = [(204, []), (400, [''application/json'']), (401, [''application/json'']), (403, [''application/json'']), (404, [''application/json'']), (409, [''application/json''])]\<rparr>"

definition paths_request :: "(segment list \<times> (http_method \<times> operation) list) list" where
  "paths_request =
    [([Lit ''api'', Lit ''requests''], [(GET, op_request_get_requests), (POST, op_request_post_requests)]),
     ([Lit ''api'', Lit ''requests'', Lit ''me''], [(GET, op_request_get_requests_me)]),
     ([Lit ''api'', Lit ''requests'', Lit ''similar''], [(GET, op_request_get_requests_similar)]),
     ([Lit ''api'', Lit ''requests'', Param ''requestId''], [(GET, op_request_get_requests_requestId)]),
     ([Lit ''api'', Lit ''requests'', Param ''requestId'', Lit ''image''], [(GET, op_request_get_requests_requestId_image)]),
     ([Lit ''api'', Lit ''requests'', Param ''requestId'', Lit ''participants''], [(POST, op_request_post_requests_requestId_participants)]),
     ([Lit ''api'', Lit ''requests'', Param ''requestId'', Lit ''participants'', Lit ''me''], [(PUT, op_request_put_requests_requestId_participants_me), (DELETE, op_request_delete_requests_requestId_participants_me)])]"

lemmas contract_request =
  paths_request_def op_request_get_requests_def op_request_post_requests_def
  op_request_get_requests_me_def op_request_get_requests_similar_def
  op_request_get_requests_requestId_def op_request_get_requests_requestId_image_def
  op_request_post_requests_requestId_participants_def
  op_request_put_requests_requestId_participants_me_def
  op_request_delete_requests_requestId_participants_me_def

section \<open>\<open>offer.ts\<close>\<close>

definition op_offer_submit_offer :: operation where
  "op_offer_submit_offer =
     \<lparr>op_query = [],
      op_header = [],
      op_path = [],
      op_body = [''application/json'', ''multipart/form-data''],
      op_body_required = True,
      op_responses = [(201, [''application/json'']), (409, []), (422, [''application/json''])]\<rparr>"

definition op_offer_my_offers :: operation where
  "op_offer_my_offers =
     \<lparr>op_query = [],
      op_header = [],
      op_path = [],
      op_body = [],
      op_body_required = False,
      op_responses = [(200, [''application/json'']), (422, [''application/json''])]\<rparr>"

definition op_offer_offers_for_request :: operation where
  "op_offer_offers_for_request =
     \<lparr>op_query = [],
      op_header = [],
      op_path = [''request_id''],
      op_body = [],
      op_body_required = False,
      op_responses = [(200, [''application/json'']), (422, [''application/json''])]\<rparr>"

definition op_offer_get_offer :: operation where
  "op_offer_get_offer =
     \<lparr>op_query = [],
      op_header = [],
      op_path = [''offer_id''],
      op_body = [],
      op_body_required = False,
      op_responses = [(200, [''application/json'']), (422, [''application/json''])]\<rparr>"

definition op_offer_update_offer :: operation where
  "op_offer_update_offer =
     \<lparr>op_query = [],
      op_header = [],
      op_path = [''offer_id''],
      op_body = [''application/json'', ''multipart/form-data''],
      op_body_required = True,
      op_responses = [(200, [''application/json'']), (422, [''application/json''])]\<rparr>"

definition op_offer_cancel_offer :: operation where
  "op_offer_cancel_offer =
     \<lparr>op_query = [],
      op_header = [],
      op_path = [''offer_id''],
      op_body = [],
      op_body_required = False,
      op_responses = [(204, []), (422, [''application/json''])]\<rparr>"

definition op_offer_offer_image :: operation where
  "op_offer_offer_image =
     \<lparr>op_query = [],
      op_header = [],
      op_path = [''offer_id''],
      op_body = [],
      op_body_required = False,
      op_responses = [(200, [''image/*'']), (404, []), (422, [''application/json''])]\<rparr>"

definition paths_offer :: "(segment list \<times> (http_method \<times> operation) list) list" where
  "paths_offer =
    [([Lit ''api'', Lit ''offers''], [(POST, op_offer_submit_offer)]),
     ([Lit ''api'', Lit ''offers'', Lit ''me''], [(GET, op_offer_my_offers)]),
     ([Lit ''api'', Lit ''offers'', Lit ''request'', Param ''request_id''], [(GET, op_offer_offers_for_request)]),
     ([Lit ''api'', Lit ''offers'', Param ''offer_id''], [(GET, op_offer_get_offer), (PUT, op_offer_update_offer), (DELETE, op_offer_cancel_offer)]),
     ([Lit ''api'', Lit ''offers'', Param ''offer_id'', Lit ''image''], [(GET, op_offer_offer_image)])]"

lemmas contract_offer =
  paths_offer_def op_offer_submit_offer_def op_offer_my_offers_def
  op_offer_offers_for_request_def op_offer_get_offer_def op_offer_update_offer_def
  op_offer_cancel_offer_def op_offer_offer_image_def

section \<open>\<open>admin.ts\<close>\<close>

definition op_admin_get_admin_contact_access :: operation where
  "op_admin_get_admin_contact_access =
     \<lparr>op_query = [(''requestId'', False), (''sellerId'', False)],
      op_header = [],
      op_path = [],
      op_body = [],
      op_body_required = False,
      op_responses = [(200, [''application/json'']), (400, [''application/json'']), (401, [''application/json'']), (403, [''application/json''])]\<rparr>"

definition op_admin_delete_admin_contact_access_accessId :: operation where
  "op_admin_delete_admin_contact_access_accessId =
     \<lparr>op_query = [],
      op_header = [],
      op_path = [''accessId''],
      op_body = [],
      op_body_required = False,
      op_responses = [(200, [''application/json'']), (400, [''application/json'']), (401, [''application/json'']), (403, [''application/json'']), (404, [''application/json''])]\<rparr>"

definition op_admin_get_admin_offers_pending :: operation where
  "op_admin_get_admin_offers_pending =
     \<lparr>op_query = [],
      op_header = [],
      op_path = [],
      op_body = [],
      op_body_required = False,
      op_responses = [(200, [''application/json'']), (401, [''application/json'']), (403, [''application/json''])]\<rparr>"

definition op_admin_post_admin_offers_offerId_approve :: operation where
  "op_admin_post_admin_offers_offerId_approve =
     \<lparr>op_query = [],
      op_header = [],
      op_path = [''offerId''],
      op_body = [''application/json''],
      op_body_required = False,
      op_responses = [(201, [''application/json'']), (400, [''application/json'']), (401, [''application/json'']), (403, [''application/json'']), (404, [''application/json'']), (409, [''application/json''])]\<rparr>"

definition op_admin_post_admin_offers_offerId_reject :: operation where
  "op_admin_post_admin_offers_offerId_reject =
     \<lparr>op_query = [],
      op_header = [],
      op_path = [''offerId''],
      op_body = [''application/json''],
      op_body_required = False,
      op_responses = [(201, [''application/json'']), (400, [''application/json'']), (401, [''application/json'']), (403, [''application/json'']), (404, [''application/json'']), (409, [''application/json''])]\<rparr>"

definition op_admin_get_contacts_requests_requestId :: operation where
  "op_admin_get_contacts_requests_requestId =
     \<lparr>op_query = [],
      op_header = [],
      op_path = [''requestId''],
      op_body = [],
      op_body_required = False,
      op_responses = [(200, [''application/json'']), (400, [''application/json'']), (401, [''application/json'']), (403, [''application/json''])]\<rparr>"

definition paths_admin :: "(segment list \<times> (http_method \<times> operation) list) list" where
  "paths_admin =
    [([Lit ''api'', Lit ''admin'', Lit ''contact-access''], [(GET, op_admin_get_admin_contact_access)]),
     ([Lit ''api'', Lit ''admin'', Lit ''contact-access'', Param ''accessId''], [(DELETE, op_admin_delete_admin_contact_access_accessId)]),
     ([Lit ''api'', Lit ''admin'', Lit ''offers'', Lit ''pending''], [(GET, op_admin_get_admin_offers_pending)]),
     ([Lit ''api'', Lit ''admin'', Lit ''offers'', Param ''offerId'', Lit ''approve''], [(POST, op_admin_post_admin_offers_offerId_approve)]),
     ([Lit ''api'', Lit ''admin'', Lit ''offers'', Param ''offerId'', Lit ''reject''], [(POST, op_admin_post_admin_offers_offerId_reject)]),
     ([Lit ''api'', Lit ''contacts'', Lit ''requests'', Param ''requestId''], [(GET, op_admin_get_contacts_requests_requestId)])]"

lemmas contract_admin =
  paths_admin_def op_admin_get_admin_contact_access_def
  op_admin_delete_admin_contact_access_accessId_def op_admin_get_admin_offers_pending_def
  op_admin_post_admin_offers_offerId_approve_def op_admin_post_admin_offers_offerId_reject_def
  op_admin_get_contacts_requests_requestId_def

section \<open>\<open>notification.ts\<close>\<close>

definition op_notification_my_notifications :: operation where
  "op_notification_my_notifications =
     \<lparr>op_query = [(''limit'', False), (''offset'', False), (''unreadOnly'', False)],
      op_header = [],
      op_path = [],
      op_body = [],
      op_body_required = False,
      op_responses = [(200, [''application/json'']), (422, [''application/json''])]\<rparr>"

definition op_notification_my_unread_count :: operation where
  "op_notification_my_unread_count =
     \<lparr>op_query = [],
      op_header = [],
      op_path = [],
      op_body = [],
      op_body_required = False,
      op_responses = [(200, [''application/json'']), (422, [''application/json''])]\<rparr>"

definition op_notification_mark_read :: operation where
  "op_notification_mark_read =
     \<lparr>op_query = [],
      op_header = [],
      op_path = [''notification_id''],
      op_body = [],
      op_body_required = False,
      op_responses = [(200, [''application/json'']), (422, [''application/json''])]\<rparr>"

definition paths_notification :: "(segment list \<times> (http_method \<times> operation) list) list" where
  "paths_notification =
    [([Lit ''api'', Lit ''notifications'', Lit ''me''], [(GET, op_notification_my_notifications)]),
     ([Lit ''api'', Lit ''notifications'', Lit ''me'', Lit ''unread-count''], [(GET, op_notification_my_unread_count)]),
     ([Lit ''api'', Lit ''notifications'', Param ''notification_id'', Lit ''read''], [(PATCH, op_notification_mark_read)])]"

lemmas contract_notification =
  paths_notification_def op_notification_my_notifications_def op_notification_my_unread_count_def
  op_notification_mark_read_def

section \<open>Matching a request\<close>

definition all_paths :: "(segment list \<times> (http_method \<times> operation) list) list" where
  "all_paths = paths_auth @ paths_customer @ paths_seller @ paths_request @ paths_offer @
     paths_admin @ paths_notification"

fun match_segments :: "segment list \<Rightarrow> string list \<Rightarrow> bool" where
  "match_segments [] [] = True"
| "match_segments (Lit l # ps) (s # ss) = (l = s \<and> match_segments ps ss)"
| "match_segments (Param p # ps) (s # ss) = (s \<noteq> [] \<and> match_segments ps ss)"
| "match_segments _ _ = False"

text \<open>The operations that accept this method on this path.\<close>

definition operations_for :: "http_method \<Rightarrow> string list \<Rightarrow> operation list" where
  "operations_for m ss =
     [op. (ps, ms) \<leftarrow> all_paths, match_segments ps ss, (m', op) \<leftarrow> ms, m' = m]"

definition required :: "(string \<times> bool) list \<Rightarrow> string list" where
  "required ps = map fst (filter snd ps)"

definition all_operations :: "operation list" where
  "all_operations = concat (map (map snd \<circ> snd) all_paths)"

end
