(* ===== verification/Client.thy ===== *)
theory Client
  imports Endpoints
begin

text \<open>
  The API client, \<open>frontend/src/api/client.ts\<close>. The browser's \<open>fetch\<close> (and everything behind
  it) is the argument \<open>fetch\<close> of a client: a function of the request and of the state \<open>'w\<close> of
  the world, which it may change. What other code does while a call is awaited is part of that
  change, so a statement for every \<open>fetch\<close> holds under every interleaving.
\<close>

section \<open>Requests and responses\<close>

type_synonym blob = string

datatype form_value = FText string | FFile blob string

type_synonym form_data = "(string \<times> form_value) list"

text \<open>The \<open>body\<close> option: \<open>undefined\<close>, a plain value, or \<open>FormData\<close>.\<close>

datatype body = NoBody | Json json | Form form_data

text \<open>The \<open>body\<close> handed to \<open>fetch\<close>.\<close>

datatype wire_body = WireNone | WireText string | WireForm form_data

record http_request =
  url :: string
  http_method :: http_method
  headers :: "(string \<times> string) list"
  wire_body :: wire_body

record response =
  resp_status :: int
  body_text :: string

definition ok :: "response \<Rightarrow> bool" where
  "ok r \<longleftrightarrow> 200 \<le> resp_status r \<and> resp_status r < 300"

text \<open>
  \<open>fetch\<close> rejects with a \<open>TypeError\<close> when there is no response. A response whose body cannot be
  read to its end makes \<open>response.text()\<close> and \<open>response.blob()\<close> reject, and \<open>api\<close> throws that error
  as it throws one of \<open>fetch\<close>: such a response is a \<open>NetworkError\<close> too. Only a 401 cut off
  in this way, whose handler would still be called, is outside the model.
\<close>

datatype fetch_result = Reply response | NetworkError string

text \<open>What a call can throw: an \<open>ApiError\<close> with its status, message and decoded body, or
  anything else.\<close>

datatype js_error = ApiError int string json | OtherError string

datatype response_type = JsonResponse | BlobResponse

datatype payload = PJson json | PBlob blob

fun payload_json :: "payload \<Rightarrow> json" where
  "payload_json (PJson j) = j"
| "payload_json (PBlob b) = JStr b"

record request_options =
  opt_method :: http_method
  opt_body :: body
  opt_token :: "string option"
  skipAuthRetry :: bool
  responseType :: response_type

definition default_options :: request_options where
  "default_options =
     \<lparr>opt_method = GET, opt_body = NoBody, opt_token = None, skipAuthRetry = False,
      responseType = JsonResponse\<rparr>"

text \<open>The module's state: the base URL, \<open>fetch\<close> and the installed 401 handler.\<close>

record 'w client =
  BASE :: string
  fetch :: "http_request \<Rightarrow> 'w \<Rightarrow> fetch_result \<times> 'w"
  onUnauthorized :: "('w \<Rightarrow> string option \<times> 'w) option"

definition base_url :: "string option \<Rightarrow> string" where
  "base_url vite_api_url = nullish vite_api_url ''http://localhost:8080''"

definition setUnauthorizedHandler ::
  "('w \<Rightarrow> string option \<times> 'w) option \<Rightarrow> 'w client \<Rightarrow> 'w client" where
  "setUnauthorizedHandler handler cl = cl\<lparr>onUnauthorized := handler\<rparr>"

section \<open>Reading a response\<close>

definition parse :: "response \<Rightarrow> json" where
  "parse r =
     (if resp_status r = 204 then JNull
      else if body_text r = [] then JNull
      else (case json_parse (body_text r) of
              Some j \<Rightarrow> j
            | None \<Rightarrow> JStr (body_text r)))"

text \<open>\<open>String(v)\<close>.\<close>

fun js_String :: "json \<Rightarrow> string" where
  "js_String JNull = ''null''"
| "js_String (JBool b) = (if b then ''true'' else ''false'')"
| "js_String (JNum (JInt i)) = show_int i"
| "js_String (JNum (JDec t)) = t"
| "js_String (JNum JNaN) = ''NaN''"
| "js_String (JStr s) = s"
| "js_String (JArr xs) = join '','' (map (\<lambda>x. if x = JNull then [] else js_String x) xs)"
| "js_String (JObj kvs) = ''[object Object]''"

definition error_message :: "response \<Rightarrow> json \<Rightarrow> string" where
  "error_message r payload =
     (case field payload ''message'' of
        Some m \<Rightarrow> js_String m
      | None \<Rightarrow> ''Request failed with status '' @ show_int (resp_status r))"

definition finish :: "response_type \<Rightarrow> response \<Rightarrow> js_error + payload" where
  "finish rt r =
     (let payload = (if ok r \<and> rt = BlobResponse then PBlob (body_text r) else PJson (parse r))
      in if \<not> ok r
         then Inl (ApiError (resp_status r) (error_message r (payload_json payload)) (payload_json payload))
         else Inr payload)"

section \<open>Sending a request\<close>

definition send_headers :: "body \<Rightarrow> string option \<Rightarrow> (string \<times> string) list" where
  "send_headers body bearer =
     (case body of Json j \<Rightarrow> [(''Content-Type'', ''application/json'')] | _ \<Rightarrow> []) @
     (if truthy bearer then [(''Authorization'', ''Bearer '' @ the bearer)] else [])"

definition send_body :: "body \<Rightarrow> wire_body" where
  "send_body body =
     (case body of NoBody \<Rightarrow> WireNone | Form f \<Rightarrow> WireForm f | Json j \<Rightarrow> WireText (stringify j))"

definition send :: "'w client \<Rightarrow> string \<Rightarrow> request_options \<Rightarrow> string option \<Rightarrow> http_request" where
  "send cl path opts bearer =
     \<lparr>url = BASE cl @ path, http_method = opt_method opts,
      headers = send_headers (opt_body opts) bearer, wire_body = send_body (opt_body opts)\<rparr>"

definition api ::
  "'w client \<Rightarrow> string \<Rightarrow> request_options \<Rightarrow> 'w \<Rightarrow> (js_error + payload) \<times> 'w" where
  "api cl path opts w =
     (case fetch cl (send cl path opts (opt_token opts)) w of
        (NetworkError e, w1) \<Rightarrow> (Inl (OtherError e), w1)
      | (Reply r, w1) \<Rightarrow>
          (case (if resp_status r = 401 \<and> \<not> skipAuthRetry opts then onUnauthorized cl else None) of
             None \<Rightarrow> (finish (responseType opts) r, w1)
           | Some handler \<Rightarrow>
               (let (refreshed, w2) = handler w1
                in if truthy refreshed
                   then (case fetch cl (send cl path opts refreshed) w2 of
                           (NetworkError e, w3) \<Rightarrow> (Inl (OtherError e), w3)
                         | (Reply r', w3) \<Rightarrow> (finish (responseType opts) r', w3))
                   else (finish (responseType opts) r, w2))))"

text \<open>\<open>api<T>\<close>: the payload viewed at its type.\<close>

definition api_as ::
  "(json \<Rightarrow> 'a) \<Rightarrow> 'w client \<Rightarrow> string \<Rightarrow> request_options \<Rightarrow> 'w \<Rightarrow> (js_error + 'a) \<times> 'w" where
  "api_as f cl path opts w =
     (case api cl path opts w of
        (Inl e, w') \<Rightarrow> (Inl e, w')
      | (Inr p, w') \<Rightarrow> (Inr (f (payload_json p)), w'))"

definition multipart :: "json \<Rightarrow> blob option \<Rightarrow> form_data" where
  "multipart payload img =
     (''payload'', FText (stringify payload)) #
     (case img of None \<Rightarrow> [] | Some b \<Rightarrow> [(''image'', FFile b ''image'')])"

section \<open>The requests a call makes\<close>

text \<open>A \<open>fetch\<close> that also keeps the requests it was given, for statements about them.\<close>

definition logging ::
  "(http_request \<Rightarrow> 'w \<Rightarrow> fetch_result \<times> 'w) \<Rightarrow>
   http_request \<Rightarrow> http_request list \<times> 'w \<Rightarrow> fetch_result \<times> (http_request list \<times> 'w)" where
  "logging f q = (\<lambda>(log, w). let (r, w') = f q w in (r, (log @ [q], w')))"

text \<open>The same client over a world that also holds the requests made so far.\<close>

definition lift_handler ::
  "('w \<Rightarrow> string option \<times> 'w) \<Rightarrow> http_request list \<times> 'w \<Rightarrow> string option \<times> (http_request list \<times> 'w)" where
  "lift_handler h = (\<lambda>(l, w). let (t, w') = h w in (t, (l, w')))"

definition logged :: "'w client \<Rightarrow> (http_request list \<times> 'w) client" where
  "logged cl =
     \<lparr>BASE = BASE cl, fetch = logging (fetch cl),
      onUnauthorized = map_option lift_handler (onUnauthorized cl)\<rparr>"

section \<open>Reading a header, splitting a path\<close>

definition header :: "http_request \<Rightarrow> string \<Rightarrow> string option" where
  "header q k = map_of (headers q) k"

text \<open>The part of a path before the query, and its segments.\<close>

definition path_only :: "string \<Rightarrow> string" where
  "path_only = takeWhile (\<lambda>c. c \<noteq> CHR ''?'')"

fun split_slash :: "string \<Rightarrow> string list" where
  "split_slash [] = [[]]"
| "split_slash (c # s) =
     (if c = CHR ''/'' then [] # split_slash s
      else (case split_slash s of x # xs \<Rightarrow> (c # x) # xs | [] \<Rightarrow> [[c]]))"

definition segments :: "string \<Rightarrow> string list" where
  "segments path = tl (split_slash (path_only path))"

text \<open>An id that can stand as one segment of a path.\<close>

definition plain_id :: "string \<Rightarrow> bool" where
  "plain_id s \<longleftrightarrow> s \<noteq> [] \<and> CHR ''/'' \<notin> set s \<and> CHR ''?'' \<notin> set s \<and> CHR ''#'' \<notin> set s"

text \<open>A client whose every request is answered in one way, for concrete instances.\<close>

definition answering :: "int \<Rightarrow> json \<Rightarrow> 'w client" where
  "answering s j =
     \<lparr>BASE = [], fetch = (\<lambda>q w. (Reply \<lparr>resp_status = s, body_text = stringify j\<rparr>, w)),
      onUnauthorized = None\<rparr>"

section \<open>Facts\<close>

lemma answering_fetch:
  "fetch (answering s j) q w = (Reply \<lparr>resp_status = s, body_text = stringify j\<rparr>, w)"
  by (simp add: answering_def)

lemma truthy_the: "truthy v \<Longrightarrow> v = Some (the v)"
  by (cases v) auto

lemma finish_ok_json: "ok r \<Longrightarrow> finish JsonResponse r = Inr (PJson (parse r))"
  by (simp add: finish_def)

lemma finish_ok_blob: "ok r \<Longrightarrow> finish BlobResponse r = Inr (PBlob (body_text r))"
  by (simp add: finish_def)

lemma finish_not_ok:
  "\<not> ok r \<Longrightarrow> finish rt r = Inl (ApiError (resp_status r) (error_message r (parse r)) (parse r))"
  by (simp add: finish_def)

lemma finish_Inl_iff: "(\<exists>e. finish rt r = Inl e) \<longleftrightarrow> \<not> ok r"
  by (auto simp: finish_def Let_def)

lemma parse_answer:
  assumes "wf_json j" and "s \<noteq> 204"
  shows "parse \<lparr>resp_status = s, body_text = stringify j\<rparr> = j"
proof -
  have "json_parse [] = None" by (simp add: json_parse_def skip_ws_def)
  then have "stringify j \<noteq> []" using json_parse_stringify_ok[OF assms(1)] by auto
  then show ?thesis using json_parse_stringify_ok[OF assms(1)] assms(2) by (simp add: parse_def)
qed

lemmas finish_simps = finish_ok_json finish_ok_blob finish_not_ok

lemma not_ok_401: "resp_status r = 401 \<Longrightarrow> \<not> ok r"
  by (simp add: ok_def)

lemma header_Authorization:
  "header (send cl path opts bearer) ''Authorization'' =
     (if truthy bearer then Some (''Bearer '' @ the bearer) else None)"
  by (simp add: header_def send_def send_headers_def split: body.split)

lemma header_Content_Type:
  "header (send cl path opts bearer) ''Content-Type'' =
     (case opt_body opts of Json _ \<Rightarrow> Some ''application/json'' | _ \<Rightarrow> None)"
  by (simp add: header_def send_def send_headers_def split: body.split)

lemma header_other:
  "k \<noteq> ''Authorization'' \<Longrightarrow> k \<noteq> ''Content-Type'' \<Longrightarrow> header (send cl path opts bearer) k = None"
  by (auto simp: header_def send_def send_headers_def split: body.split)

lemma send_simps [simp]:
  "url (send cl path opts b) = BASE cl @ path"
  "http_method (send cl path opts b) = opt_method opts"
  "wire_body (send cl path opts b) = send_body (opt_body opts)"
  by (simp_all add: send_def)

lemma send_more_client [simp]:
  "send (cl\<lparr>onUnauthorized := h\<rparr>) path opts b = send cl path opts b"
  "send (cl\<lparr>fetch := g\<rparr>) path opts b = send cl path opts b"
  by (simp_all add: send_def)

lemma api_network_error:
  "fetch cl (send cl path opts (opt_token opts)) w = (NetworkError e, w1) \<Longrightarrow>
     api cl path opts w = (Inl (OtherError e), w1)"
  by (simp add: api_def)

lemma api_no_retry:
  assumes "fetch cl (send cl path opts (opt_token opts)) w = (Reply r, w1)"
    and "resp_status r \<noteq> 401 \<or> skipAuthRetry opts \<or> onUnauthorized cl = None"
  shows "api cl path opts w = (finish (responseType opts) r, w1)"
  using assms by (auto simp: api_def)

lemma api_retry_refused:
  assumes "fetch cl (send cl path opts (opt_token opts)) w = (Reply r, w1)"
    and "resp_status r = 401" and "\<not> skipAuthRetry opts" and "onUnauthorized cl = Some h"
    and "h w1 = (t, w2)" and "\<not> truthy t"
  shows "api cl path opts w = (finish (responseType opts) r, w2)"
  using assms by (simp add: api_def)

lemma api_retry:
  assumes "fetch cl (send cl path opts (opt_token opts)) w = (Reply r, w1)"
    and "resp_status r = 401" and "\<not> skipAuthRetry opts" and "onUnauthorized cl = Some h"
    and "h w1 = (Some t, w2)" and "t \<noteq> []"
    and "fetch cl (send cl path opts (Some t)) w2 = (Reply r', w3)"
  shows "api cl path opts w = (finish (responseType opts) r', w3)"
  using assms by (simp add: api_def)

lemma api_skip:
  "skipAuthRetry opts \<Longrightarrow>
   api cl path opts w =
     (case fetch cl (send cl path opts (opt_token opts)) w of
        (NetworkError e, w1) \<Rightarrow> (Inl (OtherError e), w1)
      | (Reply r, w1) \<Rightarrow> (finish (responseType opts) r, w1))"
  by (simp add: api_def split: prod.split fetch_result.split)

lemma api_as_Inr: "api cl p opts w = (Inr x, w') \<Longrightarrow> api_as f cl p opts w = (Inr (f (payload_json x)), w')"
  by (simp add: api_as_def)

lemma api_as_Inl: "api cl p opts w = (Inl e, w') \<Longrightarrow> api_as f cl p opts w = (Inl e, w')"
  by (simp add: api_as_def)

section \<open>At most one retry\<close>

lemma send_logged: "send (logged cl) path opts b = send cl path opts b"
  by (simp add: send_def logged_def)

lemma fetch_logged:
  "fetch (logged cl) q (log, w) = (fst (fetch cl q w), (log @ [q], snd (fetch cl q w)))"
  by (simp add: logged_def logging_def split: prod.split)

lemma handler_logged:
  "onUnauthorized (logged cl) = map_option lift_handler (onUnauthorized cl)"
  by (simp add: logged_def)

lemma lift_handler_eq: "lift_handler h (l, w) = (fst (h w), (l, snd (h w)))"
  by (simp add: lift_handler_def split: prod.split)

lemma api_logged:
  fixes cl :: "'w client"
  shows "\<exists>log'. api (logged cl) path opts (log, w) =
       (fst (api cl path opts w), (log', snd (api cl path opts w))) \<and>
     (log' = log @ [send cl path opts (opt_token opts)] \<or>
      (\<exists>r w1 h t w2. fetch cl (send cl path opts (opt_token opts)) w = (Reply r, w1) \<and>
         resp_status r = 401 \<and> \<not> skipAuthRetry opts \<and> onUnauthorized cl = Some h \<and>
         h w1 = (Some t, w2) \<and> t \<noteq> [] \<and>
         log' = log @ [send cl path opts (opt_token opts), send cl path opts (Some t)]))"
proof -
  obtain f w1 where f: "fetch cl (send cl path opts (opt_token opts)) w = (f, w1)"
    by (cases "fetch cl (send cl path opts (opt_token opts)) w") auto
  show ?thesis
  proof (cases f)
    case (NetworkError e)
    with f show ?thesis by (simp add: api_def send_logged fetch_logged)
  next
    case (Reply r)
    show ?thesis
    proof (cases "resp_status r = 401 \<and> \<not> skipAuthRetry opts \<and> onUnauthorized cl \<noteq> None")
      case False
      with f Reply show ?thesis
        by (auto simp: api_def send_logged fetch_logged handler_logged)
    next
      case True
      then obtain h where h: "onUnauthorized cl = Some h" by auto
      obtain t w2 where t: "h w1 = (t, w2)" by (cases "h w1") auto
      show ?thesis
      proof (cases "truthy t")
        case False
        with f Reply True h t show ?thesis
          by (simp add: api_def send_logged fetch_logged handler_logged lift_handler_eq)
      next
        case truthy: True
        then obtain u where u: "t = Some u" "u \<noteq> []" by (rule truthy_E)
        obtain g w3 where g: "fetch cl (send cl path opts (Some u)) w2 = (g, w3)"
          by (cases "fetch cl (send cl path opts (Some u)) w2") auto
        from f Reply True h t u g show ?thesis
          by (cases g) (simp_all add: api_def send_logged fetch_logged handler_logged lift_handler_eq)
      qed
    qed
  qed
qed

lemma api_logged_sends:
  assumes "api (logged cl) path opts (log, w) = (res, (log', w'))"
  shows "\<exists>qs. log' = log @ qs \<and> (\<forall>q \<in> set qs. \<exists>b. q = send cl path opts b)"
  using api_logged[of cl path opts log w] assms by auto

section \<open>Properties of the client\<close>

text \<open>
  C1. One call to \<open>api\<close> makes one request, or exactly two: the second only after a 401 that the
  caller did not ask to handle itself, with a handler installed that produced a non-empty token,
  and it is the first request again under the new token. Keeping the requests changes nothing
  about the result.
\<close>

theorem api_one_retry:
  fixes cl :: "'w client"
  shows "\<exists>log'. api (logged cl) path opts (log, w) =
       (fst (api cl path opts w), (log', snd (api cl path opts w))) \<and>
     (log' = log @ [send cl path opts (opt_token opts)] \<or>
      (\<exists>r w1 h t w2. fetch cl (send cl path opts (opt_token opts)) w = (Reply r, w1) \<and>
         resp_status r = 401 \<and> \<not> skipAuthRetry opts \<and> onUnauthorized cl = Some h \<and>
         h w1 = (Some t, w2) \<and> t \<noteq> [] \<and>
         log' = log @ [send cl path opts (opt_token opts), send cl path opts (Some t)]))"
  by (rule api_logged)

text \<open>
  C27. A JSON body arrives as it was passed: the text on the wire parses back to the value and the
  content type says so. \<open>FormData\<close> is sent as it is and without a content type.
\<close>

theorem send_body_roundtrip:
  "(\<forall>j. opt_body opts = Json j \<and> wf_json j \<longrightarrow>
      (\<exists>t. wire_body (send cl path opts b) = WireText t \<and> json_parse t = Some j) \<and>
      header (send cl path opts b) ''Content-Type'' = Some ''application/json'') \<and>
   (\<forall>f. opt_body opts = Form f \<longrightarrow>
      wire_body (send cl path opts b) = WireForm f \<and>
      header (send cl path opts b) ''Content-Type'' = None)"
  by (auto simp: send_body_def header_Content_Type json_parse_stringify_ok)

theorem send_body_roundtrip_witness:
  "\<exists>t. wire_body (send \<lparr>BASE = [], fetch = (\<lambda>q w. (NetworkError [], w)), onUnauthorized = None\<rparr>
        ''/x'' (default_options\<lparr>opt_body := Json (quantity_json (JInt 3))\<rparr>) None) = WireText t \<and>
      json_parse t = Some (quantity_json (JInt 3))"
proof -
  have "wf_json (quantity_json (JInt 3))" by (simp add: quantity_json_def)
  then show ?thesis
    using send_body_roundtrip[of "default_options\<lparr>opt_body := Json (quantity_json (JInt 3))\<rparr>"
        "\<lparr>BASE = [], fetch = (\<lambda>q w. (NetworkError [], w)), onUnauthorized = None\<rparr>" "''/x''" None]
    by auto
qed

text \<open>
  Identity travels in the \<open>Authorization\<close> header and nowhere else: the bearer token is there
  exactly when it is a non-empty string, and no header but the two the client sets is ever sent.
\<close>

theorem send_identity:
  "(header (send cl path opts b) ''Authorization'' = Some v \<longleftrightarrow>
      (\<exists>t. b = Some t \<and> t \<noteq> [] \<and> v = ''Bearer '' @ t)) \<and>
   fst ` set (headers (send cl path opts b)) \<subseteq> {''Authorization'', ''Content-Type''}"
proof
  show "header (send cl path opts b) ''Authorization'' = Some v \<longleftrightarrow>
      (\<exists>t. b = Some t \<and> t \<noteq> [] \<and> v = ''Bearer '' @ t)"
    by (cases b) (auto simp: header_Authorization)
  show "fst ` set (headers (send cl path opts b)) \<subseteq> {''Authorization'', ''Content-Type''}"
    by (auto simp: send_def send_headers_def split: body.splits if_splits)
qed

text \<open>
  The platform's error shape survives the trip: a response that is not ok, with a JSON object
  that carries a message, is thrown as an \<open>ApiError\<close> with the response's status, that message
  and the whole decoded object.
\<close>

theorem api_platform_error:
  assumes "fetch cl (send cl path opts (opt_token opts)) w = (Reply r, w1)"
    and "\<not> ok r" and "resp_status r \<noteq> 401 \<or> skipAuthRetry opts \<or> onUnauthorized cl = None"
    and "body_text r = stringify (JObj kvs)" and "wf_json (JObj kvs)"
    and "field (JObj kvs) ''message'' = Some (JStr m)"
  shows "api cl path opts w = (Inl (ApiError (resp_status r) m (JObj kvs)), w1)"
proof -
  have "resp_status r \<noteq> 204" using assms(2) by (auto simp: ok_def)
  then have "parse r = JObj kvs"
    using json_parse_stringify_ok[OF assms(5)] assms(4) by (simp add: parse_def)
  then show ?thesis
    using api_no_retry[OF assms(1,3)] assms(2,6) by (simp add: finish_not_ok error_message_def)
qed

theorem api_platform_error_witness:
  "api \<lparr>BASE = [], fetch = (\<lambda>q w. (Reply \<lparr>resp_status = 404,
          body_text = stringify (JObj [(''message'', JStr ''No image'')])\<rparr>, w)),
        onUnauthorized = None\<rparr> ''/api/images/1'' default_options () =
     (Inl (ApiError 404 ''No image'' (JObj [(''message'', JStr ''No image'')])), ())"
  using api_platform_error[of
      "\<lparr>BASE = [], fetch = (\<lambda>q w. (Reply \<lparr>resp_status = 404,
          body_text = stringify (JObj [(''message'', JStr ''No image'')])\<rparr>, w)),
        onUnauthorized = None\<rparr>" "''/api/images/1''" default_options "()"
      "\<lparr>resp_status = 404, body_text = stringify (JObj [(''message'', JStr ''No image'')])\<rparr>" "()"
      "[(''message'', JStr ''No image'')]" "''No image''"]
  by (simp add: ok_def del: stringify.simps)

text \<open>
  The multipart body keeps the JSON whole: its first part parses back to the payload, and there
  is a second part exactly when a picture was chosen.
\<close>

theorem multipart_roundtrip:
  assumes "wf_json j"
  shows "\<exists>t. map_of (multipart j img) ''payload'' = Some (FText t) \<and> json_parse t = Some j \<and>
    map_of (multipart j img) ''image'' = map_option (\<lambda>b. FFile b ''image'') img \<and>
    length (multipart j img) = (if img = None then 1 else 2)"
  using assms by (auto simp: multipart_def json_parse_stringify_ok split: option.split)

theorem multipart_roundtrip_witness:
  "\<exists>t. map_of (multipart (JObj [(''title'', JStr ''A drill'')]) (Some ''PNG'')) ''payload'' =
      Some (FText t) \<and> json_parse t = Some (JObj [(''title'', JStr ''A drill'')])"
proof -
  have "wf_json (JObj [(''title'', JStr ''A drill'')])" by simp
  from multipart_roundtrip[OF this, of "Some ''PNG''"] show ?thesis by blast
qed

end
