(* ===== verification/Url.thy ===== *)
theory Url
  imports JsonCodec
begin

text \<open>
  The two encodings the sources put user input into a URL with: \<open>encodeURIComponent\<close> and
  \<open>URLSearchParams.toString\<close>, with the decoder a server applies. Both write a code unit
  outside their safe set as the percent-escaped bytes of its UTF-8 encoding; a code unit of the
  model is below 256, so that is one byte or two.
\<close>

definition utf8 :: "char \<Rightarrow> nat list" where
  "utf8 c =
     (let n = (of_char c :: nat)
      in if n < 128 then [n] else [192 + n div 64, 128 + n mod 64])"

definition upper_hex :: "nat \<Rightarrow> char" where
  "upper_hex n = (if n < 10 then char_of (48 + n) else char_of (55 + n))"

definition percent :: "nat \<Rightarrow> string" where
  "percent n = [CHR ''%'', upper_hex (n div 16), upper_hex (n mod 16)]"

definition is_alnum :: "char \<Rightarrow> bool" where
  "is_alnum c \<longleftrightarrow>
     (let n = (of_char c :: nat)
      in (48 \<le> n \<and> n \<le> 57) \<or> (65 \<le> n \<and> n \<le> 90) \<or> (97 \<le> n \<and> n \<le> 122))"

definition encode_with :: "(char \<Rightarrow> bool) \<Rightarrow> string \<Rightarrow> string" where
  "encode_with safe s =
     concat (map (\<lambda>c. if safe c then [c] else concat (map percent (utf8 c))) s)"

text \<open>\<open>encodeURIComponent\<close> leaves the unreserved marks alone.\<close>

definition uri_safe :: "char \<Rightarrow> bool" where
  "uri_safe c \<longleftrightarrow> is_alnum c \<or> c \<in> set ''-_.!~*()'' \<or> c = CHR 0x27"

definition encodeURIComponent :: "string \<Rightarrow> string" where
  "encodeURIComponent = encode_with uri_safe"

text \<open>The form encoding of \<open>URLSearchParams\<close>, with a plus sign for a space.\<close>

definition form_safe :: "char \<Rightarrow> bool" where
  "form_safe c \<longleftrightarrow> is_alnum c \<or> c \<in> set ''*-._''"

definition form_encode :: "string \<Rightarrow> string" where
  "form_encode s =
     concat (map (\<lambda>c. if c = CHR '' '' then ''+''
                      else if form_safe c then [c] else concat (map percent (utf8 c))) s)"

definition params_toString :: "(string \<times> string) list \<Rightarrow> string" where
  "params_toString ps =
     join ''&'' (map (\<lambda>(k, v). form_encode k @ ''='' @ form_encode v) ps)"

section \<open>Decoding\<close>

text \<open>Percent-decoding to code units; a two-byte sequence is one code unit again.\<close>

fun percent_decode :: "string \<Rightarrow> nat list option" where
  "percent_decode [] = Some []"
| "percent_decode (c # s) =
     (if c = CHR ''%'' then
        (case s of
           a # b # r \<Rightarrow>
             (case (unhex a, unhex b) of
                (Some x, Some y) \<Rightarrow> map_option (\<lambda>t. (16 * x + y) # t) (percent_decode r)
              | _ \<Rightarrow> None)
         | _ \<Rightarrow> None)
      else map_option (\<lambda>t. of_char c # t) (percent_decode s))"

fun utf8_decode :: "nat list \<Rightarrow> string option" where
  "utf8_decode [] = Some []"
| "utf8_decode (n # ns) =
     (if n < 128 then map_option (\<lambda>t. char_of n # t) (utf8_decode ns)
      else (case ns of
              m # ms \<Rightarrow>
                if 192 \<le> n \<and> n < 196 \<and> 128 \<le> m \<and> m < 192
                then map_option (\<lambda>t. char_of (64 * (n - 192) + (m - 128)) # t) (utf8_decode ms)
                else None
            | [] \<Rightarrow> None))"

definition decode_component :: "string \<Rightarrow> string option" where
  "decode_component s = Option.bind (percent_decode s) utf8_decode"

definition form_decode :: "string \<Rightarrow> string option" where
  "form_decode s = decode_component (map (\<lambda>c. if c = CHR ''+'' then CHR '' '' else c) s)"

section \<open>Facts\<close>

lemma unhex_upper_hex: "n < 16 \<Longrightarrow> unhex (upper_hex n) = Some n"
  by (auto simp: unhex_def upper_hex_def)

lemma utf8_bytes: "b \<in> set (utf8 c) \<Longrightarrow> b < 256"
proof -
  have "(of_char c :: nat) div 64 < 4" using nat_of_char_less_256[of c] by arith
  then show "b \<in> set (utf8 c) \<Longrightarrow> ?thesis"
    by (auto simp: utf8_def Let_def split: if_splits)
qed

lemma percent_decode_percent:
  assumes "b < 256"
  shows "percent_decode (percent b @ r) = map_option (\<lambda>t. b # t) (percent_decode r)"
proof -
  have "b div 16 < 16" and "b mod 16 < 16" using assms by auto
  then show ?thesis by (simp add: percent_def unhex_upper_hex)
qed

lemma percent_decode_percents:
  assumes "\<And>b. b \<in> set bs \<Longrightarrow> b < 256"
  shows "percent_decode (concat (map percent bs) @ r) = map_option (\<lambda>t. bs @ t) (percent_decode r)"
  using assms
proof (induction bs)
  case (Cons b bs)
  then show ?case
    by (simp add: percent_decode_percent option.map_comp comp_def)
qed (cases "percent_decode r"; simp)

text \<open>A set of characters that may stand for themselves.\<close>

definition plain_set :: "(char \<Rightarrow> bool) \<Rightarrow> bool" where
  "plain_set safe \<longleftrightarrow> (\<forall>c. safe c \<longrightarrow> c \<noteq> CHR ''%'' \<and> (of_char c :: nat) < 128)"

lemma percent_decode_encode_with:
  assumes "plain_set safe"
  shows "percent_decode (encode_with safe s @ r) =
    map_option (\<lambda>t. concat (map utf8 s) @ t) (percent_decode r)"
proof (induction s)
  case (Cons c s)
  show ?case
  proof (cases "safe c")
    case True
    with assms have "c \<noteq> CHR ''%''" and "utf8 c = [of_char c]"
      by (auto simp: plain_set_def utf8_def)
    with True Cons show ?thesis
      by (simp add: encode_with_def option.map_comp comp_def)
  next
    case False
    with Cons show ?thesis
      using percent_decode_percents[of "utf8 c" "encode_with safe s @ r"] utf8_bytes[of _ c]
      by (simp add: encode_with_def option.map_comp comp_def)
  qed
qed (cases "percent_decode r"; simp add: encode_with_def)

lemma utf8_decode_utf8: "utf8_decode (utf8 c @ ns) = map_option (\<lambda>t. c # t) (utf8_decode ns)"
proof (cases "(of_char c :: nat) < 128")
  case True
  then show ?thesis by (simp add: utf8_def)
next
  case False
  have "(of_char c :: nat) div 64 < 4" using nat_of_char_less_256[of c] by arith
  then show ?thesis using False by (simp add: utf8_def Let_def)
qed

lemma utf8_decode_concat: "utf8_decode (concat (map utf8 s)) = Some s"
  by (induction s) (simp_all add: utf8_decode_utf8)

lemma decode_component_encode_with:
  "plain_set safe \<Longrightarrow> decode_component (encode_with safe s) = Some s"
  using percent_decode_encode_with[of safe s "[]"]
  by (simp add: decode_component_def utf8_decode_concat)

lemma plain_uri_safe: "plain_set uri_safe"
  by (auto simp: plain_set_def uri_safe_def is_alnum_def Let_def)

lemma plain_form_safe: "plain_set (\<lambda>c. c = CHR '' '' \<or> form_safe c)"
  by (auto simp: plain_set_def form_safe_def is_alnum_def Let_def)

lemma upper_hex_alnum: "n < 16 \<Longrightarrow> is_alnum (upper_hex n)"
  by (auto simp: is_alnum_def upper_hex_def)

lemma percent_chars: "b < 256 \<Longrightarrow> c \<in> set (percent b) \<Longrightarrow> c = CHR ''%'' \<or> is_alnum c"
proof -
  assume "b < 256" and c: "c \<in> set (percent b)"
  then have "b div 16 < 16" and "b mod 16 < 16" by auto
  with c show ?thesis by (auto simp: percent_def upper_hex_alnum)
qed

lemma char_of_encoding:
  "b \<in> set (utf8 x) \<Longrightarrow> c \<in> set (percent b) \<Longrightarrow> c = CHR ''%'' \<or> is_alnum c"
  using percent_chars utf8_bytes by blast

lemma encode_with_chars:
  "c \<in> set (encode_with safe s) \<Longrightarrow> safe c \<or> c = CHR ''%'' \<or> is_alnum c"
  using char_of_encoding by (auto simp: encode_with_def split: if_splits)

lemma alnum_not_plus: "is_alnum c \<Longrightarrow> c \<noteq> CHR ''+''"
  by (auto simp: is_alnum_def Let_def)

lemma unplus_percents:
  assumes "\<And>b. b \<in> set bs \<Longrightarrow> b < 256"
  shows "map (\<lambda>c. if c = CHR ''+'' then CHR '' '' else c) (concat (map percent bs)) =
    concat (map percent bs)"
  using assms percent_chars alnum_not_plus by (intro map_idI) fastforce

lemma unplus_form_encode:
  "map (\<lambda>c. if c = CHR ''+'' then CHR '' '' else c) (form_encode s) =
    encode_with (\<lambda>c. c = CHR '' '' \<or> form_safe c) s"
proof (induction s)
  case (Cons c s)
  have "form_safe c \<Longrightarrow> c \<noteq> CHR ''+''"
    by (auto simp: form_safe_def dest: alnum_not_plus)
  with Cons show ?case
    using unplus_percents[of "utf8 c"] utf8_bytes[of _ c]
    by (simp add: form_encode_def encode_with_def)
qed (simp add: form_encode_def encode_with_def)

lemma form_decode_encode: "form_decode (form_encode s) = Some s"
  by (simp add: form_decode_def unplus_form_encode decode_component_encode_with plain_form_safe)

lemma form_encode_chars:
  "c \<in> set (form_encode s) \<Longrightarrow> c = CHR ''+'' \<or> form_safe c \<or> c = CHR ''%'' \<or> is_alnum c"
  using char_of_encoding by (auto simp: form_encode_def split: if_splits)

text \<open>No character that separates the parts of a URL survives either encoding.\<close>

lemma encodeURIComponent_no_separator:
  "c \<in> set (encodeURIComponent s) \<Longrightarrow> c \<notin> set ''&=?#/''"
  using encode_with_chars[of c uri_safe s]
  by (auto simp: encodeURIComponent_def uri_safe_def is_alnum_def Let_def)

lemma form_encode_no_separator:
  "c \<in> set (form_encode s) \<Longrightarrow> c \<notin> set ''&=?#/''"
  using form_encode_chars[of c s]
  by (auto simp: form_safe_def is_alnum_def Let_def)

end
