(* ===== verification/Contract.thy ===== *)
theory Contract
  imports Client Url
begin

text \<open>
  What it means for a request of the client to keep to the contract of
  \<open>frontend/src/api/schema/*.ts\<close>, the requests a thunk makes, and the lemmas that reduce
  \<open>every request of this thunk conforms\<close> to one row of the contract's table.
\<close>

section \<open>Conformance\<close>

text \<open>The keys of the query string.\<close>

fun split_amp :: "string \<Rightarrow> string list" where
  "split_amp [] = [[]]"
| "split_amp (c # s) =
     (if c = CHR ''&'' then [] # split_amp s
      else (case split_amp s of x # xs \<Rightarrow> (c # x) # xs | [] \<Rightarrow> [[c]]))"

definition query_keys :: "string \<Rightarrow> string list" where
  "query_keys path =
     (case dropWhile (\<lambda>c. c \<noteq> CHR ''?'') path of
        [] \<Rightarrow> []
      | _ # query \<Rightarrow> map (takeWhile (\<lambda>c. c \<noteq> CHR ''='')) (split_amp query))"

fun body_conforms :: "operation \<Rightarrow> wire_body \<Rightarrow> bool" where
  "body_conforms op WireNone \<longleftrightarrow> \<not> op_body_required op"
| "body_conforms op (WireText t) \<longleftrightarrow> ''application/json'' \<in> set (op_body op)"
| "body_conforms op (WireForm f) \<longleftrightarrow> ''multipart/form-data'' \<in> set (op_body op)"

text \<open>Some operation accepts the request's method on its path, every header and query key the
  operation requires is there, no query key is one it does not declare, and the body is of a
  kind it takes.\<close>

definition conforms :: "string \<Rightarrow> http_request \<Rightarrow> bool" where
  "conforms base q \<longleftrightarrow>
     (let path = drop (length base) (url q)
      in list_ex (\<lambda>op.
           list_all (\<lambda>h. header q h \<noteq> None) (required (op_header op)) \<and>
           list_all (\<lambda>k. k \<in> set (query_keys path)) (required (op_query op)) \<and>
           list_all (\<lambda>k. k \<in> set (map fst (op_query op))) (query_keys path) \<and>
           body_conforms op (wire_body q))
         (operations_for (http_method q) (segments path)))"

text \<open>The requests one run of a thunk makes, the installed handler's own excepted.\<close>

definition requests_of ::
  "((http_request list \<times> 'w) client \<Rightarrow> http_request list \<times> 'w \<Rightarrow> 'r \<times> (http_request list \<times> 'w)) \<Rightarrow>
   'w client \<Rightarrow> 'w \<Rightarrow> http_request list" where
  "requests_of thunk cl w = fst (snd (thunk (logged cl) ([], w)))"

section \<open>Segments of a path with an id in it\<close>

lemma split_slash_nonempty [simp]: "split_slash s \<noteq> []"
  by (induction s) (auto split: list.split)

lemma split_slash_plain: "CHR ''/'' \<notin> set s \<Longrightarrow> split_slash s = [s]"
  by (induction s) (auto split: list.split)

lemma split_slash_append:
  "CHR ''/'' \<notin> set s \<Longrightarrow> split_slash (s @ CHR ''/'' # t) = s # split_slash t"
  by (induction s) (auto split: list.split)

lemma path_only_simps [simp]:
  "path_only [] = []"
  "path_only (c # s) = (if c = CHR ''?'' then [] else c # path_only s)"
  by (simp_all add: path_only_def)

lemma path_only_plain: "CHR ''?'' \<notin> set s \<Longrightarrow> path_only (s @ t) = s @ path_only t"
  by (induction s) auto

lemma plain_idD:
  assumes "plain_id s"
  shows "s \<noteq> []" "split_slash s = [s]" "split_slash (s @ CHR ''/'' # t) = s # split_slash t"
    "path_only (s @ t) = s @ path_only t" "path_only s = s"
  using assms path_only_plain[of s "[]"]
  by (simp_all add: plain_id_def split_slash_plain split_slash_append path_only_plain)

lemma query_keys_simps [simp]:
  "query_keys [] = []"
  "query_keys (c # s) =
     (if c = CHR ''?'' then map (takeWhile (\<lambda>c. c \<noteq> CHR ''='')) (split_amp s) else query_keys s)"
  by (simp_all add: query_keys_def)

lemma query_keys_append: "CHR ''?'' \<notin> set s \<Longrightarrow> query_keys (s @ t) = query_keys t"
  by (induction s) auto

lemma query_keys_plain: "plain_id s \<Longrightarrow> query_keys (s @ t) = query_keys t" "plain_id s \<Longrightarrow> query_keys s = []"
  using query_keys_append[of s t] query_keys_append[of s "[]"] by (simp_all add: plain_id_def)

lemmas path_simps = segments_def plain_idD query_keys_plain

section \<open>Conformance of a call\<close>

lemma operations_for_rowI:
  assumes "(ps, ms) \<in> set all_paths" and "match_segments ps ss" and "(m, op) \<in> set ms"
  shows "op \<in> set (operations_for m ss)"
  using assms by (force simp: operations_for_def)

text \<open>A call conforms, whatever bearer it is sent with, when one row of a service's table accepts
  its method, path and body and requires no header.\<close>

definition call_conforms ::
  "(segment list \<times> (http_method \<times> operation) list) list \<Rightarrow> http_method \<Rightarrow> string \<Rightarrow> body \<Rightarrow> bool" where
  "call_conforms table m path b \<longleftrightarrow>
     list_ex (\<lambda>(ps, ms).
       match_segments ps (segments path) \<and>
       list_ex (\<lambda>(m', op).
         m' = m \<and> required (op_header op) = [] \<and>
         list_all (\<lambda>k. k \<in> set (query_keys path)) (required (op_query op)) \<and>
         list_all (\<lambda>k. k \<in> set (map fst (op_query op))) (query_keys path) \<and>
         body_conforms op (send_body b)) ms) table"

lemma conforms_callI:
  assumes "set table \<subseteq> set all_paths"
    and "call_conforms table (opt_method opts) path (opt_body opts)"
  shows "conforms (BASE cl) (send cl path opts b)"
proof -
  from assms(2) obtain ps ms op where row: "(ps, ms) \<in> set table" "match_segments ps (segments path)"
      "(opt_method opts, op) \<in> set ms"
    and op: "required (op_header op) = []"
      "list_all (\<lambda>k. k \<in> set (query_keys path)) (required (op_query op))"
      "list_all (\<lambda>k. k \<in> set (map fst (op_query op))) (query_keys path)"
      "body_conforms op (send_body (opt_body opts))"
    by (auto simp: call_conforms_def list_ex_iff)
  then have "op \<in> set (operations_for (opt_method opts) (segments path))"
    using assms(1) operations_for_rowI by blast
  with op show ?thesis by (auto simp: conforms_def list_ex_iff intro!: bexI[of _ op])
qed

lemma paths_in_contract:
  "set paths_auth \<subseteq> set all_paths" "set paths_customer \<subseteq> set all_paths"
  "set paths_seller \<subseteq> set all_paths" "set paths_request \<subseteq> set all_paths"
  "set paths_offer \<subseteq> set all_paths" "set paths_admin \<subseteq> set all_paths"
  "set paths_notification \<subseteq> set all_paths"
  by (auto simp: all_paths_def)

definition sends_only :: "string \<Rightarrow> request_options \<Rightarrow> 'w client \<Rightarrow> http_request list \<Rightarrow> bool" where
  "sends_only path opts cl qs \<longleftrightarrow> (\<forall>q \<in> set qs. \<exists>b. q = send cl path opts b)"

lemma api_sends: "sends_only path opts cl (requests_of (\<lambda>c. api c path opts) cl w)"
  using api_logged[of cl path opts "[]" w] by (auto simp: sends_only_def requests_of_def)

lemma api_as_world: "snd (api_as f cl path opts w) = snd (api cl path opts w)"
  by (simp add: api_as_def split: prod.split sum.split)

lemma api_as_sends: "sends_only path opts cl (requests_of (\<lambda>c. api_as f c path opts) cl w)"
  using api_sends[of path opts cl w] by (simp add: requests_of_def api_as_world)

lemma sends_only_conforms:
  assumes "sends_only path opts cl qs" and "\<And>b. conforms (BASE cl) (send cl path opts b)"
  shows "list_all (conforms (BASE cl)) qs"
  using assms by (auto simp: sends_only_def list_all_iff)

text \<open>The requests of one call, when the call is all a thunk does.\<close>

lemma api_conforms:
  assumes "set table \<subseteq> set all_paths"
    and "call_conforms table (opt_method opts) path (opt_body opts)"
  shows "list_all (conforms (BASE cl)) (fst (snd (api (logged cl) path opts ([], w))))"
  using sends_only_conforms[OF api_sends conforms_callI[OF assms]] by (simp add: requests_of_def)

lemma api_log_conforms:
  assumes "set table \<subseteq> set all_paths"
    and "call_conforms table (opt_method opts) path (opt_body opts)"
    and "list_all (conforms (BASE cl)) (fst x)"
  shows "list_all (conforms (BASE cl)) (fst (snd (api (logged cl) path opts x)))"
proof -
  obtain log w where x: "x = (log, w)" by (cases x)
  obtain res log' w' where run: "api (logged cl) path opts (log, w) = (res, (log', w'))"
    by (cases "api (logged cl) path opts (log, w)") auto
  obtain qs where "log' = log @ qs" and "sends_only path opts cl qs"
    using api_logged_sends[OF run] by (auto simp: sends_only_def)
  then show ?thesis
    using sends_only_conforms[OF _ conforms_callI[OF assms(1,2)]] assms(3) by (simp add: x run)
qed

lemmas thunk_log = requests_of_def api_as_world
lemmas call_simps = call_conforms_def path_simps required_def send_body_def default_options_def

lemma split_amp_plain: "CHR ''&'' \<notin> set s \<Longrightarrow> split_amp s = [s]"
  by (induction s) (auto split: list.split)

section \<open>Query strings\<close>

lemma split_amp_append: "CHR ''&'' \<notin> set s \<Longrightarrow> split_amp (s @ CHR ''&'' # t) = s # split_amp t"
  by (induction s) (auto split: list.split)

lemma split_amp_join:
  "xs \<noteq> [] \<Longrightarrow> (\<And>x. x \<in> set xs \<Longrightarrow> CHR ''&'' \<notin> set x) \<Longrightarrow> split_amp (join ''&'' xs) = xs"
  by (induction "''&''" xs rule: join.induct) (simp_all add: split_amp_plain split_amp_append)

lemma form_encode_no_sep: "CHR ''&'' \<notin> set (form_encode s)" "CHR ''='' \<notin> set (form_encode s)"
  "CHR ''?'' \<notin> set (form_encode s)"
  using form_encode_no_separator by fastforce+

lemma takeWhile_key: "sep \<notin> set k \<Longrightarrow> takeWhile (\<lambda>c. c \<noteq> sep) (k @ sep # v) = k"
  by (induction k) auto

lemma split_amp_params:
  "ps \<noteq> [] \<Longrightarrow>
   split_amp (params_toString ps) = map (\<lambda>(k, v). form_encode k @ ''='' @ form_encode v) ps"
  unfolding params_toString_def
  by (rule split_amp_join) (auto simp: form_encode_no_sep)

lemma params_toString_empty: "params_toString ps = [] \<longleftrightarrow> ps = []"
  unfolding params_toString_def by (subst join_eq_Nil) auto

text \<open>The pairs a server reads off the query string.\<close>

definition decode_pair :: "string \<Rightarrow> (string \<times> string) option" where
  "decode_pair s =
     (let k = takeWhile (\<lambda>c. c \<noteq> CHR ''='') s
      in case (form_decode k, form_decode (drop (Suc (length k)) s)) of
           (Some a, Some b) \<Rightarrow> Some (a, b)
         | _ \<Rightarrow> None)"

definition query_pairs :: "string \<Rightarrow> (string \<times> string) list option" where
  "query_pairs path =
     (case dropWhile (\<lambda>c. c \<noteq> CHR ''?'') path of
        [] \<Rightarrow> Some []
      | _ # query \<Rightarrow> those (map decode_pair (split_amp query)))"

lemma query_pairs_simps [simp]:
  "query_pairs [] = Some []"
  "query_pairs (c # s) =
     (if c = CHR ''?'' then those (map decode_pair (split_amp s)) else query_pairs s)"
  by (simp_all add: query_pairs_def)

lemma decode_pair_encoded:
  assumes "form_decode v = Some b"
  shows "decode_pair (form_encode k @ CHR ''='' # v) = Some (k, b)"
  using assms
  by (simp add: decode_pair_def Let_def takeWhile_key form_encode_no_sep form_decode_encode)

lemma those_params:
  "those (map decode_pair (map (\<lambda>(k, v). form_encode k @ ''='' @ form_encode v) ps)) = Some ps"
  by (induction ps) (auto simp: decode_pair_encoded form_decode_encode)

lemma form_decode_encodeURIComponent: "form_decode (encodeURIComponent s) = Some s"
proof -
  have "CHR ''+'' \<notin> set (encodeURIComponent s)"
    using encode_with_chars[of "CHR ''+''" uri_safe s] alnum_not_plus
    by (auto simp: encodeURIComponent_def uri_safe_def)
  then have "map (\<lambda>c. if c = CHR ''+'' then CHR '' '' else c) (encodeURIComponent s) = encodeURIComponent s"
    by (intro map_idI) auto
  then show ?thesis
    by (simp add: form_decode_def encodeURIComponent_def decode_component_encode_with plain_uri_safe)
qed

end
