(* ===== verification/Actions.thy ===== *)
theory Actions
  imports Contract
begin

text \<open>
  The actions of the store: the three phases of every \<open>createAsyncThunk\<close> of
  \<open>frontend/src/store/*.ts\<close> and the plain actions of the slices, with the type strings the
  slices' matchers test. The result of a payload creator is an \<open>outcome\<close>.
\<close>

section \<open>Thunks\<close>

text \<open>
  A payload creator returns, returns \<open>rejectWithValue(r)\<close>, or throws. A thunk that was dispatched
  ends as its creator did, or in \<open>Crash\<close>: a reducer threw on the action the thunk settled to, the
  store kept its state and the promise of the dispatch rejects. No creator ends in \<open>Crash\<close>.
\<close>

datatype ('p, 'r) outcome = Return 'p | RejectWith 'r | Throw js_error | Crash js_error

text \<open>The action a thunk dispatches; a creator that threw rejects with no payload.\<close>

datatype ('p, 'r) phase = Pending | Fulfilled 'p | Rejected "'r option"

fun settled :: "('p, 'r) outcome \<Rightarrow> ('p, 'r) phase" where
  "settled (Return p) = Fulfilled p"
| "settled (RejectWith r) = Rejected (Some r)"
| "settled (Throw e) = Rejected None"
| "settled (Crash e) = Rejected None"

fun phase_suffix :: "('p, 'r) phase \<Rightarrow> string" where
  "phase_suffix Pending = ''/pending''"
| "phase_suffix (Fulfilled p) = ''/fulfilled''"
| "phase_suffix (Rejected r) = ''/rejected''"

text \<open>\<open>error instanceof ApiError ? error.message : d\<close>.\<close>

fun message_or :: "string \<Rightarrow> js_error \<Rightarrow> string" where
  "message_or d (ApiError s m b) = m"
| "message_or d (OtherError e) = d"

text \<open>\<open>try { return await api(...) } catch (error) { return rejectWithValue(f(error)) }\<close>, and the
  same without the \<open>catch\<close>.\<close>

fun catching :: "(js_error \<Rightarrow> 'r) \<Rightarrow> (js_error + 'p) \<times> 'w \<Rightarrow> ('p, 'r) outcome \<times> 'w" where
  "catching f (Inr p, w) = (Return p, w)"
| "catching f (Inl e, w) = (RejectWith (f e), w)"

fun throwing :: "(js_error + 'p) \<times> 'w \<Rightarrow> ('p, 'r) outcome \<times> 'w" where
  "throwing (Inr p, w) = (Return p, w)"
| "throwing (Inl e, w) = (Throw e, w)"

section \<open>Payloads\<close>

record session_info =
  si_user :: user
  si_hasProfile :: bool
  si_profile :: "profile option"

record 'a create_rejection =
  cr_message :: string
  cr_existing :: "'a option"

section \<open>Actions\<close>

text \<open>The payload of a sign-in is absent when the service's answer is empty or \<open>null\<close>.\<close>

datatype action =
    TokensRefreshed auth_tokens
  | ProfileCreated profile
  | SessionCleared
  | Login "(auth_tokens option, string) phase"
  | Register "(unit, string) phase"
  | LoadSession "(session_info, unit) phase"
  | Logout "(unit, unit) phase"
  | ErrorCleared
  | SimilarCleared
  | FetchRequests "(purchase_request list, unit) phase"
  | FetchMyRequests "(purchase_request list, unit) phase"
  | FetchRequest "(purchase_request, unit) phase"
  | FetchSimilarRequests "(purchase_request list, unit) phase"
  | CreateRequest "(purchase_request, purchase_request create_rejection) phase"
  | JoinRequest "(purchase_request, string) phase"
  | UpdateQuantity "(purchase_request, string) phase"
  | LeaveRequest "(string, string) phase"
  | FetchMyOffers "(offer list, unit) phase"
  | FetchOffersForRequest "(offer list, unit) phase"
  | CreateOffer "(offer, offer create_rejection) phase"
  | UpdateOffer "(offer, string) phase"
  | CancelOffer "(string, string) phase"
  | ContactsCleared
  | FetchPending "(pending_offer list, unit) phase"
  | DecideOffer "(string \<times> decision, string) phase"
  | FetchGrants "(contact_access list, unit) phase"
  | RevokeGrant "(string, string) phase"
  | FetchContacts "(contact_list, string) phase"
  | FetchNotifications "(notification list, unit) phase"
  | FetchUnreadCount "(int option, unit) phase"
  | MarkRead "(notification, unit) phase"

fun type_of :: "action \<Rightarrow> string" where
  "type_of (TokensRefreshed t) = ''auth/tokensRefreshed''"
| "type_of (ProfileCreated p) = ''auth/profileCreated''"
| "type_of SessionCleared = ''auth/sessionCleared''"
| "type_of (Login p) = ''auth/login'' @ phase_suffix p"
| "type_of (Register p) = ''auth/register'' @ phase_suffix p"
| "type_of (LoadSession p) = ''auth/loadSession'' @ phase_suffix p"
| "type_of (Logout p) = ''auth/logout'' @ phase_suffix p"
| "type_of ErrorCleared = ''requests/errorCleared''"
| "type_of SimilarCleared = ''requests/similarCleared''"
| "type_of (FetchRequests p) = ''requests/fetch'' @ phase_suffix p"
| "type_of (FetchMyRequests p) = ''requests/fetchMine'' @ phase_suffix p"
| "type_of (FetchRequest p) = ''requests/fetchOne'' @ phase_suffix p"
| "type_of (FetchSimilarRequests p) = ''requests/fetchSimilar'' @ phase_suffix p"
| "type_of (CreateRequest p) = ''requests/create'' @ phase_suffix p"
| "type_of (JoinRequest p) = ''requests/join'' @ phase_suffix p"
| "type_of (UpdateQuantity p) = ''requests/updateQuantity'' @ phase_suffix p"
| "type_of (LeaveRequest p) = ''requests/leave'' @ phase_suffix p"
| "type_of (FetchMyOffers p) = ''offers/fetchMine'' @ phase_suffix p"
| "type_of (FetchOffersForRequest p) = ''offers/fetchForRequest'' @ phase_suffix p"
| "type_of (CreateOffer p) = ''offers/create'' @ phase_suffix p"
| "type_of (UpdateOffer p) = ''offers/update'' @ phase_suffix p"
| "type_of (CancelOffer p) = ''offers/cancel'' @ phase_suffix p"
| "type_of ContactsCleared = ''admin/contactsCleared''"
| "type_of (FetchPending p) = ''admin/fetchPending'' @ phase_suffix p"
| "type_of (DecideOffer p) = ''admin/decide'' @ phase_suffix p"
| "type_of (FetchGrants p) = ''admin/fetchGrants'' @ phase_suffix p"
| "type_of (RevokeGrant p) = ''admin/revoke'' @ phase_suffix p"
| "type_of (FetchContacts p) = ''admin/fetchContacts'' @ phase_suffix p"
| "type_of (FetchNotifications p) = ''notifications/fetch'' @ phase_suffix p"
| "type_of (FetchUnreadCount p) = ''notifications/unread'' @ phase_suffix p"
| "type_of (MarkRead p) = ''notifications/markRead'' @ phase_suffix p"

text \<open>\<open>action.payload\<close> of a rejected action, read as \<open>string | \<lbrace>message\<rbrace> | undefined\<close> and
  reduced to the message it gives.\<close>

fun rejected_message :: "action \<Rightarrow> string option" where
  "rejected_message (Login (Rejected r)) = r"
| "rejected_message (Register (Rejected r)) = r"
| "rejected_message (CreateRequest (Rejected r)) = map_option cr_message r"
| "rejected_message (JoinRequest (Rejected r)) = r"
| "rejected_message (UpdateQuantity (Rejected r)) = r"
| "rejected_message (LeaveRequest (Rejected r)) = r"
| "rejected_message (CreateOffer (Rejected r)) = map_option cr_message r"
| "rejected_message (UpdateOffer (Rejected r)) = r"
| "rejected_message (CancelOffer (Rejected r)) = r"
| "rejected_message (DecideOffer (Rejected r)) = r"
| "rejected_message (RevokeGrant (Rejected r)) = r"
| "rejected_message (FetchContacts (Rejected r)) = r"
| "rejected_message _ = None"

text \<open>The test of the three rejection matchers: \<open>startsWith(slice) && endsWith('/rejected')\<close>.\<close>

definition rejected_in :: "string \<Rightarrow> action \<Rightarrow> bool" where
  "rejected_in slice a \<longleftrightarrow> prefix slice (type_of a) \<and> suffix ''/rejected'' (type_of a)"

section \<open>Facts\<close>

lemma rev_phase_suffix:
  "suffix ''/rejected'' (t @ phase_suffix p) \<longleftrightarrow> (\<exists>r. p = Rejected r)"
  by (cases p) (auto simp: suffix_def append_eq_append_conv2 append_eq_Cons_conv Cons_eq_append_conv)

lemma rejected_in_thunk:
  "type_of a = t @ phase_suffix p \<Longrightarrow> prefix slice t \<Longrightarrow>
     rejected_in slice a \<longleftrightarrow> (\<exists>r. p = Rejected r)"
  by (auto simp: rejected_in_def rev_phase_suffix)

lemma not_rejected_in: "\<not> prefix slice (type_of a) \<Longrightarrow> \<not> rejected_in slice a"
  by (simp add: rejected_in_def)

lemma catching_cases:
  "(\<exists>p. fst (catching f x) = Return p) \<or> (\<exists>r. fst (catching f x) = RejectWith r)"
  by (cases "(f, x)" rule: catching.cases) auto

lemma snd_catching [simp]: "snd (catching f x) = snd x"
  by (cases "(f, x)" rule: catching.cases) simp_all

lemma snd_throwing [simp]: "snd (throwing x) = snd x"
  by (cases x rule: throwing.cases) simp_all

lemma settled_not_pending: "settled out \<noteq> Pending"
  by (cases out) auto

end
