(* ===== verification/AuthSlice.thy ===== *)
theory AuthSlice
  imports Actions
begin

text \<open>
  The session, \<open>frontend/src/store/authSlice.ts\<close>: the tokens and what they are stored as, the
  account and its role profile, the four thunks, the reducer with its writes to
  \<open>localStorage\<close>, and the display name. \<open>Date.now()\<close> and the browser's storage are arguments
  of the reducer.
\<close>

section \<open>State and storage\<close>

definition STORAGE_KEY :: string where
  "STORAGE_KEY = ''marketplace.session''"

record stored_session =
  ss_accessToken :: "string option"
  ss_refreshToken :: "string option"
  ss_expiresAt :: "int option"

datatype auth_status = Idle | Loading | Authenticated

record auth_state =
  accessToken :: "string option"
  refreshToken :: "string option"
  expiresAt :: "int option"
  auth_user :: "user option"
  auth_profile :: "profile option"
  hasProfile :: "bool option"
  auth_status :: auth_status
  auth_error :: "string option"

text \<open>The browser's \<open>localStorage\<close>; in a private window every access throws.\<close>

record storage =
  st_blocked :: bool
  st_items :: "string \<rightharpoonup> string"

definition as_stored :: "json \<Rightarrow> stored_session" where
  "as_stored j =
     \<lparr>ss_accessToken = str_field j ''accessToken'',
      ss_refreshToken = str_field j ''refreshToken'',
      ss_expiresAt = int_field j ''expiresAt''\<rparr>"

definition stored_json :: "stored_session \<Rightarrow> json" where
  "stored_json s =
     JObj (opt_member ''accessToken'' JStr (ss_accessToken s) @
           opt_member ''refreshToken'' JStr (ss_refreshToken s) @
           opt_member ''expiresAt'' (\<lambda>i. JNum (JInt i)) (ss_expiresAt s))"

definition readStored :: "storage \<Rightarrow> stored_session option" where
  "readStored st =
     (if st_blocked st then None
      else (case st_items st STORAGE_KEY of
              None \<Rightarrow> None
            | Some raw \<Rightarrow> if raw = [] then None else map_option as_stored (json_parse raw)))"

definition writeStored :: "stored_session option \<Rightarrow> storage \<Rightarrow> storage" where
  "writeStored session st =
     (if st_blocked st then st
      else (case session of
              Some s \<Rightarrow> st\<lparr>st_items := (st_items st)(STORAGE_KEY \<mapsto> stringify (stored_json s))\<rparr>
            | None \<Rightarrow> st\<lparr>st_items := (st_items st)(STORAGE_KEY := None)\<rparr>))"

definition auth_initial :: "storage \<Rightarrow> auth_state" where
  "auth_initial st =
     (let stored = readStored st
      in \<lparr>accessToken = Option.bind stored ss_accessToken,
          refreshToken = Option.bind stored ss_refreshToken,
          expiresAt = Option.bind stored ss_expiresAt,
          auth_user = None, auth_profile = None, hasProfile = None,
          auth_status = Idle, auth_error = None\<rparr>)"

definition toStored :: "int \<Rightarrow> auth_tokens \<Rightarrow> stored_session" where
  "toStored now tokens =
     \<lparr>ss_accessToken = tok_accessToken tokens,
      ss_refreshToken = tok_refreshToken tokens,
      ss_expiresAt = Some (now + nullish (tok_expiresIn tokens) 3600 * 1000 - 60000)\<rparr>"

section \<open>Thunks\<close>

text \<open>The tokens of an answer, \<open>null\<close> when it is empty.\<close>

definition tokens_body :: "json \<Rightarrow> auth_tokens option" where
  "tokens_body j = (if j = JNull then None else Some (as_tokens j))"

definition login :: "'w client \<Rightarrow> login_request \<Rightarrow> 'w \<Rightarrow> (auth_tokens option, string) outcome \<times> 'w" where
  "login cl credentials w =
     catching (message_or ''Login failed'')
       (api_as tokens_body cl ''/api/auth/login''
          (default_options\<lparr>opt_method := POST, opt_body := Json (login_json credentials),
             skipAuthRetry := True\<rparr>) w)"

record register_form =
  rf_email :: string
  rf_password :: string
  rf_phoneNumber :: string
  rf_role :: role

text \<open>
  \<open>dispatch(login(...)).unwrap()\<close>: the payload, or a throw. What it throws is the rejected
  value or a serialized error, in neither case an \<open>ApiError\<close>. When a reducer threw, it throws
  what the reducer threw.
\<close>

fun unwrap :: "('p, string) outcome \<times> 'w \<Rightarrow> (js_error + 'p) \<times> 'w" where
  "unwrap (Return p, w) = (Inr p, w)"
| "unwrap (RejectWith r, w) = (Inl (OtherError r), w)"
| "unwrap (Throw e, w) = (Inl (OtherError (message_or [] e)), w)"
| "unwrap (Crash e, w) = (Inl e, w)"

definition register_path :: "role \<Rightarrow> string" where
  "register_path role =
     (if role = SELLER then ''/api/auth/register/seller'' else ''/api/auth/register/customer'')"

definition register_body :: "register_form \<Rightarrow> register_request" where
  "register_body f =
     \<lparr>rr_email = rf_email f, rr_password = rf_password f, rr_phoneNumber = rf_phoneNumber f\<rparr>"

text \<open>The dash of the source's sentence, as its UTF-8 bytes.\<close>

definition em_dash :: string where
  "em_dash = [CHR 0xE2, CHR 0x80, CHR 0x94]"

definition already_registered :: "string \<Rightarrow> string" where
  "already_registered m =
     m @ ''. Sign in instead '' @ em_dash @ '' you can finish your profile there.''"

fun register_failure :: "js_error \<Rightarrow> string" where
  "register_failure (ApiError s m b) = (if s = 409 then already_registered m else m)"
| "register_failure (OtherError e) = ''Registration failed''"

text \<open>\<open>dispatch_login\<close> is the store's \<open>dispatch\<close> on the \<open>login\<close> thunk.\<close>

definition register ::
  "'w client \<Rightarrow> (login_request \<Rightarrow> 'w \<Rightarrow> (auth_tokens option, string) outcome \<times> 'w) \<Rightarrow>
   register_form \<Rightarrow> 'w \<Rightarrow> (unit, string) outcome \<times> 'w" where
  "register cl dispatch_login f w =
     (case api_as as_user cl (register_path (rf_role f))
             (default_options\<lparr>opt_method := POST, opt_body := Json (register_json (register_body f)),
                skipAuthRetry := True\<rparr>) w of
        (Inl e, w1) \<Rightarrow> (RejectWith (register_failure e), w1)
      | (Inr u, w1) \<Rightarrow>
          (case unwrap (dispatch_login \<lparr>lr_email = rf_email f, lr_password = rf_password f\<rparr> w1) of
             (Inl e, w2) \<Rightarrow> (RejectWith (register_failure e), w2)
           | (Inr t, w2) \<Rightarrow> (Return (), w2)))"

definition profile_path :: "role option \<Rightarrow> string" where
  "profile_path role = (if role = Some SELLER then ''/api/sellers/me'' else ''/api/customers/me'')"

text \<open>404 and 403 both mean that there is no profile yet.\<close>

fun no_profile :: "js_error \<Rightarrow> bool" where
  "no_profile (ApiError s m b) \<longleftrightarrow> s = 404 \<or> s = 403"
| "no_profile (OtherError e) \<longleftrightarrow> False"

text \<open>The body of the profile call, \<open>null\<close> when it is empty.\<close>

definition profile_body :: "json \<Rightarrow> profile option" where
  "profile_body j = (if j = JNull then None else Some (as_profile j))"

definition loadSession ::
  "'w client \<Rightarrow> ('w \<Rightarrow> auth_state) \<Rightarrow> 'w \<Rightarrow> (session_info, unit) outcome \<times> 'w" where
  "loadSession cl auth_of w =
     (let token = accessToken (auth_of w)
      in case api_as (\<lambda>j. j) cl ''/api/users/me'' (default_options\<lparr>opt_token := token\<rparr>) w of
           (Inl e, w1) \<Rightarrow> (Throw e, w1)
         | (Inr JNull, w1) \<Rightarrow> (Throw (OtherError ''TypeError''), w1)
         | (Inr j, w1) \<Rightarrow>
             (let user = as_user j
              in if usr_role user = Some ADMIN
                 then (Return \<lparr>si_user = user, si_hasProfile = True, si_profile = None\<rparr>, w1)
                 else (case api_as profile_body cl (profile_path (usr_role user))
                              (default_options\<lparr>opt_token := token\<rparr>) w1 of
                         (Inr p, w2) \<Rightarrow>
                           (Return \<lparr>si_user = user, si_hasProfile = True, si_profile = p\<rparr>, w2)
                       | (Inl e, w2) \<Rightarrow>
                           if no_profile e
                           then (Return \<lparr>si_user = user, si_hasProfile = False, si_profile = None\<rparr>,
                                 w2)
                           else (Throw e, w2))))"

definition logout_json :: "string option \<Rightarrow> json" where
  "logout_json t = JObj [(''refreshToken'', case t of None \<Rightarrow> JNull | Some s \<Rightarrow> JStr s)]"

definition logout ::
  "'w client \<Rightarrow> ('w \<Rightarrow> auth_state) \<Rightarrow> 'w \<Rightarrow> (unit, unit) outcome \<times> 'w" where
  "logout cl auth_of w =
     (case api cl ''/api/auth/logout''
             (default_options\<lparr>opt_method := POST,
                opt_body := Json (logout_json (refreshToken (auth_of w))),
                opt_token := accessToken (auth_of w), skipAuthRetry := True\<rparr>) w of
        (r, w') \<Rightarrow> (Return (), w'))"

section \<open>Reducer\<close>

definition with_session :: "stored_session \<Rightarrow> auth_state \<Rightarrow> auth_state" where
  "with_session s a =
     a\<lparr>accessToken := ss_accessToken s, refreshToken := ss_refreshToken s,
        expiresAt := ss_expiresAt s\<rparr>"

text \<open>
  \<open>toStored(action.payload)\<close> throws a \<open>TypeError\<close> on \<open>null\<close>, before the case of a sign-in has changed
  anything.
\<close>

fun reducer_throws :: "action \<Rightarrow> bool" where
  "reducer_throws (Login (Fulfilled None)) \<longleftrightarrow> True"
| "reducer_throws _ \<longleftrightarrow> False"

fun auth_reducer :: "int \<Rightarrow> action \<Rightarrow> auth_state \<times> storage \<Rightarrow> auth_state \<times> storage" where
  "auth_reducer now (TokensRefreshed tokens) (a, st) =
     (let session = toStored now tokens
      in (with_session session a, writeStored (Some session) st))"
| "auth_reducer now (ProfileCreated p) (a, st) =
     (a\<lparr>hasProfile := Some True, auth_profile := Some p\<rparr>, st)"
| "auth_reducer now SessionCleared (a, st) =
     (a\<lparr>accessToken := None, refreshToken := None, expiresAt := None, auth_user := None,
        auth_profile := None, hasProfile := None, auth_status := Idle\<rparr>, writeStored None st)"
| "auth_reducer now (Login Pending) (a, st) = (a\<lparr>auth_status := Loading, auth_error := None\<rparr>, st)"
| "auth_reducer now (Login (Fulfilled (Some tokens))) (a, st) =
     (let session = toStored now tokens
      in ((with_session session a)\<lparr>auth_status := Authenticated\<rparr>, writeStored (Some session) st))"
| "auth_reducer now (Login (Rejected r)) (a, st) =
     (a\<lparr>auth_status := Idle, auth_error := Some (nullish r ''Login failed'')\<rparr>, st)"
| "auth_reducer now (Register Pending) (a, st) =
     (a\<lparr>auth_status := Loading, auth_error := None\<rparr>, st)"
| "auth_reducer now (Register (Rejected r)) (a, st) =
     (a\<lparr>auth_status := Idle, auth_error := Some (nullish r ''Registration failed'')\<rparr>, st)"
| "auth_reducer now (LoadSession (Fulfilled s)) (a, st) =
     (a\<lparr>auth_user := Some (si_user s), auth_profile := si_profile s,
        hasProfile := Some (si_hasProfile s), auth_status := Authenticated\<rparr>, st)"
| "auth_reducer now (LoadSession (Rejected r)) (a, st) =
     (a\<lparr>accessToken := None, refreshToken := None, auth_user := None, auth_profile := None,
        auth_status := Idle\<rparr>, writeStored None st)"
| "auth_reducer now (Logout (Fulfilled u)) (a, st) =
     (a\<lparr>accessToken := None, refreshToken := None, expiresAt := None, auth_user := None,
        auth_profile := None, hasProfile := None, auth_status := Idle\<rparr>, writeStored None st)"
| "auth_reducer now _ (a, st) = (a, st)"

section \<open>The name on screen\<close>

definition full_name :: "string option \<Rightarrow> string option \<Rightarrow> string" where
  "full_name firstName lastName = join '' '' (filter_truthy [firstName, lastName])"

definition selectDisplayName :: "auth_state \<Rightarrow> string" where
  "selectDisplayName a =
     (let email = nullish (Option.bind (auth_user a) usr_email) []
      in case auth_profile a of
           None \<Rightarrow> email
         | Some p \<Rightarrow>
             if in_obj (prof_storeName p) \<and> truthy (get_prop (prof_storeName p))
             then the (get_prop (prof_storeName p))
             else if in_obj (prof_firstName p)
             then or_else (full_name (get_prop (prof_firstName p)) (get_prop (prof_lastName p)))
                    email (\<lambda>n. n)
             else email)"

section \<open>Storage\<close>

lemma wf_stored_json: "wf_json (stored_json s)"
  by (simp add: stored_json_def opt_member_def split: option.split)

lemma as_stored_stored_json: "as_stored (stored_json s) = s"
  by (cases s) (auto simp: as_stored_def stored_json_def opt_member_def str_field_def int_field_def
      split: option.split)

lemma stored_text_nonempty: "stringify (stored_json s) \<noteq> []"
  by (simp add: stored_json_def)

lemma readStored_writeStored:
  "\<not> st_blocked st \<Longrightarrow> readStored (writeStored s st) = s"
  using json_text.dec_enc[OF wf_stored_json] stored_text_nonempty
  by (cases s) (simp_all add: readStored_def writeStored_def as_stored_stored_json)

lemma st_blocked_writeStored [simp]: "st_blocked (writeStored s st) = st_blocked st"
  by (simp add: writeStored_def split: option.split)

lemma st_blocked_reducer: "st_blocked (snd (auth_reducer t a s)) = st_blocked (snd s)"
  by (cases "(t, a, s)" rule: auth_reducer.cases) (auto simp: Let_def)

section \<open>The token cell\<close>

text \<open>
  What the session promises about its tokens, as an abstract cell: two tokens or none, set by a
  login or a refresh, emptied by the three ways a session ends, kept by everything else.
\<close>

type_synonym token_cell = "string option \<times> string option"

fun cell_step :: "action \<Rightarrow> token_cell \<Rightarrow> token_cell" where
  "cell_step (TokensRefreshed t) c = (tok_accessToken t, tok_refreshToken t)"
| "cell_step (Login (Fulfilled (Some t))) c = (tok_accessToken t, tok_refreshToken t)"
| "cell_step SessionCleared c = (None, None)"
| "cell_step (LoadSession (Rejected r)) c = (None, None)"
| "cell_step (Logout (Fulfilled u)) c = (None, None)"
| "cell_step _ c = c"

definition state_cell :: "auth_state \<Rightarrow> token_cell" where
  "state_cell a = (accessToken a, refreshToken a)"

definition stored_cell :: "storage \<Rightarrow> token_cell" where
  "stored_cell st =
     (Option.bind (readStored st) ss_accessToken, Option.bind (readStored st) ss_refreshToken)"

lemma stored_cell_write:
  "\<not> st_blocked st \<Longrightarrow>
     stored_cell (writeStored s st) =
       (Option.bind s ss_accessToken, Option.bind s ss_refreshToken)"
  by (simp add: stored_cell_def readStored_writeStored)

lemma state_cell_step: "state_cell (fst (auth_reducer t a s)) = cell_step a (state_cell (fst s))"
  by (cases "(t, a, s)" rule: auth_reducer.cases)
     (auto simp: state_cell_def Let_def with_session_def toStored_def)

lemma stored_cell_step:
  "\<not> st_blocked (snd s) \<Longrightarrow>
     stored_cell (snd (auth_reducer t a s)) = cell_step a (stored_cell (snd s))"
  by (cases "(t, a, s)" rule: auth_reducer.cases)
     (auto simp: Let_def stored_cell_write toStored_def)

definition storage_sync :: "auth_state \<times> storage \<Rightarrow> bool" where
  "storage_sync s \<longleftrightarrow> st_blocked (snd s) \<or> stored_cell (snd s) = state_cell (fst s)"

lemma storage_sync_step: "storage_sync s \<Longrightarrow> storage_sync (auth_reducer t a s)"
  by (cases "st_blocked (snd s)")
     (auto simp: storage_sync_def st_blocked_reducer state_cell_step stored_cell_step[of s])

interpretation session: reducer "\<lambda>(t, a). auth_reducer t a" storage_sync
  by unfold_locales (auto intro: storage_sync_step)

lemma storage_sync_initial: "storage_sync (auth_initial st, st)"
  by (simp add: storage_sync_def stored_cell_def state_cell_def auth_initial_def Let_def)

section \<open>Thunk outcomes\<close>

lemma login_outcome:
  "(\<exists>p. fst (login cl c w) = Return p) \<or> (\<exists>m. fst (login cl c w) = RejectWith m)"
  unfolding login_def by (rule catching_cases)

lemma register_outcome:
  "fst (register cl dl f w) = Return () \<or> (\<exists>m. fst (register cl dl f w) = RejectWith m)"
  by (auto simp: register_def split: prod.splits sum.splits)

section \<open>Conformance\<close>

lemma auth_calls_conform:
  "call_conforms paths_auth POST ''/api/auth/login'' (Json j)"
  "call_conforms paths_auth POST (register_path r) (Json j)"
  "call_conforms paths_auth GET ''/api/users/me'' NoBody"
  by (simp_all add: call_simps contract_auth register_path_def)

lemma profile_call_conforms: "call_conforms (paths_customer @ paths_seller) GET (profile_path r) NoBody"
  by (simp add: call_simps contract_customer contract_seller profile_path_def)

lemma profile_in_contract: "set (paths_customer @ paths_seller) \<subseteq> set all_paths"
  by (auto simp: all_paths_def)

lemma login_world:
  "snd (login cl c w) = snd (api cl ''/api/auth/login''
     (default_options\<lparr>opt_method := POST, opt_body := Json (login_json c), skipAuthRetry := True\<rparr>) w)"
  by (simp add: login_def api_as_world)

lemma login_log_conforms:
  "list_all (conforms (BASE cl)) (fst x) \<Longrightarrow>
     list_all (conforms (BASE cl)) (fst (snd (login (logged cl) c x)))"
  unfolding login_world
  by (rule api_log_conforms[OF paths_in_contract(1)]) (simp_all add: auth_calls_conform)

lemma unwrap_world [simp]: "snd (unwrap x) = snd x"
  by (cases x rule: unwrap.cases) simp_all

lemma register_world:
  "snd (register cl dl f w) \<in>
     (let w1 = snd (api cl (register_path (rf_role f))
                (default_options\<lparr>opt_method := POST,
                   opt_body := Json (register_json (register_body f)), skipAuthRetry := True\<rparr>) w)
      in {w1, snd (dl \<lparr>lr_email = rf_email f, lr_password = rf_password f\<rparr> w1)})"
proof -
  have "snd (api_as as_user cl p opts w) = snd (api cl p opts w)" for p opts
    by (rule api_as_world)
  then show ?thesis
    by (auto simp: register_def Let_def  split: prod.splits sum.splits) (metis snd_conv unwrap_world)+
qed
lemma register_log_conforms:
  assumes "list_all (conforms (BASE cl)) (fst x)"
  shows "list_all (conforms (BASE cl)) (fst (snd (register (logged cl) (login (logged cl)) f x)))"
proof -
  let ?x1 = "snd (api (logged cl) (register_path (rf_role f))
      (default_options\<lparr>opt_method := POST, opt_body := Json (register_json (register_body f)),
         skipAuthRetry := True\<rparr>) x)"
  have "list_all (conforms (BASE cl)) (fst ?x1)"
    using assms by (intro api_log_conforms[OF paths_in_contract(1)]) (simp_all add: auth_calls_conform)
  moreover from this have "list_all (conforms (BASE cl)) (fst (snd (login (logged cl) c ?x1)))" for c
    by (rule login_log_conforms)
  ultimately show ?thesis
    using register_world[of "logged cl" "login (logged cl)" f x] unfolding Let_def by auto
qed

lemma loadSession_log_conforms:
  assumes "list_all (conforms (BASE cl)) (fst x)"
  shows "list_all (conforms (BASE cl)) (fst (snd (loadSession (logged cl) a x)))"
proof -
  let ?o = "default_options\<lparr>opt_token := accessToken (a x)\<rparr>"
  let ?x1 = "snd (api (logged cl) ''/api/users/me'' ?o x)"
  have 1: "list_all (conforms (BASE cl)) (fst ?x1)"
    using assms by (intro api_log_conforms[OF paths_in_contract(1)])
      (simp_all add: auth_calls_conform default_options_def)
  then have 2: "list_all (conforms (BASE cl)) (fst (snd (api (logged cl) (profile_path r) ?o ?x1)))" for r
    by (rule api_log_conforms[OF profile_in_contract, rotated])
      (simp_all add: profile_call_conforms default_options_def del: set_append)
  have "snd (loadSession (logged cl) a x) = ?x1 \<or>
    (\<exists>r. snd (loadSession (logged cl) a x) = snd (api (logged cl) (profile_path r) ?o ?x1))"
    using api_as_world[of "\<lambda>j. j" "logged cl" "''/api/users/me''" ?o x]
      api_as_world[of profile_body "logged cl" _ ?o ?x1]
    by (auto simp: loadSession_def Let_def split: prod.splits sum.splits json.splits) (metis snd_conv)+
  with 1 2 show ?thesis by auto
qed

section \<open>Properties of the session\<close>

text \<open>
  Whatever session is written, reading it back gives it: the text in \<open>localStorage\<close> decodes
  to the tokens and the expiry that were stored, and clearing leaves nothing to read. Only a
  browser that blocks storage forgets it.
\<close>

theorem readStored_roundtrip:
  assumes "\<not> st_blocked st"
  shows "readStored (writeStored s st) = s"
  using assms by (rule readStored_writeStored)

theorem readStored_roundtrip_witness:
  "readStored (writeStored (Some (toStored 1000 \<lparr>tok_accessToken = Some ''access-1'',
      tok_refreshToken = Some ''refresh-1'', tok_expiresIn = Some 3600, tok_tokenType = None\<rparr>))
     \<lparr>st_blocked = False, st_items = Map.empty\<rparr>) =
   Some \<lparr>ss_accessToken = Some ''access-1'', ss_refreshToken = Some ''refresh-1'',
     ss_expiresAt = Some 3541000\<rparr>"
  using readStored_roundtrip[of "\<lparr>st_blocked = False, st_items = Map.empty\<rparr>"
      "Some (toStored 1000 \<lparr>tok_accessToken = Some ''access-1'',
      tok_refreshToken = Some ''refresh-1'', tok_expiresIn = Some 3600, tok_tokenType = None\<rparr>)"]
  by (simp add: toStored_def)

text \<open>
  C4. The state and the stored copy implement one token cell: every action does to the tokens in
  the store, and to the tokens in \<open>localStorage\<close>, what the cell says. No path changes one and
  forgets the other.
\<close>

theorem session_refines_cell:
  "state_cell (fst (auth_reducer t a s)) = cell_step a (state_cell (fst s)) \<and>
   (st_blocked (snd s) \<or>
      stored_cell (snd (auth_reducer t a s)) = cell_step a (stored_cell (snd s)))"
  using state_cell_step stored_cell_step by blast

text \<open>
  C7. A reload keeps the session: from the state a page starts in, after any actions in any
  order and at any times, the state a reload would start from holds the same tokens.
\<close>

theorem reload_keeps_session:
  assumes "\<not> st_blocked st"
    and "(a, st') = fold (\<lambda>(t, x). auth_reducer t x) steps (auth_initial st, st)"
  shows "accessToken (auth_initial st') = accessToken a \<and>
    refreshToken (auth_initial st') = refreshToken a"
proof -
  have "storage_sync (a, st')"
    unfolding assms(2) by (rule session.run_inv[OF storage_sync_initial])
  moreover have "st_blocked (snd (fold (\<lambda>(t, x). auth_reducer t x) steps s)) = st_blocked (snd s)" for s
    by (induction steps arbitrary: s) (auto simp: st_blocked_reducer)
  then have "st_blocked st' = st_blocked st" by (metis assms(2) snd_conv)
  ultimately show ?thesis
    using assms(1) by (simp add: storage_sync_def stored_cell_def state_cell_def auth_initial_def Let_def)
qed

theorem reload_keeps_session_witness:
  "let st = \<lparr>st_blocked = False, st_items = Map.empty\<rparr>;
       steps = [(0, Login (Fulfilled (Some \<lparr>tok_accessToken = Some ''a'', tok_refreshToken = Some ''r'',
                  tok_expiresIn = None, tok_tokenType = None\<rparr>)))];
       end = fold (\<lambda>(t, x). auth_reducer t x) steps (auth_initial st, st)
   in accessToken (auth_initial (snd end)) = accessToken (fst end) \<and>
      accessToken (fst end) = Some ''a''"
  using reload_keeps_session[of "\<lparr>st_blocked = False, st_items = Map.empty\<rparr>" _ _
      "[(0, Login (Fulfilled (Some \<lparr>tok_accessToken = Some ''a'', tok_refreshToken = Some ''r'',
                  tok_expiresIn = None, tok_tokenType = None\<rparr>)))]"]
  by (simp add: Let_def with_session_def toStored_def)

text \<open>
  The display name: a seller's store name, else a customer's first and last name with the
  missing part left out, else the account's email address; it is empty only when there is no
  email either.
\<close>

theorem selectDisplayName_cases:
  assumes "auth_profile a = Some p" and "auth_user a = Some u" and "usr_email u = Some e"
  shows "selectDisplayName a =
    (case (prof_storeName p, prof_firstName p) of
       (Val (c # n), _) \<Rightarrow> c # n
     | (_, Absent) \<Rightarrow> e
     | (_, first) \<Rightarrow>
         (case (truthy (get_prop first), truthy (get_prop (prof_lastName p))) of
            (True, True) \<Rightarrow> the (get_prop first) @ '' '' @ the (get_prop (prof_lastName p))
          | (True, False) \<Rightarrow> the (get_prop first)
          | (False, True) \<Rightarrow> the (get_prop (prof_lastName p))
          | (False, False) \<Rightarrow> e))"
  using assms
  by (auto simp: selectDisplayName_def js_simps full_name_def split: option.splits jsprop.splits list.splits)

theorem selectDisplayName_cases_witness:
  "selectDisplayName ((auth_initial \<lparr>st_blocked = True, st_items = Map.empty\<rparr>)
     \<lparr>auth_profile := Some (as_profile (JObj [(''firstName'', JStr ''Ada''), (''lastName'', JStr [])])),
      auth_user := Some (as_user (JObj [(''email'', JStr ''ada@example.com'')]))\<rparr>) = ''Ada''"
  using selectDisplayName_cases[of "(auth_initial \<lparr>st_blocked = True, st_items = Map.empty\<rparr>)
     \<lparr>auth_profile := Some (as_profile (JObj [(''firstName'', JStr ''Ada''), (''lastName'', JStr [])])),
      auth_user := Some (as_user (JObj [(''email'', JStr ''ada@example.com'')]))\<rparr>"
     "as_profile (JObj [(''firstName'', JStr ''Ada''), (''lastName'', JStr [])])"
     "as_user (JObj [(''email'', JStr ''ada@example.com'')])" "''ada@example.com''"]
  by (simp add: as_profile_def as_user_def str_field_def prop_field_def)

text \<open>
  The calls that open a session keep to the contract: signing in, registering (with the sign-in
  that follows) and loading the account with its profile only ask for what the auth, customer
  and seller services publish.
\<close>

lemma auth_thunks_conform:
  "list_all (conforms (BASE cl))
    (requests_of (\<lambda>c. login c credentials) cl w @
     requests_of (\<lambda>c. register c (login c) f) cl w @
     requests_of (\<lambda>c. loadSession c auth_of) cl w)"
  using login_log_conforms[of cl "([], w)"] register_log_conforms[of cl "([], w)"]
    loadSession_log_conforms[of cl "([], w)"]
  by (simp add: requests_of_def)

text \<open>
  Signing out sends what the contract does not declare: its one request carries a JSON body,
  and the operation takes none.
\<close>

theorem logout_body_undeclared:
  "\<exists>q. requests_of (\<lambda>c. logout c auth_of) cl w = [q] \<and> \<not> conforms (BASE cl) q \<and>
     wire_body q = WireText (stringify (logout_json (refreshToken (auth_of ([], w)))))"
proof -
  let ?o = "default_options\<lparr>opt_method := POST,
    opt_body := Json (logout_json (refreshToken (auth_of ([], w)))),
    opt_token := accessToken (auth_of ([], w)), skipAuthRetry := True\<rparr>"
  have "requests_of (\<lambda>c. logout c auth_of) cl w =
      [send cl ''/api/auth/logout'' ?o (accessToken (auth_of ([], w)))]"
    using api_logged[of cl "''/api/auth/logout''" ?o "[]" w]
    by (auto simp: requests_of_def logout_def split: prod.splits)
  moreover have "operations_for POST (segments ''/api/auth/logout'') = [op_auth_logout]"
    by (simp add: operations_for_def all_paths_def contract_auth contract_customer contract_seller
        contract_request contract_offer contract_admin contract_notification segments_def)
  ultimately show ?thesis
    by (simp add: conforms_def send_body_def op_auth_logout_def)
qed

end
