(* ===== verification/RequestsSlice.thy ===== *)
theory RequestsSlice
  imports AuthSlice Url
begin

text \<open>
  Purchase requests, \<open>frontend/src/store/requestsSlice.ts\<close>: the eight thunks and the reducer.
  \<open>tok\<close> is \<open>tokenOf(getState())\<close>, read off the world when the thunk runs.
\<close>

section \<open>State\<close>

record requests_state =
  rq_browse :: "purchase_request list"
  rq_mine :: "purchase_request list"
  rq_current :: "purchase_request option"
  rq_similar :: "purchase_request list"
  rq_loading :: bool
  rq_error :: "string option"

definition requests_initial :: requests_state where
  "requests_initial =
     \<lparr>rq_browse = [], rq_mine = [], rq_current = None, rq_similar = [], rq_loading = False,
      rq_error = None\<rparr>"

text \<open>The \<open>existing\<close> of a refused create: only an \<open>ApiError\<close> whose body is an object has one.\<close>

definition existing_field :: "(json \<Rightarrow> 'a) \<Rightarrow> json \<Rightarrow> 'a option" where
  "existing_field f body =
     (case field body ''existing'' of None \<Rightarrow> None | Some JNull \<Rightarrow> None | Some j \<Rightarrow> Some (f j))"

fun existingIn :: "js_error \<Rightarrow> purchase_request option" where
  "existingIn (ApiError s m body) = existing_field as_request body"
| "existingIn (OtherError e) = None"

section \<open>Thunks\<close>

record request_filters =
  flt_q :: "string option"
  flt_category :: "string option"
  flt_status :: "string option"

definition no_filters :: request_filters where
  "no_filters = \<lparr>flt_q = None, flt_category = None, flt_status = None\<rparr>"

text \<open>\<open>if (v) params.set(k, v)\<close>.\<close>

definition set_param :: "string \<Rightarrow> string option \<Rightarrow> (string \<times> string) list" where
  "set_param k v = (if truthy v then [(k, the v)] else [])"

definition filter_params :: "request_filters \<Rightarrow> (string \<times> string) list" where
  "filter_params f =
     set_param ''q'' (flt_q f) @ set_param ''category'' (flt_category f) @
     set_param ''status'' (flt_status f)"

definition requests_path :: "request_filters \<Rightarrow> string" where
  "requests_path f =
     (let query = params_toString (filter_params f)
      in ''/api/requests'' @ (if query = [] then [] else ''?'' @ query))"

definition fetchRequests ::
  "'w client \<Rightarrow> ('w \<Rightarrow> string option) \<Rightarrow> request_filters \<Rightarrow> 'w \<Rightarrow>
   (purchase_request list, unit) outcome \<times> 'w" where
  "fetchRequests cl tok filters w =
     throwing (api_as (as_list as_request) cl (requests_path filters)
       (default_options\<lparr>opt_token := tok w\<rparr>) w)"

definition fetchMyRequests ::
  "'w client \<Rightarrow> ('w \<Rightarrow> string option) \<Rightarrow> 'w \<Rightarrow> (purchase_request list, unit) outcome \<times> 'w" where
  "fetchMyRequests cl tok w =
     throwing (api_as (as_list as_request) cl ''/api/requests/me''
       (default_options\<lparr>opt_token := tok w\<rparr>) w)"

definition fetchRequest ::
  "'w client \<Rightarrow> ('w \<Rightarrow> string option) \<Rightarrow> string \<Rightarrow> 'w \<Rightarrow> (purchase_request, unit) outcome \<times> 'w" where
  "fetchRequest cl tok rid w =
     throwing (api_as as_request cl (''/api/requests/'' @ rid)
       (default_options\<lparr>opt_token := tok w\<rparr>) w)"

definition similar_path :: "string \<Rightarrow> string" where
  "similar_path itemName = ''/api/requests/similar?itemName='' @ encodeURIComponent itemName"

definition fetchSimilarRequests ::
  "'w client \<Rightarrow> string \<Rightarrow> 'w \<Rightarrow> (purchase_request list, unit) outcome \<times> 'w" where
  "fetchSimilarRequests cl itemName w =
     (case api_as (as_list as_request) cl (similar_path itemName) default_options w of
        (Inr rs, w') \<Rightarrow> (Return rs, w')
      | (Inl e, w') \<Rightarrow> (Return [], w'))"

definition createRequest ::
  "'w client \<Rightarrow> ('w \<Rightarrow> string option) \<Rightarrow> create_request_body \<Rightarrow> blob option \<Rightarrow> 'w \<Rightarrow>
   (purchase_request, purchase_request create_rejection) outcome \<times> 'w" where
  "createRequest cl tok b img w =
     catching
       (\<lambda>e. \<lparr>cr_message = message_or ''Could not create request'' e, cr_existing = existingIn e\<rparr>)
       (api_as as_request cl ''/api/requests''
          (default_options\<lparr>opt_method := POST,
             opt_body := Form (multipart (create_request_json b) img), opt_token := tok w\<rparr>) w)"

definition joinRequest ::
  "'w client \<Rightarrow> ('w \<Rightarrow> string option) \<Rightarrow> string \<Rightarrow> jnum \<Rightarrow> 'w \<Rightarrow>
   (purchase_request, string) outcome \<times> 'w" where
  "joinRequest cl tok rid quantity w =
     catching (message_or ''Could not join'')
       (api_as as_request cl (''/api/requests/'' @ rid @ ''/participants'')
          (default_options\<lparr>opt_method := POST, opt_body := Json (quantity_json quantity),
             opt_token := tok w\<rparr>) w)"

definition updateQuantity ::
  "'w client \<Rightarrow> ('w \<Rightarrow> string option) \<Rightarrow> string \<Rightarrow> jnum \<Rightarrow> 'w \<Rightarrow>
   (purchase_request, string) outcome \<times> 'w" where
  "updateQuantity cl tok rid quantity w =
     catching (message_or ''Could not update'')
       (api_as as_request cl (''/api/requests/'' @ rid @ ''/participants/me'')
          (default_options\<lparr>opt_method := PUT, opt_body := Json (quantity_json quantity),
             opt_token := tok w\<rparr>) w)"

definition leaveRequest ::
  "'w client \<Rightarrow> ('w \<Rightarrow> string option) \<Rightarrow> string \<Rightarrow> 'w \<Rightarrow> (string, string) outcome \<times> 'w" where
  "leaveRequest cl tok rid w =
     catching (message_or ''Could not leave'')
       (api_as (\<lambda>j. rid) cl (''/api/requests/'' @ rid @ ''/participants/me'')
          (default_options\<lparr>opt_method := DELETE, opt_token := tok w\<rparr>) w)"

section \<open>Reducer\<close>

definition same_request :: "purchase_request \<Rightarrow> purchase_request \<Rightarrow> bool" where
  "same_request u r \<longleftrightarrow> req_requestId r = req_requestId u"

fun requests_case :: "action \<Rightarrow> requests_state \<Rightarrow> requests_state" where
  "requests_case ErrorCleared s = s\<lparr>rq_error := None\<rparr>"
| "requests_case SimilarCleared s = s\<lparr>rq_similar := []\<rparr>"
| "requests_case (FetchRequests Pending) s = s\<lparr>rq_loading := True\<rparr>"
| "requests_case (FetchRequests (Fulfilled rs)) s = s\<lparr>rq_loading := False, rq_browse := rs\<rparr>"
| "requests_case (FetchMyRequests (Fulfilled rs)) s = s\<lparr>rq_mine := rs\<rparr>"
| "requests_case (FetchRequest (Fulfilled r)) s = s\<lparr>rq_current := Some r\<rparr>"
| "requests_case (FetchSimilarRequests (Fulfilled rs)) s = s\<lparr>rq_similar := rs\<rparr>"
| "requests_case (CreateRequest (Fulfilled r)) s =
     s\<lparr>rq_mine := r # rq_mine s, rq_similar := [], rq_error := None\<rparr>"
| "requests_case (CreateRequest (Rejected p)) s =
     (case Option.bind p cr_existing of
        None \<Rightarrow> s
      | Some existing \<Rightarrow> s\<lparr>rq_similar := [existing\<lparr>req_exact := Some True\<rparr>]\<rparr>)"
| "requests_case (LeaveRequest (Fulfilled rid)) s =
     s\<lparr>rq_mine := filter (\<lambda>r. req_requestId r \<noteq> Some rid) (rq_mine s)\<rparr>"
| "requests_case (JoinRequest (Fulfilled joined)) s =
     (if list_ex (same_request joined) (rq_mine s) then s
      else s\<lparr>rq_mine := joined # rq_mine s\<rparr>)"
| "requests_case _ s = s"

fun updated_request :: "action \<Rightarrow> purchase_request option" where
  "updated_request (JoinRequest (Fulfilled r)) = Some r"
| "updated_request (UpdateQuantity (Fulfilled r)) = Some r"
| "updated_request _ = None"

definition requests_match_updated :: "action \<Rightarrow> requests_state \<Rightarrow> requests_state" where
  "requests_match_updated a s =
     (case updated_request a of
        None \<Rightarrow> s
      | Some u \<Rightarrow>
          s\<lparr>rq_current := Some u,
            rq_browse := replace_by (same_request u) u (rq_browse s),
            rq_mine := replace_by (same_request u) u (rq_mine s),
            rq_error := None\<rparr>)"

definition requests_match_rejected :: "action \<Rightarrow> requests_state \<Rightarrow> requests_state" where
  "requests_match_rejected a s =
     (if rejected_in ''requests/'' a
      then s\<lparr>rq_loading := False,
             rq_error := Some (nullish (rejected_message a) ''Something went wrong'')\<rparr>
      else s)"

definition requests_reducer :: "action \<Rightarrow> requests_state \<Rightarrow> requests_state" where
  "requests_reducer a s = requests_match_rejected a (requests_match_updated a (requests_case a s))"

section \<open>Facts\<close>

interpretation request: keyed req_requestId same_request
  by unfold_locales (simp add: same_request_def)

lemma rejected_in_requests [simp]:
  "rejected_in ''requests/'' (FetchRequests p1) \<longleftrightarrow> (\<exists>r. p1 = Rejected r)"
  "rejected_in ''requests/'' (FetchMyRequests p2) \<longleftrightarrow> (\<exists>r. p2 = Rejected r)"
  "rejected_in ''requests/'' (FetchRequest p3) \<longleftrightarrow> (\<exists>r. p3 = Rejected r)"
  "rejected_in ''requests/'' (FetchSimilarRequests p4) \<longleftrightarrow> (\<exists>r. p4 = Rejected r)"
  "rejected_in ''requests/'' (CreateRequest p5) \<longleftrightarrow> (\<exists>r. p5 = Rejected r)"
  "rejected_in ''requests/'' (JoinRequest p6) \<longleftrightarrow> (\<exists>r. p6 = Rejected r)"
  "rejected_in ''requests/'' (UpdateQuantity p7) \<longleftrightarrow> (\<exists>r. p7 = Rejected r)"
  "rejected_in ''requests/'' (LeaveRequest p8) \<longleftrightarrow> (\<exists>r. p8 = Rejected r)"
  by (rule rejected_in_thunk, rule type_of.simps, simp)+

lemma rejected_in_requests_plain [simp]:
  "\<not> rejected_in ''requests/'' ErrorCleared"
  "\<not> rejected_in ''requests/'' SimilarCleared"
  by (simp_all add: rejected_in_def suffix_to_prefix)

lemmas requests_reducer_defs [reducer_simps] =
  requests_reducer_def requests_match_updated_def requests_match_rejected_def

lemma createRequest_outcome:
  "(\<exists>p. fst (createRequest cl tok b img w) = Return p) \<or>
   (\<exists>c. fst (createRequest cl tok b img w) = RejectWith c)"
  unfolding createRequest_def by (rule catching_cases)

lemma requests_frame:
  assumes "\<not> prefix ''requests/'' (type_of a)"
  shows "requests_reducer a s = s"
  using assms not_rejected_in[OF assms] by (cases a) (simp_all add: reducer_simps)

section \<open>The caller's own requests as a map\<close>

text \<open>What \<open>mine\<close> promises: a map from ids to requests, replaced by a fetch, extended by a create
  or a join, kept current by an update, and without a request after leaving it.\<close>

definition mine_map :: "requests_state \<Rightarrow> string option \<rightharpoonup> purchase_request" where
  "mine_map s = entries req_requestId (rq_mine s)"

fun mine_step ::
  "action \<Rightarrow> (string option \<rightharpoonup> purchase_request) \<Rightarrow> string option \<rightharpoonup> purchase_request" where
  "mine_step (FetchMyRequests (Fulfilled rs)) m = entries req_requestId rs"
| "mine_step (CreateRequest (Fulfilled r)) m = m(req_requestId r \<mapsto> r)"
| "mine_step (JoinRequest (Fulfilled r)) m = m(req_requestId r \<mapsto> r)"
| "mine_step (UpdateQuantity (Fulfilled r)) m =
     (if m (req_requestId r) = None then m else m(req_requestId r \<mapsto> r))"
| "mine_step (LeaveRequest (Fulfilled i)) m = m(Some i := None)"
| "mine_step _ m = m"

lemma rq_mine_rejected [simp]: "rq_mine (requests_match_rejected a s) = rq_mine s"
  by (simp add: requests_match_rejected_def)

lemma updated_request_UpdateQuantity:
  "updated_request (UpdateQuantity p) = (case p of Fulfilled r \<Rightarrow> Some r | _ \<Rightarrow> None)"
  by (cases p) simp_all

lemma mine_step_UpdateQuantity:
  "mine_step (UpdateQuantity p) m =
     (case p of Fulfilled r \<Rightarrow> if m (req_requestId r) = None then m else m(req_requestId r \<mapsto> r)
      | _ \<Rightarrow> m)"
  by (cases p) simp_all

lemma mine_map_reducer: "mine_map (requests_reducer a s) = mine_step a (mine_map s)"
  by (cases "(a, s)" rule: requests_case.cases)
     (auto simp: requests_reducer_def mine_map_def requests_match_updated_def
       request.entries_replace request.some_same_entries updated_request_UpdateQuantity
       mine_step_UpdateQuantity split: option.splits phase.splits)

section \<open>Conformance\<close>

lemma fetchSimilarRequests_world:
  "snd (fetchSimilarRequests cl n w) = snd (api cl (similar_path n) default_options w)"
  by (simp add: fetchSimilarRequests_def api_as_def split: prod.split sum.split)

lemma path_only_similar: "path_only (similar_path n) = ''/api/requests/similar''"
  by (simp add: similar_path_def)

lemma query_keys_similar: "query_keys (similar_path n) = [''itemName'']"
proof -
  have "CHR ''&'' \<notin> set (encodeURIComponent n)"
    using encodeURIComponent_no_separator by fastforce
  then show ?thesis by (simp add: similar_path_def split_amp_plain)
qed

lemma path_only_requests: "path_only (requests_path f) = ''/api/requests''"
  by (simp add: requests_path_def Let_def)

lemma query_keys_requests:
  "query_keys (requests_path f) = map (form_encode \<circ> fst) (filter_params f)"
  by (auto simp: requests_path_def Let_def params_toString_empty split_amp_params form_encode_no_sep takeWhile_key)

lemma set_filter_params: "fst ` set (filter_params f) \<subseteq> {''q'', ''category'', ''status''}"
  by (auto simp: filter_params_def set_param_def)

lemma form_encode_keys:
  "form_encode ''q'' = ''q''" "form_encode ''category'' = ''category''" "form_encode ''status'' = ''status''"
  by (simp_all add: form_encode_def form_safe_def is_alnum_def)

lemma requests_query_declared:
  "list_all (\<lambda>k. k \<in> {''q'', ''category'', ''status'', ''limit'', ''offset''}) (query_keys (requests_path f))"
  using set_filter_params[of f] by (auto simp: query_keys_requests list_all_iff form_encode_keys)

lemma requests_calls_conform:
  assumes "plain_id i"
  shows "call_conforms paths_request GET (requests_path f) NoBody"
    "call_conforms paths_request GET ''/api/requests/me'' NoBody"
    "call_conforms paths_request GET (''/api/requests/'' @ i) NoBody"
    "call_conforms paths_request GET (similar_path n) NoBody"
    "call_conforms paths_request POST ''/api/requests'' (Form d)"
    "call_conforms paths_request POST (''/api/requests/'' @ i @ ''/participants'') (Json j)"
    "call_conforms paths_request PUT (''/api/requests/'' @ i @ ''/participants/me'') (Json j)"
    "call_conforms paths_request DELETE (''/api/requests/'' @ i @ ''/participants/me'') NoBody"
  using assms  requests_query_declared[of f]
  by (simp_all add: call_simps contract_request path_only_requests path_only_similar
      query_keys_similar)

section \<open>Properties of requests\<close>

text \<open>
  C10. \<open>mine\<close> implements a map from request ids to requests: each action does to the list what it
  should do to the map. A request joined from anywhere is there afterwards, in its new state and
  once; a request left is gone; every other entry stays.
\<close>

theorem requests_mine_refines: "mine_map (requests_reducer a s) = mine_step a (mine_map s)"
  by (rule mine_map_reducer)

text \<open>
  C20. Joining and changing the quantity keep three of the four places that hold requests in step:
  afterwards the open request is the server's answer, and every copy of it in the browsed list and
  among the caller's own is that answer; no browsed request appears, disappears or moves. The
  suggestions are the fourth, and keep the copy they had.
\<close>

theorem requests_copies_agree:
  assumes "updated_request a = Some u"
  shows "rq_current (requests_reducer a s) = Some u \<and>
    (\<forall>r \<in> set (rq_browse (requests_reducer a s)) \<union> set (rq_mine (requests_reducer a s)).
       req_requestId r = req_requestId u \<longrightarrow> r = u) \<and>
    map req_requestId (rq_browse (requests_reducer a s)) = map req_requestId (rq_browse s) \<and>
    rq_similar (requests_reducer a s) = rq_similar s \<and>
    rq_error (requests_reducer a s) = None"
  using assms
  by (cases a rule: updated_request.cases)
     (auto simp: reducer_simps request.keys_replace dest: request.copies_agree)

text \<open>A request held everywhere, with two units asked for, and the answer to joining it with one.\<close>

definition two_asked :: purchase_request where
  "two_asked = (as_request JNull)\<lparr>req_requestId := Some ''r1'', req_totalQuantity := Some 2\<rparr>"

definition held_everywhere :: requests_state where
  "held_everywhere =
     requests_initial\<lparr>rq_current := Some two_asked, rq_browse := [two_asked], rq_mine := [two_asked],
       rq_similar := [two_asked]\<rparr>"

theorem requests_copies_agree_witness:
  "let s = requests_reducer (JoinRequest (Fulfilled (two_asked\<lparr>req_totalQuantity := Some 3\<rparr>))) held_everywhere
   in rq_browse s \<noteq> [] \<and> rq_mine s \<noteq> [] \<and>
      (\<forall>r \<in> set (rq_browse s) \<union> set (rq_mine s).
         req_requestId r = Some ''r1'' \<longrightarrow> r = two_asked\<lparr>req_totalQuantity := Some 3\<rparr>) \<and>
      rq_similar s = [two_asked]"
proof -
  let ?a = "JoinRequest (Fulfilled (two_asked\<lparr>req_totalQuantity := Some 3\<rparr>))"
  have "updated_request ?a = Some (two_asked\<lparr>req_totalQuantity := Some 3\<rparr>)" by simp
  note agree = requests_copies_agree[OF this, of held_everywhere]
  have "rq_browse (requests_reducer ?a held_everywhere) \<noteq> []"
    "rq_mine (requests_reducer ?a held_everywhere) \<noteq> []"
    by (simp_all add: reducer_simps held_everywhere_def replace_by_def)
  moreover have "rq_similar held_everywhere = [two_asked]" "req_requestId two_asked = Some ''r1''"
    by (simp_all add: held_everywhere_def two_asked_def)
  ultimately show ?thesis using agree by (simp add: Let_def)
qed

text \<open>
  Joining never lists a request twice and never reorders the others: the ids of the caller's
  own requests are the old ones, with the joined one in front when it was not among them.
\<close>

theorem requests_join_once:
  "map req_requestId (rq_mine (requests_reducer (JoinRequest (Fulfilled r)) s)) =
     (if req_requestId r \<in> req_requestId ` set (rq_mine s) then [] else [req_requestId r]) @
     map req_requestId (rq_mine s)"
  by (auto simp: reducer_simps request.some_same request.keys_replace)

text \<open>
  A refused create offers the request to join: when the service answers with an error object
  that has a message and the request already open for the item, the thunk rejects with both, and
  the reducer shows exactly that request, marked exact, with the service's message; the caller's
  own requests do not change.
\<close>

theorem createRequest_refused:
  assumes "fetch cl (send cl ''/api/requests''
        (default_options\<lparr>opt_method := POST, opt_body := Form (multipart (create_request_json b) img),
           opt_token := tok w\<rparr>) (tok w)) w = (Reply r, w1)"
    and "resp_status r = 409" and "body_text r = stringify (JObj kvs)" and "wf_json (JObj kvs)"
    and "field (JObj kvs) ''message'' = Some (JStr m)"
    and "field (JObj kvs) ''existing'' = Some (JObj e)"
  shows "\<exists>out. createRequest cl tok b img w = (out, w1) \<and>
    requests_reducer (CreateRequest (settled out)) s =
      s\<lparr>rq_similar := [(as_request (JObj e))\<lparr>req_exact := Some True\<rparr>], rq_loading := False,
        rq_error := Some m\<rparr>"
proof -
  have "parse r = JObj kvs"
    using json_parse_stringify_ok[OF assms(4)] assms(2,3) by (simp add: parse_def)
  then have "api_as as_request cl ''/api/requests''
      (default_options\<lparr>opt_method := POST, opt_body := Form (multipart (create_request_json b) img),
         opt_token := tok w\<rparr>) w = (Inl (ApiError 409 m (JObj kvs)), w1)"
    using assms(1,2,5)
    by (intro api_as_Inl, subst api_no_retry[where r = r and ?w1.0 = w1])
       (simp_all add: finish_not_ok ok_def error_message_def)
  then show ?thesis
    using assms(6) by (simp add: createRequest_def existing_field_def reducer_simps)
qed

theorem createRequest_refused_witness:
  "\<exists>out. createRequest (answering 409 (JObj [(''message'', JStr ''Already open''),
        (''existing'', JObj [(''requestId'', JStr ''r1'')])])) (\<lambda>w. None)
      \<lparr>crb_category = None, crb_description = None, crb_itemName = Some ''Drill'',
       crb_quantity = Some (JInt 2)\<rparr> None () = (out, ()) \<and>
    requests_reducer (CreateRequest (settled out)) requests_initial =
      requests_initial\<lparr>rq_similar := [(as_request (JObj [(''requestId'', JStr ''r1'')]))
          \<lparr>req_exact := Some True\<rparr>], rq_loading := False, rq_error := Some ''Already open''\<rparr>"
  by (rule createRequest_refused[OF answering_fetch, where
        kvs = "[(''message'', JStr ''Already open''),
          (''existing'', JObj [(''requestId'', JStr ''r1'')])]"])
     simp_all

text \<open>
  A rejection is always visible and never loses data: whatever thunk of this slice was
  rejected, the spinner stops, there is an error to show (the rejection's message, or a general
  one when the thunk threw), and the browsed list, the caller's own and the open request stay.
\<close>

theorem requests_rejected:
  assumes "rejected_in ''requests/'' a"
  shows "\<not> rq_loading (requests_reducer a s) \<and>
    rq_error (requests_reducer a s) = Some (nullish (rejected_message a) ''Something went wrong'') \<and>
    rq_browse (requests_reducer a s) = rq_browse s \<and> rq_mine (requests_reducer a s) = rq_mine s \<and>
    rq_current (requests_reducer a s) = rq_current s"
  using assms
  by (cases "(a, s)" rule: requests_case.cases)
     (auto simp: reducer_simps updated_request_UpdateQuantity split: option.splits phase.splits)

theorem requests_rejected_witness:
  "\<not> rq_loading (requests_reducer (FetchRequests (Rejected None))
       (requests_reducer (FetchRequests Pending) requests_initial))"
  using requests_rejected[of "FetchRequests (Rejected None)"
      "requests_reducer (FetchRequests Pending) requests_initial"]
  by simp

text \<open>
  Every request of this slice keeps to the contract of the request service: for any client,
  any state and any ids that can stand in a path, each of the eight thunks only asks for a path
  and method the service publishes, with the query keys, and the kind of body, it declares.
\<close>

lemma requests_thunks_conform:
  assumes "plain_id i"
  shows "list_all (conforms (BASE cl))
    (requests_of (\<lambda>c. fetchRequests c t f) cl w @
     requests_of (\<lambda>c. fetchMyRequests c t) cl w @
     requests_of (\<lambda>c. fetchRequest c t i) cl w @
     requests_of (\<lambda>c. fetchSimilarRequests c n) cl w @
     requests_of (\<lambda>c. createRequest c t b img) cl w @
     requests_of (\<lambda>c. joinRequest c t i q) cl w @
     requests_of (\<lambda>c. updateQuantity c t i q) cl w @
     requests_of (\<lambda>c. leaveRequest c t i) cl w)"
  using requests_calls_conform[OF assms]
  by (auto simp: thunk_log fetchSimilarRequests_world fetchRequests_def fetchMyRequests_def
      fetchRequest_def createRequest_def joinRequest_def updateQuantity_def leaveRequest_def
      default_options_def intro!: api_conforms[OF paths_in_contract(4)])

lemma query_pairs_requests: "query_pairs (requests_path f) = Some (filter_params f)"
  using those_params[of "filter_params f"]
  by (auto simp: requests_path_def Let_def params_toString_empty split_amp_params)

text \<open>
  C28. What is typed into the search form reaches the service as it was typed and cannot escape its
  parameter. The query string of the browse call decodes to parameters with no key twice, whose \<open>q\<close>,
  \<open>category\<close> and \<open>status\<close> are the filters given, an empty filter being left out, and nothing else;
  that of the suggestions call decodes to the name typed, whatever characters they hold. The path
  before the query is fixed.
\<close>

theorem requests_query_roundtrip:
  "(\<exists>ps. query_pairs (requests_path f) = Some ps \<and> distinct (map fst ps) \<and>
      map_of ps ''q'' = (if flt_q f = Some [] then None else flt_q f) \<and>
      map_of ps ''category'' = (if flt_category f = Some [] then None else flt_category f) \<and>
      map_of ps ''status'' = (if flt_status f = Some [] then None else flt_status f) \<and>
      fst ` set ps \<subseteq> {''q'', ''category'', ''status''}) \<and>
   path_only (requests_path f) = ''/api/requests'' \<and>
   query_pairs (similar_path n) = Some [(''itemName'', n)] \<and>
   path_only (similar_path n) = ''/api/requests/similar''"
proof -
  have "CHR ''&'' \<notin> set (encodeURIComponent n)"
    using encodeURIComponent_no_separator by fastforce
  then have "query_pairs (similar_path n) = Some [(''itemName'', n)]"
    using decode_pair_encoded[OF form_decode_encodeURIComponent, of "''itemName''" n]
    by (simp add: similar_path_def split_amp_plain form_encode_def form_safe_def is_alnum_def)
  moreover have given: "set_param k v = (case v of None \<Rightarrow> [] | Some s \<Rightarrow> if s = [] then [] else [(k, s)])" for k v
    by (simp add: set_param_def js_simps split: option.split)
  have "distinct (map fst (filter_params f)) \<and>
      map_of (filter_params f) ''q'' = (if flt_q f = Some [] then None else flt_q f) \<and>
      map_of (filter_params f) ''category'' = (if flt_category f = Some [] then None else flt_category f) \<and>
      map_of (filter_params f) ''status'' = (if flt_status f = Some [] then None else flt_status f)"
    by (auto simp: filter_params_def given split: option.split)
  ultimately show ?thesis
    using query_pairs_requests[of f] set_filter_params[of f] path_only_similar[of n] path_only_requests[of f]
    by auto
qed

end
