(* ===== verification/OffersSlice.thy ===== *)
theory OffersSlice
  imports RequestsSlice
begin

text \<open>
  Offers against a request, \<open>frontend/src/store/offersSlice.ts\<close>: the five thunks and the
  reducer.
\<close>

section \<open>State\<close>

record offers_state =
  of_mine :: "offer list"
  of_forRequest :: "offer list"
  of_loading :: bool
  of_error :: "string option"

definition offers_initial :: offers_state where
  "offers_initial = \<lparr>of_mine = [], of_forRequest = [], of_loading = False, of_error = None\<rparr>"

fun offer_existingIn :: "js_error \<Rightarrow> offer option" where
  "offer_existingIn (ApiError s m body) = existing_field as_offer body"
| "offer_existingIn (OtherError e) = None"

section \<open>Thunks\<close>

definition fetchMyOffers ::
  "'w client \<Rightarrow> ('w \<Rightarrow> string option) \<Rightarrow> 'w \<Rightarrow> (offer list, unit) outcome \<times> 'w" where
  "fetchMyOffers cl tok w =
     throwing (api_as (as_list as_offer) cl ''/api/offers/me''
       (default_options\<lparr>opt_token := tok w\<rparr>) w)"

definition fetchOffersForRequest ::
  "'w client \<Rightarrow> ('w \<Rightarrow> string option) \<Rightarrow> string \<Rightarrow> 'w \<Rightarrow> (offer list, unit) outcome \<times> 'w" where
  "fetchOffersForRequest cl tok requestId w =
     throwing (api_as (as_list as_offer) cl (''/api/offers/request/'' @ requestId)
       (default_options\<lparr>opt_token := tok w\<rparr>) w)"

definition createOffer ::
  "'w client \<Rightarrow> ('w \<Rightarrow> string option) \<Rightarrow> offer_create \<Rightarrow> blob option \<Rightarrow> 'w \<Rightarrow>
   (offer, offer create_rejection) outcome \<times> 'w" where
  "createOffer cl tok b img w =
     catching
       (\<lambda>e. \<lparr>cr_message = message_or ''Could not submit offer'' e,
             cr_existing = offer_existingIn e\<rparr>)
       (api_as as_offer cl ''/api/offers''
          (default_options\<lparr>opt_method := POST,
             opt_body := Form (multipart (offer_create_json b) img), opt_token := tok w\<rparr>) w)"

definition updateOffer ::
  "'w client \<Rightarrow> ('w \<Rightarrow> string option) \<Rightarrow> string \<Rightarrow> offer_update \<Rightarrow> blob option \<Rightarrow> 'w \<Rightarrow>
   (offer, string) outcome \<times> 'w" where
  "updateOffer cl tok offerId b img w =
     catching (message_or ''Could not update offer'')
       (api_as as_offer cl (''/api/offers/'' @ offerId)
          (default_options\<lparr>opt_method := PUT,
             opt_body := Form (multipart (offer_update_json b) img), opt_token := tok w\<rparr>) w)"

definition cancelOffer ::
  "'w client \<Rightarrow> ('w \<Rightarrow> string option) \<Rightarrow> string \<Rightarrow> 'w \<Rightarrow> (string, string) outcome \<times> 'w" where
  "cancelOffer cl tok offerId w =
     catching (message_or ''Could not cancel offer'')
       (api_as (\<lambda>j. offerId) cl (''/api/offers/'' @ offerId)
          (default_options\<lparr>opt_method := DELETE, opt_token := tok w\<rparr>) w)"

section \<open>Reducer\<close>

definition same_offer :: "offer \<Rightarrow> offer \<Rightarrow> bool" where
  "same_offer u f \<longleftrightarrow> off_offerId f = off_offerId u"

fun offers_case :: "action \<Rightarrow> offers_state \<Rightarrow> offers_state" where
  "offers_case (FetchMyOffers Pending) s = s\<lparr>of_loading := True\<rparr>"
| "offers_case (FetchMyOffers (Fulfilled fs)) s = s\<lparr>of_loading := False, of_mine := fs\<rparr>"
| "offers_case (FetchOffersForRequest (Fulfilled fs)) s = s\<lparr>of_forRequest := fs\<rparr>"
| "offers_case (CreateOffer (Fulfilled f)) s = s\<lparr>of_mine := f # of_mine s, of_error := None\<rparr>"
| "offers_case (UpdateOffer (Fulfilled u)) s =
     s\<lparr>of_mine := replace_by (same_offer u) u (of_mine s),
       of_forRequest := replace_by (same_offer u) u (of_forRequest s),
       of_error := None\<rparr>"
| "offers_case (CancelOffer (Fulfilled offerId)) s =
     s\<lparr>of_mine := filter (\<lambda>f. off_offerId f \<noteq> offerId) (of_mine s),
       of_forRequest := filter (\<lambda>f. off_offerId f \<noteq> offerId) (of_forRequest s),
       of_error := None\<rparr>"
| "offers_case _ s = s"

definition offers_match_rejected :: "action \<Rightarrow> offers_state \<Rightarrow> offers_state" where
  "offers_match_rejected a s =
     (if rejected_in ''offers/'' a
      then s\<lparr>of_loading := False,
             of_error := Some (nullish (rejected_message a) ''Something went wrong'')\<rparr>
      else s)"

definition offers_reducer :: "action \<Rightarrow> offers_state \<Rightarrow> offers_state" where
  "offers_reducer a s = offers_match_rejected a (offers_case a s)"

section \<open>Facts\<close>

interpretation offer: keyed off_offerId same_offer
  by unfold_locales (simp add: same_offer_def)

lemma rejected_in_offers [simp]:
  "rejected_in ''offers/'' (FetchMyOffers p1) \<longleftrightarrow> (\<exists>r. p1 = Rejected r)"
  "rejected_in ''offers/'' (FetchOffersForRequest p2) \<longleftrightarrow> (\<exists>r. p2 = Rejected r)"
  "rejected_in ''offers/'' (CreateOffer p3) \<longleftrightarrow> (\<exists>r. p3 = Rejected r)"
  "rejected_in ''offers/'' (UpdateOffer p4) \<longleftrightarrow> (\<exists>r. p4 = Rejected r)"
  "rejected_in ''offers/'' (CancelOffer p5) \<longleftrightarrow> (\<exists>r. p5 = Rejected r)"
  by (rule rejected_in_thunk, rule type_of.simps, simp)+

lemmas offers_reducer_defs [reducer_simps] = offers_reducer_def offers_match_rejected_def

lemma offers_frame:
  assumes "\<not> prefix ''offers/'' (type_of a)"
  shows "offers_reducer a s = s"
  using assms not_rejected_in[OF assms] by (cases a) (simp_all add: reducer_simps)

lemma offers_lists_rejected [simp]:
  "of_mine (offers_match_rejected a s) = of_mine s"
  "of_forRequest (offers_match_rejected a s) = of_forRequest s"
  by (simp_all add: offers_match_rejected_def)

section \<open>The two lists as maps\<close>

text \<open>The seller's own offers and the offers on the open request, as maps from offer ids. An update
  changes an offer where it is held and adds it nowhere; a cancelled offer is in neither.\<close>

type_synonym offer_map = "string \<rightharpoonup> offer"

definition offers_maps :: "offers_state \<Rightarrow> offer_map \<times> offer_map" where
  "offers_maps s = (entries off_offerId (of_mine s), entries off_offerId (of_forRequest s))"

definition refresh_entry :: "offer \<Rightarrow> offer_map \<Rightarrow> offer_map" where
  "refresh_entry u m = (if m (off_offerId u) = None then m else m(off_offerId u \<mapsto> u))"

fun offers_step :: "action \<Rightarrow> offer_map \<times> offer_map \<Rightarrow> offer_map \<times> offer_map" where
  "offers_step (FetchMyOffers (Fulfilled fs)) (m, r) = (entries off_offerId fs, r)"
| "offers_step (FetchOffersForRequest (Fulfilled fs)) (m, r) = (m, entries off_offerId fs)"
| "offers_step (CreateOffer (Fulfilled f)) (m, r) = (m(off_offerId f \<mapsto> f), r)"
| "offers_step (UpdateOffer (Fulfilled u)) (m, r) = (refresh_entry u m, refresh_entry u r)"
| "offers_step (CancelOffer (Fulfilled i)) (m, r) = (m(i := None), r(i := None))"
| "offers_step _ p = p"

section \<open>Conformance\<close>

lemma offers_calls_conform:
  assumes "plain_id i"
  shows "call_conforms paths_offer GET ''/api/offers/me'' NoBody"
    "call_conforms paths_offer GET (''/api/offers/request/'' @ i) NoBody"
    "call_conforms paths_offer POST ''/api/offers'' (Form d)"
    "call_conforms paths_offer PUT (''/api/offers/'' @ i) (Form d)"
    "call_conforms paths_offer DELETE (''/api/offers/'' @ i) NoBody"
  using assms by (simp_all add: call_simps contract_offer)

section \<open>Properties of offers\<close>

text \<open>
  C29. The two offer lists implement maps from offer ids: an update replaces the offer in both
  lists at once and adds it to neither, a cancelled offer leaves both, a new one is among the
  seller's own, and nothing else changes an entry.
\<close>

theorem offers_refine: "offers_maps (offers_reducer a s) = offers_step a (offers_maps s)"
  by (cases "(a, s)" rule: offers_case.cases)
     (auto simp: offers_reducer_def offers_maps_def refresh_entry_def offer.entries_replace)

text \<open>
  A rejected offer action stops the spinner, leaves an error to show and changes neither list.
\<close>

theorem offers_rejected:
  assumes "rejected_in ''offers/'' a"
  shows "offers_reducer a s =
    s\<lparr>of_loading := False,
      of_error := Some (nullish (rejected_message a) ''Something went wrong'')\<rparr>"
  using assms by (cases "(a, s)" rule: offers_case.cases) (auto simp: reducer_simps)

theorem offers_rejected_witness:
  "of_error (offers_reducer (CancelOffer (Rejected (Some ''Offer already approved''))) offers_initial) =
     Some ''Offer already approved''"
  using offers_rejected[of "CancelOffer (Rejected (Some ''Offer already approved''))" offers_initial]
  by simp

text \<open>
  Every request of this slice keeps to the contract of the offer service, for any client, any
  state and any ids that can stand in a path.
\<close>

lemma offers_thunks_conform:
  assumes "plain_id i"
  shows "list_all (conforms (BASE cl))
    (requests_of (\<lambda>c. fetchMyOffers c t) cl w @
     requests_of (\<lambda>c. fetchOffersForRequest c t i) cl w @
     requests_of (\<lambda>c. createOffer c t b img) cl w @
     requests_of (\<lambda>c. updateOffer c t i u img) cl w @
     requests_of (\<lambda>c. cancelOffer c t i) cl w)"
  using offers_calls_conform[OF assms]
  by (auto simp: thunk_log fetchMyOffers_def fetchOffersForRequest_def createOffer_def
      updateOffer_def cancelOffer_def default_options_def
      intro!: api_conforms[OF paths_in_contract(5)])

end
