(* ===== verification/AdminSlice.thy ===== *)
theory AdminSlice
  imports OffersSlice
begin

text \<open>
  The approval queue and the contact access a decision grants,
  \<open>frontend/src/store/adminSlice.ts\<close>: the five thunks and the reducer.
\<close>

section \<open>State\<close>

record admin_state =
  ad_pending :: "pending_offer list"
  ad_grants :: "contact_access list"
  ad_contacts :: "contact_list option"
  ad_loading :: bool
  ad_error :: "string option"

definition admin_initial :: admin_state where
  "admin_initial =
     \<lparr>ad_pending = [], ad_grants = [], ad_contacts = None, ad_loading = False, ad_error = None\<rparr>"

section \<open>Thunks\<close>

definition fetchPending ::
  "'w client \<Rightarrow> ('w \<Rightarrow> string option) \<Rightarrow> 'w \<Rightarrow> (pending_offer list, unit) outcome \<times> 'w" where
  "fetchPending cl tok w =
     throwing (api_as (as_list as_pending) cl ''/api/admin/offers/pending''
       (default_options\<lparr>opt_token := tok w\<rparr>) w)"

definition decide_path :: "string \<Rightarrow> bool \<Rightarrow> string" where
  "decide_path offerId approve =
     ''/api/admin/offers/'' @ offerId @ ''/'' @ (if approve then ''approve'' else ''reject'')"

definition decideOffer ::
  "'w client \<Rightarrow> ('w \<Rightarrow> string option) \<Rightarrow> string \<Rightarrow> bool \<Rightarrow> string \<Rightarrow> 'w \<Rightarrow>
   (string \<times> decision, string) outcome \<times> 'w" where
  "decideOffer cl tok offerId approve reason w =
     catching (message_or ''Decision failed'')
       (api_as (\<lambda>j. (offerId, as_decision j)) cl (decide_path offerId approve)
          (default_options\<lparr>opt_method := POST, opt_body := Json (decision_json reason),
             opt_token := tok w\<rparr>) w)"

definition grants_path :: "string option \<Rightarrow> string" where
  "grants_path requestId =
     ''/api/admin/contact-access'' @
     (if truthy requestId then ''?requestId='' @ the requestId else [])"

definition fetchGrants ::
  "'w client \<Rightarrow> ('w \<Rightarrow> string option) \<Rightarrow> string option \<Rightarrow> 'w \<Rightarrow>
   (contact_access list, unit) outcome \<times> 'w" where
  "fetchGrants cl tok requestId w =
     throwing (api_as (as_list as_access) cl (grants_path requestId)
       (default_options\<lparr>opt_token := tok w\<rparr>) w)"

definition revokeGrant ::
  "'w client \<Rightarrow> ('w \<Rightarrow> string option) \<Rightarrow> string \<Rightarrow> 'w \<Rightarrow> (string, string) outcome \<times> 'w" where
  "revokeGrant cl tok accessId w =
     catching (message_or ''Could not revoke'')
       (api_as (\<lambda>j. accessId) cl (''/api/admin/contact-access/'' @ accessId)
          (default_options\<lparr>opt_method := DELETE, opt_token := tok w\<rparr>) w)"

fun contacts_failure :: "js_error \<Rightarrow> string" where
  "contacts_failure (ApiError s m b) =
     (if s = 403 then ''No contact access has been granted for this request yet.''
      else ''Could not load contacts'')"
| "contacts_failure (OtherError e) = ''Could not load contacts''"

definition fetchContacts ::
  "'w client \<Rightarrow> ('w \<Rightarrow> string option) \<Rightarrow> string \<Rightarrow> 'w \<Rightarrow> (contact_list, string) outcome \<times> 'w" where
  "fetchContacts cl tok requestId w =
     catching contacts_failure
       (api_as as_contacts cl (''/api/contacts/requests/'' @ requestId)
          (default_options\<lparr>opt_token := tok w\<rparr>) w)"

section \<open>Reducer\<close>

fun admin_case :: "action \<Rightarrow> admin_state \<Rightarrow> admin_state" where
  "admin_case ContactsCleared s = s\<lparr>ad_contacts := None, ad_error := None\<rparr>"
| "admin_case (FetchPending Pending) s = s\<lparr>ad_loading := True\<rparr>"
| "admin_case (FetchPending (Fulfilled ps)) s = s\<lparr>ad_loading := False, ad_pending := ps\<rparr>"
| "admin_case (DecideOffer (Fulfilled p)) s =
     s\<lparr>ad_pending := filter (\<lambda>q. po_offerId q \<noteq> Some (fst p)) (ad_pending s), ad_error := None\<rparr>"
| "admin_case (FetchGrants (Fulfilled gs)) s = s\<lparr>ad_grants := gs\<rparr>"
| "admin_case (RevokeGrant (Fulfilled accessId)) s =
     s\<lparr>ad_grants :=
         map (\<lambda>g. if ca_accessId g = Some accessId then g\<lparr>ca_status := Some ''REVOKED''\<rparr> else g)
           (ad_grants s)\<rparr>"
| "admin_case (FetchContacts (Fulfilled c)) s = s\<lparr>ad_contacts := Some c, ad_error := None\<rparr>"
| "admin_case _ s = s"

definition admin_match_rejected :: "action \<Rightarrow> admin_state \<Rightarrow> admin_state" where
  "admin_match_rejected a s =
     (if rejected_in ''admin/'' a
      then s\<lparr>ad_loading := False,
             ad_error := Some (nullish (rejected_message a) ''Something went wrong'')\<rparr>
      else s)"

definition admin_reducer :: "action \<Rightarrow> admin_state \<Rightarrow> admin_state" where
  "admin_reducer a s = admin_match_rejected a (admin_case a s)"

section \<open>Facts\<close>

lemma rejected_in_admin [simp]:
  "rejected_in ''admin/'' (FetchPending p1) \<longleftrightarrow> (\<exists>r. p1 = Rejected r)"
  "rejected_in ''admin/'' (DecideOffer p2) \<longleftrightarrow> (\<exists>r. p2 = Rejected r)"
  "rejected_in ''admin/'' (FetchGrants p3) \<longleftrightarrow> (\<exists>r. p3 = Rejected r)"
  "rejected_in ''admin/'' (RevokeGrant p4) \<longleftrightarrow> (\<exists>r. p4 = Rejected r)"
  "rejected_in ''admin/'' (FetchContacts p5) \<longleftrightarrow> (\<exists>r. p5 = Rejected r)"
  by (rule rejected_in_thunk, rule type_of.simps, simp)+

lemma rejected_in_admin_plain [simp]: "\<not> rejected_in ''admin/'' ContactsCleared"
  by (simp add: rejected_in_def suffix_to_prefix)

lemmas admin_reducer_defs [reducer_simps] = admin_reducer_def admin_match_rejected_def

lemma admin_frame:
  assumes "\<not> prefix ''admin/'' (type_of a)"
  shows "admin_reducer a s = s"
  using assms not_rejected_in[OF assms] by (cases a) (simp_all add: reducer_simps)

lemma admin_lists_rejected [simp]:
  "ad_pending (admin_match_rejected a s) = ad_pending s"
  "ad_grants (admin_match_rejected a s) = ad_grants s"
  "ad_contacts (admin_match_rejected a s) = ad_contacts s"
  by (simp_all add: admin_match_rejected_def)

section \<open>What was fetched\<close>

text \<open>The grants as the server last sent them, each revoked since or not.\<close>

definition revoked :: "string \<Rightarrow> contact_access \<Rightarrow> contact_access" where
  "revoked i g = (if ca_accessId g = Some i then g\<lparr>ca_status := Some ''REVOKED''\<rparr> else g)"

definition active_grants :: "admin_state \<Rightarrow> contact_access list" where
  "active_grants s = filter (\<lambda>g. ca_status g \<noteq> Some ''REVOKED'') (ad_grants s)"

lemma revoke_grants:
  "ad_grants (admin_reducer (RevokeGrant (Fulfilled i)) s) = map (revoked i) (ad_grants s)"
  by (simp add: reducer_simps revoked_def)

lemma revoked_accessId [simp]: "ca_accessId (revoked i g) = ca_accessId g"
  by (simp add: revoked_def)

lemma filter_revoked:
  "filter (\<lambda>g. ca_status g \<noteq> Some ''REVOKED'') (map (revoked i) gs) =
     filter (\<lambda>g. ca_status g \<noteq> Some ''REVOKED'' \<and> ca_accessId g \<noteq> Some i) gs"
  by (induction gs) (auto simp: revoked_def)

text \<open>The last contact list fetched and not cleared since.\<close>

fun shown_contacts :: "action list \<Rightarrow> contact_list option \<Rightarrow> contact_list option" where
  "shown_contacts [] c = c"
| "shown_contacts (FetchContacts (Fulfilled c') # as) c = shown_contacts as (Some c')"
| "shown_contacts (ContactsCleared # as) c = shown_contacts as None"
| "shown_contacts (a # as) c = shown_contacts as c"

lemma contacts_step:
  "ad_contacts (admin_reducer a s) =
     (case a of FetchContacts (Fulfilled c) \<Rightarrow> Some c | ContactsCleared \<Rightarrow> None | _ \<Rightarrow> ad_contacts s)"
  by (cases "(a, s)" rule: admin_case.cases) (auto simp: admin_reducer_def split: phase.splits)

lemma shown_contacts_step:
  "shown_contacts (a # as) c =
     shown_contacts as
       (case a of FetchContacts (Fulfilled c) \<Rightarrow> Some c | ContactsCleared \<Rightarrow> None | _ \<Rightarrow> c)"
  by (cases a) (auto split: phase.splits)

lemma contacts_run: "ad_contacts (fold admin_reducer as s) = shown_contacts as (ad_contacts s)"
  by (induction as arbitrary: s) (simp_all add: contacts_step shown_contacts_step del: shown_contacts.simps(2-))

section \<open>Conformance\<close>

lemma grants_path_conforms:
  "(\<And>i. r = Some i \<Longrightarrow> CHR ''&'' \<notin> set i) \<Longrightarrow> call_conforms paths_admin GET (grants_path r) NoBody"
  by (cases r)
     (auto simp: call_simps contract_admin grants_path_def split_amp_plain)

lemma admin_calls_conform:
  assumes "plain_id i"
  shows "call_conforms paths_admin GET ''/api/admin/offers/pending'' NoBody"
    "call_conforms paths_admin POST (decide_path i approve) (Json j)"
    "call_conforms paths_admin DELETE (''/api/admin/contact-access/'' @ i) NoBody"
    "call_conforms paths_admin GET (''/api/contacts/requests/'' @ i) NoBody"
  using assms by (simp_all add: call_simps contract_admin decide_path_def)

section \<open>Properties of administration\<close>

text \<open>
  A decision takes exactly its offer off the queue: the offers that wait afterwards are those
  that waited before, in their order, without the one decided; grants and contacts stay and an
  earlier error goes.
\<close>

lemma decide_removes_only:
  "admin_reducer (DecideOffer (Fulfilled (i, d))) s =
     s\<lparr>ad_pending := [p \<leftarrow> ad_pending s. po_offerId p \<noteq> Some i], ad_error := None\<rparr> \<and>
   entries po_offerId (ad_pending (admin_reducer (DecideOffer (Fulfilled (i, d))) s)) =
     (entries po_offerId (ad_pending s))(Some i := None)"
  by (simp add: reducer_simps)

text \<open>
  Revoking keeps the record and ends the access: the grants keep their ids and their order,
  the revoked one no longer counts as active, and the active ones are otherwise the same.
\<close>

theorem revoke_keeps_records:
  "map ca_accessId (ad_grants (admin_reducer (RevokeGrant (Fulfilled i)) s)) =
     map ca_accessId (ad_grants s) \<and>
   active_grants (admin_reducer (RevokeGrant (Fulfilled i)) s) =
     [g \<leftarrow> active_grants s. ca_accessId g \<noteq> Some i]"
  by (simp add: revoke_grants active_grants_def filter_revoked conj_commute)

text \<open>
  The phone numbers on screen are those of the last successful call: after any actions in any
  order the contact list is the last one fetched since it was last cleared, and there is none
  when no call has succeeded.
\<close>

theorem contacts_only_fetched: "ad_contacts (fold admin_reducer as admin_initial) = shown_contacts as None"
  by (simp add: contacts_run admin_initial_def)

text \<open>
  Contacts are refused closed: any answer that is not a success leaves no contact list
  behind it that was not there before, and a 403 tells the seller that no access was granted.
\<close>

theorem fetchContacts_refused:
  assumes "fetch cl (send cl (''/api/contacts/requests/'' @ rid)
      (default_options\<lparr>opt_token := tok w\<rparr>) (tok w)) w = (Reply r, w1)"
    and "\<not> ok r" and "resp_status r \<noteq> 401"
  shows "\<exists>out. fetchContacts cl tok rid w = (out, w1) \<and>
    admin_reducer (FetchContacts (settled out)) s =
      s\<lparr>ad_loading := False,
        ad_error := Some (if resp_status r = 403
          then ''No contact access has been granted for this request yet.''
          else ''Could not load contacts'')\<rparr>"
proof -
  have "api_as as_contacts cl (''/api/contacts/requests/'' @ rid)
      (default_options\<lparr>opt_token := tok w\<rparr>) w =
      (Inl (ApiError (resp_status r) (error_message r (parse r)) (parse r)), w1)"
    using assms by (intro api_as_Inl, subst api_no_retry[where r = r and ?w1.0 = w1])
      (simp_all add: finish_not_ok)
  then show ?thesis by (simp add: fetchContacts_def reducer_simps)
qed

theorem fetchContacts_refused_witness:
  "\<exists>out. fetchContacts (answering 403 (JObj [])) (\<lambda>w. Some ''t'') ''r1'' () = (out, ()) \<and>
    admin_reducer (FetchContacts (settled out)) admin_initial =
      admin_initial\<lparr>ad_loading := False,
        ad_error := Some (if resp_status \<lparr>resp_status = 403, body_text = stringify (JObj [])\<rparr> = 403
          then ''No contact access has been granted for this request yet.''
          else ''Could not load contacts'')\<rparr>"
  by (rule fetchContacts_refused[OF answering_fetch]) (simp_all add: ok_def)

text \<open>
  Every request of this slice keeps to the contract of the admin service, for any client, any
  state and any ids that can stand in a path; the request id of the grants list also must hold no
  ampersand, since this call writes it into the query string as it is.
\<close>

lemma admin_thunks_conform:
  assumes "plain_id i" and "CHR ''&'' \<notin> set i"
  shows "list_all (conforms (BASE cl))
    (requests_of (\<lambda>c. fetchPending c t) cl w @
     requests_of (\<lambda>c. decideOffer c t i approve reason) cl w @
     requests_of (\<lambda>c. fetchGrants c t None) cl w @
     requests_of (\<lambda>c. fetchGrants c t (Some i)) cl w @
     requests_of (\<lambda>c. revokeGrant c t i) cl w @
     requests_of (\<lambda>c. fetchContacts c t i) cl w)"
  using admin_calls_conform[OF assms(1)] grants_path_conforms[of None] grants_path_conforms[of "Some i"] assms(2)
  by (auto simp: thunk_log fetchPending_def decideOffer_def fetchGrants_def revokeGrant_def
      fetchContacts_def default_options_def intro!: api_conforms[OF paths_in_contract(6)])

end
