(* ===== verification/NotificationsSlice.thy ===== *)
theory NotificationsSlice
  imports AdminSlice
begin

text \<open>
  The inbox, \<open>frontend/src/store/notificationsSlice.ts\<close>: the three thunks and the reducer. This
  slice has no matcher for rejections.
\<close>

section \<open>State\<close>

record notifications_state =
  nf_items :: "notification list"
  nf_unread :: int
  nf_loading :: bool

definition notifications_initial :: notifications_state where
  "notifications_initial = \<lparr>nf_items = [], nf_unread = 0, nf_loading = False\<rparr>"

section \<open>Thunks\<close>

definition fetchNotifications ::
  "'w client \<Rightarrow> ('w \<Rightarrow> string option) \<Rightarrow> 'w \<Rightarrow> (notification list, unit) outcome \<times> 'w" where
  "fetchNotifications cl tok w =
     throwing (api_as (as_list as_notification) cl ''/api/notifications/me''
       (default_options\<lparr>opt_token := tok w\<rparr>) w)"

definition fetchUnreadCount ::
  "'w client \<Rightarrow> ('w \<Rightarrow> string option) \<Rightarrow> 'w \<Rightarrow> (int option, unit) outcome \<times> 'w" where
  "fetchUnreadCount cl tok w =
     throwing (api_as as_unread cl ''/api/notifications/me/unread-count''
       (default_options\<lparr>opt_token := tok w\<rparr>) w)"

definition markRead ::
  "'w client \<Rightarrow> ('w \<Rightarrow> string option) \<Rightarrow> string \<Rightarrow> 'w \<Rightarrow> (notification, unit) outcome \<times> 'w" where
  "markRead cl tok nid w =
     throwing (api_as as_notification cl (''/api/notifications/'' @ nid @ ''/read'')
       (default_options\<lparr>opt_method := PATCH, opt_token := tok w\<rparr>) w)"

section \<open>Reducer\<close>

definition same_notification :: "notification \<Rightarrow> notification \<Rightarrow> bool" where
  "same_notification u n \<longleftrightarrow> nt_notificationId n = nt_notificationId u"

fun notifications_reducer :: "action \<Rightarrow> notifications_state \<Rightarrow> notifications_state" where
  "notifications_reducer (FetchNotifications Pending) s = s\<lparr>nf_loading := True\<rparr>"
| "notifications_reducer (FetchNotifications (Fulfilled ns)) s =
     s\<lparr>nf_loading := False, nf_items := ns\<rparr>"
| "notifications_reducer (FetchUnreadCount (Fulfilled c)) s = s\<lparr>nf_unread := nullish c 0\<rparr>"
| "notifications_reducer (MarkRead (Fulfilled u)) s =
     s\<lparr>nf_items := replace_by (same_notification u) u (nf_items s),
       nf_unread := max 0 (nf_unread s - 1)\<rparr>"
| "notifications_reducer _ s = s"

section \<open>Facts\<close>

interpretation notification: keyed nt_notificationId same_notification
  by unfold_locales (simp add: same_notification_def)

lemma notifications_frame:
  assumes "\<not> prefix ''notifications/'' (type_of a)"
  shows "notifications_reducer a s = s"
  using assms by (cases a) simp_all

definition items_map :: "notifications_state \<Rightarrow> string \<rightharpoonup> notification" where
  "items_map s = entries nt_notificationId (nf_items s)"

lemma notifications_calls_conform:
  assumes "plain_id i"
  shows "call_conforms paths_notification GET ''/api/notifications/me'' NoBody"
    "call_conforms paths_notification GET ''/api/notifications/me/unread-count'' NoBody"
    "call_conforms paths_notification PATCH (''/api/notifications/'' @ i @ ''/read'') NoBody"
  using assms by (simp_all add: call_simps contract_notification)

text \<open>The actions that change the badge, as the numbers they bring.\<close>

definition count_ok :: "action \<Rightarrow> bool" where
  "count_ok a \<longleftrightarrow> (case a of FetchUnreadCount (Fulfilled (Some n)) \<Rightarrow> 0 \<le> n | _ \<Rightarrow> True)"

definition unread_inv :: "notifications_state \<Rightarrow> bool" where
  "unread_inv s \<longleftrightarrow> 0 \<le> nf_unread s"

definition counted :: "action \<Rightarrow> notifications_state \<Rightarrow> notifications_state" where
  "counted a s = (if count_ok a then notifications_reducer a s else s)"

interpretation badge: reducer counted unread_inv
proof
  fix s a
  assume "unread_inv s"
  then show "unread_inv (counted a s)"
    by (cases "(a, s)" rule: notifications_reducer.cases)
       (auto simp: counted_def unread_inv_def count_ok_def nullish_def split: option.splits)
qed

lemma fold_counted: "list_all count_ok as \<Longrightarrow> fold counted as s = fold notifications_reducer as s"
  by (induction as arbitrary: s) (auto simp: counted_def)

section \<open>Properties of notifications\<close>

text \<open>
  The unread badge never goes negative: after any actions in any order (marking the same
  notification twice included), as long as the service never counts below zero.
\<close>

theorem unread_never_negative:
  assumes "list_all count_ok as"
  shows "0 \<le> nf_unread (fold notifications_reducer as notifications_initial)"
  using badge.run_inv[of notifications_initial as] fold_counted[OF assms]
  by (simp add: unread_inv_def notifications_initial_def)

theorem unread_never_negative_witness:
  "0 \<le> nf_unread (fold notifications_reducer
     [FetchUnreadCount (Fulfilled (Some 1)), MarkRead (Fulfilled (as_notification JNull)),
      MarkRead (Fulfilled (as_notification JNull))] notifications_initial)"
  by (rule unread_never_negative) (simp add: count_ok_def)

text \<open>
  Marking a notification read changes that notification to what the service answered and no
  other, keeps their order, and takes one off the badge while there is one to take.
\<close>

theorem markRead_updates_one:
  "items_map (notifications_reducer (MarkRead (Fulfilled n)) s) =
     (if items_map s (nt_notificationId n) = None then items_map s
      else (items_map s)(nt_notificationId n \<mapsto> n)) \<and>
   map nt_notificationId (nf_items (notifications_reducer (MarkRead (Fulfilled n)) s)) =
     map nt_notificationId (nf_items s) \<and>
   nf_unread (notifications_reducer (MarkRead (Fulfilled n)) s) =
     (if 1 \<le> nf_unread s then nf_unread s - 1 else 0)"
  by (auto simp: items_map_def notification.entries_replace notification.keys_replace)

text \<open>
  C30. A failed fetch leaves the inbox loading: this slice handles no rejection, so from the moment
  a fetch is pending nothing but a later fetch that succeeds ends the loading state.
\<close>

theorem notifications_loading_stuck:
  assumes "list_all (\<lambda>a. \<not> (\<exists>ns. a = FetchNotifications (Fulfilled ns))) as"
  shows "nf_loading (fold notifications_reducer as (notifications_reducer (FetchNotifications Pending) s))"
proof -
  have "nf_loading (notifications_reducer a u)"
    if "nf_loading u" and "\<not> (\<exists>ns. a = FetchNotifications (Fulfilled ns))" for a u
    using that by (cases "(a, u)" rule: notifications_reducer.cases) auto
  then have "nf_loading u \<Longrightarrow> nf_loading (fold notifications_reducer as u)" for u
    using assms by (induction as arbitrary: u) auto
  then show ?thesis by simp
qed

theorem notifications_loading_stuck_witness:
  "nf_loading (fold notifications_reducer [FetchNotifications (Rejected None)]
     (notifications_reducer (FetchNotifications Pending) notifications_initial))"
  by (rule notifications_loading_stuck) simp

text \<open>
  Every request of this slice keeps to the contract of the notification service.
\<close>

lemma notifications_thunks_conform:
  assumes "plain_id i"
  shows "list_all (conforms (BASE cl))
    (requests_of (\<lambda>c. fetchNotifications c t) cl w @
     requests_of (\<lambda>c. fetchUnreadCount c t) cl w @
     requests_of (\<lambda>c. markRead c t i) cl w)"
  using notifications_calls_conform[OF assms]
  by (auto simp: thunk_log fetchNotifications_def fetchUnreadCount_def markRead_def
      default_options_def intro!: api_conforms[OF paths_in_contract(7)])

end
