(* ===== verification/Store.thy ===== *)
theory Store
  imports NotificationsSlice
begin

text \<open>
  The store, \<open>frontend/src/store/index.ts\<close>, and what dispatching the session's thunks does to
  it. A world is what a running page can change: the store, the browser's storage, the clock and,
  as \<open>env\<close>, everything behind \<open>fetch\<close>.
\<close>

section \<open>The root state\<close>

record root_state =
  auth :: auth_state
  requests :: requests_state
  offers :: offers_state
  admin :: admin_state
  notifications :: notifications_state

record 'e world =
  store :: root_state
  localStorage :: storage
  now :: int
  env :: 'e

definition initial_store :: "storage \<Rightarrow> root_state" where
  "initial_store st =
     \<lparr>auth = auth_initial st, requests = requests_initial, offers = offers_initial,
      admin = admin_initial, notifications = notifications_initial\<rparr>"

text \<open>Every slice sees every action; only the session's reducer writes to storage.\<close>

definition dispatch :: "action \<Rightarrow> 'e world \<Rightarrow> 'e world" where
  "dispatch a w =
     (let s = store w;
          (au, st) = auth_reducer (now w) a (auth s, localStorage w)
      in w\<lparr>store :=
             \<lparr>auth = au, requests = requests_reducer a (requests s),
              offers = offers_reducer a (offers s), admin = admin_reducer a (admin s),
              notifications = notifications_reducer a (notifications s)\<rparr>,
           localStorage := st\<rparr>)"

fun dispatch_all :: "action list \<Rightarrow> 'e world \<Rightarrow> 'e world" where
  "dispatch_all [] w = w"
| "dispatch_all (a # as) w = dispatch_all as (dispatch a w)"

text \<open>\<open>tokenOf(getState())\<close>.\<close>

definition tokenOf :: "'e world \<Rightarrow> string option" where
  "tokenOf w = accessToken (auth (store w))"

section \<open>Running a thunk\<close>

text \<open>
  \<open>createAsyncThunk\<close> is not part of the sources: \<open>run\<close> stands for dispatching a thunk, given
  the action constructor and the payload creator. The toolkit documents what it does: the
  pending action, then the creator, then the action its outcome settles to. That last dispatch
  is outside its error handling: when a reducer throws there, the store keeps its state and the
  promise rejects with the error.
\<close>

type_synonym ('p, 'r, 'w) runner =
  "(('p, 'r) phase \<Rightarrow> action) \<Rightarrow> ('w \<Rightarrow> ('p, 'r) outcome \<times> 'w) \<Rightarrow> 'w \<Rightarrow> ('p, 'r) outcome \<times> 'w"

definition thunk_lifecycle :: "('p, 'r, 'e world) runner \<Rightarrow> bool" where
  "thunk_lifecycle run \<longleftrightarrow>
     (\<forall>act creator w.
        run act creator w =
          (let (out, w1) = creator (dispatch (act Pending) w)
           in if reducer_throws (act (settled out)) then (Crash (OtherError ''TypeError''), w1)
              else (out, dispatch (act (settled out)) w1)))"

text \<open>The instance the witnesses use.\<close>

definition plain_runner :: "('p, 'r, 'e world) runner" where
  "plain_runner act creator w =
     (let (out, w1) = creator (dispatch (act Pending) w)
      in if reducer_throws (act (settled out)) then (Crash (OtherError ''TypeError''), w1)
         else (out, dispatch (act (settled out)) w1))"

lemma thunk_lifecycle_plain_runner: "thunk_lifecycle plain_runner"
  by (simp add: thunk_lifecycle_def plain_runner_def)

text \<open>\<open>dispatch(login(credentials))\<close> and \<open>dispatch(register(form))\<close>.\<close>

definition run_login ::
  "(auth_tokens option, string, 'e world) runner \<Rightarrow> 'e world client \<Rightarrow> login_request \<Rightarrow> 'e world \<Rightarrow>
   (auth_tokens option, string) outcome \<times> 'e world" where
  "run_login run cl credentials = run Login (login cl credentials)"

definition run_register ::
  "(unit, string, 'e world) runner \<Rightarrow> (auth_tokens option, string, 'e world) runner \<Rightarrow>
   'e world client \<Rightarrow> register_form \<Rightarrow> 'e world \<Rightarrow> (unit, string) outcome \<times> 'e world" where
  "run_register run runl cl f = run Register (register cl (run_login runl cl) f)"

definition run_loadSession ::
  "(session_info, unit, 'e world) runner \<Rightarrow> 'e world client \<Rightarrow> 'e world \<Rightarrow>
   (session_info, unit) outcome \<times> 'e world" where
  "run_loadSession run cl = run LoadSession (loadSession cl (\<lambda>w. auth (store w)))"

definition run_logout ::
  "(unit, unit, 'e world) runner \<Rightarrow> 'e world client \<Rightarrow> 'e world \<Rightarrow> (unit, unit) outcome \<times> 'e world" where
  "run_logout run cl = run Logout (logout cl (\<lambda>w. auth (store w)))"

text \<open>A page just loaded, at some time, over some storage.\<close>

definition page_load :: "storage \<Rightarrow> int \<Rightarrow> 'e \<Rightarrow> 'e world" where
  "page_load st t e = \<lparr>store = initial_store st, localStorage = st, now = t, env = e\<rparr>"

definition empty_storage :: storage where
  "empty_storage = \<lparr>st_blocked = False, st_items = Map.empty\<rparr>"

section \<open>Facts\<close>

lemma dispatch_simps [simp]:
  "auth (store (dispatch a w)) = fst (auth_reducer (now w) a (auth (store w), localStorage w))"
  "localStorage (dispatch a w) = snd (auth_reducer (now w) a (auth (store w), localStorage w))"
  "requests (store (dispatch a w)) = requests_reducer a (requests (store w))"
  "offers (store (dispatch a w)) = offers_reducer a (offers (store w))"
  "admin (store (dispatch a w)) = admin_reducer a (admin (store w))"
  "notifications (store (dispatch a w)) = notifications_reducer a (notifications (store w))"
  "now (dispatch a w) = now w"
  "env (dispatch a w) = env w"
  by (simp_all add: dispatch_def Let_def split: prod.split)

lemma run_cases:
  assumes "thunk_lifecycle run" and "run act creator w = (out, w')"
  obtains (settles) w1 where "creator (dispatch (act Pending) w) = (out, w1)"
      and "\<not> reducer_throws (act (settled out))" and "w' = dispatch (act (settled out)) w1"
    | (throws) out1 where "creator (dispatch (act Pending) w) = (out1, w')"
      and "reducer_throws (act (settled out1))" and "out = Crash (OtherError ''TypeError'')"
  using assms unfolding thunk_lifecycle_def
  by (cases "creator (dispatch (act Pending) w)") (auto simp: Let_def split: if_splits)

text \<open>Only a sign-in can end in a throwing reducer.\<close>

lemma runE:
  assumes "thunk_lifecycle run" and "run act creator w = (out, w')"
    and "\<And>p. \<not> reducer_throws (act p)"
  obtains w1 where "creator (dispatch (act Pending) w) = (out, w1)"
    and "w' = dispatch (act (settled out)) w1"
  using assms by (auto elim: run_cases)

lemma readStored_writeStored_or: "st_blocked st \<or> readStored (writeStored s st) = s"
  using readStored_writeStored by blast

lemma loadSession_outcome:
  "(\<exists>s. fst (loadSession cl a w) = Return s) \<or> (\<exists>e. fst (loadSession cl a w) = Throw e)"
  by (auto simp: loadSession_def Let_def split: prod.splits sum.splits json.splits)

lemma register_Return:
  assumes "register cl dl f w = (Return (), w2)"
  shows "\<exists>v t. dl \<lparr>lr_email = rf_email f, lr_password = rf_password f\<rparr> v = (Return t, w2)"
proof -
  obtain x w1 where "api_as as_user cl (register_path (rf_role f))
      (default_options\<lparr>opt_method := POST, opt_body := Json (register_json (register_body f)),
         skipAuthRetry := True\<rparr>) w = (x, w1)"
    by fastforce
  moreover obtain o' w3 where
    "dl \<lparr>lr_email = rf_email f, lr_password = rf_password f\<rparr> w1 = (o', w3)" by fastforce
  ultimately show ?thesis
    using assms by (cases x; cases o') (auto simp: register_def)
qed

lemma auth_frame:
  assumes "\<not> prefix ''auth/'' (type_of a)"
  shows "auth_reducer t a s = s"
  using assms by (cases s; cases a) simp_all

section \<open>Properties of the store\<close>

text \<open>
  Slices do not interfere: an action changes only the slice its type names. The type strings
  are disjoint, so no thunk of one slice can move the session, the storage or another slice.
\<close>

theorem dispatch_frame:
  "(prefix ''auth/'' (type_of a) \<or>
      auth (store (dispatch a w)) = auth (store w) \<and> localStorage (dispatch a w) = localStorage w) \<and>
   (prefix ''requests/'' (type_of a) \<or> requests (store (dispatch a w)) = requests (store w)) \<and>
   (prefix ''offers/'' (type_of a) \<or> offers (store (dispatch a w)) = offers (store w)) \<and>
   (prefix ''admin/'' (type_of a) \<or> admin (store (dispatch a w)) = admin (store w)) \<and>
   (prefix ''notifications/'' (type_of a) \<or>
      notifications (store (dispatch a w)) = notifications (store w))"
  by (cases a) (simp_all add: auth_frame requests_frame offers_frame admin_frame notifications_frame)

lemma run_login_outcome:
  assumes "thunk_lifecycle run" and "run_login run cl c w = (out, w')"
  shows "case out of
      Return t \<Rightarrow>
        (\<exists>tokens. t = Some tokens \<and>
           accessToken (auth (store w')) = tok_accessToken tokens \<and>
           refreshToken (auth (store w')) = tok_refreshToken tokens \<and>
           auth_status (auth (store w')) = Authenticated \<and>
           (st_blocked (localStorage w') \<or>
              readStored (localStorage w') = Some (toStored (now w') tokens)))
    | RejectWith m \<Rightarrow>
        auth_status (auth (store w')) = Idle \<and> auth_error (auth (store w')) = Some m
    | Throw e \<Rightarrow> False
    | Crash e \<Rightarrow> login cl c (dispatch (Login Pending) w) = (Return None, w')"
  using assms unfolding run_login_def
proof (cases rule: run_cases[consumes 2, case_names settles throws])
  case (settles w1)
  then show ?thesis
    using readStored_writeStored_or login_outcome[of cl c "dispatch (Login Pending) w"]
    by (cases out) (auto simp: Let_def with_session_def toStored_def split: option.splits elim: reducer_throws.elims)
next
  case (throws out1)
  then show ?thesis
    by (cases out1) (auto elim: reducer_throws.elims)
qed

text \<open>
  C22. How a sign-in ends, whatever the network does and whatever else runs meanwhile. Either the
  session holds the tokens of the answer, in the store and in storage, and is authenticated; or it
  is idle with the reason to show; or, and only when the service accepted the sign-in with an
  answer that is empty or \<open>null\<close>, the reducer throws on the missing tokens, the dispatch rejects and the
  store and the storage are left as they were when the answer arrived.
\<close>

theorem run_login_settles:
  assumes "thunk_lifecycle run" and "run_login run cl c w = (out, w')"
  shows "case out of
      Return t \<Rightarrow>
        (\<exists>tokens. t = Some tokens \<and>
           accessToken (auth (store w')) = tok_accessToken tokens \<and>
           refreshToken (auth (store w')) = tok_refreshToken tokens \<and>
           auth_status (auth (store w')) = Authenticated \<and>
           (st_blocked (localStorage w') \<or>
              readStored (localStorage w') = Some (toStored (now w') tokens)))
    | RejectWith m \<Rightarrow>
        auth_status (auth (store w')) = Idle \<and> auth_error (auth (store w')) = Some m
    | Throw e \<Rightarrow> False
    | Crash e \<Rightarrow> login cl c (dispatch (Login Pending) w) = (Return None, w')"
  by (rule run_login_outcome[OF assms])

lemma login_refused:
  "login (answering 401 (JObj [(''message'', JStr m)])) c w = (RejectWith m, w)"
  by (simp add: login_def api_as_def api_skip answering_fetch finish_not_ok ok_def parse_answer
      error_message_def default_options_def del: stringify.simps)

theorem run_login_settles_witness:
  "\<exists>w'. run_login plain_runner (answering 401 (JObj [(''message'', JStr ''Bad credentials'')]))
       \<lparr>lr_email = ''a'', lr_password = ''b''\<rparr> (page_load empty_storage 0 ()) =
         (RejectWith ''Bad credentials'', w') \<and>
     auth_status (auth (store w')) = Idle \<and> auth_error (auth (store w')) = Some ''Bad credentials''"
proof -
  obtain w' where run: "run_login plain_runner (answering 401 (JObj [(''message'', JStr ''Bad credentials'')]))
       \<lparr>lr_email = ''a'', lr_password = ''b''\<rparr> (page_load empty_storage 0 ()) =
         (RejectWith ''Bad credentials'', w')"
    by (simp add: run_login_def plain_runner_def login_refused)
  from run_login_settles[OF thunk_lifecycle_plain_runner this] run show ?thesis by auto
qed

text \<open>
  A registration always settles: it ends authenticated with the tokens of the sign-in that
  follows it, or idle with a reason to show.
\<close>

theorem run_register_settles:
  assumes "thunk_lifecycle run" and "thunk_lifecycle runl"
    and "run_register run runl cl f w = (out, w')"
  shows "(out = Return () \<and> auth_status (auth (store w')) = Authenticated) \<or>
    (\<exists>m. out = RejectWith m \<and> auth_status (auth (store w')) = Idle \<and>
       auth_error (auth (store w')) = Some m)"
proof -
  from assms(1,3) obtain w1 where
    creator: "register cl (run_login runl cl) f (dispatch (Register Pending) w) = (out, w1)"
    and w': "w' = dispatch (Register (settled out)) w1"
    unfolding run_register_def by (rule runE) simp
  show ?thesis
  proof (cases "out = Return ()")
    case True
    with creator have "register cl (run_login runl cl) f (dispatch (Register Pending) w) = (Return (), w1)"
      by simp
    from register_Return[OF this] obtain v c t where "run_login runl cl c v = (Return t, w1)"
      by blast
    from run_login_outcome[OF assms(2) this] True show ?thesis by (auto simp: w')
  next
    case False
    with creator register_outcome[of cl "run_login runl cl" f "dispatch (Register Pending) w"]
    show ?thesis by (auto simp: w')
  qed
qed

theorem run_register_settles_witness:
  "\<exists>out w'. run_register plain_runner plain_runner (answering 200 (JObj []))
       \<lparr>rf_email = ''a'', rf_password = ''b'', rf_phoneNumber = ''1'', rf_role = SELLER\<rparr>
       (page_load empty_storage 0 ()) = (out, w') \<and> auth_status (auth (store w')) \<noteq> Loading"
proof -
  obtain out w' where run: "run_register plain_runner plain_runner (answering 200 (JObj []))
       \<lparr>rf_email = ''a'', rf_password = ''b'', rf_phoneNumber = ''1'', rf_role = SELLER\<rparr>
       (page_load empty_storage 0 ()) = (out, w')"
    by (rule prod.exhaust)
  have "auth_status (auth (store w')) \<noteq> Loading"
    using run_register_settles[OF thunk_lifecycle_plain_runner thunk_lifecycle_plain_runner run]
    by auto
  with run show ?thesis by blast
qed

text \<open>
  C24. Signing out always ends the session: whatever the service answers, and when it cannot be
  reached at all, the tokens, the account, the profile and the expiry are gone from the store,
  and storage holds no session.
\<close>

theorem run_logout_clears:
  assumes "thunk_lifecycle run" and "run_logout run cl w = (out, w')"
  shows "out = Return () \<and>
    accessToken (auth (store w')) = None \<and> refreshToken (auth (store w')) = None \<and>
    expiresAt (auth (store w')) = None \<and> auth_user (auth (store w')) = None \<and>
    auth_profile (auth (store w')) = None \<and> hasProfile (auth (store w')) = None \<and>
    auth_status (auth (store w')) = Idle \<and>
    (st_blocked (localStorage w') \<or> readStored (localStorage w') = None)"
proof -
  from assms obtain w1 where
    "logout cl (\<lambda>w. auth (store w)) (dispatch (Logout Pending) w) = (out, w1)"
    and w': "w' = dispatch (Logout (settled out)) w1"
    unfolding run_logout_def by (rule runE) simp
  then have "out = Return ()" by (auto simp: logout_def split: prod.splits)
  then show ?thesis using readStored_writeStored_or by (auto simp: w')
qed

theorem run_logout_clears_witness:
  "\<exists>w'. run_logout plain_runner (answering 500 JNull) (page_load empty_storage 0 ()) = (Return (), w') \<and>
     accessToken (auth (store w')) = None"
proof -
  obtain out w' where run:
    "run_logout plain_runner (answering 500 JNull) (page_load empty_storage 0 ()) = (out, w')"
    by (rule prod.exhaust)
  from run_logout_clears[OF thunk_lifecycle_plain_runner this] run show ?thesis
    by blast
qed

text \<open>
  C25. Ending the session does not empty the other slices: after a logout, a cleared session or a
  failed session load, the next account on the same page starts with the previous one's requests,
  offers, notifications, and the phone numbers last fetched.
\<close>

theorem session_end_keeps_slices:
  assumes "a \<in> {Logout (Fulfilled ()), SessionCleared, LoadSession (Rejected r)}"
  shows "requests (store (dispatch a w)) = requests (store w) \<and>
    offers (store (dispatch a w)) = offers (store w) \<and>
    ad_contacts (admin (store (dispatch a w))) = ad_contacts (admin (store w)) \<and>
    notifications (store (dispatch a w)) = notifications (store w)"
  using assms by (auto simp: requests_frame offers_frame admin_frame notifications_frame)

theorem session_end_keeps_slices_witness:
  "ad_contacts (admin (store (dispatch SessionCleared (dispatch
      (FetchContacts (Fulfilled (as_contacts JNull))) (page_load empty_storage 0 ()))))) =
     Some (as_contacts JNull)"
  using session_end_keeps_slices[of SessionCleared None
      "dispatch (FetchContacts (Fulfilled (as_contacts JNull))) (page_load empty_storage 0 ())"]
  by (simp add: reducer_simps)

lemma run_loadSession_outcome:
  assumes "thunk_lifecycle run" and "run_loadSession run cl w = (out, w')"
  shows "case out of
      Return s \<Rightarrow>
        auth_status (auth (store w')) = Authenticated \<and>
        auth_user (auth (store w')) = Some (si_user s) \<and>
        auth_profile (auth (store w')) = si_profile s \<and>
        hasProfile (auth (store w')) = Some (si_hasProfile s)
    | RejectWith u \<Rightarrow> False
    | Crash e \<Rightarrow> False
    | Throw e \<Rightarrow>
        auth_status (auth (store w')) = Idle \<and>
        accessToken (auth (store w')) = None \<and> refreshToken (auth (store w')) = None \<and>
        auth_user (auth (store w')) = None \<and> auth_profile (auth (store w')) = None \<and>
        (st_blocked (localStorage w') \<or> readStored (localStorage w') = None) \<and>
        (\<exists>w1. loadSession cl (\<lambda>w. auth (store w)) (dispatch (LoadSession Pending) w) = (out, w1) \<and>
           expiresAt (auth (store w')) = expiresAt (auth (store w1)) \<and>
           hasProfile (auth (store w')) = hasProfile (auth (store w1)))"
proof -
  from assms obtain w1 where
    creator: "loadSession cl (\<lambda>w. auth (store w)) (dispatch (LoadSession Pending) w) = (out, w1)"
    and w': "w' = dispatch (LoadSession (settled out)) w1"
    unfolding run_loadSession_def by (rule runE) simp
  have "(\<exists>s. out = Return s) \<or> (\<exists>e. out = Throw e)"
    using loadSession_outcome[of cl "\<lambda>w. auth (store w)" "dispatch (LoadSession Pending) w"] creator
    by simp
  then show ?thesis
    using creator readStored_writeStored_or by (auto simp: w')
qed

text \<open>
  C23. Loading the session always settles: with the account, its profile and whether there is one,
  authenticated; or, on any failure, signed out, with neither tokens nor account in the store and
  no session in storage. Of the fields a logout resets, the expiry and the profile flag are the
  two a failed load keeps.
\<close>

theorem run_loadSession_settles:
  assumes "thunk_lifecycle run" and "run_loadSession run cl w = (out, w')"
  shows "case out of
      Return s \<Rightarrow>
        auth_status (auth (store w')) = Authenticated \<and>
        auth_user (auth (store w')) = Some (si_user s) \<and>
        auth_profile (auth (store w')) = si_profile s \<and>
        hasProfile (auth (store w')) = Some (si_hasProfile s)
    | RejectWith u \<Rightarrow> False
    | Crash e \<Rightarrow> False
    | Throw e \<Rightarrow>
        auth_status (auth (store w')) = Idle \<and>
        accessToken (auth (store w')) = None \<and> refreshToken (auth (store w')) = None \<and>
        auth_user (auth (store w')) = None \<and> auth_profile (auth (store w')) = None \<and>
        (st_blocked (localStorage w') \<or> readStored (localStorage w') = None) \<and>
        (\<exists>w1. loadSession cl (\<lambda>w. auth (store w)) (dispatch (LoadSession Pending) w) = (out, w1) \<and>
           expiresAt (auth (store w')) = expiresAt (auth (store w1)) \<and>
           hasProfile (auth (store w')) = hasProfile (auth (store w1)))"
  by (rule run_loadSession_outcome[OF assms])

theorem run_loadSession_settles_witness:
  "\<exists>e w'. run_loadSession plain_runner (answering 500 JNull) (page_load empty_storage 0 ()) = (Throw e, w') \<and>
     auth_status (auth (store w')) = Idle"
proof -
  have "\<exists>e. fst (run_loadSession plain_runner (answering 500 JNull) (page_load empty_storage 0 ())) = Throw e"
    by (simp add: run_loadSession_def plain_runner_def loadSession_def api_as_def api_def answering_def
        finish_not_ok ok_def default_options_def split: prod.split)
  then obtain e w' where
    run: "run_loadSession plain_runner (answering 500 JNull) (page_load empty_storage 0 ()) = (Throw e, w')"
    by (metis prod.collapse)
  from run_loadSession_settles[OF thunk_lifecycle_plain_runner run] have "auth_status (auth (store w')) = Idle"
    by simp
  with run show ?thesis by blast
qed

text \<open>The world a call leaves is the one its last request left, unless it was refused with a 401.\<close>

lemma api_world_cases:
  assumes "api cl path opts w = (x, w')"
  shows "(\<exists>q v. w' = snd (fetch cl q v)) \<or> (\<exists>m b. x = Inl (ApiError 401 m b))"
proof -
  obtain f w1 where f: "fetch cl (send cl path opts (opt_token opts)) w = (f, w1)" by (rule prod.exhaust)
  then have w1: "\<exists>q v. w1 = snd (fetch cl q v)" by (metis snd_conv)
  show ?thesis
  proof (cases f)
    case (Reply r)
    show ?thesis
    proof (cases "if resp_status r = 401 \<and> \<not> skipAuthRetry opts then onUnauthorized cl else None")
      case (Some h)
      then have r: "resp_status r = 401" by (auto split: if_splits)
      obtain t w2 where h: "h w1 = (t, w2)" by (rule prod.exhaust)
      obtain g w3 where g: "fetch cl (send cl path opts t) w2 = (g, w3)" by (rule prod.exhaust)
      then have w3: "\<exists>q v. w3 = snd (fetch cl q v)" by (metis snd_conv)
      show ?thesis
      proof (cases "truthy t")
        case True
        with assms f Reply Some h g have "w' = w3" by (cases g) (simp_all add: api_def)
        with w3 show ?thesis by blast
      qed (use assms f Reply Some h r in \<open>auto simp: api_def finish_not_ok not_ok_401\<close>)
    qed (use assms f Reply w1 in \<open>auto simp: api_def\<close>)
  qed (use assms f w1 in \<open>auto simp: api_def\<close>)
qed

lemma loadSession_world:
  assumes "loadSession cl a w = (Return s, w')"
  shows "\<exists>q v. w' = snd (fetch cl q v)"
proof -
  let ?o = "default_options\<lparr>opt_token := accessToken (a w)\<rparr>"
  obtain x w1 where user: "api cl ''/api/users/me'' ?o w = (x, w1)" by (rule prod.exhaust)
  with assms obtain p where p: "x = Inr p" "payload_json p \<noteq> JNull"
    by (cases x) (auto simp: loadSession_def api_as_def Let_def split: json.splits)
  let ?u = "as_user (payload_json p)"
  obtain y w2 where prof: "api cl (profile_path (usr_role ?u)) ?o w1 = (y, w2)" by (rule prod.exhaust)
  have "w' = w1 \<or> w' = w2 \<and> (\<forall>m b. y \<noteq> Inl (ApiError 401 m b))"
    using assms user prof p
    by (cases y; cases "payload_json p")
       (auto simp: loadSession_def api_as_def Let_def split: if_splits)
  with api_world_cases[OF user] api_world_cases[OF prof] p show ?thesis by auto
qed

text \<open>
  C26. A session load overtaken by a logout: when the caller signs out before an answer arrives, a
  load that still succeeds, whatever the role, brings the account back, and the state ends
  authenticated, naming the user, with no token to authenticate with; only a load that fails leaves
  the caller signed out.
\<close>

theorem loadSession_overtaken:
  assumes "thunk_lifecycle run"
    and "\<forall>q v. \<exists>v'. snd (fetch cl q v) = dispatch (Logout (Fulfilled ())) v'"
    and "run_loadSession run cl w = (out, w')"
  shows "accessToken (auth (store w')) = None \<and> refreshToken (auth (store w')) = None \<and>
    (case out of
       Return s \<Rightarrow>
         auth_status (auth (store w')) = Authenticated \<and> auth_user (auth (store w')) = Some (si_user s)
     | Throw e \<Rightarrow> auth_status (auth (store w')) = Idle \<and> auth_user (auth (store w')) = None
     | _ \<Rightarrow> False)"
proof (cases "\<exists>s. out = Return s")
  case True
  then obtain s where s: "out = Return s" by blast
  from assms(1,3) obtain w1 where
    "loadSession cl (\<lambda>w. auth (store w)) (dispatch (LoadSession Pending) w) = (out, w1)"
    and w': "w' = dispatch (LoadSession (settled out)) w1"
    unfolding run_loadSession_def by (rule runE) simp
  with s obtain q v where "w1 = snd (fetch cl q v)" using loadSession_world by (metis (no_types))
  with assms(2) obtain v' where "w1 = dispatch (Logout (Fulfilled ())) v'" by metis
  then show ?thesis by (simp add: w' s)
next
  case False
  then show ?thesis using run_loadSession_outcome[OF assms(1,3)] by (cases out) auto
qed

text \<open>A network on which the caller signs out while a request is under way.\<close>

definition signing_out :: "json \<Rightarrow> 'e world client" where
  "signing_out j =
     \<lparr>BASE = [],
      fetch = (\<lambda>q w. (Reply \<lparr>resp_status = 200, body_text = stringify j\<rparr>,
                        dispatch (Logout (Fulfilled ())) w)),
      onUnauthorized = None\<rparr>"

lemma signing_out_loads:
  fixes w :: "'e world"
  assumes "usr_role (as_user (JObj kvs)) = Some CUSTOMER" and "wf_json (JObj kvs)"
  shows "\<exists>s. fst (loadSession (signing_out (JObj kvs)) a w) = Return s"
proof -
  have "api (signing_out (JObj kvs)) p (default_options\<lparr>opt_token := t\<rparr>) v =
      (Inr (PJson (JObj kvs)), dispatch (Logout (Fulfilled ())) v)" for p t and v :: "'e world"
    using assms(2)
    by (simp add: signing_out_def api_def finish_ok_json ok_def parse_answer default_options_def
        del: stringify.simps)
  with assms(1) show ?thesis by (simp add: loadSession_def api_as_def Let_def)
qed

theorem loadSession_overtaken_witness:
  "\<exists>s w'. run_loadSession plain_runner (signing_out (JObj [(''role'', JStr ''CUSTOMER'')]))
      (page_load empty_storage 0 ()) = (Return s, w') \<and>
    auth_status (auth (store w')) = Authenticated \<and>
    auth_user (auth (store w')) = Some (si_user s) \<and> accessToken (auth (store w')) = None"
proof -
  let ?cl = "signing_out (JObj [(''role'', JStr ''CUSTOMER'')]) :: unit world client"
  have "fst (run_loadSession plain_runner ?cl v) =
      fst (loadSession ?cl (\<lambda>w. auth (store w)) (dispatch (LoadSession Pending) v))" for v
    by (simp add: run_loadSession_def plain_runner_def split: prod.split)
  moreover have "usr_role (as_user (JObj [(''role'', JStr ''CUSTOMER'')])) = Some CUSTOMER"
    by (simp add: as_user_def str_field_def role_of_name_def)
  ultimately have "\<exists>s. fst (run_loadSession plain_runner ?cl (page_load empty_storage 0 ())) = Return s"
    using signing_out_loads[of "[(''role'', JStr ''CUSTOMER'')]"] by simp
  then obtain s w' where
    run: "run_loadSession plain_runner ?cl (page_load empty_storage 0 ()) = (Return s, w')"
    by (metis prod.collapse)
  have "\<forall>q v. \<exists>v'. snd (fetch ?cl q v) = dispatch (Logout (Fulfilled ())) v'"
    by (auto simp: signing_out_def)
  from loadSession_overtaken[OF thunk_lifecycle_plain_runner this run] run show ?thesis by auto
qed

end
