(* ===== verification/Refresh.thy ===== *)
theory Refresh
  imports Store
begin

text \<open>
  The 401 handler, \<open>frontend/src/auth/refresh.ts\<close>, and its installation in
  \<open>frontend/src/main.tsx\<close>: what a call does when its token is refused.
\<close>

section \<open>The 401 handler\<close>

definition refresh_options :: "string option \<Rightarrow> request_options" where
  "refresh_options rt =
     default_options\<lparr>opt_method := POST,
       opt_body := Json (JObj (opt_member ''refreshToken'' JStr rt)), skipAuthRetry := True\<rparr>"

definition installRefresh :: "'e world client \<Rightarrow> 'e world \<Rightarrow> string option \<times> 'e world" where
  "installRefresh cl w =
     (let rt = refreshToken (auth (store w))
      in if \<not> truthy rt then (None, w)
         else (case api_as (\<lambda>j. j) cl ''/api/auth/refresh'' (refresh_options rt) w of
                 (Inl e, w1) \<Rightarrow> (None, dispatch SessionCleared w1)
               | (Inr JNull, w1) \<Rightarrow> (None, dispatch SessionCleared w1)
               | (Inr j, w1) \<Rightarrow>
                   (tok_accessToken (as_tokens j), dispatch (TokensRefreshed (as_tokens j)) w1)))"

text \<open>\<open>setUnauthorizedHandler(installRefresh(store))\<close>. The handler calls the client it is installed
  in; since that call skips the retry, it is the same handler under a client without one, which
  \<open>installRefresh_handler\<close> shows.\<close>

definition main_client :: "'e world client \<Rightarrow> 'e world client" where
  "main_client cl = setUnauthorizedHandler (Some (installRefresh cl)) cl"

section \<open>Facts\<close>

text \<open>The world with a record of every request made in it, the handler's own included.\<close>

definition unrecorded :: "(http_request list \<times> 'e) world \<Rightarrow> 'e world" where
  "unrecorded w = \<lparr>store = store w, localStorage = localStorage w, now = now w, env = snd (env w)\<rparr>"

definition recorded :: "http_request list \<Rightarrow> 'e world \<Rightarrow> (http_request list \<times> 'e) world" where
  "recorded log w = \<lparr>store = store w, localStorage = localStorage w, now = now w, env = (log, env w)\<rparr>"

definition recording :: "'e world client \<Rightarrow> (http_request list \<times> 'e) world client" where
  "recording cl =
     \<lparr>BASE = BASE cl,
      fetch = (\<lambda>q w. let (r, w') = fetch cl q (unrecorded w)
                     in (r, recorded (fst (env w) @ [q]) w')),
      onUnauthorized = None\<rparr>"

lemma fetch_recording:
  "fetch (recording cl) q w =
     (fst (fetch cl q (unrecorded w)),
      recorded (fst (env w) @ [q]) (snd (fetch cl q (unrecorded w))))"
  by (simp add: recording_def split: prod.split)

lemma log_recorded [simp]: "fst (env (recorded log w)) = log"
  by (simp add: recorded_def)

lemma send_main_client [simp]: "send (main_client cl) = send cl"
  by (simp add: send_def main_client_def setUnauthorizedHandler_def fun_eq_iff)

lemma fetch_main_client [simp]: "fetch (main_client cl) = fetch cl"
  by (simp add: main_client_def setUnauthorizedHandler_def)

lemma handler_main_client [simp]: "onUnauthorized (main_client cl) = Some (installRefresh cl)"
  by (simp add: main_client_def setUnauthorizedHandler_def)

text \<open>The request of the handler.\<close>

definition refresh_request :: "'e world client \<Rightarrow> string option \<Rightarrow> http_request" where
  "refresh_request cl rt = send cl ''/api/auth/refresh'' (refresh_options rt) None"

lemma refresh_options_simps [simp]:
  "skipAuthRetry (refresh_options rt)" "opt_token (refresh_options rt) = None"
  "responseType (refresh_options rt) = JsonResponse" "opt_method (refresh_options rt) = POST"
  "opt_body (refresh_options rt) = Json (JObj (opt_member ''refreshToken'' JStr rt))"
  by (simp_all add: refresh_options_def default_options_def)

lemma refresh_call:
  "api_as (\<lambda>j. j) cl ''/api/auth/refresh'' (refresh_options rt) w =
     (case fetch cl (refresh_request cl rt) w of
        (NetworkError e, w1) \<Rightarrow> (Inl (OtherError e), w1)
      | (Reply r, w1) \<Rightarrow>
          (if ok r then Inr (parse r)
           else Inl (ApiError (resp_status r) (error_message r (parse r)) (parse r)), w1))"
  by (auto simp: api_as_def api_skip refresh_request_def finish_simps
      split: prod.split fetch_result.split)

lemma installRefresh_handler: "installRefresh (setUnauthorizedHandler h cl) = installRefresh cl"
proof
  fix w
  have "api_as (\<lambda>j. j) (setUnauthorizedHandler h cl) ''/api/auth/refresh'' (refresh_options rt) w =
      api_as (\<lambda>j. j) cl ''/api/auth/refresh'' (refresh_options rt) w" for rt
    by (simp add: refresh_call refresh_request_def setUnauthorizedHandler_def)
  then show "installRefresh (setUnauthorizedHandler h cl) w = installRefresh cl w"
    by (simp add: installRefresh_def Let_def)
qed

lemma refresh_no_token: "\<not> truthy (refreshToken (auth (store w))) \<Longrightarrow> installRefresh cl w = (None, w)"
  by (simp add: installRefresh_def)

lemma refresh_success:
  assumes "refreshToken (auth (store w)) = Some rt" and "rt \<noteq> []"
    and "fetch cl (refresh_request cl (Some rt)) w = (Reply r, w1)" and "ok r" and "parse r = JObj kvs"
  shows "installRefresh cl w =
    (tok_accessToken (as_tokens (JObj kvs)), dispatch (TokensRefreshed (as_tokens (JObj kvs))) w1)"
  using assms by (simp add: installRefresh_def refresh_call)

lemma refresh_failure:
  assumes "refreshToken (auth (store w)) = Some rt" and "rt \<noteq> []"
    and "fetch cl (refresh_request cl (Some rt)) w = (f, w1)"
    and "\<And>r. f = Reply r \<Longrightarrow> \<not> ok r"
  shows "installRefresh cl w = (None, dispatch SessionCleared w1)"
  using assms by (cases f) (simp_all add: installRefresh_def refresh_call)

lemma refresh_log:
  "fst (env (snd (installRefresh (recording cl) w))) =
     fst (env w) @
     (if truthy (refreshToken (auth (store w)))
      then [refresh_request (recording cl) (refreshToken (auth (store w)))] else [])"
  by (auto simp: installRefresh_def refresh_call fetch_recording Let_def
      split: prod.split sum.split json.split fetch_result.split)

lemma main_client_log:
  "\<exists>qs. fst (env (snd (api (main_client (recording cl)) path opts w))) = fst (env w) @ qs \<and>
     (qs = [send (recording cl) path opts (opt_token opts)] \<or>
      (\<exists>rt. truthy rt \<and> \<not> skipAuthRetry opts \<and>
         (qs = [send (recording cl) path opts (opt_token opts), refresh_request (recording cl) rt] \<or>
          (\<exists>t. t \<noteq> [] \<and>
             qs = [send (recording cl) path opts (opt_token opts), refresh_request (recording cl) rt,
                   send (recording cl) path opts (Some t)]))))"
proof -
  let ?c = "recording cl"
  obtain f w1 where f: "fetch ?c (send ?c path opts (opt_token opts)) w = (f, w1)"
    by (rule prod.exhaust)
  then have log1: "fst (env w1) = fst (env w) @ [send ?c path opts (opt_token opts)]"
    by (auto simp: fetch_recording)
  obtain t w2 where h: "installRefresh ?c w1 = (t, w2)" by (rule prod.exhaust)
  have log2: "fst (env w2) = fst (env w1) @
     (if truthy (refreshToken (auth (store w1)))
      then [refresh_request ?c (refreshToken (auth (store w1)))] else [])"
    using refresh_log[of cl w1] h by simp
  have none: "\<not> truthy (refreshToken (auth (store w1))) \<Longrightarrow> t = None"
    using refresh_no_token[of w1 ?c] h by simp
  show ?thesis
  proof (cases "\<exists>r. f = Reply r \<and> resp_status r = 401 \<and> \<not> skipAuthRetry opts")
    case False
    then show ?thesis
      using f log1 by (cases f) (auto simp: api_def)
  next
    case True
    show ?thesis
      using f True h log1 log2 none
      by (cases "truthy t"; cases "truthy (refreshToken (auth (store w1)))")
         (auto simp: api_def fetch_recording truthy_def split: fetch_result.split)
  qed
qed

section \<open>Properties of the 401 handler\<close>

text \<open>
  With the handler installed one call makes at most three requests, whatever the services
  answer, 401 included at every step: the request, the refresh when there is a token for it, and
  the request again under the token the refresh returned. Nothing loops: the handler under the
  client it is installed in is the handler under one that has none.
\<close>

theorem main_client_at_most_three:
  "installRefresh (main_client (recording cl)) = installRefresh (recording cl) \<and>
   (\<exists>qs. fst (env (snd (api (main_client (recording cl)) path opts w))) = fst (env w) @ qs \<and>
     (qs = [send (recording cl) path opts (opt_token opts)] \<or>
      (\<exists>rt. truthy rt \<and> \<not> skipAuthRetry opts \<and>
         (qs = [send (recording cl) path opts (opt_token opts), refresh_request (recording cl) rt] \<or>
          (\<exists>t. t \<noteq> [] \<and>
             qs = [send (recording cl) path opts (opt_token opts), refresh_request (recording cl) rt,
                   send (recording cl) path opts (Some t)])))))"
  using main_client_log[of cl path opts w] by (simp add: main_client_def installRefresh_handler)

text \<open>
  C8. A spent access token is replaced without the caller noticing: when a call is refused with a
  401, the session has a refresh token and the refresh answers with a new access token, the call
  returns what its second try answers, the second try carries the new token, and by then the
  store holds the new tokens and storage can give them back.
\<close>

theorem refresh_replaces_token:
  assumes "fetch cl (send cl path opts (opt_token opts)) w = (Reply r, w1)"
    and "resp_status r = 401" and "\<not> skipAuthRetry opts"
    and "refreshToken (auth (store w1)) = Some rt" and "rt \<noteq> []"
    and "fetch cl (refresh_request cl (Some rt)) w1 = (Reply r2, w2)" and "ok r2"
    and "parse r2 = JObj kvs" and "str_field (JObj kvs) ''accessToken'' = Some t" and "t \<noteq> []"
  shows "\<exists>w3. api (main_client cl) path opts w =
      (case fetch cl (send cl path opts (Some t)) w3 of
         (NetworkError e, w4) \<Rightarrow> (Inl (OtherError e), w4)
       | (Reply r3, w4) \<Rightarrow> (finish (responseType opts) r3, w4)) \<and>
    tokenOf w3 = Some t \<and>
    (st_blocked (localStorage w3) \<or>
       Option.bind (readStored (localStorage w3)) ss_accessToken = Some t)"
proof -
  let ?t = "as_tokens (JObj kvs)"
  let ?w3 = "dispatch (TokensRefreshed ?t) w2"
  have t: "tok_accessToken ?t = Some t" using assms(9) by (simp add: as_tokens_def)
  with refresh_success[OF assms(4-8)] have h: "installRefresh cl w1 = (Some t, ?w3)" by simp
  have "api (main_client cl) path opts w =
      (case fetch cl (send cl path opts (Some t)) ?w3 of
         (NetworkError e, w4) \<Rightarrow> (Inl (OtherError e), w4)
       | (Reply r3, w4) \<Rightarrow> (finish (responseType opts) r3, w4))"
    using assms(1-3,10) h by (simp add: api_def)
  moreover have "tokenOf ?w3 = Some t"
    using t by (simp add: tokenOf_def Let_def with_session_def toStored_def)
  moreover have "st_blocked (localStorage ?w3) \<or>
      Option.bind (readStored (localStorage ?w3)) ss_accessToken = Some t"
    using t readStored_writeStored_or[of "localStorage w2" "Some (toStored (now w2) ?t)"]
    by (auto simp: Let_def toStored_def)
  ultimately show ?thesis by blast
qed

text \<open>
  C18. A refresh that fails signs the caller out and reports the refusal it could not mend: when the
  service does not grant a new token, or cannot be reached, the call throws the first response's
  401 and the session is cleared, in the store and in storage.
\<close>

theorem refresh_failure_signs_out:
  assumes "fetch cl (send cl path opts (opt_token opts)) w = (Reply r, w1)"
    and "resp_status r = 401" and "\<not> skipAuthRetry opts"
    and "refreshToken (auth (store w1)) = Some rt" and "rt \<noteq> []"
    and "fetch cl (refresh_request cl (Some rt)) w1 = (f, w2)"
    and "\<And>r2. f = Reply r2 \<Longrightarrow> \<not> ok r2"
  shows "api (main_client cl) path opts w =
      (Inl (ApiError 401 (error_message r (parse r)) (parse r)), dispatch SessionCleared w2) \<and>
    tokenOf (dispatch SessionCleared w2) = None \<and>
    auth_user (auth (store (dispatch SessionCleared w2))) = None"
  using assms(1-3) refresh_failure[OF assms(4-7)] not_ok_401[OF assms(2)]
  by (simp add: api_def finish_not_ok tokenOf_def)

text \<open>
  C19. The refresh the handler sends is not the one the service accepts: the contract requires the
  refresh token in the header \<open>X-Refresh-Token\<close>, and the request, whatever the token, carries no
  such header; it puts the token into a body the operation does not take.
\<close>

theorem refresh_lacks_header:
  "header (refresh_request cl rt) ''X-Refresh-Token'' = None \<and>
   ''X-Refresh-Token'' \<in> set (required (op_header op_auth_refreshToken)) \<and>
   operations_for POST (segments ''/api/auth/refresh'') = [op_auth_refreshToken] \<and>
   \<not> conforms (BASE cl) (refresh_request cl rt)"
proof -
  have ops: "operations_for POST (segments ''/api/auth/refresh'') = [op_auth_refreshToken]"
    by (simp add: operations_for_def all_paths_def contract_auth contract_customer contract_seller
        contract_request contract_offer contract_admin contract_notification segments_def)
  have "header (refresh_request cl rt) ''X-Refresh-Token'' = None"
    unfolding refresh_request_def by (rule header_other) simp_all
  moreover have "''X-Refresh-Token'' \<in> set (required (op_header op_auth_refreshToken))"
    by (simp add: op_auth_refreshToken_def required_def)
  moreover have "\<not> conforms (BASE cl) (refresh_request cl rt)"
    using ops by (simp add: conforms_def refresh_request_def send_body_def op_auth_refreshToken_def)
  ultimately show ?thesis using ops by simp
qed

text \<open>Instances: a session with a refresh token, on a service that answers by path.\<close>

definition by_path :: "(string \<Rightarrow> string option \<Rightarrow> response) \<Rightarrow> 'w client" where
  "by_path answer =
     \<lparr>BASE = [], fetch = (\<lambda>q w. (Reply (answer (url q) (header q ''Authorization'')), w)),
      onUnauthorized = None\<rparr>"

definition signed_in :: "unit world" where
  "signed_in =
     dispatch (Login (Fulfilled (Some \<lparr>tok_accessToken = Some ''old'', tok_refreshToken = Some ''r'',
       tok_expiresIn = None, tok_tokenType = None\<rparr>))) (page_load empty_storage 0 ())"

definition granting :: "string \<Rightarrow> string option \<Rightarrow> response" where
  "granting u b =
     (if u = ''/api/auth/refresh''
      then \<lparr>resp_status = 200, body_text = stringify (JObj [(''accessToken'', JStr ''new'')])\<rparr>
      else if b = Some ''Bearer new'' then \<lparr>resp_status = 204, body_text = []\<rparr>
      else \<lparr>resp_status = 401, body_text = []\<rparr>)"

definition refusing :: "string \<Rightarrow> string option \<Rightarrow> response" where
  "refusing u b = \<lparr>resp_status = 401, body_text = []\<rparr>"

lemma signed_in_token: "refreshToken (auth (store signed_in)) = Some ''r''"
  by (simp add: signed_in_def Let_def with_session_def toStored_def)

lemma fetch_by_path:
  "fetch (by_path f) (send (by_path f) path opts b) w =
     (Reply (f path (if truthy b then Some (''Bearer '' @ the b) else None)), w)"
  by (simp add: by_path_def header_Authorization)

theorem refresh_replaces_token_witness:
  "\<exists>w3. api (main_client (by_path granting)) ''/api/offers/me''
        (default_options\<lparr>opt_token := Some ''old''\<rparr>) signed_in = (Inr (PJson JNull), w3)"
proof -
  have "\<exists>w3. api (main_client (by_path granting)) ''/api/offers/me''
        (default_options\<lparr>opt_token := Some ''old''\<rparr>) signed_in =
      (case fetch (by_path granting) (send (by_path granting) ''/api/offers/me''
          (default_options\<lparr>opt_token := Some ''old''\<rparr>) (Some ''new'')) w3 of
         (NetworkError e, w4) \<Rightarrow> (Inl (OtherError e), w4)
       | (Reply r3, w4) \<Rightarrow> (finish JsonResponse r3, w4))"
    using refresh_replaces_token[of "by_path granting" "''/api/offers/me''"
        "default_options\<lparr>opt_token := Some ''old''\<rparr>" signed_in
        "\<lparr>resp_status = 401, body_text = []\<rparr>" signed_in "''r''"
        "\<lparr>resp_status = 200, body_text = stringify (JObj [(''accessToken'', JStr ''new'')])\<rparr>" signed_in
        "[(''accessToken'', JStr ''new'')]" "''new''"]
    by (auto simp: fetch_by_path refresh_request_def granting_def signed_in_token ok_def parse_answer
        str_field_def default_options_def simp del: stringify.simps)
  then show ?thesis
    by (simp add: fetch_by_path granting_def finish_ok_json ok_def parse_def)
qed

theorem refresh_failure_signs_out_witness:
  "\<exists>m w3. api (main_client (by_path refusing)) ''/api/offers/me''
        (default_options\<lparr>opt_token := Some ''old''\<rparr>) signed_in = (Inl (ApiError 401 m JNull), w3) \<and>
     tokenOf w3 = None"
  using refresh_failure_signs_out[of "by_path refusing" "''/api/offers/me''"
      "default_options\<lparr>opt_token := Some ''old''\<rparr>" signed_in
      "\<lparr>resp_status = 401, body_text = []\<rparr>" signed_in "''r''"
      "Reply \<lparr>resp_status = 401, body_text = []\<rparr>" signed_in]
  by (auto simp: fetch_by_path refresh_request_def refusing_def signed_in_token ok_def parse_def
      default_options_def)

end
