(* ===== verification/Routing.thy ===== *)
theory Routing
  imports Refresh
begin

text \<open>
  Which page a path shows: the route table of \<open>frontend/src/App.tsx\<close>, the guard
  \<open>frontend/src/components/protected-route.tsx\<close>, the redirect of
  \<open>frontend/src/pages/ProfileSetup.tsx\<close> and the navigation of
  \<open>frontend/src/components/app-layout.tsx\<close>. The router itself is not part of the sources; the
  table is read as its documentation says: the more specific path first, fixed segments in any
  case, slashes at the end ignored. A path here is the decoded \<open>location.pathname\<close>.
\<close>

section \<open>Pages and routes\<close>

datatype page =
    LoginPage | RegisterPage | ProfilePage | BrowsePage | DetailPage string | NotificationsPage
  | MyRequestsPage | MyOffersPage | ContactsPage | QueuePage | AccessPage

text \<open>A route renders a page, behind a guard with the roles it names, or redirects.\<close>

datatype route =
    Open page
  | Protected "role list option" page
  | Redirect string

text \<open>How the router compares: a path without the slashes at its end, its letters in lower case.\<close>

definition lower :: "char \<Rightarrow> char" where
  "lower c = (let n = (of_char c :: nat) in if 65 \<le> n \<and> n \<le> 90 then char_of (n + 32) else c)"

definition strip_slashes :: "string \<Rightarrow> string" where
  "strip_slashes path = rev (dropWhile (\<lambda>c. c = CHR ''/'') (rev path))"

definition route_key :: "string \<Rightarrow> string" where
  "route_key path = map lower (strip_slashes path)"

definition detail_id :: "string \<Rightarrow> string option" where
  "detail_id path =
     (case split_slash (strip_slashes path) of
        [a, b, c] \<Rightarrow> if a = [] \<and> map lower b = ''requests'' \<and> c \<noteq> [] then Some c else None
      | _ \<Rightarrow> None)"

definition routes :: "string \<Rightarrow> route" where
  "routes path =
     (let key = route_key path
      in if key = ''/login'' then Open LoginPage
      else if key = ''/register'' then Open RegisterPage
      else if key = ''/profile'' then Protected None ProfilePage
      else if key = ''/requests'' then Open BrowsePage
      else if key = ''/notifications'' then Protected None NotificationsPage
      else if key = ''/my-requests'' then Protected (Some [CUSTOMER]) MyRequestsPage
      else if key = ''/my-offers'' then Protected (Some [SELLER]) MyOffersPage
      else if key = ''/contacts'' then Protected (Some [SELLER]) ContactsPage
      else if key = ''/admin/queue'' then Protected (Some [ADMIN]) QueuePage
      else if key = ''/admin/access'' then Protected (Some [ADMIN]) AccessPage
      else (case detail_id path of
              Some i \<Rightarrow> Open (DetailPage i)
            | None \<Rightarrow> Redirect ''/requests''))"

section \<open>The guard\<close>

text \<open>What a guarded route renders: a redirect (with the page to come back to), the spinner while
  the session loads, or its children.\<close>

datatype guard_result = NavigateTo string "string option" | LoadingSession | Children

definition ProtectedRoute :: "auth_state \<Rightarrow> string \<Rightarrow> role list option \<Rightarrow> guard_result" where
  "ProtectedRoute a pathname roles =
     (if \<not> truthy (accessToken a) then NavigateTo ''/login'' (Some pathname)
      else (case auth_user a of
              None \<Rightarrow> LoadingSession
            | Some user \<Rightarrow>
                if hasProfile a = Some False \<and> pathname \<noteq> ''/profile'' then NavigateTo ''/profile'' None
                else (case roles of
                        Some rs \<Rightarrow>
                          if \<not> (\<exists>r \<in> set rs. usr_role user = Some r) then NavigateTo ''/requests'' None
                          else Children
                      | None \<Rightarrow> Children)))"

text \<open>\<open>if (hasProfile) return <Navigate to="/requests" replace />\<close>.\<close>

definition ProfileSetup_redirect :: "auth_state \<Rightarrow> string option" where
  "ProfileSetup_redirect a = (if hasProfile a = Some True then Some ''/requests'' else None)"

section \<open>Following redirects\<close>

datatype shown = ShowPage page | ShowLoading | Bounce string

definition visit :: "auth_state \<Rightarrow> string \<Rightarrow> shown" where
  "visit a path =
     (case routes path of
        Open p \<Rightarrow> ShowPage p
      | Redirect to \<Rightarrow> Bounce to
      | Protected rs p \<Rightarrow>
          (case ProtectedRoute a path rs of
             NavigateTo to from \<Rightarrow> Bounce to
           | LoadingSession \<Rightarrow> ShowLoading
           | Children \<Rightarrow>
               (if p = ProfilePage
                then (case ProfileSetup_redirect a of
                        Some to \<Rightarrow> Bounce to
                      | None \<Rightarrow> ShowPage ProfilePage)
                else ShowPage p)))"

text \<open>Redirects one after the other; \<open>None\<close> when the fuel runs out first.\<close>

fun settle :: "nat \<Rightarrow> auth_state \<Rightarrow> string \<Rightarrow> shown option" where
  "settle 0 a path = None"
| "settle (Suc n) a path = (case visit a path of Bounce to \<Rightarrow> settle n a to | s \<Rightarrow> Some s)"

section \<open>App and the shell\<close>

text \<open>The effect of \<open>App\<close>: load the session when there is a token and no user.\<close>

definition App_effect :: "auth_state \<Rightarrow> bool" where
  "App_effect a \<longleftrightarrow> truthy (accessToken a) \<and> auth_user a = None"

record nav_item =
  nav_to :: string
  nav_label :: string

fun LINKS :: "role \<Rightarrow> nav_item list" where
  "LINKS CUSTOMER = [\<lparr>nav_to = ''/my-requests'', nav_label = ''My requests''\<rparr>]"
| "LINKS SELLER =
     [\<lparr>nav_to = ''/my-offers'', nav_label = ''My offers''\<rparr>,
      \<lparr>nav_to = ''/contacts'', nav_label = ''Contacts''\<rparr>]"
| "LINKS ADMIN =
     [\<lparr>nav_to = ''/admin/queue'', nav_label = ''Approval queue''\<rparr>,
      \<lparr>nav_to = ''/admin/access'', nav_label = ''Contact access''\<rparr>]"

definition AppLayout_links :: "auth_state \<Rightarrow> nav_item list" where
  "AppLayout_links a =
     (case auth_user a of
        None \<Rightarrow> []
      | Some user \<Rightarrow> (case usr_role user of None \<Rightarrow> [] | Some r \<Rightarrow> LINKS r))"

section \<open>Facts\<close>

text \<open>The pages behind a guard, and the roles that may see each.\<close>

fun page_roles :: "page \<Rightarrow> role list option" where
  "page_roles MyRequestsPage = Some [CUSTOMER]"
| "page_roles MyOffersPage = Some [SELLER]"
| "page_roles ContactsPage = Some [SELLER]"
| "page_roles QueuePage = Some [ADMIN]"
| "page_roles AccessPage = Some [ADMIN]"
| "page_roles _ = None"

fun guarded :: "page \<Rightarrow> bool" where
  "guarded LoginPage \<longleftrightarrow> False"
| "guarded RegisterPage \<longleftrightarrow> False"
| "guarded BrowsePage \<longleftrightarrow> False"
| "guarded (DetailPage i) \<longleftrightarrow> False"
| "guarded _ \<longleftrightarrow> True"

lemma routes_Protected:
  "routes path = Protected rs p \<Longrightarrow> guarded p \<and> rs = page_roles p \<and> (p = ProfilePage \<longleftrightarrow> route_key path = ''/profile'')"
  by (auto simp: routes_def Let_def split: if_splits option.splits)

lemma routes_Open: "routes path = Open p \<Longrightarrow> \<not> guarded p"
  by (auto simp: routes_def Let_def split: if_splits option.splits)

lemma routes_Redirect: "routes path = Redirect to \<Longrightarrow> to = ''/requests''"
  by (auto simp: routes_def Let_def split: if_splits option.splits)

lemma route_key_simps [simp]:
  "route_key ''/login'' = ''/login''"
  "route_key ''/register'' = ''/register''"
  "route_key ''/profile'' = ''/profile''"
  "route_key ''/requests'' = ''/requests''"
  "route_key ''/notifications'' = ''/notifications''"
  "route_key ''/my-requests'' = ''/my-requests''"
  "route_key ''/my-offers'' = ''/my-offers''"
  "route_key ''/contacts'' = ''/contacts''"
  "route_key ''/admin/queue'' = ''/admin/queue''"
  "route_key ''/admin/access'' = ''/admin/access''"
  by code_simp+

lemma routes_simps [simp]:
  "routes ''/login'' = Open LoginPage"
  "routes ''/register'' = Open RegisterPage"
  "routes ''/profile'' = Protected None ProfilePage"
  "routes ''/requests'' = Open BrowsePage"
  "routes ''/notifications'' = Protected None NotificationsPage"
  "routes ''/my-requests'' = Protected (Some [CUSTOMER]) MyRequestsPage"
  "routes ''/my-offers'' = Protected (Some [SELLER]) MyOffersPage"
  "routes ''/contacts'' = Protected (Some [SELLER]) ContactsPage"
  "routes ''/admin/queue'' = Protected (Some [ADMIN]) QueuePage"
  "routes ''/admin/access'' = Protected (Some [ADMIN]) AccessPage"
  by (simp_all add: routes_def)

lemma visit_open [simp]:
  "visit a ''/login'' = ShowPage LoginPage" "visit a ''/requests'' = ShowPage BrowsePage"
  by (simp_all add: visit_def)

lemma guard_Children_iff:
  "ProtectedRoute a path rs = Children \<longleftrightarrow>
     truthy (accessToken a) \<and>
     (\<exists>u. auth_user a = Some u \<and> (hasProfile a = Some False \<longrightarrow> path = ''/profile'') \<and>
        (\<forall>l. rs = Some l \<longrightarrow> (\<exists>r \<in> set l. usr_role u = Some r)))"
  by (auto simp: ProtectedRoute_def split: option.splits)

lemma guard_NavigateTo:
  "ProtectedRoute a path rs = NavigateTo to from \<Longrightarrow>
     to = ''/login'' \<or> to = ''/requests'' \<or>
     (to = ''/profile'' \<and> truthy (accessToken a) \<and> auth_user a \<noteq> None \<and> hasProfile a = Some False)"
  by (auto simp: ProtectedRoute_def split: option.splits if_splits)

lemma visit_profile_unset:
  "truthy (accessToken a) \<Longrightarrow> auth_user a \<noteq> None \<Longrightarrow> hasProfile a = Some False \<Longrightarrow>
     visit a ''/profile'' = ShowPage ProfilePage"
  by (auto simp: visit_def ProtectedRoute_def ProfileSetup_redirect_def)

lemma visit_Bounce:
  "visit a path = Bounce to \<Longrightarrow>
     to = ''/login'' \<or> to = ''/requests'' \<or>
     (to = ''/profile'' \<and> truthy (accessToken a) \<and> auth_user a \<noteq> None \<and> hasProfile a = Some False)"
  by (simp add: visit_def ProfileSetup_redirect_def
      split: route.splits guard_result.splits if_splits option.splits)
     (auto dest: routes_Redirect guard_NavigateTo)

lemma visit_twice: "visit a path = Bounce to \<Longrightarrow> \<exists>p. visit a to = ShowPage p"
  using visit_Bounce[of a path to] visit_profile_unset[of a] by auto

lemma visit_guarded:
  assumes "visit a path = ShowPage p" and "guarded p"
  shows "truthy (accessToken a) \<and>
    (\<exists>u. auth_user a = Some u \<and>
       (case page_roles p of None \<Rightarrow> True | Some rs \<Rightarrow> (\<exists>r \<in> set rs. usr_role u = Some r))) \<and>
    (p = ProfilePage \<or> hasProfile a \<noteq> Some False)"
proof (cases "routes path")
  case (Open q)
  with assms routes_Open[OF Open] show ?thesis by (simp add: visit_def)
next
  case (Redirect to)
  with assms show ?thesis by (simp add: visit_def)
next
  case (Protected rs q)
  with assms(1) have "ProtectedRoute a path rs = Children" and "q = p"
    by (auto simp: visit_def split: guard_result.splits if_splits option.splits)
  with routes_Protected[OF Protected] show ?thesis
    by (auto simp: guard_Children_iff split: option.split)
qed

section \<open>Properties of routing\<close>

text \<open>
  C14. Redirects end: from any path and in any state of the session, at most one redirect leads to a
  page or to the loading indicator, so the guards, the profile form's own redirect and the
  catch-all route can never send each other in circles.
\<close>

theorem settle_within_two: "\<exists>s. settle 2 a path = Some s \<and> (\<forall>to. s \<noteq> Bounce to)"
proof (cases "visit a path")
  case (Bounce to)
  then show ?thesis using visit_twice[OF Bounce] by (auto simp: numeral_2_eq_2)
qed (auto simp: numeral_2_eq_2)

text \<open>
  C11. No page shows what its visitor may not see: a guarded page is rendered only for a session with
  a token and a loaded account, whose role is among those the page names, and, the profile form
  itself apart, never for an account known to have no profile.
\<close>

theorem guarded_page_safe:
  assumes "visit a path = ShowPage p" and "guarded p"
  shows "truthy (accessToken a) \<and>
    (\<exists>u. auth_user a = Some u \<and>
       (case page_roles p of None \<Rightarrow> True | Some rs \<Rightarrow> (\<exists>r \<in> set rs. usr_role u = Some r))) \<and>
    (p = ProfilePage \<or> hasProfile a \<noteq> Some False)"
  using assms by (rule visit_guarded)

text \<open>
  C21. The loading indicator is never where it stops: whenever a visit shows it, the effect of
  \<open>App\<close> asks for the session, and whichever way that load settles the next visit shows something
  else.
\<close>

theorem loading_is_transient:
  assumes "visit a path = ShowLoading"
  shows "App_effect a \<and>
    visit (fst (auth_reducer t (LoadSession (Fulfilled s)) (a, st))) path \<noteq> ShowLoading \<and>
    visit (fst (auth_reducer t (LoadSession (Rejected None)) (a, st))) path \<noteq> ShowLoading"
  using assms
  by (auto simp: visit_def App_effect_def ProtectedRoute_def
      split: route.splits guard_result.splits if_splits option.splits)

text \<open>
  Every entry of the navigation leads where it says: for a signed-in account of any role whose
  profile is not missing, each link of the shell shows a guarded page at once, with no redirect.
\<close>

theorem nav_links_lead:
  assumes "truthy (accessToken a)" and "auth_user a = Some u" and "hasProfile a \<noteq> Some False"
    and "l \<in> set (AppLayout_links a)"
  shows "\<exists>p. visit a (nav_to l) = ShowPage p \<and> guarded p"
proof -
  obtain r where r: "usr_role u = Some r" "l \<in> set (LINKS r)"
    using assms(2,4) by (cases "usr_role u") (auto simp: AppLayout_links_def)
  then show ?thesis
    using assms(1-3)
    by (cases r) (auto simp: visit_def ProtectedRoute_def)
qed

text \<open>
  An account without a profile is taken to the profile form from every guarded path, and an
  account that has one is never shown the form.
\<close>

theorem profile_form_reached:
  assumes "truthy (accessToken a)" and "auth_user a = Some u"
  shows "(hasProfile a = Some False \<and> routes path = Protected rs p \<longrightarrow>
      settle 2 a path = Some (ShowPage ProfilePage)) \<and>
    (hasProfile a = Some True \<longrightarrow> settle 2 a path \<noteq> Some (ShowPage ProfilePage))"
proof
  show "hasProfile a = Some False \<and> routes path = Protected rs p \<longrightarrow>
      settle 2 a path = Some (ShowPage ProfilePage)"
  proof
    assume h: "hasProfile a = Some False \<and> routes path = Protected rs p"
    have form: "visit a ''/profile'' = ShowPage ProfilePage"
      using h assms by (intro visit_profile_unset) auto
    show "settle 2 a path = Some (ShowPage ProfilePage)"
    proof (cases "path = ''/profile''")
      case False
      with h assms have "visit a path = Bounce ''/profile''"
        by (simp add: visit_def ProtectedRoute_def)
      with form show ?thesis by (simp add: numeral_2_eq_2)
    qed (use form in \<open>simp add: numeral_2_eq_2\<close>)
  qed
  show "hasProfile a = Some True \<longrightarrow> settle 2 a path \<noteq> Some (ShowPage ProfilePage)"
  proof
    assume h: "hasProfile a = Some True"
    have "visit a q \<noteq> ShowPage ProfilePage" for q
      using h by (auto simp: visit_def ProfileSetup_redirect_def dest: routes_Open
          split: route.splits guard_result.splits if_splits option.splits)
    then show "settle 2 a path \<noteq> Some (ShowPage ProfilePage)"
      by (auto simp: numeral_2_eq_2 split: shown.splits)
  qed
qed

text \<open>A session of each kind, for concrete instances.\<close>

definition session_of :: "role \<Rightarrow> bool option \<Rightarrow> auth_state" where
  "session_of r hp =
     (auth_initial empty_storage)\<lparr>accessToken := Some ''t'',
        auth_user := Some ((as_user JNull)\<lparr>usr_role := Some r\<rparr>), hasProfile := hp\<rparr>"

lemma session_of_simps [simp]:
  "accessToken (session_of r hp) = Some ''t''"
  "auth_user (session_of r hp) = Some ((as_user JNull)\<lparr>usr_role := Some r\<rparr>)"
  "hasProfile (session_of r hp) = hp"
  by (simp_all add: session_of_def)

theorem guarded_page_safe_witness:
  "visit (session_of ADMIN (Some True)) ''/admin/queue'' = ShowPage QueuePage \<and>
   truthy (accessToken (session_of ADMIN (Some True)))"
proof -
  have v: "visit (session_of ADMIN (Some True)) ''/admin/queue'' = ShowPage QueuePage"
    by (simp add: visit_def ProtectedRoute_def)
  from guarded_page_safe[OF v] v show ?thesis by simp
qed

theorem loading_is_transient_witness:
  "App_effect ((session_of SELLER None)\<lparr>auth_user := None\<rparr>)"
proof -
  have "visit ((session_of SELLER None)\<lparr>auth_user := None\<rparr>) ''/my-offers'' = ShowLoading"
    by (simp add: visit_def ProtectedRoute_def)
  from loading_is_transient[OF this, of 0 s empty_storage for s] show ?thesis by simp
qed

theorem nav_links_lead_witness:
  "\<exists>p. visit (session_of SELLER (Some True)) ''/contacts'' = ShowPage p \<and> guarded p"
  using nav_links_lead[of "session_of SELLER (Some True)" "(as_user JNull)\<lparr>usr_role := Some SELLER\<rparr>"
      "\<lparr>nav_to = ''/contacts'', nav_label = ''Contacts''\<rparr>"]
  by (simp add: AppLayout_links_def)

theorem profile_form_reached_witness:
  "settle 2 (session_of CUSTOMER (Some False)) ''/notifications'' = Some (ShowPage ProfilePage)"
  using profile_form_reached[of "session_of CUSTOMER (Some False)"
      "(as_user JNull)\<lparr>usr_role := Some CUSTOMER\<rparr>" "''/notifications''" None NotificationsPage]
  by (simp add: routes_def)

end
