(* ===== verification/AccountPages.thy ===== *)
theory AccountPages
  imports Routing
begin

text \<open>
  The handlers of the account pages: \<open>frontend/src/pages/Login.tsx\<close>, \<open>frontend/src/pages/Register.tsx\<close>
  and \<open>frontend/src/pages/ProfileSetup.tsx\<close>, and the two small components every page uses,
  \<open>frontend/src/components/error-alert.tsx\<close> and \<open>frontend/src/components/status-badge.tsx\<close>. A
  handler takes the store's dispatch on the thunks it calls as arguments and gives the new local
  state of the component, what it does on screen, and the world it leaves.
\<close>

section \<open>What a handler does on screen\<close>

text \<open>A navigation, a toast with its description, or a thunk started and not awaited.\<close>

datatype ui =
    Navigate string
  | Toast string "string option"
  | StartFetchRequests request_filters
  | StartFetchOffers string

section \<open>Small components\<close>

text \<open>The title and the text of an \<open>ErrorAlert\<close>, when it renders.\<close>

definition ErrorAlert :: "string option \<Rightarrow> string option \<Rightarrow> bool \<Rightarrow> (string \<times> string) option" where
  "ErrorAlert children title is_error =
     (if \<not> truthy children then None
      else Some (nullish title (if is_error then ''That did not work'' else ''Heads up''), the children))"

definition STATUSES :: "string \<rightharpoonup> string" where
  "STATUSES = map_of
     [(''OPEN'', ''Open''), (''INACTIVE'', ''Dormant''), (''PENDING'', ''Pending review''),
      (''APPROVED'', ''Approved''), (''REJECTED'', ''Rejected''), (''GRANTED'', ''Granted''),
      (''REVOKED'', ''Revoked''), (''EXPIRED'', ''Expired'')]"

text \<open>The label of a badge; a status the table does not know is shown as it is.\<close>

definition StatusBadge :: "string option \<Rightarrow> string" where
  "StatusBadge status =
     (let key = nullish status ''UNKNOWN'' in nullish (STATUSES key) key)"

section \<open>Signing in\<close>

text \<open>
  What follows an awaited dispatch runs unless the dispatch itself throws, which ends the handler.
\<close>

definition after_load :: "(session_info, unit) outcome \<times> 'w \<Rightarrow> string \<Rightarrow> ui list \<times> 'w" where
  "after_load res path =
     (case res of (Crash e, w) \<Rightarrow> ([], w) | (_, w) \<Rightarrow> ([Navigate path], w))"

definition Login_submit ::
  "(login_request \<Rightarrow> 'w \<Rightarrow> (auth_tokens option, string) outcome \<times> 'w) \<Rightarrow>
   ('w \<Rightarrow> (session_info, unit) outcome \<times> 'w) \<Rightarrow>
   string option \<Rightarrow> login_request \<Rightarrow> 'w \<Rightarrow> ui list \<times> 'w" where
  "Login_submit dispatch_login dispatch_load from credentials w =
     (case dispatch_login credentials w of
        (Return t, w1) \<Rightarrow> after_load (dispatch_load w1) (nullish from ''/requests'')
      | (_, w1) \<Rightarrow> ([], w1))"

section \<open>Registering\<close>

definition Register_submit ::
  "(register_form \<Rightarrow> 'w \<Rightarrow> (unit, string) outcome \<times> 'w) \<Rightarrow>
   ('w \<Rightarrow> (session_info, unit) outcome \<times> 'w) \<Rightarrow> register_form \<Rightarrow> 'w \<Rightarrow> ui list \<times> 'w" where
  "Register_submit dispatch_register dispatch_load form w =
     (case dispatch_register form w of
        (Return u, w1) \<Rightarrow> after_load (dispatch_load w1) ''/profile''
      | (_, w1) \<Rightarrow> ([], w1))"

section \<open>The profile form\<close>

record profile_form =
  pf_firstName :: string
  pf_lastName :: string
  pf_storeName :: string
  pf_description :: string
  pf_city :: string
  pf_address :: string

record form_state =
  fs_error :: "string option"
  fs_saving :: bool

definition isSeller :: "auth_state \<Rightarrow> bool" where
  "isSeller a \<longleftrightarrow> Option.bind (auth_user a) usr_role = Some SELLER"

definition profile_json :: "bool \<Rightarrow> profile_form \<Rightarrow> json" where
  "profile_json seller f =
     (if seller
      then JObj [(''storeName'', JStr (pf_storeName f)), (''description'', JStr (pf_description f)),
                 (''city'', JStr (pf_city f)), (''address'', JStr (pf_address f))]
      else JObj [(''firstName'', JStr (pf_firstName f)), (''lastName'', JStr (pf_lastName f))])"

definition create_profile_path :: "bool \<Rightarrow> string" where
  "create_profile_path seller = (if seller then ''/api/sellers'' else ''/api/customers'')"

definition profile_options :: "auth_state \<Rightarrow> profile_form \<Rightarrow> request_options" where
  "profile_options a f =
     default_options\<lparr>opt_method := POST, opt_body := Json (profile_json (isSeller a) f),
       opt_token := accessToken a\<rparr>"

text \<open>The form's own state while the call is under way, and when it has been answered.\<close>

definition ProfileSetup_begin :: "form_state \<Rightarrow> form_state" where
  "ProfileSetup_begin st = st\<lparr>fs_saving := True, fs_error := None\<rparr>"

definition ProfileSetup_end ::
  "js_error + profile \<Rightarrow> form_state \<Rightarrow> 'e world \<Rightarrow> form_state \<times> ui list \<times> 'e world" where
  "ProfileSetup_end r st w =
     (case r of
        Inr p \<Rightarrow> (st\<lparr>fs_saving := False\<rparr>, [Navigate ''/requests''], dispatch (ProfileCreated p) w)
      | Inl e \<Rightarrow>
          (st\<lparr>fs_error := Some (message_or ''Could not save your profile'' e), fs_saving := False\<rparr>, [], w))"

definition ProfileSetup_submit ::
  "'e world client \<Rightarrow> profile_form \<Rightarrow> form_state \<Rightarrow> 'e world \<Rightarrow> form_state \<times> ui list \<times> 'e world" where
  "ProfileSetup_submit cl f st w =
     (let a = auth (store w);
          (r, w1) = api_as as_profile cl (create_profile_path (isSeller a)) (profile_options a f) w
      in ProfileSetup_end r (ProfileSetup_begin st) w1)"

section \<open>Facts\<close>

lemma profile_call_body_conforms:
  "call_conforms (paths_customer @ paths_seller) POST (create_profile_path seller) (Json j)"
  by (simp add: call_simps contract_customer contract_seller create_profile_path_def)

lemma wf_profile_json: "wf_json (profile_json seller f)"
  by (simp add: profile_json_def)

section \<open>Properties of the account pages\<close>

text \<open>
  C34. Submitting the sign-in form ends in one of four ways: refused, on the form with the reason
  to show; signed in with the account loaded, and back on the page the visitor came from; signed
  in and then unable to load the account, which signs the visitor out again and still leaves the
  form, so that a guarded page sends them back to it; or, only when the service accepted the
  sign-in with an answer that is empty or \<open>null\<close>, stopped by the reducer's error, on the form, with the
  store as the answer found it.
\<close>

theorem Login_submit_ends:
  assumes "thunk_lifecycle run" and "thunk_lifecycle run'"
    and "Login_submit (run_login run cl) (run_loadSession run' cl) from credentials w = (uis, w')"
  shows "(uis = [] \<and> auth_status (auth (store w')) = Idle \<and> auth_error (auth (store w')) \<noteq> None) \<or>
    (uis = [] \<and> login cl credentials (dispatch (Login Pending) w) = (Return None, w')) \<or>
    (uis = [Navigate (nullish from ''/requests'')] \<and>
       (auth_status (auth (store w')) = Authenticated \<and> auth_user (auth (store w')) \<noteq> None \<or>
        auth_status (auth (store w')) = Idle \<and> accessToken (auth (store w')) = None \<and>
        (\<forall>path rs p. routes path = Protected rs p \<longrightarrow>
           settle 2 (auth (store w')) path = Some (ShowPage LoginPage))))"
proof -
  obtain out w1 where lg: "run_login run cl credentials w = (out, w1)" by (rule prod.exhaust)
  note login = run_login_outcome[OF assms(1) lg]
  show ?thesis
  proof (cases out)
    case (Return t)
    obtain out2 w2 where ld: "run_loadSession run' cl w1 = (out2, w2)" by (rule prod.exhaust)
    note load = run_loadSession_outcome[OF assms(2) ld]
    then have w': "uis = [Navigate (nullish from ''/requests'')]" "w' = w2"
      using assms(3) lg ld Return by (cases out2; auto simp: Login_submit_def after_load_def)+
    have "settle 2 a path = Some (ShowPage LoginPage)"
      if "routes path = Protected rs p" and "accessToken a = None" for a path rs p
      using that by (simp add: numeral_2_eq_2 visit_def ProtectedRoute_def)
    with load w' show ?thesis by (cases out2) auto
  next
    case (RejectWith m)
    with assms(3) lg login show ?thesis by (auto simp: Login_submit_def)
  next
    case (Throw e)
    with login show ?thesis by simp
  next
    case (Crash e)
    with assms(3) lg login show ?thesis by (auto simp: Login_submit_def)
  qed
qed

theorem Login_submit_ends_witness:
  "\<exists>uis w'. Login_submit
      (run_login plain_runner (answering 401 (JObj [(''message'', JStr ''Bad credentials'')])))
      (run_loadSession plain_runner (answering 401 (JObj [(''message'', JStr ''Bad credentials'')]))) None
      \<lparr>lr_email = ''a'', lr_password = ''b''\<rparr> (page_load empty_storage 0 ()) = (uis, w') \<and>
    auth_status (auth (store w')) \<noteq> Loading"
proof -
  let ?c = "answering 401 (JObj [(''message'', JStr ''Bad credentials'')]) :: unit world client"
  obtain uis w' where run: "Login_submit (run_login plain_runner ?c) (run_loadSession plain_runner ?c) None
      \<lparr>lr_email = ''a'', lr_password = ''b''\<rparr> (page_load empty_storage 0 ()) = (uis, w')"
    by (rule prod.exhaust)
  have "auth_status (auth (store w')) \<noteq> Loading"
    using Login_submit_ends[OF thunk_lifecycle_plain_runner thunk_lifecycle_plain_runner run]
    by (auto simp: login_refused)
  with run show ?thesis by blast
qed

text \<open>
  What the fourth end leaves behind: after a sign-in that the service accepts with no body, while
  nothing else happens, the status stays at loading for good and there is no error to show.
\<close>

lemma login_no_body:
  "login (answering 204 j) c w = (Return None, w)"
  by (simp add: login_def api_as_def api_skip answering_fetch finish_ok_json ok_def parse_def
      default_options_def tokens_body_def)

theorem empty_sign_in_stuck:
  assumes "thunk_lifecycle run"
    and "Login_submit (run_login run (answering 204 j)) load from credentials w = (uis, w')"
  shows "uis = [] \<and> auth_status (auth (store w')) = Loading \<and> auth_error (auth (store w')) = None \<and>
    accessToken (auth (store w')) = accessToken (auth (store w)) \<and> localStorage w' = localStorage w"
  using assms
  by (auto simp: Login_submit_def run_login_def thunk_lifecycle_def login_no_body)

text \<open>
  Submitting the profile form always ends the saving state: either the profile is created, the
  session knows it and the form, which would redirect from then on, is left for the request
  list; or the form stays with the reason to show.
\<close>

theorem ProfileSetup_submit_ends:
  assumes "ProfileSetup_submit cl f st w = (fs, uis, w')"
  shows "\<not> fs_saving fs \<and>
    (uis = [Navigate ''/requests''] \<and> fs_error fs = None \<and>
       hasProfile (auth (store w')) = Some True \<and>
       ProfileSetup_redirect (auth (store w')) = Some ''/requests'' \<or>
     uis = [] \<and> fs_error fs \<noteq> None)"
  using assms
  by (auto simp: ProfileSetup_submit_def ProfileSetup_end_def ProfileSetup_begin_def Let_def
      ProfileSetup_redirect_def split: prod.splits sum.splits)

theorem ProfileSetup_submit_ends_witness:
  "\<exists>fs uis w'. ProfileSetup_submit (answering 500 JNull)
      \<lparr>pf_firstName = ''Ada'', pf_lastName = ''L'', pf_storeName = [], pf_description = [],
       pf_city = [], pf_address = []\<rparr> \<lparr>fs_error = None, fs_saving = False\<rparr> (page_load empty_storage 0 ()) = (fs, uis, w') \<and> \<not> fs_saving fs"
proof -
  obtain fs uis w' where run: "ProfileSetup_submit (answering 500 JNull)
      \<lparr>pf_firstName = ''Ada'', pf_lastName = ''L'', pf_storeName = [], pf_description = [],
       pf_city = [], pf_address = []\<rparr> \<lparr>fs_error = None, fs_saving = False\<rparr> (page_load empty_storage 0 ()) = (fs, uis, w')"
    by (rule prod_cases3)
  with ProfileSetup_submit_ends[OF run] show ?thesis by blast
qed

text \<open>The request the profile form makes keeps to the contract and carries the whole form.\<close>

lemma ProfileSetup_request_conforms:
  "conforms (BASE cl) (send cl (create_profile_path (isSeller a)) (profile_options a f) b)"
  by (rule conforms_callI[OF profile_in_contract])
     (simp add: profile_options_def profile_call_body_conforms)

end
