(* ===== verification/Images.thy ===== *)
theory Images
  imports Refresh Complex_Main
begin

text \<open>
  Pictures: \<open>frontend/src/api/images.ts\<close>, \<open>frontend/src/components/item-image.tsx\<close> and the scaling
  of \<open>frontend/src/components/image-field.tsx\<close>. The hook \<open>useOfferImage\<close> is a state machine: its
  state is what React and the browser keep for it (the last fetched URL, the effects that ran,
  the object URLs not yet revoked), its events are a render with new arguments, an answer
  arriving for one of the effects, and unmounting.
\<close>

section \<open>A request's picture\<close>

definition requestImageUrl :: "string \<Rightarrow> string \<Rightarrow> string" where
  "requestImageUrl base requestId = base @ ''/api/requests/'' @ requestId @ ''/image''"

text \<open>The \<open>src\<close> of \<open>RequestImage\<close>, when it renders at all.\<close>

definition RequestImage :: "string \<Rightarrow> string option \<Rightarrow> bool option \<Rightarrow> string option" where
  "RequestImage base requestId hasImage =
     (if \<not> truthy requestId \<or> \<not> truthy_flag hasImage then None
      else Some (requestImageUrl base (the requestId)))"

section \<open>An offer's picture: the hook\<close>

record image_props =
  ip_offerId :: "string option"
  ip_hasImage :: bool
  ip_version :: "string option"
  ip_token :: "string option"

definition wanted :: "image_props \<Rightarrow> string option" where
  "wanted p =
     (if truthy (ip_offerId p) \<and> ip_hasImage p \<and> truthy (ip_token p) then ip_offerId p else None)"

definition image_key :: "image_props \<Rightarrow> string option" where
  "image_key p = map_option (\<lambda>i. i @ ''@'' @ nullish (ip_version p) []) (wanted p)"

text \<open>The dependencies of the effect.\<close>

definition image_deps ::
  "image_props \<Rightarrow> string option \<times> string option \<times> string option \<times> string option" where
  "image_deps p = (wanted p, image_key p, ip_version p, ip_token p)"

definition image_path :: "image_props \<Rightarrow> string" where
  "image_path p =
     ''/api/offers/'' @ nullish (wanted p) [] @ ''/image'' @
     (if truthy (ip_version p) then ''?v='' @ encodeURIComponent (the (ip_version p)) else [])"

text \<open>The call of the effect: the picture's bytes, or nothing.\<close>

definition fetch_image :: "'w client \<Rightarrow> image_props \<Rightarrow> 'w \<Rightarrow> blob option \<times> 'w" where
  "fetch_image cl p w =
     (case api cl (image_path p)
             (default_options\<lparr>opt_token := ip_token p, responseType := BlobResponse\<rparr>) w of
        (Inr (PBlob b), w') \<Rightarrow> (Some b, w')
      | (_, w') \<Rightarrow> (None, w'))"

text \<open>One run of the effect: what it was started for, \<open>live\<close>, \<open>created\<close> and whether its answer is
  still out. An object URL is the number of the picture it was made from; \<open>ih_made\<close> keeps, for
  each, what it was fetched for, and \<open>ih_alive\<close> those not revoked. The newest run comes first.\<close>

record effect_run =
  er_props :: image_props
  er_live :: bool
  er_created :: "nat option"
  er_pending :: bool

record image_hook =
  ih_mounted :: bool
  ih_props :: image_props
  ih_fetched :: "(string \<times> nat) option"
  ih_runs :: "effect_run list"
  ih_made :: "image_props list"
  ih_alive :: "nat list"

text \<open>The function the effect returns.\<close>

definition cleanup :: "image_hook \<Rightarrow> image_hook" where
  "cleanup h =
     (case ih_runs h of
        [] \<Rightarrow> h
      | r # rs \<Rightarrow>
          h\<lparr>ih_runs := r\<lparr>er_live := False\<rparr> # rs,
            ih_alive := (case er_created r of
                           None \<Rightarrow> ih_alive h
                         | Some u \<Rightarrow> filter (\<lambda>v. v \<noteq> u) (ih_alive h))\<rparr>)"

definition effect :: "image_hook \<Rightarrow> image_hook" where
  "effect h =
     (if wanted (ih_props h) = None \<or> image_key (ih_props h) = None then h
      else h\<lparr>ih_runs := \<lparr>er_props = ih_props h, er_live = True, er_created = None,
                         er_pending = True\<rparr> # ih_runs h\<rparr>)"

definition mount :: "image_props \<Rightarrow> image_hook" where
  "mount p =
     effect \<lparr>ih_mounted = True, ih_props = p, ih_fetched = None, ih_runs = [], ih_made = [],
             ih_alive = []\<rparr>"

datatype image_event = Render image_props | Answer nat "blob option" | Unmount

text \<open>The \<open>then\<close> of the call; a failed call changes nothing.\<close>

definition landed :: "nat \<Rightarrow> image_hook \<Rightarrow> image_hook" where
  "landed i h =
     (let r = ih_runs h ! i;
          u = length (ih_made h)
      in if \<not> er_live r then h\<lparr>ih_runs := (ih_runs h)[i := r\<lparr>er_pending := False\<rparr>]\<rparr>
         else h\<lparr>ih_runs := (ih_runs h)[i := r\<lparr>er_pending := False, er_created := Some u\<rparr>],
                ih_made := ih_made h @ [er_props r], ih_alive := u # ih_alive h,
                ih_fetched := map_option (\<lambda>k. (k, u)) (image_key (er_props r))\<rparr>)"

fun image_step :: "image_event \<Rightarrow> image_hook \<Rightarrow> image_hook" where
  "image_step (Render p) h =
     (if \<not> ih_mounted h then h
      else if image_deps p = image_deps (ih_props h) then h\<lparr>ih_props := p\<rparr>
      else effect ((cleanup h)\<lparr>ih_props := p\<rparr>))"
| "image_step (Answer i b) h =
     (if i < length (ih_runs h) \<and> er_pending (ih_runs h ! i)
      then (case b of
              None \<Rightarrow> h\<lparr>ih_runs := (ih_runs h)[i := (ih_runs h ! i)\<lparr>er_pending := False\<rparr>]\<rparr>
            | Some _ \<Rightarrow> landed i h)
      else h)"
| "image_step Unmount h = (if \<not> ih_mounted h then h else (cleanup h)\<lparr>ih_mounted := False\<rparr>)"

text \<open>What the hook returns.\<close>

definition useOfferImage :: "image_hook \<Rightarrow> nat option" where
  "useOfferImage h =
     (case ih_fetched h of
        Some (k, u) \<Rightarrow> if Some k = image_key (ih_props h) then Some u else None
      | None \<Rightarrow> None)"

text \<open>The states a component can be in.\<close>

inductive image_reach :: "image_hook \<Rightarrow> bool" where
  Mount: "image_reach (mount p)"
| Step: "image_reach h \<Longrightarrow> image_reach (image_step e h)"

section \<open>Scaling a chosen picture\<close>

definition MAX_EDGE :: int where
  "MAX_EDGE = 1024"

text \<open>\<open>Math.round\<close>.\<close>

definition js_round :: "rat \<Rightarrow> int" where
  "js_round x = \<lfloor>x + 1 / 2\<rfloor>"

definition downscale_by :: "int \<Rightarrow> int \<Rightarrow> rat" where
  "downscale_by w h = min 1 (rat_of_int MAX_EDGE / rat_of_int (max w h))"

text \<open>The size of the canvas; the numbers are exact where the browser's are doubles.\<close>

definition downscale :: "int \<Rightarrow> int \<Rightarrow> int \<times> int" where
  "downscale w h =
     (let s = downscale_by w h
      in (max 1 (js_round (rat_of_int w * s)), max 1 (js_round (rat_of_int h * s))))"

section \<open>The invariant of the hook\<close>

text \<open>Only the newest run can be live, it is the one for what is rendered, and the URLs not revoked
  are exactly the one it created; what was fetched carries the key it was fetched for.\<close>

definition run_ok :: "effect_run \<Rightarrow> bool" where
  "run_ok r \<longleftrightarrow> (er_pending r \<longrightarrow> er_created r = None) \<and> image_key (er_props r) \<noteq> None"

definition live_url :: "effect_run list \<Rightarrow> nat list" where
  "live_url rs =
     (case rs of
        [] \<Rightarrow> []
      | r # _ \<Rightarrow>
          if er_live r then (case er_created r of None \<Rightarrow> [] | Some u \<Rightarrow> [u]) else [])"

definition head_ok :: "image_hook \<Rightarrow> bool" where
  "head_ok h \<longleftrightarrow>
     (case ih_runs h of
        [] \<Rightarrow> True
      | r # _ \<Rightarrow>
          er_live r \<longrightarrow> ih_mounted h \<and> image_deps (er_props r) = image_deps (ih_props h))"

definition fetched_ok :: "image_hook \<Rightarrow> bool" where
  "fetched_ok h \<longleftrightarrow>
     (\<forall>k u. ih_fetched h = Some (k, u) \<longrightarrow>
        u < length (ih_made h) \<and> image_key (ih_made h ! u) = Some k)"

definition image_inv :: "image_hook \<Rightarrow> bool" where
  "image_inv h \<longleftrightarrow>
     list_all run_ok (ih_runs h) \<and> list_all (\<lambda>r. \<not> er_live r) (tl (ih_runs h)) \<and>
     head_ok h \<and> ih_alive h = live_url (ih_runs h) \<and> fetched_ok h"

lemmas image_inv_defs = image_inv_def run_ok_def live_url_def head_ok_def fetched_ok_def

lemma image_inv_effect:
  assumes "image_inv h" and "list_all (\<lambda>r. \<not> er_live r) (ih_runs h)" and "ih_mounted h"
  shows "image_inv (effect h)"
  using assms by (auto simp: effect_def image_inv_defs split: list.splits)

lemma image_inv_mount: "image_inv (mount p)"
  unfolding mount_def by (rule image_inv_effect) (simp_all add: image_inv_defs)

lemma cleanup_simps [simp]:
  "ih_mounted (cleanup h) = ih_mounted h" "ih_fetched (cleanup h) = ih_fetched h"
  "ih_made (cleanup h) = ih_made h"
  by (simp_all add: cleanup_def split: list.split)

lemma cleanup_dead: "image_inv h \<Longrightarrow> list_all (\<lambda>r. \<not> er_live r) (ih_runs (cleanup h))"
  by (cases "ih_runs h") (simp_all add: cleanup_def image_inv_def)

lemma image_inv_cleanup:
  assumes "image_inv h"
  shows "image_inv (cleanup h)"
proof (cases "ih_runs h")
  case (Cons r rs)
  with assms show ?thesis
    by (cases "er_created r"; cases "er_live r") (simp_all add: cleanup_def image_inv_defs)
qed (use assms in \<open>simp add: cleanup_def\<close>)

lemma image_inv_props:
  "image_inv h \<Longrightarrow> image_deps p = image_deps (ih_props h) \<Longrightarrow> image_inv (h\<lparr>ih_props := p\<rparr>)"
  by (auto simp: image_inv_defs split: list.splits)

lemma image_inv_dead:
  assumes "image_inv h" and "list_all (\<lambda>r. \<not> er_live r) (ih_runs h)"
  shows "image_inv (h\<lparr>ih_props := p\<rparr>)" "image_inv (h\<lparr>ih_mounted := False\<rparr>)"
  using assms by (auto simp: image_inv_defs split: list.splits)

lemma list_all_update: "list_all P xs \<Longrightarrow> P y \<Longrightarrow> list_all P (xs[i := y])"
  using set_update_subset_insert[of xs i y] by (auto simp: list_all_iff)

lemma image_inv_answered:
  assumes "image_inv h" and "i < length (ih_runs h)"
  shows "image_inv (h\<lparr>ih_runs := (ih_runs h)[i := (ih_runs h ! i)\<lparr>er_pending := False\<rparr>]\<rparr>)"
proof (cases i)
  case 0
  with assms show ?thesis by (cases "ih_runs h") (auto simp: image_inv_defs)
next
  case (Suc j)
  with assms obtain r rs where runs: "ih_runs h = r # rs" by (cases "ih_runs h") auto
  have "run_ok ((rs ! j)\<lparr>er_pending := False\<rparr>)" and "\<not> er_live (rs ! j)"
    using assms Suc runs by (auto simp: image_inv_def list_all_length run_ok_def)
  with assms Suc runs show ?thesis
    by (simp add: image_inv_def head_ok_def live_url_def fetched_ok_def list_all_update)
qed

lemma image_inv_landed:
  assumes "image_inv h" and "i < length (ih_runs h)" and "er_pending (ih_runs h ! i)"
  shows "image_inv (landed i h)"
proof (cases "er_live (ih_runs h ! i)")
  case False
  then show ?thesis using image_inv_answered[OF assms(1,2)] by (simp add: landed_def Let_def)
next
  case True
  then obtain r rs where runs: "ih_runs h = r # rs" and i: "i = 0"
    using assms(1,2) by (cases "ih_runs h"; cases i) (auto simp: image_inv_def list_all_length)
  obtain k where k: "image_key (er_props r) = Some k"
    using assms(1) runs by (auto simp: image_inv_def run_ok_def)
  have "ih_alive h = []"
    using assms True runs i by (simp add: image_inv_def run_ok_def live_url_def)
  with assms True runs i k show ?thesis
    by (auto simp: image_inv_defs landed_def Let_def)
qed

lemma image_inv_step: "image_inv h \<Longrightarrow> image_inv (image_step e h)"
proof (cases e)
  case (Render p)
  moreover assume inv: "image_inv h"
  moreover have "image_inv (effect ((cleanup h)\<lparr>ih_props := p\<rparr>))" if "ih_mounted h"
    using that inv cleanup_dead[OF inv]
    by (intro image_inv_effect) (simp_all add: image_inv_dead image_inv_cleanup)
  ultimately show ?thesis by (simp add: image_inv_props)
next
  case (Answer i b)
  moreover assume "image_inv h"
  ultimately show ?thesis
    by (cases b) (simp_all add: image_inv_answered image_inv_landed)
next
  case Unmount
  moreover assume "image_inv h"
  ultimately show ?thesis by (simp add: image_inv_dead image_inv_cleanup cleanup_dead)
qed

interpretation image: reducer image_step image_inv
  by unfold_locales (rule image_inv_step)

lemma image_reach_inv: "image_reach h \<Longrightarrow> image_inv h"
  by (induction rule: image_reach.induct) (simp_all add: image_inv_mount image_inv_step)

lemma image_reach_fold: "image_reach h \<Longrightarrow> image_reach (fold image_step es h)"
  by (induction es arbitrary: h) (auto intro: image_reach.Step)

lemma live_url_length: "length (live_url rs) \<le> 1"
  by (auto simp: live_url_def split: list.split option.split)

lemma image_alive:
  assumes "image_inv h"
  shows "length (ih_alive h) \<le> 1 \<and> (ih_mounted h \<or> ih_alive h = [])"
  using assms live_url_length[of "ih_runs h"]
  by (cases "ih_runs h") (auto simp: image_inv_def head_ok_def live_url_def)

lemma append_at_inject:
  assumes "i @ CHR ''@'' # v = j @ CHR ''@'' # u" and "CHR ''@'' \<notin> set i" and "CHR ''@'' \<notin> set j"
  shows "i = j \<and> v = u"
proof -
  have "takeWhile (\<lambda>c. c \<noteq> CHR ''@'') (i @ CHR ''@'' # v) = i"
    "takeWhile (\<lambda>c. c \<noteq> CHR ''@'') (j @ CHR ''@'' # u) = j"
    using assms(2,3) by (simp_all add: takeWhile_key)
  with assms(1) show ?thesis by auto
qed

section \<open>Properties of pictures\<close>

text \<open>
  C31. No picture stays in memory: in every state the hook can reach, under every order of renders,
  answers and unmounting, at most one object URL is not yet revoked, and none is once the
  component is gone; an answer that arrives after that creates none.
\<close>

theorem offer_image_no_leak:
  assumes "image_reach h"
  shows "length (ih_alive h) \<le> 1 \<and> (ih_mounted h \<or> ih_alive h = []) \<and>
    (ih_mounted h \<or> ih_alive (image_step (Answer i b) h) = [])"
proof -
  have m: "ih_mounted (image_step (Answer i b) h) = ih_mounted h"
    by (simp add: landed_def Let_def split: option.split)
  show ?thesis
    using image_alive[OF image_reach_inv[OF assms]] m
      image_alive[OF image_reach_inv[OF image_reach.Step[OF assms]], of "Answer i b"]
    by simp
qed

text \<open>
  C32. A picture is never shown against another offer: whatever URL the hook returns was made from
  the answer to a request for the very offer, in the very version, that is rendered (for ids
  without an at sign, which separates the two in the key). A slow answer for an earlier offer
  can only be dropped.
\<close>

theorem offer_image_matches:
  assumes "image_reach h" and "useOfferImage h = Some u"
    and "wanted (ih_props h) = Some i" and "CHR ''@'' \<notin> set i"
    and "wanted (ih_made h ! u) = Some j" and "CHR ''@'' \<notin> set j"
  shows "u < length (ih_made h) \<and> j = i \<and>
    nullish (ip_version (ih_made h ! u)) [] = nullish (ip_version (ih_props h)) []"
proof -
  obtain k where k: "ih_fetched h = Some (k, u)" "Some k = image_key (ih_props h)"
    using assms(2) by (auto simp: useOfferImage_def split: option.splits if_splits)
  then have "u < length (ih_made h)" and "image_key (ih_made h ! u) = image_key (ih_props h)"
    using image_reach_inv[OF assms(1)] by (auto simp: image_inv_def fetched_ok_def)
  moreover from this have "j @ CHR ''@'' # nullish (ip_version (ih_made h ! u)) [] =
      i @ CHR ''@'' # nullish (ip_version (ih_props h)) []"
    using assms(3,5) by (simp add: image_key_def)
  from append_at_inject[OF this assms(6,4)] have "j = i \<and>
      nullish (ip_version (ih_made h ! u)) [] = nullish (ip_version (ih_props h)) []" .
  ultimately show ?thesis by simp
qed

text \<open>
  A picture that arrives is shown: when the newest effect is still live and its answer comes
  with bytes, the hook returns a new URL at once, and that URL is not revoked.
\<close>

theorem offer_image_arrives:
  assumes "image_reach h" and "ih_runs h = r # rs" and "er_live r" and "er_pending r"
  shows "\<exists>u. useOfferImage (image_step (Answer 0 (Some b)) h) = Some u \<and>
    ih_alive (image_step (Answer 0 (Some b)) h) = [u] \<and>
    ih_made (image_step (Answer 0 (Some b)) h) ! u = er_props r"
proof -
  have inv: "image_inv h" by (rule image_reach_inv[OF assms(1)])
  have "ih_alive h = []"
    using inv assms(2-4) by (simp add: image_inv_def run_ok_def live_url_def)
  moreover obtain k where "image_key (er_props r) = Some k"
    using inv assms(2) by (auto simp: image_inv_def run_ok_def)
  moreover have "image_key (er_props r) = image_key (ih_props h)"
    using inv assms(2,3) by (simp add: image_inv_def head_ok_def image_deps_def)
  ultimately show ?thesis
    using assms(2-4) by (simp add: landed_def Let_def useOfferImage_def)
qed

text \<open>An offer with a picture, seen with one access token and then with the next.\<close>

definition shown_offer :: "string \<Rightarrow> image_props" where
  "shown_offer t =
     \<lparr>ip_offerId = Some ''f1'', ip_hasImage = True, ip_version = None, ip_token = Some t\<rparr>"

text \<open>
  C33. A new token breaks the picture on screen: the token is a dependency of the effect and not a
  part of the key, so after a refresh the old URL is revoked and still returned until the second
  answer arrives. There is a reachable state in which the hook returns a URL that is revoked.
\<close>

theorem offer_image_revoked_shown:
  "\<exists>h u. image_reach h \<and> ih_mounted h \<and> useOfferImage h = Some u \<and> u \<notin> set (ih_alive h)"
proof -
  let ?h = "fold image_step [Answer 0 (Some ''png''), Render (shown_offer ''new'')]
      (mount (shown_offer ''old''))"
  have "image_reach ?h"
    by (rule image_reach_fold[OF image_reach.Mount])
  moreover have "ih_mounted ?h \<and> useOfferImage ?h = Some 0 \<and> 0 \<notin> set (ih_alive ?h)"
    by (simp add: mount_def effect_def landed_def cleanup_def shown_offer_def image_deps_def
        image_key_def wanted_def useOfferImage_def)
  ultimately show ?thesis by blast
qed

text \<open>
  A chosen picture fits what is stored: for a picture of any size the canvas has between 1 and
  1024 pixels on each edge, and a picture that fits already keeps its size.
\<close>

theorem downscale_bounds:
  assumes "1 \<le> w" and "1 \<le> h"
  shows "fst (downscale w h) \<in> {1..1024} \<and> snd (downscale w h) \<in> {1..1024} \<and>
    (w \<le> 1024 \<and> h \<le> 1024 \<longrightarrow> downscale w h = (w, h))"
proof -
  have m: "(0::rat) < rat_of_int (max w h)" using assms by simp
  have le: "rat_of_int x * downscale_by w h \<le> 1024" if "x \<le> max w h" "0 \<le> x" for x
  proof -
    have "rat_of_int x * downscale_by w h \<le> rat_of_int (max w h) * (1024 / rat_of_int (max w h))"
      using that m by (intro mult_mono) (auto simp: downscale_by_def MAX_EDGE_def)
    with m show ?thesis by simp
  qed
  have round: "js_round x \<le> 1024" if "x \<le> 1024" for x
    using that by (simp add: js_round_def floor_le_iff)
  have same: "downscale_by w h = 1" if "w \<le> 1024" "h \<le> 1024"
    using that assms m by (simp add: downscale_by_def MAX_EDGE_def min_def field_simps)
  have "js_round (rat_of_int x) = x" for x
    by (simp add: js_round_def floor_eq_iff)
  with same assms le[of w] le[of h] show ?thesis
    by (auto simp: downscale_def Let_def intro: round)
qed

theorem offer_image_no_leak_witness:
  "length (ih_alive (mount (shown_offer ''t''))) \<le> 1"
  using offer_image_no_leak[OF image_reach.Mount, of "shown_offer ''t''" 0 None] by simp

theorem offer_image_matches_witness:
  "nullish (ip_version (ih_made (image_step (Answer 0 (Some ''png'')) (mount (shown_offer ''t''))) ! 0)) [] = []"
proof -
  let ?h = "image_step (Answer 0 (Some ''png'')) (mount (shown_offer ''t''))"
  have run: "useOfferImage ?h = Some 0" "wanted (ih_props ?h) = Some ''f1''"
    "wanted (ih_made ?h ! 0) = Some ''f1''" "ip_version (ih_props ?h) = None"
    by (simp_all add: mount_def effect_def landed_def shown_offer_def image_key_def wanted_def
        useOfferImage_def Let_def)
  from offer_image_matches[OF image_reach.Step[OF image_reach.Mount] run(1) run(2) _ run(3)] run(4)
  show ?thesis by simp
qed

theorem offer_image_arrives_witness:
  "\<exists>u. useOfferImage (image_step (Answer 0 (Some ''png'')) (mount (shown_offer ''t''))) = Some u"
  using offer_image_arrives[OF image_reach.Mount, of "shown_offer ''t''"
      "\<lparr>er_props = shown_offer ''t'', er_live = True, er_created = None, er_pending = True\<rparr>" "[]" "''png''"]
  by (auto simp: mount_def effect_def shown_offer_def image_key_def wanted_def)

theorem downscale_bounds_witness: "fst (downscale 4000 3000) \<in> {1..1024}"
  using downscale_bounds[of 4000 3000] by simp

end
