(* ===== verification/RequestPages.thy ===== *)
theory RequestPages
  imports AccountPages Images
begin

text \<open>
  The handlers and the derived data of \<open>frontend/src/pages/BrowseRequests.tsx\<close> (the search, the two
  dialogs) and \<open>frontend/src/pages/RequestDetail.tsx\<close> (what it loads, which actions it offers, the
  participation buttons and the offer form).
\<close>

section \<open>Browsing\<close>

definition browse_filters :: "string \<Rightarrow> request_filters" where
  "browse_filters query =
     (let q = trim query; searching = length q > 0
      in \<lparr>flt_q = (if q = [] then None else Some q), flt_category = None,
          flt_status = (if searching then None else Some ''OPEN'')\<rparr>)"

definition exactMatch :: "purchase_request list \<Rightarrow> purchase_request option" where
  "exactMatch similar = List.find (\<lambda>r. truthy_flag (req_exact r)) similar"

text \<open>The effect behind the suggestions: clear them, or ask for them after the pause.\<close>

datatype similar_effect = ClearSimilar | AskSimilar string

definition similar_lookup :: "bool \<Rightarrow> string \<Rightarrow> similar_effect" where
  "similar_lookup is_open name =
     (let itemName = trim name
      in if \<not> is_open \<or> length itemName < 3 then ClearSimilar else AskSimilar itemName)"

section \<open>The new-request dialog\<close>

record new_request =
  nr_open :: bool
  nr_saving :: bool
  nr_error :: "string option"
  nr_itemName :: string
  nr_quantity :: jnum
  nr_image :: "blob option"

text \<open>\<open>{ ...form, image }\<close> without the picture.\<close>

definition new_request_body :: "new_request \<Rightarrow> create_request_body" where
  "new_request_body n =
     \<lparr>crb_category = None, crb_description = None, crb_itemName = Some (nr_itemName n),
      crb_quantity = Some (nr_quantity n)\<rparr>"

definition emptied :: "new_request \<Rightarrow> new_request" where
  "emptied n = n\<lparr>nr_open := False, nr_error := None, nr_itemName := [], nr_quantity := JInt 1,
                 nr_image := None\<rparr>"

text \<open>\<open>done\<close>; the refetch is started and not awaited.\<close>

definition done_request ::
  "string \<Rightarrow> string \<Rightarrow> new_request \<Rightarrow> 'e world \<Rightarrow> new_request \<times> ui list \<times> 'e world" where
  "done_request title description n w =
     (emptied n, [StartFetchRequests no_filters, Toast title (Some description)],
      dispatch SimilarCleared w)"

text \<open>
  A handler in two parts: what it sets before the wait, and what it does with the state it finds
  when the dispatch has ended. A dispatch that throws ends the handler there.
\<close>

definition NewRequest_begin :: "new_request \<Rightarrow> new_request" where
  "NewRequest_begin n = n\<lparr>nr_saving := True, nr_error := None\<rparr>"

definition NewRequest_end ::
  "(purchase_request, purchase_request create_rejection) outcome \<Rightarrow> new_request \<Rightarrow> 'e world \<Rightarrow>
   new_request \<times> ui list \<times> 'e world" where
  "NewRequest_end res n w =
     (let n1 = n\<lparr>nr_saving := False\<rparr>
      in case res of
           Return r \<Rightarrow> done_request ''Request created'' ''Other buyers can now join it.'' n1 w
         | RejectWith c \<Rightarrow> (n1\<lparr>nr_error := Some (cr_message c)\<rparr>, [], w)
         | Throw e \<Rightarrow> (n1\<lparr>nr_error := Some ''Could not create request''\<rparr>, [], w)
         | Crash e \<Rightarrow> (n, [], w))"

definition NewRequest_submit ::
  "(create_request_body \<Rightarrow> blob option \<Rightarrow> 'e world \<Rightarrow>
      (purchase_request, purchase_request create_rejection) outcome \<times> 'e world) \<Rightarrow>
   new_request \<Rightarrow> 'e world \<Rightarrow> new_request \<times> ui list \<times> 'e world" where
  "NewRequest_submit dispatch_create n w =
     (let (res, w1) = dispatch_create (new_request_body n) (nr_image n) w
      in NewRequest_end res (NewRequest_begin n) w1)"

definition NewRequest_join_begin :: "new_request \<Rightarrow> new_request" where
  "NewRequest_join_begin n = n\<lparr>nr_saving := True\<rparr>"

definition NewRequest_join_end ::
  "purchase_request \<Rightarrow> jnum \<Rightarrow> (purchase_request, string) outcome \<Rightarrow> new_request \<Rightarrow> 'e world \<Rightarrow>
   new_request \<times> ui list \<times> 'e world" where
  "NewRequest_join_end request quantity res n w =
     (let n1 = n\<lparr>nr_saving := False\<rparr>
      in case res of
           Return r \<Rightarrow>
             (emptied n1,
              [Toast ''You joined an existing request''
                 (Some (''Your '' @ js_String (JNum quantity) @ '' joined the demand for '' @
                        nullish (req_itemName request) ''undefined'' @ ''.'')),
               Navigate ''/my-requests''],
              dispatch SimilarCleared w)
         | Crash e \<Rightarrow> (n, [], w)
         | _ \<Rightarrow> (n1, [], w))"

definition NewRequest_join ::
  "(string \<Rightarrow> jnum \<Rightarrow> 'e world \<Rightarrow> (purchase_request, string) outcome \<times> 'e world) \<Rightarrow>
   purchase_request \<Rightarrow> new_request \<Rightarrow> 'e world \<Rightarrow> new_request \<times> ui list \<times> 'e world" where
  "NewRequest_join dispatch_join request n w =
     (let (res, w1) = dispatch_join (nullish (req_requestId request) ''undefined'') (nr_quantity n) w
      in NewRequest_join_end request (nr_quantity n) res (NewRequest_join_begin n) w1)"

text \<open>The create button is withheld when the item is already open demand.\<close>

definition create_offered :: "requests_state \<Rightarrow> bool" where
  "create_offered s \<longleftrightarrow> exactMatch (rq_similar s) = None"

section \<open>Offering on a new item\<close>

record new_offer =
  no_open :: bool
  no_saving :: bool
  no_error :: "string option"
  no_itemName :: string
  no_category :: string
  no_itemDescription :: string
  no_availableQuantity :: jnum
  no_pricePerUnit :: string
  no_currency :: string
  no_description :: string
  no_image :: "blob option"

definition new_offer_body :: "new_offer \<Rightarrow> offer_create" where
  "new_offer_body n =
     \<lparr>oc_requestId = None,
      oc_item = Some \<lparr>it_itemName = no_itemName n, it_description = no_itemDescription n,
                      it_category = no_category n\<rparr>,
      oc_availableQuantity = no_availableQuantity n, oc_pricePerUnit = no_pricePerUnit n,
      oc_currency = no_currency n, oc_description = no_description n\<rparr>"

definition OfferOnANewItem_begin :: "new_offer \<Rightarrow> new_offer" where
  "OfferOnANewItem_begin n = n\<lparr>no_saving := True, no_error := None\<rparr>"

definition OfferOnANewItem_end ::
  "string \<Rightarrow> (offer, offer create_rejection) outcome \<Rightarrow> new_offer \<Rightarrow> 'e world \<Rightarrow>
   new_offer \<times> ui list \<times> 'e world" where
  "OfferOnANewItem_end itemName res n w =
     (let n1 = n\<lparr>no_saving := False\<rparr>
      in case res of
           Return f \<Rightarrow>
             (n1\<lparr>no_open := False\<rparr>,
              [Navigate (''/requests/'' @ off_requestId f),
               Toast ''Offer submitted''
                 (Some (''An administrator reviews it next. Buyers can now join the request for '' @
                        itemName @ ''.''))],
              dispatch SimilarCleared w)
         | RejectWith c \<Rightarrow>
             (case cr_existing c of
                Some existing \<Rightarrow>
                  (n1\<lparr>no_open := False\<rparr>,
                   [Navigate (''/requests/'' @ off_requestId existing),
                    Toast ''You have already offered on this item''
                      (Some (''Your offer is below '' @ em_dash @
                             '' change its terms there rather than making a second.''))],
                   dispatch SimilarCleared w)
              | None \<Rightarrow> (n1\<lparr>no_error := Some (cr_message c)\<rparr>, [], w))
         | Throw e \<Rightarrow> (n1\<lparr>no_error := Some ''Could not submit offer''\<rparr>, [], w)
         | Crash e \<Rightarrow> (n, [], w))"

definition OfferOnANewItem_submit ::
  "(offer_create \<Rightarrow> blob option \<Rightarrow> 'e world \<Rightarrow> (offer, offer create_rejection) outcome \<times> 'e world) \<Rightarrow>
   new_offer \<Rightarrow> 'e world \<Rightarrow> new_offer \<times> ui list \<times> 'e world" where
  "OfferOnANewItem_submit dispatch_create n w =
     (let (res, w1) = dispatch_create (new_offer_body n) (no_image n) w
      in OfferOnANewItem_end (no_itemName n) res (OfferOnANewItem_begin n) w1)"

section \<open>The request page\<close>

datatype load = LoadRequest string | LoadOffers string | LoadMine

definition RequestDetail_loads :: "auth_state \<Rightarrow> string \<Rightarrow> load list" where
  "RequestDetail_loads a i =
     LoadRequest i #
     (if truthy (accessToken a) then [LoadOffers i] else []) @
     (if Option.bind (auth_user a) usr_role = Some CUSTOMER then [LoadMine] else [])"

definition hasBuyers :: "purchase_request \<Rightarrow> bool" where
  "hasBuyers r \<longleftrightarrow> nullish (req_totalCustomers r) 0 > 0"

definition myOffer :: "offer list \<Rightarrow> offer option" where
  "myOffer fs =
     List.find (\<lambda>f. isFullOffer f \<and> (off_status f = Some ''PENDING'' \<or> off_status f = Some ''APPROVED''))
       fs"

definition hasJoined :: "string \<Rightarrow> purchase_request list \<Rightarrow> bool" where
  "hasJoined i mine \<longleftrightarrow> list_ex (\<lambda>r. req_requestId r = Some i) mine"

text \<open>The cards of the page, by who is looking; a skeleton until a request is there.\<close>

datatype card = ParticipationCard | OfferCard "offer option" | SignInCard

definition RequestDetail_cards :: "root_state \<Rightarrow> card list" where
  "RequestDetail_cards s =
     (let role = Option.bind (auth_user (auth s)) usr_role
      in if rq_current (requests s) = None then []
         else (if role = Some CUSTOMER then [ParticipationCard] else []) @
              (if role = Some SELLER then [OfferCard (myOffer (of_forRequest (offers s)))] else []) @
              (if \<not> truthy (accessToken (auth s)) then [SignInCard] else []))"

text \<open>The buttons of the participation card.\<close>

datatype participation = Join | Update | Leave

definition Participation_buttons :: "bool \<Rightarrow> participation list" where
  "Participation_buttons joined = (if joined then [Update, Leave] else [Join])"

text \<open>\<open>run(dispatched, message, after)\<close>: nothing on a rejection.\<close>

definition participation_run :: "('p, 'r) outcome \<times> 'w \<Rightarrow> string \<Rightarrow> ui list \<Rightarrow> ui list \<times> 'w" where
  "participation_run res message after =
     (case res of
        (Return p, w) \<Rightarrow> (Toast message None # after, w)
      | (_, w) \<Rightarrow> ([], w))"

definition Participation_click ::
  "(string \<Rightarrow> jnum \<Rightarrow> 'w \<Rightarrow> (purchase_request, string) outcome \<times> 'w) \<Rightarrow>
   (string \<Rightarrow> jnum \<Rightarrow> 'w \<Rightarrow> (purchase_request, string) outcome \<times> 'w) \<Rightarrow>
   (string \<Rightarrow> 'w \<Rightarrow> (string, string) outcome \<times> 'w) \<Rightarrow>
   string \<Rightarrow> jnum \<Rightarrow> participation \<Rightarrow> 'w \<Rightarrow> ui list \<times> 'w" where
  "Participation_click dispatch_join dispatch_update dispatch_leave i quantity b w =
     (case b of
        Update \<Rightarrow> participation_run (dispatch_update i quantity w) ''Quantity updated'' []
      | Leave \<Rightarrow> participation_run (dispatch_leave i w) ''You left this request'' [Navigate ''/my-requests'']
      | Join \<Rightarrow> participation_run (dispatch_join i quantity w) ''Joined this request'' [Navigate ''/my-requests''])"

section \<open>The offer form\<close>

record offer_form =
  fm_availableQuantity :: jnum
  fm_pricePerUnit :: string
  fm_currency :: string
  fm_description :: string

definition OfferForm_seed :: "offer option \<Rightarrow> offer_form" where
  "OfferForm_seed mine =
     \<lparr>fm_availableQuantity = JInt (nullish (Option.bind mine off_availableQuantity) 1),
      fm_pricePerUnit = nullish (Option.bind mine off_pricePerUnit) ''0.00'',
      fm_currency = nullish (Option.bind mine off_currency) ''EUR'',
      fm_description = nullish (Option.bind mine off_description) []\<rparr>"

definition editable :: "offer option \<Rightarrow> bool" where
  "editable mine \<longleftrightarrow> (case mine of None \<Rightarrow> True | Some f \<Rightarrow> off_status f = Some ''PENDING'')"

definition OfferForm_update :: "offer_form \<Rightarrow> offer_update" where
  "OfferForm_update f =
     \<lparr>ou_availableQuantity = fm_availableQuantity f, ou_pricePerUnit = fm_pricePerUnit f,
      ou_currency = fm_currency f, ou_description = fm_description f\<rparr>"

definition OfferForm_create :: "string \<Rightarrow> offer_form \<Rightarrow> offer_create" where
  "OfferForm_create requestId f =
     \<lparr>oc_requestId = Some requestId, oc_item = None, oc_availableQuantity = fm_availableQuantity f,
      oc_pricePerUnit = fm_pricePerUnit f, oc_currency = fm_currency f,
      oc_description = fm_description f\<rparr>"

fun submitted :: "string \<Rightarrow> bool \<Rightarrow> ui list" where
  "submitted requestId updated =
     [StartFetchOffers requestId,
      Toast (if updated then ''Offer updated'' else ''Offer submitted'')
        (Some ''An administrator reviews it next.'')]"

text \<open>The component's own state: whether it is saving, and the picture chosen.\<close>

record offer_form_state =
  ofs_saving :: bool
  ofs_image :: "blob option"

definition OfferForm_begin :: "offer_form_state \<Rightarrow> offer_form_state" where
  "OfferForm_begin st = st\<lparr>ofs_saving := True\<rparr>"

definition OfferForm_end ::
  "string \<Rightarrow> bool \<Rightarrow> ('p, 'r) outcome \<Rightarrow> offer_form_state \<Rightarrow> 'w \<Rightarrow> offer_form_state \<times> ui list \<times> 'w" where
  "OfferForm_end requestId updated res st w =
     (case res of
        Return x \<Rightarrow> (st\<lparr>ofs_saving := False, ofs_image := None\<rparr>, submitted requestId updated, w)
      | Crash e \<Rightarrow> (st, [], w)
      | _ \<Rightarrow> (st\<lparr>ofs_saving := False\<rparr>, [], w))"

definition OfferForm_submit ::
  "(string \<Rightarrow> offer_update \<Rightarrow> blob option \<Rightarrow> 'w \<Rightarrow> (offer, string) outcome \<times> 'w) \<Rightarrow>
   (offer_create \<Rightarrow> blob option \<Rightarrow> 'w \<Rightarrow> (offer, offer create_rejection) outcome \<times> 'w) \<Rightarrow>
   string \<Rightarrow> offer option \<Rightarrow> offer_form \<Rightarrow> offer_form_state \<Rightarrow> 'w \<Rightarrow> offer_form_state \<times> ui list \<times> 'w" where
  "OfferForm_submit dispatch_update dispatch_create requestId mine f st w =
     (case mine of
        Some m \<Rightarrow>
          (let (res, w1) = dispatch_update (off_offerId m) (OfferForm_update f) (ofs_image st) w
           in OfferForm_end requestId True res (OfferForm_begin st) w1)
      | None \<Rightarrow>
          (let (res, w1) = dispatch_create (OfferForm_create requestId f) (ofs_image st) w
           in OfferForm_end requestId False res (OfferForm_begin st) w1))"

definition OfferForm_withdraw_end ::
  "string \<Rightarrow> (string, string) outcome \<Rightarrow> offer_form_state \<Rightarrow> 'w \<Rightarrow> offer_form_state \<times> ui list \<times> 'w" where
  "OfferForm_withdraw_end requestId res st w =
     (case res of
        Return x \<Rightarrow>
          (st\<lparr>ofs_saving := False\<rparr>,
           [StartFetchOffers requestId,
            Toast ''Offer withdrawn''
              (Some ''You can answer this request again whenever you like.'')], w)
      | Crash e \<Rightarrow> (st, [], w)
      | _ \<Rightarrow> (st\<lparr>ofs_saving := False\<rparr>, [], w))"

definition OfferForm_withdraw ::
  "(string \<Rightarrow> 'w \<Rightarrow> (string, string) outcome \<times> 'w) \<Rightarrow> string \<Rightarrow> offer \<Rightarrow> offer_form_state \<Rightarrow> 'w \<Rightarrow>
   offer_form_state \<times> ui list \<times> 'w" where
  "OfferForm_withdraw dispatch_cancel requestId m st w =
     (let (res, w1) = dispatch_cancel (off_offerId m) w
      in OfferForm_withdraw_end requestId res (OfferForm_begin st) w1)"

section \<open>Facts\<close>

lemmas new_request_handler = NewRequest_submit_def NewRequest_end_def NewRequest_begin_def Let_def

lemma hasJoined_iff: "hasJoined i mine \<longleftrightarrow> Some i \<in> req_requestId ` set mine"
  by (induction mine) (auto simp: hasJoined_def)

lemma hasJoined_mine_map: "hasJoined i (rq_mine s) \<longleftrightarrow> mine_map s (Some i) \<noteq> None"
  by (simp add: hasJoined_iff mine_map_def entries_None_iff)

lemma similar_after_refusal:
  "cr_existing c = Some r \<Longrightarrow>
     rq_similar (requests_reducer (CreateRequest (Rejected (Some c))) s) = [r\<lparr>req_exact := Some True\<rparr>]"
  by (simp add: reducer_simps)

section \<open>Properties of the request pages\<close>

text \<open>
  C35. Submitting the new-request form ends in one of two ways. Created: the dialog closes empty, the
  suggestions are cleared and the request is first among the caller's own. Refused: the dialog
  stays with the reason to show, and when the service named the request already open for the
  item, that request is what is suggested and the create button is withheld.
\<close>

theorem NewRequest_submit_ends:
  assumes "thunk_lifecycle run"
    and "NewRequest_submit (\<lambda>b img. run CreateRequest (createRequest cl tok b img)) n w = (n', uis, w')"
  shows "\<not> nr_saving n' \<and>
    (case fst (createRequest cl tok (new_request_body n) (nr_image n) (dispatch (CreateRequest Pending) w)) of
       Return r \<Rightarrow>
         \<not> nr_open n' \<and> nr_itemName n' = [] \<and> rq_similar (requests (store w')) = [] \<and>
         (\<exists>rs. rq_mine (requests (store w')) = r # rs)
     | RejectWith c \<Rightarrow>
         nr_open n' = nr_open n \<and> nr_itemName n' = nr_itemName n \<and> uis = [] \<and>
         nr_error n' = Some (cr_message c) \<and>
         (case cr_existing c of
            None \<Rightarrow> True
          | Some r \<Rightarrow>
              rq_similar (requests (store w')) = [r\<lparr>req_exact := Some True\<rparr>] \<and>
              \<not> create_offered (requests (store w')))
     | _ \<Rightarrow> False)"
proof -
  obtain out w1 where run: "run CreateRequest (createRequest cl tok (new_request_body n) (nr_image n)) w = (out, w1)"
    by (rule prod.exhaust)
  then obtain w0 where
    creator: "createRequest cl tok (new_request_body n) (nr_image n) (dispatch (CreateRequest Pending) w) = (out, w0)"
    and w1: "w1 = dispatch (CreateRequest (settled out)) w0"
    by (rule runE[OF assms(1)]) simp
  have "(\<exists>p. out = Return p) \<or> (\<exists>c. out = RejectWith c)"
    using createRequest_outcome[of cl tok "new_request_body n" "nr_image n" "dispatch (CreateRequest Pending) w"]
      creator
    by simp
  then show ?thesis
  proof (elim disjE exE)
    fix p assume p: "out = Return p"
    have "n' = emptied (n\<lparr>nr_error := None, nr_saving := False\<rparr>)" and "w' = dispatch SimilarCleared w1"
      using assms(2) by (simp_all add: new_request_handler run p done_request_def emptied_def)
    then show ?thesis by (simp add: creator emptied_def w1 p reducer_simps)
  next
    fix c assume c: "out = RejectWith c"
    have n': "n' = n\<lparr>nr_saving := False, nr_error := Some (cr_message c)\<rparr>" "uis = []" "w' = w1"
      using assms(2) by (simp_all add: new_request_handler run c)
    show ?thesis
      using similar_after_refusal[of c]
      by (simp add: creator n' w1 c create_offered_def exactMatch_def truthy_flag_def split: option.split)
  qed
qed

text \<open>
  The browse page asks for live demand only, a search for every status, and creating a request
  undoes both: while nothing is searched for the list holds open requests, a search sends the
  trimmed words and no status, and after a create the list is fetched with no filter at all, so
  that dormant requests appear and a search on screen is dropped.
\<close>

theorem browse_filter_lost:
  "(trim query = [] \<longrightarrow> requests_path (browse_filters query) = ''/api/requests?status=OPEN'') \<and>
   (trim query \<noteq> [] \<longrightarrow> filter_params (browse_filters query) = [(''q'', trim query)]) \<and>
   (\<exists>n' w'. NewRequest_submit (\<lambda>b img w. (Return r, w)) n w =
      (n', [StartFetchRequests no_filters,
            Toast ''Request created'' (Some ''Other buyers can now join it.'')], w')) \<and>
   requests_path no_filters = ''/api/requests''"
  by (auto simp: requests_path_def browse_filters_def filter_params_def set_param_def no_filters_def
      params_toString_def form_encode_def form_safe_def is_alnum_def new_request_handler
      done_request_def Let_def)

theorem browse_filter_lost_witness:
  "requests_path (browse_filters ''  '') = ''/api/requests?status=OPEN''"
proof -
  have "trim ''  '' = []" by (simp add: trim_def is_space_def)
  with browse_filter_lost[of "''  ''"] show ?thesis by blast
qed

text \<open>
  The participation buttons follow what the caller did: once a join of this request has been
  answered the page offers to change the quantity or leave and no longer to join, and once a
  leave has been answered it offers to join again, whatever the list held before.
\<close>

theorem participation_follows:
  assumes "req_requestId r = Some i"
  shows "Participation_buttons
      (hasJoined i (rq_mine (requests_reducer (JoinRequest (Fulfilled r)) s))) = [Update, Leave] \<and>
    Participation_buttons
      (hasJoined i (rq_mine (requests_reducer (LeaveRequest (Fulfilled i)) s))) = [Join]"
  using assms by (simp add: hasJoined_mine_map mine_map_reducer Participation_buttons_def)

theorem participation_follows_witness:
  "Participation_buttons (hasJoined ''r1'' (rq_mine (requests_reducer
     (JoinRequest (Fulfilled ((as_request JNull)\<lparr>req_requestId := Some ''r1''\<rparr>))) requests_initial))) =
   [Update, Leave]"
  using participation_follows[of "(as_request JNull)\<lparr>req_requestId := Some ''r1''\<rparr>" "''r1''" requests_initial]
  by simp

text \<open>
  C36. The offer form can edit the offer of another request: the offers last fetched stay when the
  fetch for the next request fails or is still out, and the page takes the seller's offer from
  them without comparing the request. The form on any request then shows the other request's
  offer, and submitting it sends the update to that offer.
\<close>

theorem offer_form_stale:
  assumes "isFullOffer f" and "off_status f = Some ''PENDING''"
    and "Option.bind (auth_user (auth (store w))) usr_role = Some SELLER"
    and "w' = dispatch_all [FetchOffersForRequest (Fulfilled [f]), FetchRequest (Fulfilled r),
                FetchOffersForRequest Pending, FetchOffersForRequest (Rejected None)] w"
  shows "OfferCard (Some f) \<in> set (RequestDetail_cards (store w')) \<and>
    rq_current (requests (store w')) = Some r \<and> editable (Some f) \<and>
    requests_of (\<lambda>c v. snd (OfferForm_submit (updateOffer c tok) (createOffer c tok) requestId
        (Some f) form st v)) cl v =
      requests_of (\<lambda>c. updateOffer c tok (off_offerId f) (OfferForm_update form) (ofs_image st)) cl v"
proof -
  have "OfferCard (Some f) \<in> set (RequestDetail_cards (store w'))"
    and "rq_current (requests (store w')) = Some r" and "editable (Some f)"
    using assms
    by (auto simp: RequestDetail_cards_def Let_def myOffer_def editable_def reducer_simps auth_frame
        requests_frame offers_frame)
  moreover have "snd (snd (OfferForm_submit (updateOffer c tok) (createOffer c tok) requestId (Some f) form st x)) =
      snd (updateOffer c tok (off_offerId f) (OfferForm_update form) (ofs_image st) x)" for c x
    by (simp add: OfferForm_submit_def OfferForm_end_def split: prod.split outcome.split)
  ultimately show ?thesis by (simp add: requests_of_def)
qed

theorem NewRequest_submit_ends_witness:
  "\<exists>n' uis w'. NewRequest_submit
      (\<lambda>b img. plain_runner CreateRequest (createRequest (answering 500 JNull) tokenOf b img))
      \<lparr>nr_open = True, nr_saving = True, nr_error = None, nr_itemName = ''Drill'', nr_quantity = JInt 1,
       nr_image = None\<rparr> (page_load empty_storage 0 ()) = (n', uis, w') \<and> \<not> nr_saving n'"
proof -
  obtain n' uis w' where run: "NewRequest_submit
      (\<lambda>b img. plain_runner CreateRequest (createRequest (answering 500 JNull) tokenOf b img))
      \<lparr>nr_open = True, nr_saving = True, nr_error = None, nr_itemName = ''Drill'', nr_quantity = JInt 1,
       nr_image = None\<rparr> (page_load empty_storage 0 ()) = (n', uis, w')"
    by (rule prod_cases3)
  with NewRequest_submit_ends[OF thunk_lifecycle_plain_runner run] show ?thesis by blast
qed

text \<open>A seller, and an offer of theirs that waits for a decision.\<close>

definition seller_world :: "unit world" where
  "seller_world =
     dispatch (LoadSession (Fulfilled \<lparr>si_user = (as_user JNull)\<lparr>usr_role := Some SELLER\<rparr>,
       si_hasProfile = True, si_profile = None\<rparr>)) (page_load empty_storage 0 ())"

definition waiting_offer :: offer where
  "waiting_offer =
     (as_offer (JObj [(''offerId'', JStr ''f1''), (''requestId'', JStr ''r1''),
        (''sellerId'', JStr ''s1''), (''status'', JStr ''PENDING'')]))"

theorem offer_form_stale_witness:
  "OfferCard (Some waiting_offer) \<in> set (RequestDetail_cards (store (dispatch_all
     [FetchOffersForRequest (Fulfilled [waiting_offer]),
      FetchRequest (Fulfilled ((as_request JNull)\<lparr>req_requestId := Some ''r2''\<rparr>)),
      FetchOffersForRequest Pending, FetchOffersForRequest (Rejected None)] seller_world)))"
proof -
  have f: "isFullOffer waiting_offer" "off_status waiting_offer = Some ''PENDING''"
    by (simp_all add: waiting_offer_def as_offer_def isFullOffer_def in_obj_def prop_field_def str_field_def)
  have s: "Option.bind (auth_user (auth (store seller_world))) usr_role = Some SELLER"
    by (simp add: seller_world_def)
  show ?thesis
    using offer_form_stale[OF f s refl, of "(as_request JNull)\<lparr>req_requestId := Some ''r2''\<rparr>"
        "\<lambda>w. None" "''r2''" "OfferForm_seed None" "\<lparr>ofs_saving = True, ofs_image = None\<rparr>"
        "answering 200 JNull" "()"]
    by blast
qed

end
