(* ===== verification/AdminPages.thy ===== *)
theory AdminPages
  imports RequestPages
begin

text \<open>
  The handlers and derived data of \<open>frontend/src/pages/admin/Queue.tsx\<close>,
  \<open>frontend/src/pages/admin/Access.tsx\<close>, \<open>frontend/src/pages/Contacts.tsx\<close> and
  \<open>frontend/src/pages/Notifications.tsx\<close>.
\<close>

section \<open>The approval queue\<close>

definition decision_reason :: "(string \<rightharpoonup> string) \<Rightarrow> string \<Rightarrow> bool \<Rightarrow> string" where
  "decision_reason reasons offerId approve =
     (let given = map_option trim (reasons offerId)
      in if truthy given then the given else if approve then ''Approved'' else ''Rejected'')"

definition Queue_decide ::
  "(string \<Rightarrow> bool \<Rightarrow> string \<Rightarrow> 'w \<Rightarrow> (string \<times> decision, string) outcome \<times> 'w) \<Rightarrow>
   (string \<rightharpoonup> string) \<Rightarrow> string \<Rightarrow> bool \<Rightarrow> 'w \<Rightarrow> ui list \<times> 'w" where
  "Queue_decide dispatch_decide reasons offerId approve w =
     (case dispatch_decide offerId approve (decision_reason reasons offerId approve) w of
        (Return d, w1) \<Rightarrow>
          ([Toast (if approve then ''Offer approved'' else ''Offer rejected'')
              (Some (if approve
                 then ''The seller can now see the phone numbers of the buyers on that request.''
                 else ''The seller is notified. No contact details were released.''))], w1)
      | (_, w1) \<Rightarrow> ([], w1))"

section \<open>Contact access\<close>

text \<open>The grants with a revoke button.\<close>

definition Access_revocable :: "admin_state \<Rightarrow> contact_access list" where
  "Access_revocable s = filter (\<lambda>g. ca_status g = Some ''GRANTED'') (ad_grants s)"

section \<open>Contacts\<close>

definition approved_offers :: "offers_state \<Rightarrow> offer list" where
  "approved_offers s = filter (\<lambda>f. off_status f = Some ''APPROVED'') (of_mine s)"

definition contacts_open :: "admin_state \<Rightarrow> offer \<Rightarrow> bool" where
  "contacts_open s f \<longleftrightarrow>
     (case ad_contacts s of None \<Rightarrow> False | Some c \<Rightarrow> cl_requestId c = Some (off_requestId f))"

text \<open>The button of a card: hide what is open, or fetch.\<close>

definition Contacts_click ::
  "(string \<Rightarrow> 'e world \<Rightarrow> (contact_list, string) outcome \<times> 'e world) \<Rightarrow> offer \<Rightarrow> 'e world \<Rightarrow> 'e world" where
  "Contacts_click dispatch_fetch f w =
     (if contacts_open (admin (store w)) f then dispatch ContactsCleared w
      else snd (dispatch_fetch (off_requestId f) w))"

text \<open>What the effect does when the page is left.\<close>

definition Contacts_unmount :: "'e world \<Rightarrow> 'e world" where
  "Contacts_unmount w = dispatch ContactsCleared w"

section \<open>Notifications\<close>

definition isUnread :: "notification \<Rightarrow> bool" where
  "isUnread n \<longleftrightarrow> nt_status n \<noteq> Some ''READ''"

section \<open>Properties of the administration pages\<close>

text \<open>
  Every decision is recorded with a reason: what is sent is the text the administrator typed
  without the blanks around it, or, when that is blank or nothing was typed, the word for the
  decision; it is never empty and never starts with a blank.
\<close>

theorem decision_reason_given:
  "decision_reason reasons i approve \<noteq> [] \<and>
   \<not> is_space (hd (decision_reason reasons i approve)) \<and>
   (\<forall>t. reasons i = Some t \<and> trim t \<noteq> [] \<longrightarrow> decision_reason reasons i approve = trim t)"
proof (cases "truthy (map_option trim (reasons i))")
  case True
  then obtain t where "reasons i = Some t" "trim t \<noteq> []" by (cases "reasons i") auto
  with trim_no_space[of t] show ?thesis by (simp add: decision_reason_def Let_def)
next
  case False
  then show ?thesis by (auto simp: decision_reason_def Let_def is_space_def)
qed

theorem decision_reason_given_witness:
  "decision_reason [''f1'' \<mapsto> '' Fair price ''] ''f1'' True = ''Fair price''"
proof -
  have "trim '' Fair price '' = ''Fair price''" by (simp add: trim_def is_space_def)
  with decision_reason_given[of "[''f1'' \<mapsto> '' Fair price '']" "''f1''" True] show ?thesis by simp
qed

text \<open>
  Phone numbers can outlive the page that shows them: leaving the page clears the contact list,
  and an answer to a lookup still under way fills it again, after which no list but a later
  lookup or a clear replaces it.
\<close>

theorem contacts_late_answer:
  "ad_contacts (admin (store (Contacts_unmount w))) = None \<and>
   ad_contacts (admin (store (dispatch (FetchContacts (Fulfilled c)) (Contacts_unmount w)))) = Some c"
  by (simp add: Contacts_unmount_def reducer_simps)

text \<open>
  A revoked grant cannot be revoked again from the page: after a revocation the grants with a
  revoke button are those there were, without the revoked one, and a second click has nothing
  to act on.
\<close>

theorem revoked_not_revocable:
  "Access_revocable (admin_reducer (RevokeGrant (Fulfilled i)) s) =
     [g \<leftarrow> Access_revocable s. ca_accessId g \<noteq> Some i]"
proof -
  have "filter (\<lambda>g. ca_status g = Some ''GRANTED'') (map (revoked i) gs) =
      [g \<leftarrow> gs. ca_status g = Some ''GRANTED'' \<and> ca_accessId g \<noteq> Some i]" for gs
    by (induction gs) (auto simp: revoked_def)
  then show ?thesis by (simp add: Access_revocable_def revoke_grants conj_commute)
qed

end
