(* ===== verification/View.thy ===== *)
theory View
  imports AdminPages
begin

text \<open>
  What a component renders: React elements as trees. An element has the name of what it is an
  element of (an HTML tag, or a component that is not part of the sources, such as a router link,
  an icon or a primitive of the dialog library), its props and its children. The components of
  the sources are functions to such trees, so a page is a tree in which only foreign components
  are left as leaves or wrappers.

  Class names and inline styles are left out throughout: they carry no behaviour. Handlers are
  values of the type parameter \<open>'h\<close>, which the pages instantiate.
\<close>

section \<open>Elements\<close>

text \<open>The value of a prop: a string, a flag, a number, a handler, the location state
  \<open>{ from: location }\<close> by the path it holds, or \<open>undefined\<close>.\<close>

datatype 'h val = Str string | Flag bool | Num jnum | On 'h | FromLocation string | Undefined

type_synonym 'h props = "(string \<times> 'h val) list"

datatype 'h node = Text string | El string "'h props" "'h node list"

text \<open>A child in braces: absent values and \<open>false\<close> render nothing.\<close>

definition only_if :: "bool \<Rightarrow> 'h node list \<Rightarrow> 'h node list" where
  "only_if c ns = (if c then ns else [])"

definition text_of :: "string option \<Rightarrow> 'h node list" where
  "text_of v = (case v of None \<Rightarrow> [] | Some s \<Rightarrow> [Text s])"

definition number_of :: "int option \<Rightarrow> 'h node list" where
  "number_of v = (case v of None \<Rightarrow> [] | Some i \<Rightarrow> [Text (js_String (JNum (JInt i)))])"

text \<open>A prop that may be absent, and an interpolated value that may be.\<close>

definition str_prop :: "string option \<Rightarrow> 'h val" where
  "str_prop v = (case v of None \<Rightarrow> Undefined | Some s \<Rightarrow> Str s)"

definition interpolated :: "string option \<Rightarrow> string" where
  "interpolated v = nullish v ''undefined''"

text \<open>An icon, or any element without props and children.\<close>

abbreviation icon :: "string \<Rightarrow> 'h node" where
  "icon name \<equiv> El name [] []"

text \<open>An HTML element that has only class names for props.\<close>

abbreviation plain :: "string \<Rightarrow> 'h node list \<Rightarrow> 'h node" where
  "plain tag \<equiv> El tag []"

section \<open>Props\<close>

definition prop_of :: "string \<Rightarrow> 'h props \<Rightarrow> 'h val" where
  "prop_of k ps = nullish (map_of ps k) Undefined"

text \<open>\<open><C a={x} { ...props } />\<close>: what is spread comes last and wins.\<close>

definition spread :: "'h props \<Rightarrow> 'h props \<Rightarrow> 'h props" where
  "spread base props =
     map (\<lambda>(k, v). (k, nullish (map_of props k) v)) base @
     filter (\<lambda>(k, v). map_of base k = None) props"

lemma map_of_spread: "map_of (spread base props) k =
    (case map_of props k of None \<Rightarrow> map_of base k | Some v \<Rightarrow> Some v)"
proof -
  have over: "map_of (map (\<lambda>(k, v). (k, nullish (map_of props k) v)) base) k =
      map_option (nullish (map_of props k)) (map_of base k)" for base :: "'a props"
    by (induction base) auto
  have rest: "map_of (filter (\<lambda>(k, v). map_of base k = None) ps) k =
      (if map_of base k = None then map_of ps k else None)" for ps :: "'a props"
    by (induction ps) auto
  show ?thesis
    by (auto simp: spread_def map_add_def over rest split: option.split)
qed

lemma prop_of_simps [simp]:
  "prop_of k [] = Undefined"
  "prop_of k ((j, v) # ps) = (if j = k then v else prop_of k ps)"
  by (simp_all add: prop_of_def)

lemma prop_of_spread:
  "prop_of k (spread base props) =
     (case map_of props k of None \<Rightarrow> prop_of k base | Some v \<Rightarrow> v)"
  by (simp add: prop_of_def map_of_spread split: option.split)

text \<open>The value of a prop, where it is given.\<close>

definition given :: "string \<Rightarrow> 'h props \<Rightarrow> 'h val list" where
  "given k ps = (if prop_of k ps = Undefined then [] else [prop_of k ps])"

named_theorems view_simps \<open>what a tree holds, by its shape\<close>

lemma given_simps [view_simps]:
  "given k [] = []"
  "given k ((j, v) # ps) = (if j = k then (if v = Undefined then [] else [v]) else given k ps)"
  by (simp_all add: given_def)

lemma given_append [view_simps]: "k \<notin> fst ` set ps \<Longrightarrow> given k (ps @ qs) = given k qs"
  by (induction ps) (auto simp: given_def)

text \<open>A component passes on what it does not set itself.\<close>

lemma given_spread [view_simps]:
  assumes "map_of base k = None"
  shows "given k (spread base props) = given k props"
proof -
  have "prop_of k (spread base props) = prop_of k props"
    using assms by (simp add: prop_of_spread) (simp add: prop_of_def split: option.split)
  then show ?thesis by (simp add: given_def)
qed

section \<open>What a tree holds\<close>

text \<open>The values of a prop in a tree, in document order, where it is given.\<close>

primrec attrs :: "string \<Rightarrow> 'h node \<Rightarrow> 'h val list" where
  "attrs k (Text s) = []"
| "attrs k (El t ps cs) =
     given k ps @ concat (map (attrs k) cs)"

text \<open>Every node of a tree.\<close>

primrec nodes :: "'h node \<Rightarrow> 'h node list" where
  "nodes (Text s) = [Text s]"
| "nodes (El t ps cs) = El t ps cs # concat (map nodes cs)"

text \<open>The text a reader sees.\<close>

primrec content :: "'h node \<Rightarrow> string" where
  "content (Text s) = s"
| "content (El t ps cs) = concat (map content cs)"

definition attrs_all :: "string \<Rightarrow> 'h node list \<Rightarrow> 'h val list" where
  "attrs_all k ns = concat (map (attrs k) ns)"

definition nodes_all :: "'h node list \<Rightarrow> 'h node list" where
  "nodes_all ns = concat (map nodes ns)"

lemma attrs_El: "attrs k (El t ps cs) = given k ps @ attrs_all k cs"
  by (simp add: attrs_all_def)

lemma nodes_El: "nodes (El t ps cs) = El t ps cs # nodes_all cs"
  by (simp add: nodes_all_def)

declare attrs.simps(2) [simp del] nodes.simps(2) [simp del]

lemma attrs_all_simps [view_simps]:
  "attrs_all k [] = []"
  "attrs_all k (n # ns) = attrs k n @ attrs_all k ns"
  "attrs_all k (ns @ ms) = attrs_all k ns @ attrs_all k ms"
  "attrs_all k (only_if c ns) = (if c then attrs_all k ns else [])"
  "attrs_all k (if b then ns else ms) = (if b then attrs_all k ns else attrs_all k ms)"
  "attrs_all k (text_of v) = []"
  "attrs_all k (number_of i) = []"
  by (auto simp: attrs_all_def only_if_def text_of_def number_of_def split: option.splits)

lemma nodes_all_simps [view_simps]:
  "nodes_all [] = []"
  "nodes_all (n # ns) = nodes n @ nodes_all ns"
  "nodes_all (ns @ ms) = nodes_all ns @ nodes_all ms"
  "nodes_all (only_if c ns) = (if c then nodes_all ns else [])"
  "nodes_all (if b then ns else ms) = (if b then nodes_all ns else nodes_all ms)"
  by (simp_all add: nodes_all_def only_if_def)

lemma attrs_all_map [view_simps]: "attrs_all k (map f xs) = concat (map (\<lambda>x. attrs k (f x)) xs)"
  by (simp add: attrs_all_def comp_def)

lemma nodes_all_map [view_simps]: "nodes_all (map f xs) = concat (map (\<lambda>x. nodes (f x)) xs)"
  by (simp add: nodes_all_def comp_def)

lemma attrs_if [view_simps]: "attrs k (if b then m else n) = (if b then attrs k m else attrs k n)"
  by simp

lemmas attrs_shape [view_simps] = attrs.simps(1) attrs_El
lemmas nodes_shape [view_simps] = nodes.simps(1) nodes_El

text \<open>The values of a prop in the elements that satisfy a test on their name and props.\<close>

primrec select :: "(string \<Rightarrow> 'h props \<Rightarrow> bool) \<Rightarrow> string \<Rightarrow> 'h node \<Rightarrow> 'h val list" where
  "select P k (Text s) = []"
| "select P k (El t ps cs) =
     (if P t ps then [prop_of k ps] else []) @ concat (map (select P k) cs)"

definition select_all :: "(string \<Rightarrow> 'h props \<Rightarrow> bool) \<Rightarrow> string \<Rightarrow> 'h node list \<Rightarrow> 'h val list" where
  "select_all P k ns = concat (map (select P k) ns)"

declare select.simps(2) [simp del]

lemma select_El [view_simps]: "select P k (El t ps cs) =
    (if P t ps then [prop_of k ps] else []) @ select_all P k cs"
  by (simp add: select.simps(2) select_all_def)

lemma select_all_simps [view_simps]:
  "select_all P k [] = []"
  "select_all P k (n # ns) = select P k n @ select_all P k ns"
  "select_all P k (ns @ ms) = select_all P k ns @ select_all P k ms"
  "select_all P k (only_if c ns) = (if c then select_all P k ns else [])"
  "select_all P k (if b then ns else ms) = (if b then select_all P k ns else select_all P k ms)"
  "select_all P k (text_of v) = []"
  "select_all P k (number_of i) = []"
  "select_all P k (map f xs) = concat (map (\<lambda>x. select P k (f x)) xs)"
  by (auto simp: select_all_def only_if_def text_of_def number_of_def comp_def split: option.splits)

text \<open>The tests the pages are searched with: a button that submits, a control to type into.\<close>

definition submits :: "string \<Rightarrow> 'h props \<Rightarrow> bool" where
  "submits t ps \<longleftrightarrow> prop_of ''type'' ps = Str ''submit''"

definition entry :: "string \<Rightarrow> 'h props \<Rightarrow> bool" where
  "entry t ps \<longleftrightarrow> t = ''input'' \<or> t = ''textarea''"

lemma submits_spread [view_simps]:
  "submits t (spread base props) \<longleftrightarrow>
     (case map_of props ''type'' of None \<Rightarrow> prop_of ''type'' base | Some v \<Rightarrow> v) = Str ''submit''"
  "submits t [] \<longleftrightarrow> False"
  "submits t ((j, v) # ps) \<longleftrightarrow> (if j = ''type'' then v = Str ''submit'' else submits t ps)"
  by (simp_all add: submits_def prop_of_spread)

lemma entry_simps [view_simps]:
  "entry ''input'' ps" "entry ''textarea'' ps" "t \<noteq> ''input'' \<Longrightarrow> t \<noteq> ''textarea'' \<Longrightarrow> \<not> entry t ps"
  by (simp_all add: entry_def)

text \<open>The values of a prop outside every element of a given name.\<close>

primrec attrs_outside :: "string \<Rightarrow> string \<Rightarrow> 'h node \<Rightarrow> 'h val list" where
  "attrs_outside u k (Text s) = []"
| "attrs_outside u k (El t ps cs) =
     (if t = u then [] else given k ps @ concat (map (attrs_outside u k) cs))"

definition attrs_outside_all :: "string \<Rightarrow> string \<Rightarrow> 'h node list \<Rightarrow> 'h val list" where
  "attrs_outside_all u k ns = concat (map (attrs_outside u k) ns)"

declare attrs_outside.simps(2) [simp del]

lemma attrs_outside_El [view_simps]:
  "attrs_outside u k (El t ps cs) = (if t = u then [] else given k ps @ attrs_outside_all u k cs)"
  by (simp add: attrs_outside.simps(2) attrs_outside_all_def)

lemma attrs_outside_all_simps [view_simps]:
  "attrs_outside_all u k [] = []"
  "attrs_outside_all u k (n # ns) = attrs_outside u k n @ attrs_outside_all u k ns"
  "attrs_outside_all u k (ns @ ms) = attrs_outside_all u k ns @ attrs_outside_all u k ms"
  "attrs_outside_all u k (only_if c ns) = (if c then attrs_outside_all u k ns else [])"
  "attrs_outside_all u k (text_of v) = []"
  "attrs_outside_all u k (number_of i) = []"
  "attrs_outside_all u k (map f xs) = concat (map (\<lambda>x. attrs_outside u k (f x)) xs)"
  by (auto simp: attrs_outside_all_def only_if_def text_of_def number_of_def comp_def split: option.splits)

lemma attrs_outside_if [view_simps]:
  "attrs_outside u k (if b then m else n) = (if b then attrs_outside u k m else attrs_outside u k n)"
  by simp

definition goes_to :: "string \<Rightarrow> string \<Rightarrow> 'h props \<Rightarrow> bool" where
  "goes_to path t ps \<longleftrightarrow> prop_of ''to'' ps = Str path"

text \<open>Nothing in a text depends on what it says; simplification need not look inside.\<close>

lemma Text_cong: "Text s = Text s"
  by (rule refl)

lemma attrs_nodes: "v \<in> set (attrs k n) \<longleftrightarrow>
    (\<exists>t ps cs. El t ps cs \<in> set (nodes n) \<and> prop_of k ps = v \<and> v \<noteq> Undefined)"
  by (induction n) (auto simp: attrs.simps(2) nodes.simps(2) given_def, blast+)

section \<open>Well-formed pages\<close>

definition ids :: "'h node \<Rightarrow> 'h val list" where
  "ids n = attrs ''id'' n"

definition label_targets :: "'h node \<Rightarrow> 'h val list" where
  "label_targets n = attrs ''htmlFor'' n"

text \<open>Every id names one element, and every label is the label of an element that is there.\<close>

definition well_labelled :: "'h node \<Rightarrow> bool" where
  "well_labelled n \<longleftrightarrow> distinct (ids n) \<and> set (label_targets n) \<subseteq> set (ids n)"

lemma well_labelledI:
  assumes "ids n = is" and "label_targets n = ls" and "distinct is" and "list_all (\<lambda>l. l \<in> set is) ls"
  shows "well_labelled n"
  using assms by (auto simp: well_labelled_def list_all_iff)

text \<open>Where the links of a tree lead.\<close>

definition links :: "'h node \<Rightarrow> 'h val list" where
  "links n = attrs ''to'' n"

text \<open>The addresses outside the application, such as a number to dial.\<close>

definition hrefs :: "'h node \<Rightarrow> 'h val list" where
  "hrefs n = attrs ''href'' n"

lemmas holds_defs = ids_def label_targets_def links_def hrefs_def

end
