(* ===== verification/Ui.thy ===== *)
theory Ui
  imports View
begin

text \<open>
  The component library under \<open>frontend/src/components/ui\<close>. Most of its components wrap one element:
  they give it a slot name and a default or two, and spread the caller's props over that, so that
  the caller's props win. \<open>host\<close> is that pattern; a component with a variant or a size takes it as an
  optional argument and supplies the default. Primitives of the dialog library stay elements.
\<close>

definition host :: "string \<Rightarrow> 'h props \<Rightarrow> 'h props \<Rightarrow> 'h node list \<Rightarrow> 'h node" where
  "host tag base props children = El tag (spread base props) children"

section \<open>Buttons, badges and small elements: \<open>ui/button.tsx\<close>, \<open>ui/badge.tsx\<close> and others\<close>

definition Button :: "string option \<Rightarrow> string option \<Rightarrow> bool \<Rightarrow> 'h props \<Rightarrow> 'h node list \<Rightarrow> 'h node" where
  "Button variant sz asChild =
     host (if asChild then ''Slot.Root'' else ''button'')
       [(''data-slot'', Str ''button''), (''data-variant'', Str (nullish variant ''default'')),
        (''data-size'', Str (nullish sz ''default''))]"

definition Badge :: "string option \<Rightarrow> bool \<Rightarrow> 'h props \<Rightarrow> 'h node list \<Rightarrow> 'h node" where
  "Badge variant asChild =
     host (if asChild then ''Slot.Root'' else ''span'')
       [(''data-slot'', Str ''badge''), (''data-variant'', Str (nullish variant ''default''))]"

definition Spinner :: "'h props \<Rightarrow> 'h node" where
  "Spinner props =
     host ''Loader2Icon''
       [(''data-slot'', Str ''spinner''), (''role'', Str ''status''), (''aria-label'', Str ''Loading'')] props []"

definition Skeleton :: "'h props \<Rightarrow> 'h node" where
  "Skeleton props = host ''div'' [(''data-slot'', Str ''skeleton'')] props []"

definition Separator :: "string option \<Rightarrow> bool option \<Rightarrow> 'h props \<Rightarrow> 'h node" where
  "Separator orientation decorative props =
     host ''SeparatorPrimitive.Root''
       [(''data-slot'', Str ''separator''), (''decorative'', Flag (nullish decorative True)),
        (''orientation'', Str (nullish orientation ''horizontal''))] props []"

definition ButtonGroup :: "string option \<Rightarrow> 'h props \<Rightarrow> 'h node list \<Rightarrow> 'h node" where
  "ButtonGroup orientation =
     host ''div''
       [(''role'', Str ''group''), (''data-slot'', Str ''button-group''),
        (''data-orientation'', str_prop orientation)]"

definition ButtonGroupText :: "bool \<Rightarrow> 'h props \<Rightarrow> 'h node list \<Rightarrow> 'h node" where
  "ButtonGroupText asChild = host (if asChild then ''Slot.Root'' else ''div'') []"

definition ButtonGroupSeparator :: "string option \<Rightarrow> bool option \<Rightarrow> 'h props \<Rightarrow> 'h node" where
  "ButtonGroupSeparator orientation decorative props =
     Separator (Some (nullish orientation ''vertical'')) decorative
       (spread [(''data-slot'', Str ''button-group-separator'')] props)"


section \<open>Form fields: \<open>ui/input.tsx\<close>, \<open>ui/textarea.tsx\<close>, \<open>ui/label.tsx\<close>, \<open>ui/field.tsx\<close>\<close>

definition Input :: "string option \<Rightarrow> 'h props \<Rightarrow> 'h node" where
  "Input type props = host ''input'' [(''type'', str_prop type), (''data-slot'', Str ''input'')] props []"

definition Textarea :: "'h props \<Rightarrow> 'h node" where
  "Textarea props = host ''textarea'' [(''data-slot'', Str ''textarea'')] props []"

definition Label :: "'h props \<Rightarrow> 'h node list \<Rightarrow> 'h node" where
  "Label = host ''LabelPrimitive.Root'' [(''data-slot'', Str ''label'')]"

definition FieldSet :: "'h props \<Rightarrow> 'h node list \<Rightarrow> 'h node" where
  "FieldSet = host ''fieldset'' [(''data-slot'', Str ''field-set'')]"

definition FieldLegend :: "string option \<Rightarrow> 'h props \<Rightarrow> 'h node list \<Rightarrow> 'h node" where
  "FieldLegend variant =
     host ''legend''
       [(''data-slot'', Str ''field-legend''), (''data-variant'', Str (nullish variant ''legend''))]"

definition FieldGroup :: "'h props \<Rightarrow> 'h node list \<Rightarrow> 'h node" where
  "FieldGroup = host ''div'' [(''data-slot'', Str ''field-group'')]"

definition Field :: "string option \<Rightarrow> 'h props \<Rightarrow> 'h node list \<Rightarrow> 'h node" where
  "Field orientation =
     host ''div''
       [(''role'', Str ''group''), (''data-slot'', Str ''field''),
        (''data-orientation'', Str (nullish orientation ''vertical''))]"

definition FieldContent :: "'h props \<Rightarrow> 'h node list \<Rightarrow> 'h node" where
  "FieldContent = host ''div'' [(''data-slot'', Str ''field-content'')]"

text \<open>A \<open>Label\<close> whose slot is replaced.\<close>

definition FieldLabel :: "'h props \<Rightarrow> 'h node list \<Rightarrow> 'h node" where
  "FieldLabel props = Label (spread [(''data-slot'', Str ''field-label'')] props)"

definition FieldTitle :: "'h props \<Rightarrow> 'h node list \<Rightarrow> 'h node" where
  "FieldTitle = host ''div'' [(''data-slot'', Str ''field-label'')]"

definition FieldDescription :: "'h props \<Rightarrow> 'h node list \<Rightarrow> 'h node" where
  "FieldDescription = host ''p'' [(''data-slot'', Str ''field-description'')]"

definition FieldSeparator :: "'h props \<Rightarrow> 'h node list \<Rightarrow> 'h node" where
  "FieldSeparator props children =
     host ''div''
       [(''data-slot'', Str ''field-separator''), (''data-content'', Flag (children \<noteq> []))] props
       (Separator None None [] #
        only_if (children \<noteq> [])
          [El ''span'' [(''data-slot'', Str ''field-separator-content'')] children])"

text \<open>\<open>new Map(entries)\<close>: a key keeps the place of its first entry and the value of its last.\<close>

fun map_set :: "'k \<Rightarrow> 'v \<Rightarrow> ('k \<times> 'v) list \<Rightarrow> ('k \<times> 'v) list" where
  "map_set k v [] = [(k, v)]"
| "map_set k v ((j, u) # m) = (if j = k then (k, v) # m else (j, u) # map_set k v m)"

definition js_Map :: "('k \<times> 'v) list \<Rightarrow> ('k \<times> 'v) list" where
  "js_Map es = fold (\<lambda>(k, v). map_set k v) es []"

text \<open>\<open>FieldError\<close>; an error is its message, absent when the error or its message is.\<close>

definition uniqueErrors :: "string option list \<Rightarrow> string option list" where
  "uniqueErrors errors = map snd (js_Map (map (\<lambda>e. (e, e)) errors))"

definition field_error_content :: "'h node list \<Rightarrow> string option list option \<Rightarrow> 'h node list" where
  "field_error_content children errors =
     (if children \<noteq> [] then children
      else case errors of
        None \<Rightarrow> []
      | Some es \<Rightarrow>
          if es = [] then []
          else if length (uniqueErrors es) = 1
          then (if truthy (hd (uniqueErrors es)) then text_of (hd (uniqueErrors es)) else [])
          else [plain ''ul''
                 (concat (map (\<lambda>(i, e). only_if (truthy e)
                    [El ''li'' [(''key'', Num (JInt (int i)))] (text_of e)])
                   (enumerate 0 (uniqueErrors es))))])"

definition FieldError :: "'h props \<Rightarrow> 'h node list \<Rightarrow> string option list option \<Rightarrow> 'h node list" where
  "FieldError props children errors =
     (let shown = field_error_content children errors
      in only_if (shown \<noteq> [])
           [host ''div'' [(''role'', Str ''alert''), (''data-slot'', Str ''field-error'')] props shown])"


section \<open>Cards, empty states and alerts: \<open>ui/card.tsx\<close>, \<open>ui/empty.tsx\<close>, \<open>ui/alert.tsx\<close>\<close>

definition Card :: "string option \<Rightarrow> 'h props \<Rightarrow> 'h node list \<Rightarrow> 'h node" where
  "Card sz =
     host ''div'' [(''data-slot'', Str ''card''), (''data-size'', Str (nullish sz ''default''))]"

definition CardHeader :: "'h props \<Rightarrow> 'h node list \<Rightarrow> 'h node" where
  "CardHeader = host ''div'' [(''data-slot'', Str ''card-header'')]"

definition CardTitle :: "'h props \<Rightarrow> 'h node list \<Rightarrow> 'h node" where
  "CardTitle = host ''div'' [(''data-slot'', Str ''card-title'')]"

definition CardDescription :: "'h props \<Rightarrow> 'h node list \<Rightarrow> 'h node" where
  "CardDescription = host ''div'' [(''data-slot'', Str ''card-description'')]"

definition CardAction :: "'h props \<Rightarrow> 'h node list \<Rightarrow> 'h node" where
  "CardAction = host ''div'' [(''data-slot'', Str ''card-action'')]"

definition CardContent :: "'h props \<Rightarrow> 'h node list \<Rightarrow> 'h node" where
  "CardContent = host ''div'' [(''data-slot'', Str ''card-content'')]"

definition CardFooter :: "'h props \<Rightarrow> 'h node list \<Rightarrow> 'h node" where
  "CardFooter = host ''div'' [(''data-slot'', Str ''card-footer'')]"

definition Empty :: "'h props \<Rightarrow> 'h node list \<Rightarrow> 'h node" where
  "Empty = host ''div'' [(''data-slot'', Str ''empty'')]"

definition EmptyHeader :: "'h props \<Rightarrow> 'h node list \<Rightarrow> 'h node" where
  "EmptyHeader = host ''div'' [(''data-slot'', Str ''empty-header'')]"

definition EmptyMedia :: "string option \<Rightarrow> 'h props \<Rightarrow> 'h node list \<Rightarrow> 'h node" where
  "EmptyMedia variant =
     host ''div''
       [(''data-slot'', Str ''empty-icon''), (''data-variant'', Str (nullish variant ''default''))]"

definition EmptyTitle :: "'h props \<Rightarrow> 'h node list \<Rightarrow> 'h node" where
  "EmptyTitle = host ''div'' [(''data-slot'', Str ''empty-title'')]"

definition EmptyDescription :: "'h props \<Rightarrow> 'h node list \<Rightarrow> 'h node" where
  "EmptyDescription = host ''div'' [(''data-slot'', Str ''empty-description'')]"

definition EmptyContent :: "'h props \<Rightarrow> 'h node list \<Rightarrow> 'h node" where
  "EmptyContent = host ''div'' [(''data-slot'', Str ''empty-content'')]"

text \<open>The variant of an alert only picks class names.\<close>

definition Alert :: "'h props \<Rightarrow> 'h node list \<Rightarrow> 'h node" where
  "Alert = host ''div'' [(''data-slot'', Str ''alert''), (''role'', Str ''alert'')]"

definition AlertTitle :: "'h props \<Rightarrow> 'h node list \<Rightarrow> 'h node" where
  "AlertTitle = host ''div'' [(''data-slot'', Str ''alert-title'')]"

definition AlertDescription :: "'h props \<Rightarrow> 'h node list \<Rightarrow> 'h node" where
  "AlertDescription = host ''div'' [(''data-slot'', Str ''alert-description'')]"

definition AlertAction :: "'h props \<Rightarrow> 'h node list \<Rightarrow> 'h node" where
  "AlertAction = host ''div'' [(''data-slot'', Str ''alert-action'')]"


section \<open>Dialogs and sheets: \<open>ui/dialog.tsx\<close>, \<open>ui/alert-dialog.tsx\<close>, \<open>ui/sheet.tsx\<close>\<close>

definition Dialog :: "'h props \<Rightarrow> 'h node list \<Rightarrow> 'h node" where
  "Dialog = host ''DialogPrimitive.Root'' [(''data-slot'', Str ''dialog'')]"

definition DialogTrigger :: "'h props \<Rightarrow> 'h node list \<Rightarrow> 'h node" where
  "DialogTrigger = host ''DialogPrimitive.Trigger'' [(''data-slot'', Str ''dialog-trigger'')]"

definition DialogPortal :: "'h props \<Rightarrow> 'h node list \<Rightarrow> 'h node" where
  "DialogPortal = host ''DialogPrimitive.Portal'' [(''data-slot'', Str ''dialog-portal'')]"

definition DialogClose :: "'h props \<Rightarrow> 'h node list \<Rightarrow> 'h node" where
  "DialogClose = host ''DialogPrimitive.Close'' [(''data-slot'', Str ''dialog-close'')]"

definition DialogOverlay :: "'h props \<Rightarrow> 'h node list \<Rightarrow> 'h node" where
  "DialogOverlay = host ''DialogPrimitive.Overlay'' [(''data-slot'', Str ''dialog-overlay'')]"

text \<open>The cross in the corner of a dialog or a sheet.\<close>

definition close_cross :: "string \<Rightarrow> string \<Rightarrow> 'h node" where
  "close_cross close slot =
     El close [(''data-slot'', Str slot), (''asChild'', Flag True)]
       [Button (Some ''ghost'') (Some ''icon-sm'') False []
          [icon ''XIcon'', plain ''span'' [Text ''Close'']]]"

definition DialogContent :: "bool option \<Rightarrow> 'h props \<Rightarrow> 'h node list \<Rightarrow> 'h node" where
  "DialogContent showCloseButton props children =
     DialogPortal []
       [DialogOverlay [] [],
        host ''DialogPrimitive.Content'' [(''data-slot'', Str ''dialog-content'')] props
          (children @ only_if (nullish showCloseButton True)
             [close_cross ''DialogPrimitive.Close'' ''dialog-close''])]"

definition DialogHeader :: "'h props \<Rightarrow> 'h node list \<Rightarrow> 'h node" where
  "DialogHeader = host ''div'' [(''data-slot'', Str ''dialog-header'')]"

definition DialogFooter :: "bool option \<Rightarrow> 'h props \<Rightarrow> 'h node list \<Rightarrow> 'h node" where
  "DialogFooter showCloseButton props children =
     host ''div'' [(''data-slot'', Str ''dialog-footer'')] props
       (children @ only_if (nullish showCloseButton False)
          [El ''DialogPrimitive.Close'' [(''asChild'', Flag True)]
             [Button (Some ''outline'') None False [] [Text ''Close'']]])"

definition DialogTitle :: "'h props \<Rightarrow> 'h node list \<Rightarrow> 'h node" where
  "DialogTitle = host ''DialogPrimitive.Title'' [(''data-slot'', Str ''dialog-title'')]"

definition DialogDescription :: "'h props \<Rightarrow> 'h node list \<Rightarrow> 'h node" where
  "DialogDescription = host ''DialogPrimitive.Description'' [(''data-slot'', Str ''dialog-description'')]"

definition AlertDialog :: "'h props \<Rightarrow> 'h node list \<Rightarrow> 'h node" where
  "AlertDialog = host ''AlertDialogPrimitive.Root'' [(''data-slot'', Str ''alert-dialog'')]"

definition AlertDialogTrigger :: "'h props \<Rightarrow> 'h node list \<Rightarrow> 'h node" where
  "AlertDialogTrigger = host ''AlertDialogPrimitive.Trigger'' [(''data-slot'', Str ''alert-dialog-trigger'')]"

definition AlertDialogPortal :: "'h props \<Rightarrow> 'h node list \<Rightarrow> 'h node" where
  "AlertDialogPortal = host ''AlertDialogPrimitive.Portal'' [(''data-slot'', Str ''alert-dialog-portal'')]"

definition AlertDialogOverlay :: "'h props \<Rightarrow> 'h node list \<Rightarrow> 'h node" where
  "AlertDialogOverlay = host ''AlertDialogPrimitive.Overlay'' [(''data-slot'', Str ''alert-dialog-overlay'')]"

definition AlertDialogContent :: "string option \<Rightarrow> 'h props \<Rightarrow> 'h node list \<Rightarrow> 'h node" where
  "AlertDialogContent sz props children =
     AlertDialogPortal []
       [AlertDialogOverlay [] [],
        host ''AlertDialogPrimitive.Content''
          [(''data-slot'', Str ''alert-dialog-content''), (''data-size'', Str (nullish sz ''default''))]
          props children]"

definition AlertDialogHeader :: "'h props \<Rightarrow> 'h node list \<Rightarrow> 'h node" where
  "AlertDialogHeader = host ''div'' [(''data-slot'', Str ''alert-dialog-header'')]"

definition AlertDialogFooter :: "'h props \<Rightarrow> 'h node list \<Rightarrow> 'h node" where
  "AlertDialogFooter = host ''div'' [(''data-slot'', Str ''alert-dialog-footer'')]"

definition AlertDialogMedia :: "'h props \<Rightarrow> 'h node list \<Rightarrow> 'h node" where
  "AlertDialogMedia = host ''div'' [(''data-slot'', Str ''alert-dialog-media'')]"

definition AlertDialogTitle :: "'h props \<Rightarrow> 'h node list \<Rightarrow> 'h node" where
  "AlertDialogTitle = host ''AlertDialogPrimitive.Title'' [(''data-slot'', Str ''alert-dialog-title'')]"

definition AlertDialogDescription :: "'h props \<Rightarrow> 'h node list \<Rightarrow> 'h node" where
  "AlertDialogDescription = host ''AlertDialogPrimitive.Description'' [(''data-slot'', Str ''alert-dialog-description'')]"

definition AlertDialogAction ::
  "string option \<Rightarrow> string option \<Rightarrow> 'h props \<Rightarrow> 'h node list \<Rightarrow> 'h node" where
  "AlertDialogAction variant sz props children =
     Button (Some (nullish variant ''default'')) (Some (nullish sz ''default'')) True []
       [host ''AlertDialogPrimitive.Action'' [(''data-slot'', Str ''alert-dialog-action'')] props children]"

definition AlertDialogCancel ::
  "string option \<Rightarrow> string option \<Rightarrow> 'h props \<Rightarrow> 'h node list \<Rightarrow> 'h node" where
  "AlertDialogCancel variant sz props children =
     Button (Some (nullish variant ''outline'')) (Some (nullish sz ''default'')) True []
       [host ''AlertDialogPrimitive.Cancel'' [(''data-slot'', Str ''alert-dialog-cancel'')] props children]"

definition Sheet :: "'h props \<Rightarrow> 'h node list \<Rightarrow> 'h node" where
  "Sheet = host ''SheetPrimitive.Root'' [(''data-slot'', Str ''sheet'')]"

definition SheetTrigger :: "'h props \<Rightarrow> 'h node list \<Rightarrow> 'h node" where
  "SheetTrigger = host ''SheetPrimitive.Trigger'' [(''data-slot'', Str ''sheet-trigger'')]"

definition SheetClose :: "'h props \<Rightarrow> 'h node list \<Rightarrow> 'h node" where
  "SheetClose = host ''SheetPrimitive.Close'' [(''data-slot'', Str ''sheet-close'')]"

definition SheetPortal :: "'h props \<Rightarrow> 'h node list \<Rightarrow> 'h node" where
  "SheetPortal = host ''SheetPrimitive.Portal'' [(''data-slot'', Str ''sheet-portal'')]"

definition SheetOverlay :: "'h props \<Rightarrow> 'h node list \<Rightarrow> 'h node" where
  "SheetOverlay = host ''SheetPrimitive.Overlay'' [(''data-slot'', Str ''sheet-overlay'')]"

definition SheetContent :: "string option \<Rightarrow> bool option \<Rightarrow> 'h props \<Rightarrow> 'h node list \<Rightarrow> 'h node" where
  "SheetContent side showCloseButton props children =
     SheetPortal []
       [SheetOverlay [] [],
        host ''SheetPrimitive.Content''
          [(''data-slot'', Str ''sheet-content''), (''data-side'', Str (nullish side ''right''))] props
          (children @ only_if (nullish showCloseButton True)
             [close_cross ''SheetPrimitive.Close'' ''sheet-close''])]"

definition SheetHeader :: "'h props \<Rightarrow> 'h node list \<Rightarrow> 'h node" where
  "SheetHeader = host ''div'' [(''data-slot'', Str ''sheet-header'')]"

definition SheetFooter :: "'h props \<Rightarrow> 'h node list \<Rightarrow> 'h node" where
  "SheetFooter = host ''div'' [(''data-slot'', Str ''sheet-footer'')]"

definition SheetTitle :: "'h props \<Rightarrow> 'h node list \<Rightarrow> 'h node" where
  "SheetTitle = host ''SheetPrimitive.Title'' [(''data-slot'', Str ''sheet-title'')]"

definition SheetDescription :: "'h props \<Rightarrow> 'h node list \<Rightarrow> 'h node" where
  "SheetDescription = host ''SheetPrimitive.Description'' [(''data-slot'', Str ''sheet-description'')]"


section \<open>Menus and choices: \<open>ui/dropdown-menu.tsx\<close>, \<open>ui/select.tsx\<close>\<close>

definition DropdownMenu :: "'h props \<Rightarrow> 'h node list \<Rightarrow> 'h node" where
  "DropdownMenu = host ''DropdownMenuPrimitive.Root'' [(''data-slot'', Str ''dropdown-menu'')]"

definition DropdownMenuPortal :: "'h props \<Rightarrow> 'h node list \<Rightarrow> 'h node" where
  "DropdownMenuPortal = host ''DropdownMenuPrimitive.Portal'' [(''data-slot'', Str ''dropdown-menu-portal'')]"

definition DropdownMenuTrigger :: "'h props \<Rightarrow> 'h node list \<Rightarrow> 'h node" where
  "DropdownMenuTrigger = host ''DropdownMenuPrimitive.Trigger'' [(''data-slot'', Str ''dropdown-menu-trigger'')]"

definition DropdownMenuContent ::
  "string option \<Rightarrow> int option \<Rightarrow> 'h props \<Rightarrow> 'h node list \<Rightarrow> 'h node" where
  "DropdownMenuContent align sideOffset props children =
     plain ''DropdownMenuPrimitive.Portal''
       [host ''DropdownMenuPrimitive.Content''
          [(''data-slot'', Str ''dropdown-menu-content''),
           (''sideOffset'', Num (JInt (nullish sideOffset 4))), (''align'', Str (nullish align ''start''))]
          props children]"

definition DropdownMenuGroup :: "'h props \<Rightarrow> 'h node list \<Rightarrow> 'h node" where
  "DropdownMenuGroup = host ''DropdownMenuPrimitive.Group'' [(''data-slot'', Str ''dropdown-menu-group'')]"

text \<open>A flag that may be absent, as a prop.\<close>

definition flag_prop :: "bool option \<Rightarrow> 'h val" where
  "flag_prop v = (case v of None \<Rightarrow> Undefined | Some b \<Rightarrow> Flag b)"

definition DropdownMenuItem ::
  "bool option \<Rightarrow> string option \<Rightarrow> 'h props \<Rightarrow> 'h node list \<Rightarrow> 'h node" where
  "DropdownMenuItem inset variant =
     host ''DropdownMenuPrimitive.Item''
       [(''data-slot'', Str ''dropdown-menu-item''), (''data-inset'', flag_prop inset),
        (''data-variant'', Str (nullish variant ''default''))]"

text \<open>The check mark in front of a checked item.\<close>

definition item_indicator :: "string \<Rightarrow> 'h node" where
  "item_indicator slot =
     El ''span'' [(''data-slot'', Str slot)]
       [plain ''DropdownMenuPrimitive.ItemIndicator'' [icon ''CheckIcon'']]"

definition DropdownMenuCheckboxItem ::
  "bool option \<Rightarrow> bool option \<Rightarrow> 'h props \<Rightarrow> 'h node list \<Rightarrow> 'h node" where
  "DropdownMenuCheckboxItem checked inset props children =
     host ''DropdownMenuPrimitive.CheckboxItem''
       [(''data-slot'', Str ''dropdown-menu-checkbox-item''), (''data-inset'', flag_prop inset),
        (''checked'', flag_prop checked)] props
       (item_indicator ''dropdown-menu-checkbox-item-indicator'' # children)"

definition DropdownMenuRadioGroup :: "'h props \<Rightarrow> 'h node list \<Rightarrow> 'h node" where
  "DropdownMenuRadioGroup = host ''DropdownMenuPrimitive.RadioGroup'' [(''data-slot'', Str ''dropdown-menu-radio-group'')]"

definition DropdownMenuRadioItem :: "bool option \<Rightarrow> 'h props \<Rightarrow> 'h node list \<Rightarrow> 'h node" where
  "DropdownMenuRadioItem inset props children =
     host ''DropdownMenuPrimitive.RadioItem''
       [(''data-slot'', Str ''dropdown-menu-radio-item''), (''data-inset'', flag_prop inset)] props
       (item_indicator ''dropdown-menu-radio-item-indicator'' # children)"

definition DropdownMenuLabel :: "bool option \<Rightarrow> 'h props \<Rightarrow> 'h node list \<Rightarrow> 'h node" where
  "DropdownMenuLabel inset =
     host ''DropdownMenuPrimitive.Label''
       [(''data-slot'', Str ''dropdown-menu-label''), (''data-inset'', flag_prop inset)]"

definition DropdownMenuSeparator :: "'h props \<Rightarrow> 'h node" where
  "DropdownMenuSeparator props =
     host ''DropdownMenuPrimitive.Separator'' [(''data-slot'', Str ''dropdown-menu-separator'')] props []"

definition DropdownMenuShortcut :: "'h props \<Rightarrow> 'h node list \<Rightarrow> 'h node" where
  "DropdownMenuShortcut = host ''span'' [(''data-slot'', Str ''dropdown-menu-shortcut'')]"

definition DropdownMenuSub :: "'h props \<Rightarrow> 'h node list \<Rightarrow> 'h node" where
  "DropdownMenuSub = host ''DropdownMenuPrimitive.Sub'' [(''data-slot'', Str ''dropdown-menu-sub'')]"

definition DropdownMenuSubTrigger :: "bool option \<Rightarrow> 'h props \<Rightarrow> 'h node list \<Rightarrow> 'h node" where
  "DropdownMenuSubTrigger inset props children =
     host ''DropdownMenuPrimitive.SubTrigger''
       [(''data-slot'', Str ''dropdown-menu-sub-trigger''), (''data-inset'', flag_prop inset)] props
       (children @ [icon ''ChevronRightIcon''])"

definition DropdownMenuSubContent :: "'h props \<Rightarrow> 'h node list \<Rightarrow> 'h node" where
  "DropdownMenuSubContent = host ''DropdownMenuPrimitive.SubContent'' [(''data-slot'', Str ''dropdown-menu-sub-content'')]"

definition Select :: "'h props \<Rightarrow> 'h node list \<Rightarrow> 'h node" where
  "Select = host ''SelectPrimitive.Root'' [(''data-slot'', Str ''select'')]"

definition SelectGroup :: "'h props \<Rightarrow> 'h node list \<Rightarrow> 'h node" where
  "SelectGroup = host ''SelectPrimitive.Group'' [(''data-slot'', Str ''select-group'')]"

definition SelectValue :: "'h props \<Rightarrow> 'h node" where
  "SelectValue props = host ''SelectPrimitive.Value'' [(''data-slot'', Str ''select-value'')] props []"

definition SelectTrigger :: "string option \<Rightarrow> 'h props \<Rightarrow> 'h node list \<Rightarrow> 'h node" where
  "SelectTrigger sz props children =
     host ''SelectPrimitive.Trigger''
       [(''data-slot'', Str ''select-trigger''), (''data-size'', Str (nullish sz ''default''))] props
       (children @
        [El ''SelectPrimitive.Icon'' [(''asChild'', Flag True)] [icon ''ChevronDownIcon'']])"

definition SelectScrollUpButton :: "'h props \<Rightarrow> 'h node" where
  "SelectScrollUpButton props =
     host ''SelectPrimitive.ScrollUpButton'' [(''data-slot'', Str ''select-scroll-up-button'')] props
       [icon ''ChevronUpIcon'']"

definition SelectScrollDownButton :: "'h props \<Rightarrow> 'h node" where
  "SelectScrollDownButton props =
     host ''SelectPrimitive.ScrollDownButton'' [(''data-slot'', Str ''select-scroll-down-button'')] props
       [icon ''ChevronDownIcon'']"

definition SelectContent ::
  "string option \<Rightarrow> string option \<Rightarrow> 'h props \<Rightarrow> 'h node list \<Rightarrow> 'h node" where
  "SelectContent position align props children =
     (let pos = nullish position ''item-aligned''
      in plain ''SelectPrimitive.Portal''
           [host ''SelectPrimitive.Content''
              [(''data-slot'', Str ''select-content''), (''data-align-trigger'', Flag (pos = ''item-aligned'')),
               (''position'', Str pos), (''align'', Str (nullish align ''center''))] props
              [SelectScrollUpButton [],
               El ''SelectPrimitive.Viewport'' [(''data-position'', Str pos)] children,
               SelectScrollDownButton []]])"

definition SelectLabel :: "'h props \<Rightarrow> 'h node list \<Rightarrow> 'h node" where
  "SelectLabel = host ''SelectPrimitive.Label'' [(''data-slot'', Str ''select-label'')]"

definition SelectItem :: "'h props \<Rightarrow> 'h node list \<Rightarrow> 'h node" where
  "SelectItem props children =
     host ''SelectPrimitive.Item'' [(''data-slot'', Str ''select-item'')] props
       [plain ''span'' [plain ''SelectPrimitive.ItemIndicator'' [icon ''CheckIcon'']],
        plain ''SelectPrimitive.ItemText'' children]"

definition SelectSeparator :: "'h props \<Rightarrow> 'h node" where
  "SelectSeparator props =
     host ''SelectPrimitive.Separator'' [(''data-slot'', Str ''select-separator'')] props []"


section \<open>Tables and avatars: \<open>ui/table.tsx\<close>, \<open>ui/avatar.tsx\<close>\<close>

definition Table :: "'h props \<Rightarrow> 'h node list \<Rightarrow> 'h node" where
  "Table props children =
     El ''div'' [(''data-slot'', Str ''table-container'')]
       [host ''table'' [(''data-slot'', Str ''table'')] props children]"

definition TableHeader :: "'h props \<Rightarrow> 'h node list \<Rightarrow> 'h node" where
  "TableHeader = host ''thead'' [(''data-slot'', Str ''table-header'')]"

definition TableBody :: "'h props \<Rightarrow> 'h node list \<Rightarrow> 'h node" where
  "TableBody = host ''tbody'' [(''data-slot'', Str ''table-body'')]"

definition TableFooter :: "'h props \<Rightarrow> 'h node list \<Rightarrow> 'h node" where
  "TableFooter = host ''tfoot'' [(''data-slot'', Str ''table-footer'')]"

definition TableRow :: "'h props \<Rightarrow> 'h node list \<Rightarrow> 'h node" where
  "TableRow = host ''tr'' [(''data-slot'', Str ''table-row'')]"

definition TableHead :: "'h props \<Rightarrow> 'h node list \<Rightarrow> 'h node" where
  "TableHead = host ''th'' [(''data-slot'', Str ''table-head'')]"

definition TableCell :: "'h props \<Rightarrow> 'h node list \<Rightarrow> 'h node" where
  "TableCell = host ''td'' [(''data-slot'', Str ''table-cell'')]"

definition TableCaption :: "'h props \<Rightarrow> 'h node list \<Rightarrow> 'h node" where
  "TableCaption = host ''caption'' [(''data-slot'', Str ''table-caption'')]"

definition Avatar :: "string option \<Rightarrow> 'h props \<Rightarrow> 'h node list \<Rightarrow> 'h node" where
  "Avatar sz =
     host ''AvatarPrimitive.Root''
       [(''data-slot'', Str ''avatar''), (''data-size'', Str (nullish sz ''default''))]"

definition AvatarImage :: "'h props \<Rightarrow> 'h node" where
  "AvatarImage props = host ''AvatarPrimitive.Image'' [(''data-slot'', Str ''avatar-image'')] props []"

definition AvatarFallback :: "'h props \<Rightarrow> 'h node list \<Rightarrow> 'h node" where
  "AvatarFallback = host ''AvatarPrimitive.Fallback'' [(''data-slot'', Str ''avatar-fallback'')]"

definition AvatarBadge :: "'h props \<Rightarrow> 'h node list \<Rightarrow> 'h node" where
  "AvatarBadge = host ''span'' [(''data-slot'', Str ''avatar-badge'')]"

definition AvatarGroup :: "'h props \<Rightarrow> 'h node list \<Rightarrow> 'h node" where
  "AvatarGroup = host ''div'' [(''data-slot'', Str ''avatar-group'')]"

definition AvatarGroupCount :: "'h props \<Rightarrow> 'h node list \<Rightarrow> 'h node" where
  "AvatarGroupCount = host ''div'' [(''data-slot'', Str ''avatar-group-count'')]"

section \<open>Tabs, tooltips and toasts: \<open>ui/tabs.tsx\<close>, \<open>ui/tooltip.tsx\<close>, \<open>ui/sonner.tsx\<close>\<close>

text \<open>The orientation of \<open>Tabs\<close> is a data attribute only: it is not handed to the primitive.\<close>

definition Tabs :: "string option \<Rightarrow> 'h props \<Rightarrow> 'h node list \<Rightarrow> 'h node" where
  "Tabs orientation =
     host ''TabsPrimitive.Root''
       [(''data-slot'', Str ''tabs''), (''data-orientation'', Str (nullish orientation ''horizontal''))]"

definition TabsList :: "string option \<Rightarrow> 'h props \<Rightarrow> 'h node list \<Rightarrow> 'h node" where
  "TabsList variant =
     host ''TabsPrimitive.List''
       [(''data-slot'', Str ''tabs-list''), (''data-variant'', Str (nullish variant ''default''))]"

definition TabsTrigger :: "'h props \<Rightarrow> 'h node list \<Rightarrow> 'h node" where
  "TabsTrigger = host ''TabsPrimitive.Trigger'' [(''data-slot'', Str ''tabs-trigger'')]"

definition TabsContent :: "'h props \<Rightarrow> 'h node list \<Rightarrow> 'h node" where
  "TabsContent = host ''TabsPrimitive.Content'' [(''data-slot'', Str ''tabs-content'')]"

definition TooltipProvider :: "jnum option \<Rightarrow> 'h props \<Rightarrow> 'h node list \<Rightarrow> 'h node" where
  "TooltipProvider delayDuration =
     host ''TooltipPrimitive.Provider''
       [(''data-slot'', Str ''tooltip-provider''), (''delayDuration'', Num (nullish delayDuration (JInt 0)))]"

definition Tooltip :: "'h props \<Rightarrow> 'h node list \<Rightarrow> 'h node" where
  "Tooltip = host ''TooltipPrimitive.Root'' [(''data-slot'', Str ''tooltip'')]"

definition TooltipTrigger :: "'h props \<Rightarrow> 'h node list \<Rightarrow> 'h node" where
  "TooltipTrigger = host ''TooltipPrimitive.Trigger'' [(''data-slot'', Str ''tooltip-trigger'')]"

definition TooltipContent :: "jnum option \<Rightarrow> 'h props \<Rightarrow> 'h node list \<Rightarrow> 'h node" where
  "TooltipContent sideOffset props children =
     plain ''TooltipPrimitive.Portal''
       [host ''TooltipPrimitive.Content''
          [(''data-slot'', Str ''tooltip-content''), (''sideOffset'', Num (nullish sideOffset (JInt 0)))] props
          (children @ [icon ''TooltipPrimitive.Arrow''])]"

text \<open>
  The toaster takes the theme in force, \<open>system\<close> while there is none. Its icons are an object of
  elements: each is a prop here, named by its path and holding the element's name.
\<close>

definition Toaster :: "string option \<Rightarrow> 'h props \<Rightarrow> 'h node" where
  "Toaster theme props =
     host ''Sonner''
       [(''theme'', Str (nullish theme ''system'')),
        (''icons.success'', Str ''CircleCheckIcon''), (''icons.info'', Str ''InfoIcon''),
        (''icons.warning'', Str ''TriangleAlertIcon''), (''icons.error'', Str ''OctagonXIcon''),
        (''icons.loading'', Str ''Loader2Icon'')] props []"

section \<open>What the wrappers keep\<close>

lemma attrs_host [view_simps]:
  "map_of base k = None \<Longrightarrow> attrs k (host tag base props cs) = given k props @ attrs_all k cs"
  by (simp add: host_def attrs_El given_spread)

lemma attrs_host_own [view_simps]:
  "map_of props k = None \<Longrightarrow> attrs k (host tag base props cs) = given k base @ attrs_all k cs"
  by (simp add: host_def attrs_El given_def prop_of_spread)

lemma select_host [view_simps]:
  "select P k (host tag base props cs) =
     (if P tag (spread base props) then [prop_of k (spread base props)] else []) @ select_all P k cs"
  by (simp add: host_def select_El)

lemma attrs_outside_host [view_simps]:
  "map_of base k = None \<Longrightarrow> attrs_outside u k (host tag base props cs) =
     (if tag = u then [] else given k props @ attrs_outside_all u k cs)"
  by (simp add: host_def attrs_outside_El given_spread)

lemmas ui_defs =
  Button_def Badge_def Spinner_def Skeleton_def Separator_def Input_def Textarea_def Label_def
  FieldSet_def FieldLegend_def FieldGroup_def Field_def FieldContent_def FieldLabel_def
  FieldTitle_def FieldDescription_def FieldSeparator_def FieldError_def Card_def CardHeader_def
  CardTitle_def CardDescription_def CardAction_def CardContent_def CardFooter_def Empty_def
  EmptyHeader_def EmptyMedia_def EmptyTitle_def EmptyDescription_def EmptyContent_def Alert_def
  AlertTitle_def AlertDescription_def AlertAction_def Dialog_def DialogTrigger_def
  DialogPortal_def DialogClose_def DialogOverlay_def DialogContent_def DialogHeader_def
  DialogFooter_def DialogTitle_def DialogDescription_def AlertDialog_def AlertDialogTrigger_def
  AlertDialogPortal_def AlertDialogOverlay_def AlertDialogContent_def AlertDialogHeader_def
  AlertDialogFooter_def AlertDialogMedia_def AlertDialogTitle_def AlertDialogDescription_def
  AlertDialogAction_def AlertDialogCancel_def Sheet_def SheetTrigger_def SheetClose_def
  SheetPortal_def SheetOverlay_def SheetContent_def SheetHeader_def SheetFooter_def
  SheetTitle_def SheetDescription_def DropdownMenu_def DropdownMenuPortal_def
  DropdownMenuTrigger_def DropdownMenuContent_def DropdownMenuGroup_def DropdownMenuItem_def
  DropdownMenuCheckboxItem_def DropdownMenuRadioGroup_def DropdownMenuRadioItem_def
  DropdownMenuLabel_def DropdownMenuSeparator_def DropdownMenuShortcut_def DropdownMenuSub_def
  DropdownMenuSubTrigger_def DropdownMenuSubContent_def Select_def SelectGroup_def
  SelectValue_def SelectTrigger_def SelectScrollUpButton_def SelectScrollDownButton_def
  SelectContent_def SelectLabel_def SelectItem_def SelectSeparator_def Table_def TableHeader_def
  TableBody_def TableFooter_def TableRow_def TableHead_def TableCell_def TableCaption_def
  Avatar_def AvatarImage_def AvatarFallback_def AvatarBadge_def AvatarGroup_def
  AvatarGroupCount_def close_cross_def item_indicator_def ButtonGroup_def ButtonGroupText_def
  ButtonGroupSeparator_def Tabs_def TabsList_def TabsTrigger_def TabsContent_def
  TooltipProvider_def Tooltip_def TooltipTrigger_def TooltipContent_def Toaster_def

section \<open>What an error list shows\<close>

text \<open>The messages of a list in the order they first appear.\<close>

fun first_seen :: "'a list \<Rightarrow> 'a list" where
  "first_seen [] = []"
| "first_seen (x # xs) = x # filter (\<lambda>y. y \<noteq> x) (first_seen xs)"

lemma map_set_same:
  assumes "\<And>k v. (k, v) \<in> set m \<Longrightarrow> v = k"
  shows "map_set e e m = (if e \<in> fst ` set m then m else m @ [(e, e)])"
  using assms by (induction m) force+

lemma fold_map_set:
  assumes "\<And>k v. (k, v) \<in> set m \<Longrightarrow> v = k"
  shows "fold (\<lambda>(k, v). map_set k v) (map (\<lambda>e. (e, e)) es) m =
    m @ map (\<lambda>e. (e, e)) (filter (\<lambda>e. e \<notin> fst ` set m) (first_seen es))"
  using assms
proof (induction es arbitrary: m)
  case (Cons e es)
  show ?case
  proof (cases "e \<in> fst ` set m")
    case True
    have "filter (\<lambda>y. y \<notin> fst ` set m) (filter (\<lambda>y. y \<noteq> e) xs) = filter (\<lambda>y. y \<notin> fst ` set m) xs" for xs
      using True by (auto simp: filter_filter intro: filter_cong)
    with True Cons.IH[of m] Cons.prems show ?thesis by (simp add: map_set_same)
  next
    case False
    have "fold (\<lambda>(k, v). map_set k v) (map (\<lambda>e. (e, e)) es) (m @ [(e, e)]) =
        (m @ [(e, e)]) @ map (\<lambda>e. (e, e)) (filter (\<lambda>x. x \<notin> fst ` set (m @ [(e, e)])) (first_seen es))"
      by (rule Cons.IH) (use Cons.prems in auto)
    with False Cons.prems show ?thesis by (simp add: map_set_same conj_commute)
  qed
qed simp

lemma uniqueErrors_first_seen: "uniqueErrors es = first_seen es"
  using fold_map_set[of "[]" es] by (simp add: uniqueErrors_def js_Map_def comp_def)

end
