(* ===== verification/Forms.thy ===== *)
theory Forms
  imports AdminPages
begin

text \<open>
  What typing into a field does: the \<open>set(key)\<close> handlers of \<open>frontend/src/pages/Register.tsx\<close>,
  \<open>frontend/src/pages/ProfileSetup.tsx\<close>, \<open>frontend/src/pages/BrowseRequests.tsx\<close> and
  \<open>frontend/src/pages/RequestDetail.tsx\<close>, the opening and closing of the two dialogs, and the initial
  values of the forms. A key is the name of a field; the sources' types allow no other.
\<close>

section \<open>Numbers typed in\<close>

text \<open>
  \<open>Number(text)\<close> on what a number field can hold: nothing, an integer, or a decimal, perhaps with
  no digit before its point, zeros in front, or an exponent. A decimal is a text that denotes the
  number, with exactly one zero or none in front.
\<close>

definition leading_digits :: "string \<Rightarrow> string" where
  "leading_digits u =
     (let d = dropWhile (\<lambda>c. c = CHR ''0'') (takeWhile is_digit u) in if d = [] then ''0'' else d)"

definition decimal_text :: "string \<Rightarrow> string" where
  "decimal_text u = leading_digits u @ dropWhile is_digit u"

definition js_Number :: "string \<Rightarrow> jnum" where
  "js_Number s =
     (let t = trim s; u = unsigned_part t; sign = take (length t - length u) t
      in if t = [] then JInt 0
         else if u \<noteq> [] \<and> list_all is_digit u
         then JInt (if sign = [] then int (read_nat u) else - int (read_nat u))
         else if u \<noteq> [] \<and> (is_digit (hd u) \<or> hd u = CHR ''.'') \<and> number_literal (decimal_text u)
         then JDec (sign @ decimal_text u) else JNaN)"

section \<open>Registering\<close>

definition Register_form :: register_form where
  "Register_form = \<lparr>rf_email = [], rf_password = [], rf_phoneNumber = [], rf_role = CUSTOMER\<rparr>"

definition Register_set :: "string \<Rightarrow> string \<Rightarrow> register_form \<Rightarrow> register_form" where
  "Register_set key v f =
     (if key = ''email'' then f\<lparr>rf_email := v\<rparr>
      else if key = ''password'' then f\<lparr>rf_password := v\<rparr>
      else if key = ''phoneNumber'' then f\<lparr>rf_phoneNumber := v\<rparr>
      else f)"

definition Register_get :: "string \<Rightarrow> register_form \<Rightarrow> json" where
  "Register_get key f =
     JStr (if key = ''email'' then rf_email f
           else if key = ''password'' then rf_password f else rf_phoneNumber f)"

section \<open>The profile form\<close>

definition ProfileSetup_form :: profile_form where
  "ProfileSetup_form =
     \<lparr>pf_firstName = [], pf_lastName = [], pf_storeName = [], pf_description = [], pf_city = [],
      pf_address = []\<rparr>"

definition ProfileSetup_set :: "string \<Rightarrow> string \<Rightarrow> profile_form \<Rightarrow> profile_form" where
  "ProfileSetup_set key v f =
     (if key = ''firstName'' then f\<lparr>pf_firstName := v\<rparr>
      else if key = ''lastName'' then f\<lparr>pf_lastName := v\<rparr>
      else if key = ''storeName'' then f\<lparr>pf_storeName := v\<rparr>
      else if key = ''description'' then f\<lparr>pf_description := v\<rparr>
      else if key = ''city'' then f\<lparr>pf_city := v\<rparr>
      else if key = ''address'' then f\<lparr>pf_address := v\<rparr>
      else f)"

definition ProfileSetup_get :: "string \<Rightarrow> profile_form \<Rightarrow> json" where
  "ProfileSetup_get key f =
     JStr (if key = ''firstName'' then pf_firstName f
           else if key = ''lastName'' then pf_lastName f
           else if key = ''storeName'' then pf_storeName f
           else if key = ''description'' then pf_description f
           else if key = ''city'' then pf_city f else pf_address f)"

section \<open>The new-request dialog\<close>

definition NewRequest_initial :: new_request where
  "NewRequest_initial =
     \<lparr>nr_open = False, nr_saving = False, nr_error = None, nr_itemName = [], nr_quantity = JInt 1,
      nr_image = None\<rparr>"

text \<open>Editing clears a refusal.\<close>

definition NewRequest_set :: "string \<Rightarrow> string \<Rightarrow> new_request \<Rightarrow> new_request" where
  "NewRequest_set key v n =
     (let n1 = n\<lparr>nr_error := None\<rparr>
      in if key = ''quantity'' then n1\<lparr>nr_quantity := js_Number v\<rparr>
         else if key = ''itemName'' then n1\<lparr>nr_itemName := v\<rparr>
         else n1)"

definition NewRequest_get :: "string \<Rightarrow> new_request \<Rightarrow> json" where
  "NewRequest_get key n = (if key = ''quantity'' then JNum (nr_quantity n) else JStr (nr_itemName n))"

definition NewRequest_openChange :: "bool \<Rightarrow> new_request \<Rightarrow> 'e world \<Rightarrow> new_request \<times> 'e world" where
  "NewRequest_openChange next n w =
     (n\<lparr>nr_open := next\<rparr>, if \<not> next then dispatch SimilarCleared w else w)"

section \<open>Offering on a new item\<close>

definition NewOffer_initial :: new_offer where
  "NewOffer_initial =
     \<lparr>no_open = False, no_saving = False, no_error = None, no_itemName = [], no_category = [],
      no_itemDescription = [], no_availableQuantity = JInt 1, no_pricePerUnit = ''0.00'',
      no_currency = ''EUR'', no_description = [], no_image = None\<rparr>"

definition NewOffer_set :: "string \<Rightarrow> string \<Rightarrow> new_offer \<Rightarrow> new_offer" where
  "NewOffer_set key v n =
     (let n1 = n\<lparr>no_error := None\<rparr>
      in if key = ''availableQuantity'' then n1\<lparr>no_availableQuantity := js_Number v\<rparr>
         else if key = ''itemName'' then n1\<lparr>no_itemName := v\<rparr>
         else if key = ''category'' then n1\<lparr>no_category := v\<rparr>
         else if key = ''itemDescription'' then n1\<lparr>no_itemDescription := v\<rparr>
         else if key = ''pricePerUnit'' then n1\<lparr>no_pricePerUnit := v\<rparr>
         else if key = ''currency'' then n1\<lparr>no_currency := v\<rparr>
         else if key = ''description'' then n1\<lparr>no_description := v\<rparr>
         else n1)"

definition NewOffer_get :: "string \<Rightarrow> new_offer \<Rightarrow> json" where
  "NewOffer_get key n =
     (if key = ''availableQuantity'' then JNum (no_availableQuantity n)
      else JStr (if key = ''itemName'' then no_itemName n
                 else if key = ''category'' then no_category n
                 else if key = ''itemDescription'' then no_itemDescription n
                 else if key = ''pricePerUnit'' then no_pricePerUnit n
                 else if key = ''currency'' then no_currency n else no_description n))"

definition NewOffer_openChange :: "bool \<Rightarrow> new_offer \<Rightarrow> 'e world \<Rightarrow> new_offer \<times> 'e world" where
  "NewOffer_openChange next n w =
     (n\<lparr>no_open := next\<rparr>, if \<not> next then dispatch SimilarCleared w else w)"

text \<open>Following a suggestion to its request.\<close>

definition NewOffer_follow ::
  "purchase_request \<Rightarrow> new_offer \<Rightarrow> 'e world \<Rightarrow> new_offer \<times> ui list \<times> 'e world" where
  "NewOffer_follow request n w =
     (n\<lparr>no_open := False\<rparr>, [Navigate (''/requests/'' @ nullish (req_requestId request) ''undefined'')],
      dispatch SimilarCleared w)"

section \<open>The offer form\<close>

definition OfferForm_set :: "string \<Rightarrow> string \<Rightarrow> offer_form \<Rightarrow> offer_form" where
  "OfferForm_set key v f =
     (if key = ''availableQuantity'' then f\<lparr>fm_availableQuantity := js_Number v\<rparr>
      else if key = ''pricePerUnit'' then f\<lparr>fm_pricePerUnit := v\<rparr>
      else if key = ''currency'' then f\<lparr>fm_currency := v\<rparr>
      else if key = ''description'' then f\<lparr>fm_description := v\<rparr>
      else f)"

definition OfferForm_get :: "string \<Rightarrow> offer_form \<Rightarrow> json" where
  "OfferForm_get key f =
     (if key = ''availableQuantity'' then JNum (fm_availableQuantity f)
      else JStr (if key = ''pricePerUnit'' then fm_pricePerUnit f
                 else if key = ''currency'' then fm_currency f else fm_description f))"

section \<open>The contract of a form\<close>

text \<open>
  The interface the submit handlers rely on: typing into a field changes that field, to what was
  typed or its number, and no other. A form then holds what was typed last into each field, in
  whatever order the fields were filled.
\<close>

locale form_fields =
  fixes keys :: "string list" and read_field :: "string \<Rightarrow> 's \<Rightarrow> json"
    and type_in :: "string \<Rightarrow> string \<Rightarrow> 's \<Rightarrow> 's" and convert :: "string \<Rightarrow> string \<Rightarrow> json"
  assumes typed_same: "k \<in> set keys \<Longrightarrow> read_field k (type_in k v s) = convert k v"
    and typed_other: "k \<in> set keys \<Longrightarrow> j \<in> set keys \<Longrightarrow> k \<noteq> j \<Longrightarrow> read_field k (type_in j v s) = read_field k s"
begin

lemma holds_last:
  assumes "fst ` set es \<subseteq> set keys" and "k \<in> set keys"
  shows "read_field k (fold (\<lambda>(j, v). type_in j v) es s) =
    (case map_of (rev es) k of None \<Rightarrow> read_field k s | Some v \<Rightarrow> convert k v)"
  using assms(1)
proof (induction es rule: rev_induct)
  case (snoc e es)
  obtain j v where e: "e = (j, v)" by (cases e)
  with snoc.prems have j: "j \<in> set keys" and es: "fst ` set es \<subseteq> set keys" by auto
  show ?case
    using snoc.IH[OF es] typed_same[OF assms(2)] typed_other[OF assms(2) j] e
    by (cases "k = j") auto
qed simp

text \<open>A field filled in last holds what was typed, whatever was typed before.\<close>

lemma holds_typed:
  assumes "fst ` set es \<subseteq> set keys" and "map_of (rev es) k = Some v"
  shows "read_field k (fold (\<lambda>(j, v). type_in j v) es s) = convert k v"
proof -
  have "k \<in> set keys"
    using assms map_of_SomeD[OF assms(2)] by force
  from holds_last[OF assms(1) this] assms(2) show ?thesis by simp
qed

end

lemma formI:
  assumes "list_all (\<lambda>k. \<forall>v s. g k (f k v s) = c k v) keys"
    and "list_all (\<lambda>k. list_all (\<lambda>j. k \<noteq> j \<longrightarrow> (\<forall>v s. g k (f j v s) = g k s)) keys) keys"
  shows "form_fields keys g f c"
  using assms by unfold_locales (auto simp: list_all_iff)

definition as_number :: "string \<Rightarrow> string \<Rightarrow> string \<Rightarrow> json" where
  "as_number number_key k v = (if k = number_key then JNum (js_Number v) else JStr v)"

interpretation register_typed: form_fields
  "[''email'', ''password'', ''phoneNumber'']" Register_get Register_set "\<lambda>k. JStr"
  by (rule formI) (simp_all add: Register_get_def Register_set_def)

interpretation profile_typed: form_fields
  "[''firstName'', ''lastName'', ''storeName'', ''description'', ''city'', ''address'']"
  ProfileSetup_get ProfileSetup_set "\<lambda>k. JStr"
  by (rule formI) (simp_all add: ProfileSetup_get_def ProfileSetup_set_def)

interpretation new_request_typed: form_fields
  "[''itemName'', ''quantity'']" NewRequest_get NewRequest_set "as_number ''quantity''"
  by (rule formI) (simp_all add: NewRequest_get_def NewRequest_set_def as_number_def)

interpretation new_offer_typed: form_fields
  "[''itemName'', ''category'', ''itemDescription'', ''availableQuantity'', ''pricePerUnit'', ''currency'',
    ''description'']" NewOffer_get NewOffer_set "as_number ''availableQuantity''"
  by (rule formI) (simp_all add: NewOffer_get_def NewOffer_set_def as_number_def)

interpretation offer_form_typed: form_fields
  "[''availableQuantity'', ''pricePerUnit'', ''currency'', ''description'']"
  OfferForm_get OfferForm_set "as_number ''availableQuantity''"
  by (rule formI) (simp_all add: OfferForm_get_def OfferForm_set_def as_number_def)

section \<open>Numbers\<close>

lemma js_Number_blank: "trim s = [] \<Longrightarrow> js_Number s = JInt 0"
  by (simp add: js_Number_def)

lemma trim_solid: "\<not> is_space c \<Longrightarrow> \<not> is_space (last (c # s)) \<Longrightarrow> trim (c # s) = c # s"
  by (cases s rule: rev_cases) (simp_all add: trim_def)

lemma digits_solid: "list_all is_digit s \<Longrightarrow> c \<in> set s \<Longrightarrow> \<not> is_space c"
  by (auto simp: list_all_iff is_digit_def is_space_def)

lemma trim_show_int: "trim (show_int i) = show_int i"
proof -
  have ne: "show_nat n \<noteq> []" and dg: "list_all is_digit (show_nat n)" for n
    using int_part_show_nat[of n] by (simp_all add: int_part_def)
  obtain c s where cs: "show_int i = c # s"
    by (cases "show_int i") (use ne in \<open>auto simp: show_int_def split: if_splits\<close>)
  have "\<not> is_space x" if "x \<in> set (show_int i)" for x
    using that digits_solid[OF dg] by (auto simp: show_int_def is_space_def split: if_splits)
  then show ?thesis unfolding cs by (intro trim_solid) auto
qed

text \<open>A whole number typed in is that number.\<close>

lemma js_Number_show_int: "js_Number (show_int i) = JInt i"
proof -
  have ip: "int_part (show_nat n)" for n by (rule int_part_show_nat)
  then have "show_nat n \<noteq> []" and "list_all is_digit (show_nat n)" for n
    by (simp_all add: int_part_def)
  then show ?thesis
    by (auto simp: js_Number_def Let_def trim_show_int unsigned_show_int read_nat_show_nat)
       (auto simp: show_int_def read_nat_show_nat split: if_splits)
qed

section \<open>Properties of the forms\<close>

definition last_typed :: "(string \<times> string) list \<Rightarrow> string \<Rightarrow> string \<Rightarrow> string" where
  "last_typed es k d = nullish (map_of (rev es) k) d"

text \<open>
  C40. What a seller typed is what is offered: however the fields of the new-item form are filled in,
  in whatever order and however often, the offer submitted carries in each field the text typed
  last there, the number for the quantity, and the value the form started with where nothing was
  typed.
\<close>

theorem typed_is_offered:
  assumes "fst ` set es \<subseteq> {''itemName'', ''category'', ''itemDescription'', ''availableQuantity'',
      ''pricePerUnit'', ''currency'', ''description''}"
  shows "new_offer_body (fold (\<lambda>(k, v). NewOffer_set k v) es NewOffer_initial) =
    \<lparr>oc_requestId = None,
     oc_item = Some \<lparr>it_itemName = last_typed es ''itemName'' [],
       it_description = last_typed es ''itemDescription'' [], it_category = last_typed es ''category'' []\<rparr>,
     oc_availableQuantity = js_Number (last_typed es ''availableQuantity'' ''1''),
     oc_pricePerUnit = last_typed es ''pricePerUnit'' ''0.00'',
     oc_currency = last_typed es ''currency'' ''EUR'', oc_description = last_typed es ''description'' []\<rparr>"
proof -
  let ?n = "fold (\<lambda>(k, v). NewOffer_set k v) es NewOffer_initial"
  have one: "js_Number ''1'' = JInt 1"
    by (simp add: js_Number_def Let_def trim_def is_space_def unsigned_part_def is_digit_def read_nat_def)
  have keys: "fst ` set es \<subseteq> set [''itemName'', ''category'', ''itemDescription'', ''availableQuantity'',
      ''pricePerUnit'', ''currency'', ''description'']"
    using assms by simp
  note h = new_offer_typed.holds_last[OF keys, of _ NewOffer_initial]
  note eval = NewOffer_get_def as_number_def last_typed_def NewOffer_initial_def
  have f1: "no_itemName ?n = last_typed es ''itemName'' []"
    using h[of "''itemName''"] by (simp add: eval split: option.splits)
  have f2: "no_category ?n = last_typed es ''category'' []"
    using h[of "''category''"] by (simp add: eval split: option.splits)
  have f3: "no_itemDescription ?n = last_typed es ''itemDescription'' []"
    using h[of "''itemDescription''"] by (simp add: eval split: option.splits)
  have f4: "no_pricePerUnit ?n = last_typed es ''pricePerUnit'' ''0.00''"
    using h[of "''pricePerUnit''"] by (simp add: eval split: option.splits)
  have f5: "no_currency ?n = last_typed es ''currency'' ''EUR''"
    using h[of "''currency''"] by (simp add: eval split: option.splits)
  have f6: "no_description ?n = last_typed es ''description'' []"
    using h[of "''description''"] by (simp add: eval split: option.splits)
  have f7: "no_availableQuantity ?n = js_Number (last_typed es ''availableQuantity'' ''1'')"
    using h[of "''availableQuantity''"] by (simp add: eval one split: option.splits)
  show ?thesis unfolding new_offer_body_def f1 f2 f3 f4 f5 f6 f7 ..
qed

theorem typed_is_offered_witness:
  "oc_availableQuantity (new_offer_body (fold (\<lambda>(k, v). NewOffer_set k v)
     [(''availableQuantity'', ''4''), (''itemName'', ''Drill''), (''availableQuantity'', ''40'')]
     NewOffer_initial)) = js_Number ''40''"
  using typed_is_offered[of "[(''availableQuantity'', ''4''), (''itemName'', ''Drill''), (''availableQuantity'', ''40'')]"]
  by (simp add: last_typed_def)

end
