(* ===== verification/Picker.thy ===== *)
theory Picker
  imports Forms
begin

text \<open>
  Choosing a picture: the component of \<open>frontend/src/components/image-field.tsx\<close>. Its state is what
  React keeps for one mounted copy (busy, the error), the value its parent keeps, the object URL of
  the preview, and the files still being read. A read goes on when the copy that started it is
  gone, and hands its result to the parent all the same.
\<close>

section \<open>Scaling a file\<close>

text \<open>\<open>downscale(file)\<close>: the browser decodes the file, gives a drawing context and encodes the canvas,
  or fails to; the decoded pixels are freed in every case but a failed decoding, where there are
  none. The second component says whether they were.\<close>

definition downscale_file ::
  "('f \<Rightarrow> (int \<times> int) option) \<Rightarrow> bool \<Rightarrow> ('f \<Rightarrow> int \<times> int \<Rightarrow> blob option) \<Rightarrow> 'f \<Rightarrow> blob option \<times> bool" where
  "downscale_file createImageBitmap has_context toBlob file =
     (case createImageBitmap file of
        None \<Rightarrow> (None, False)
      | Some (w, h) \<Rightarrow>
          (if \<not> has_context then None else toBlob file (downscale w h), True))"

section \<open>The component\<close>

record picker =
  pk_mounted :: bool
  pk_copy :: nat
  pk_busy :: bool
  pk_error :: "string option"
  pk_reads :: "nat list"
  pk_value :: "blob option"
  pk_preview :: "nat option"
  pk_made :: nat
  pk_alive :: "nat list"

definition picker_initial :: picker where
  "picker_initial =
     \<lparr>pk_mounted = False, pk_copy = 0, pk_busy = False, pk_error = None, pk_reads = [], pk_value = None,
      pk_preview = None, pk_made = 0, pk_alive = []\<rparr>"

text \<open>\<open>URL.revokeObjectURL(preview)\<close>, the clean-up of the effect.\<close>

definition revoke_preview :: "picker \<Rightarrow> picker" where
  "revoke_preview p =
     (case pk_preview p of
        None \<Rightarrow> p
      | Some u \<Rightarrow> p\<lparr>pk_preview := None, pk_alive := filter (\<lambda>v. v \<noteq> u) (pk_alive p)\<rparr>)"

text \<open>\<open>useMemo(() => (value ? URL.createObjectURL(value) : null), [value])\<close>.\<close>

definition make_preview :: "picker \<Rightarrow> picker" where
  "make_preview p =
     (if pk_mounted p \<and> pk_value p \<noteq> None
      then p\<lparr>pk_preview := Some (pk_made p), pk_alive := pk_made p # pk_alive p, pk_made := Suc (pk_made p)\<rparr>
      else p)"

text \<open>\<open>onChange(v)\<close> and the render after it; every picture read is a new object, and \<open>null\<close> after
  \<open>null\<close> changes nothing.\<close>

definition change_value :: "blob option \<Rightarrow> picker \<Rightarrow> picker" where
  "change_value v p =
     (if v = None \<and> pk_value p = None then p
      else make_preview ((revoke_preview p)\<lparr>pk_value := v\<rparr>))"

definition UNREADABLE :: string where
  "UNREADABLE = ''That file could not be read as an image. Try a JPEG, PNG or WebP.''"

text \<open>\<open>choose(file)\<close> up to the wait, and after it: the value goes to the parent, the error and the
  busy flag to the copy that asked, if it is still there.\<close>

definition choose_start :: "picker \<Rightarrow> picker" where
  "choose_start p = p\<lparr>pk_error := None, pk_busy := True, pk_reads := pk_reads p @ [pk_copy p]\<rparr>"

definition choose_end :: "nat \<Rightarrow> blob option \<Rightarrow> picker \<Rightarrow> picker" where
  "choose_end i result p =
     (let mine = pk_mounted p \<and> pk_reads p ! i = pk_copy p;
          p1 = p\<lparr>pk_reads := take i (pk_reads p) @ drop (Suc i) (pk_reads p)\<rparr>;
          p2 = (if mine \<and> result = None then p1\<lparr>pk_error := Some UNREADABLE\<rparr> else p1);
          p3 = change_value result p2
      in if mine then p3\<lparr>pk_busy := False\<rparr> else p3)"

definition remove_picture :: "picker \<Rightarrow> picker" where
  "remove_picture p = change_value None (p\<lparr>pk_error := None\<rparr>)"

text \<open>What can happen: the field appears or goes, a file is chosen, a read ends, the cross is
  pressed, the parent sets the value to \<open>null\<close>.\<close>

datatype pick_event = Appear | Choose | ReadEnds nat "blob option" | PressCross | ParentResets | Disappear

fun pick_step :: "pick_event \<Rightarrow> picker \<Rightarrow> picker" where
  "pick_step Appear p =
     (if pk_mounted p then p
      else make_preview (p\<lparr>pk_mounted := True, pk_copy := Suc (pk_copy p), pk_busy := False, pk_error := None\<rparr>))"
| "pick_step Choose p = (if pk_mounted p \<and> \<not> pk_busy p then choose_start p else p)"
| "pick_step (ReadEnds i r) p = (if i < length (pk_reads p) then choose_end i r p else p)"
| "pick_step PressCross p = (if pk_mounted p \<and> \<not> pk_busy p then remove_picture p else p)"
| "pick_step ParentResets p = change_value None p"
| "pick_step Disappear p = (revoke_preview p)\<lparr>pk_mounted := False\<rparr>"

inductive pick_reach :: "picker \<Rightarrow> bool" where
  Fresh: "pick_reach picker_initial"
| Event: "pick_reach p \<Longrightarrow> pick_reach (pick_step e p)"

text \<open>\<open>shown\<close>: the preview, or the picture the item already has.\<close>

definition picker_shown :: "(nat \<Rightarrow> string) \<Rightarrow> string option \<Rightarrow> picker \<Rightarrow> string option" where
  "picker_shown url_of initialPreviewUrl p =
     (case pk_preview p of Some u \<Rightarrow> Some (url_of u) | None \<Rightarrow> initialPreviewUrl)"

section \<open>The invariant\<close>

text \<open>The URLs not revoked are that of the preview, and there is a preview exactly while a mounted
  field has a value.\<close>

definition pick_inv :: "picker \<Rightarrow> bool" where
  "pick_inv p \<longleftrightarrow>
     pk_alive p = (case pk_preview p of None \<Rightarrow> [] | Some u \<Rightarrow> [u]) \<and>
     (pk_preview p \<noteq> None \<longleftrightarrow> pk_mounted p \<and> pk_value p \<noteq> None)"

lemma revoke_preview_simps [simp]:
  "pk_mounted (revoke_preview p) = pk_mounted p" "pk_value (revoke_preview p) = pk_value p"
  "pk_preview (revoke_preview p) = None"
  by (simp_all add: revoke_preview_def split: option.split)

lemma revoked_none: "pick_inv p \<Longrightarrow> pk_alive (revoke_preview p) = []"
  by (auto simp: pick_inv_def revoke_preview_def split: option.splits)

lemma make_preview_inv: "pk_alive p = [] \<Longrightarrow> pk_preview p = None \<Longrightarrow> pick_inv (make_preview p)"
  by (auto simp: make_preview_def pick_inv_def)

lemma change_value_inv: "pick_inv p \<Longrightarrow> pick_inv (change_value v p)"
  using revoked_none[of p] by (auto simp: change_value_def intro: make_preview_inv)

lemma change_value_simps [simp]:
  "pk_mounted (change_value v p) = pk_mounted p" "pk_value (change_value v p) = v"
  by (auto simp: change_value_def make_preview_def)

lemma pick_inv_frame [simp]:
  "pick_inv (p\<lparr>pk_busy := b\<rparr>) = pick_inv p" "pick_inv (p\<lparr>pk_error := e\<rparr>) = pick_inv p"
  "pick_inv (p\<lparr>pk_reads := rs\<rparr>) = pick_inv p"
  by (simp_all add: pick_inv_def)

lemma choose_end_inv: "pick_inv p \<Longrightarrow> pick_inv (choose_end i r p)"
  by (simp add: choose_end_def Let_def change_value_inv)

lemma pick_inv_step: "pick_inv p \<Longrightarrow> pick_inv (pick_step e p)"
proof (cases e)
  case Appear
  moreover assume "pick_inv p"
  moreover from this have "pk_alive p = []" and "pk_preview p = None" if "\<not> pk_mounted p"
    using that by (auto simp: pick_inv_def)
  ultimately show ?thesis by (auto intro: make_preview_inv)
next
  case Disappear
  moreover assume "pick_inv p"
  ultimately show ?thesis using revoked_none by (auto simp: pick_inv_def)
qed (simp_all add: choose_start_def choose_end_inv remove_picture_def change_value_inv)

interpretation pick: reducer pick_step pick_inv
  by unfold_locales (rule pick_inv_step)

lemma pick_reach_inv: "pick_reach p \<Longrightarrow> pick_inv p"
proof (induction rule: pick_reach.induct)
  case Fresh
  show ?case by (simp add: pick_inv_def picker_initial_def)
qed (rule pick_inv_step)

lemma pick_reach_fold: "pick_reach p \<Longrightarrow> pick_reach (fold pick_step es p)"
  by (induction es arbitrary: p) (auto intro: pick_reach.Event)

section \<open>Properties of the picture field\<close>

text \<open>
  C15. Choosing pictures leaks none: under every order of choosing, reading, removing, resetting,
  opening and closing, at most one object URL is not revoked, it is the one on screen, and there
  is none when the field holds no picture or is not on screen.
\<close>

theorem picker_no_leak:
  assumes "pick_reach p"
  shows "length (pk_alive p) \<le> 1 \<and> set (pk_alive p) = set_option (pk_preview p) \<and>
    (pk_alive p \<noteq> [] \<longleftrightarrow> pk_mounted p \<and> pk_value p \<noteq> None)"
  using pick_reach_inv[OF assms] by (auto simp: pick_inv_def split: option.splits)

theorem picker_no_leak_witness:
  "length (pk_alive (fold pick_step [Appear, Choose, ReadEnds 0 (Some ''a''), Choose, ReadEnds 0 (Some ''b'')]
      picker_initial)) \<le> 1"
  using picker_no_leak[OF pick_reach_fold[OF pick_reach.Fresh],
      of "[Appear, Choose, ReadEnds 0 (Some ''a''), Choose, ReadEnds 0 (Some ''b'')]"]
  by blast

text \<open>The new-request form with the value its picture field keeps for it.\<close>

definition with_picture :: "picker \<Rightarrow> new_request \<Rightarrow> new_request" where
  "with_picture p n = n\<lparr>nr_image := pk_value p\<rparr>"

lemma late_read:
  fixes b :: blob
  assumes "0 < length (pk_reads p)"
  defines "q \<equiv> fold pick_step [ParentResets, Disappear, ReadEnds 0 (Some b)] p"
  shows "pk_value q = Some b" and "\<not> pk_mounted q"
proof -
  have reads: "pk_reads (change_value v x) = pk_reads x" "pk_reads (revoke_preview x) = pk_reads x" for v x
    by (auto simp: change_value_def make_preview_def revoke_preview_def split: option.split)
  show "pk_value q = Some b" and "\<not> pk_mounted q"
    using assms(1) by (simp_all add: q_def reads choose_end_def Let_def)
qed

lemma appears_with_value:
  "\<not> pk_mounted q \<Longrightarrow> pk_value q = Some b \<Longrightarrow>
     pk_value (pick_step Appear q) = Some b \<and> pk_preview (pick_step Appear q) \<noteq> None"
  by (simp add: make_preview_def)

text \<open>
  C37. A picture still being read is lost to its own request and given to the next: nothing keeps a
  customer from creating the request while the file is read, so it is created without the
  picture; the form is then emptied and closed, the read ends, and the form that is opened next
  holds the picture and sends it with whatever item is asked for then.
\<close>

theorem picture_outlives_form:
  assumes "pk_mounted p" and "0 < length (pk_reads p)" and "pk_value p = None"
    and "p' = fold pick_step [ParentResets, Disappear, ReadEnds 0 (Some b), Appear] p"
    and "creator = (\<lambda>body img w. (Return r, f body img w))"
  shows "snd (snd (NewRequest_submit creator (with_picture p n) w)) =
      dispatch SimilarCleared (f (new_request_body n) None w) \<and>
    pk_preview p' \<noteq> None \<and>
    snd (snd (NewRequest_submit creator (with_picture p' n') w')) =
      dispatch SimilarCleared (f (new_request_body n') (Some b) w')"
proof -
  define q where "q = fold pick_step [ParentResets, Disappear, ReadEnds 0 (Some b)] p"
  have "p' = pick_step Appear q" by (simp add: assms(4) q_def)
  then have v: "pk_value p' = Some b" "pk_preview p' \<noteq> None"
    using appears_with_value[of q b] late_read[where b = b, OF assms(2), folded q_def] by simp_all
  have "new_request_body (m\<lparr>nr_image := i\<rparr>) = new_request_body m" for m i
    by (simp add: new_request_body_def)
  then show ?thesis
    using v assms(3,5) by (simp add: new_request_handler done_request_def with_picture_def emptied_def)
qed

theorem picture_outlives_form_witness:
  "pk_preview (fold pick_step
     [Appear, Choose, ParentResets, Disappear, ReadEnds 0 (Some ''kettle''), Appear] picker_initial) \<noteq> None"
proof -
  let ?p = "fold pick_step [Appear, Choose] picker_initial"
  have "pk_mounted ?p" "0 < length (pk_reads ?p)" "pk_value ?p = None"
    by (simp_all add: picker_initial_def make_preview_def choose_start_def)
  note late = picture_outlives_form[OF this refl refl]
  from late[where b = "''kettle''" and r = "as_request JNull" and f = "\<lambda>body img w. w"
      and n = NewRequest_initial and n' = NewRequest_initial and w = "page_load empty_storage 0 ()"
      and w' = "page_load empty_storage 0 ()"]
  show ?thesis by simp
qed

end
