(* ===== verification/Shell.thy ===== *)
theory Shell
  imports Ui Picker
begin

text \<open>
  The components every page shares, as trees: \<open>frontend/src/components/page-header.tsx\<close>,
  \<open>frontend/src/components/auth-shell.tsx\<close>, \<open>frontend/src/components/error-alert.tsx\<close>,
  \<open>frontend/src/components/status-badge.tsx\<close>, \<open>frontend/src/components/item-image.tsx\<close>,
  \<open>frontend/src/components/image-field.tsx\<close>, \<open>frontend/src/components/mode-toggle.tsx\<close> and the shell
  \<open>frontend/src/components/app-layout.tsx\<close>, with the initials and the sign-out of the latter.
\<close>

section \<open>What a handler is for\<close>

text \<open>The handlers a rendered page carries, by what they call.\<close>

datatype event =
    SetTheme string
  | MenuOpenChange
  | CloseMenu
  | SignOut
  | TypeInto string
  | ChooseRole
  | SubmitForm
  | DialogOpenChange
  | CloseDialog
  | JoinSuggested "string option"
  | FollowSuggested "string option"
  | Participate participation
  | WithdrawOffer
  | ToggleContacts string
  | ReadNotification string
  | TypeReason "string option"
  | Decide "string option" bool
  | Revoke "string option"
  | PickFile
  | OpenPicker
  | RemovePicture

type_synonym view = "event node"

abbreviation dot :: string where
  "dot \<equiv> [CHR 0x20, CHR 0xC2, CHR 0xB7, CHR 0x20]"

abbreviation ellipsis :: string where
  "ellipsis \<equiv> [CHR 0xE2, CHR 0x80, CHR 0xA6]"

section \<open>Small components\<close>

definition PageHeader :: "string \<Rightarrow> string option \<Rightarrow> view list \<Rightarrow> view" where
  "PageHeader title description children =
     plain ''div''
       (plain ''div''
          (plain ''h1'' [Text title] #
           only_if (truthy description) [plain ''p'' (text_of description)]) #
        only_if (children \<noteq> []) [plain ''div'' children])"

definition ErrorAlert_view :: "string option \<Rightarrow> string option \<Rightarrow> bool \<Rightarrow> view list" where
  "ErrorAlert_view children title is_error =
     (case ErrorAlert children title is_error of
        None \<Rightarrow> []
      | Some (t, c) \<Rightarrow>
          [Alert [] [icon (if is_error then ''CircleAlertIcon'' else ''InfoIcon''),
             AlertTitle [] [Text t], AlertDescription [] [Text c]]])"

definition STATUS_ICONS :: "string \<rightharpoonup> string" where
  "STATUS_ICONS = map_of
     [(''OPEN'', ''CircleDotIcon''), (''INACTIVE'', ''MoonIcon''), (''PENDING'', ''ClockIcon''),
      (''APPROVED'', ''CircleCheckIcon''), (''REJECTED'', ''CircleXIcon''), (''GRANTED'', ''CircleCheckIcon''),
      (''REVOKED'', ''BanIcon''), (''EXPIRED'', ''ClockIcon'')]"

definition StatusBadge_view :: "string option \<Rightarrow> view" where
  "StatusBadge_view status =
     (let key = nullish status ''UNKNOWN''
      in case STATUSES key of
           None \<Rightarrow> Badge (Some ''outline'') False [] [Text key]
         | Some label \<Rightarrow>
             Badge None False [(''title'', Str key)]
               [icon (nullish (STATUS_ICONS key) []), Text label])"

definition RequestImage_view :: "string \<Rightarrow> string option \<Rightarrow> bool option \<Rightarrow> view list" where
  "RequestImage_view base requestId hasImage =
     (case RequestImage base requestId hasImage of
        None \<Rightarrow> []
      | Some src \<Rightarrow>
          [El ''img'' [(''src'', Str src), (''alt'', Str []), (''loading'', Str ''lazy'')] []])"

text \<open>What the hook of each picture returns, by its arguments.\<close>

type_synonym pictures = "string option \<Rightarrow> bool \<Rightarrow> string option \<Rightarrow> string option"

definition OfferImage_view :: "pictures \<Rightarrow> string option \<Rightarrow> bool option \<Rightarrow> string option \<Rightarrow> view list" where
  "OfferImage_view picture offerId hasImage version =
     (let src = picture offerId (truthy_flag hasImage) version
      in only_if (truthy src) [El ''img'' [(''src'', str_prop src), (''alt'', Str [])] []])"

section \<open>The theme\<close>

definition OPTIONS :: "(string \<times> string \<times> string) list" where
  "OPTIONS =
     [(''light'', ''Light'', ''SunIcon''), (''dark'', ''Dark'', ''MoonIcon''),
      (''system'', ''System'', ''MonitorIcon'')]"

definition ModeToggle :: "string option \<Rightarrow> view" where
  "ModeToggle theme =
     DropdownMenu []
       [DropdownMenuTrigger [(''asChild'', Flag True)]
          [Button (Some ''ghost'') (Some ''icon-sm'') False [(''aria-label'', Str ''Change theme'')]
             [icon ''SunIcon'', icon ''MoonIcon'']],
        DropdownMenuContent (Some ''end'') None []
          (map (\<lambda>(v, label, i).
             DropdownMenuItem None None
               [(''key'', Str v), (''onSelect'', On (SetTheme v)), (''data-active'', Flag (theme = Some v))]
               [icon i, Text label]) OPTIONS)]"

text \<open>The provider around the application, and what it fixes for the theme library.\<close>

definition ThemeProvider :: "event props \<Rightarrow> view list \<Rightarrow> view" where
  "ThemeProvider =
     host ''NextThemeProvider''
       [(''attribute'', Str ''class''), (''defaultTheme'', Str ''system''), (''enableSystem'', Flag True),
        (''disableTransitionOnChange'', Flag True), (''storageKey'', Str ''marketplace.theme'')]"

section \<open>The card of the account forms\<close>

definition AuthShell ::
  "string option \<Rightarrow> string \<Rightarrow> string \<Rightarrow> string \<Rightarrow> view list \<Rightarrow> view list \<Rightarrow> view" where
  "AuthShell theme Icon title description children footer =
     plain ''div''
       ([plain ''div'' [ModeToggle theme],
         Card None []
           [CardHeader []
              [plain ''span'' [icon Icon], plain ''h1'' [Text title], CardDescription [] [Text description]],
            CardContent [] children]] @
        only_if (footer \<noteq> []) [plain ''p'' footer])"

section \<open>The picture field\<close>

definition ACCEPT :: string where
  "ACCEPT = ''image/jpeg,image/png,image/webp''"

definition ImageField_view :: "string \<Rightarrow> string option \<Rightarrow> bool \<Rightarrow> picker \<Rightarrow> view" where
  "ImageField_view field_id shown disabled p =
     plain ''div''
       ([El ''input''
           [(''id'', Str field_id), (''type'', Str ''file''), (''accept'', Str ACCEPT),
            (''disabled'', Flag (disabled \<or> pk_busy p)), (''onChange'', On PickFile)] [],
         if truthy shown
         then plain ''div''
           [El ''img'' [(''src'', str_prop shown), (''alt'', Str ''The picture chosen for this item'')] [],
            Button (Some ''secondary'') (Some ''icon'') False
              [(''type'', Str ''button''), (''disabled'', Flag (disabled \<or> pk_busy p)),
               (''onClick'', On RemovePicture), (''aria-label'', Str ''Remove this picture'')]
              [icon ''XIcon'']]
         else El ''button''
           [(''type'', Str ''button''), (''disabled'', Flag (disabled \<or> pk_busy p)),
            (''onClick'', On OpenPicker)]
           [icon ''ImagePlusIcon'',
            plain ''span'' [Text (if pk_busy p then ''Reading'' @ ellipsis else ''Add a picture'')]]] @
        only_if (truthy (pk_error p)) [plain ''p'' (text_of (pk_error p))])"

section \<open>Initials\<close>

text \<open>\<open>toUpperCase\<close> and \<open>toLowerCase\<close> on the letters of ASCII.\<close>

definition to_upper :: "char \<Rightarrow> char" where
  "to_upper c = (if 97 \<le> (of_char c :: nat) \<and> (of_char c :: nat) \<le> 122 then char_of (of_char c - 32 :: nat) else c)"

definition to_lower :: "char \<Rightarrow> char" where
  "to_lower c = (if 65 \<le> (of_char c :: nat) \<and> (of_char c :: nat) \<le> 90 then char_of (of_char c + 32 :: nat) else c)"

text \<open>\<open>s.split(/\s+/)\<close>.\<close>

function split_spaces :: "string \<Rightarrow> string list" where
  "split_spaces s =
     (case dropWhile (\<lambda>c. \<not> is_space c) s of
        [] \<Rightarrow> [s]
      | c # rest \<Rightarrow>
          takeWhile (\<lambda>c. \<not> is_space c) s # split_spaces (dropWhile is_space rest))"
  by pat_completeness auto
termination
proof (relation "measure length")
  fix s c rest
  assume "dropWhile (\<lambda>c. \<not> is_space c) s = c # rest"
  then have "Suc (length rest) \<le> length s"
    using length_dropWhile_le[of "\<lambda>c. \<not> is_space c" s] by simp
  with length_dropWhile_le[of is_space rest] show "(dropWhile is_space rest, s) \<in> measure length"
    by simp
qed simp

declare split_spaces.simps [simp del]

definition initials :: "string \<Rightarrow> string" where
  "initials name =
     (let words = filter (\<lambda>w. w \<noteq> []) (split_spaces (trim name))
      in map to_upper
           (if length words > 1 then [hd (words ! 0), hd (words ! 1)]
            else take 2 (case words of [] \<Rightarrow> ''?'' | w # _ \<Rightarrow> w)))"

section \<open>The shell\<close>

text \<open>The way out ends on the sign-in page whatever the service answers.\<close>

definition signOut :: "('w \<Rightarrow> (unit, unit) outcome \<times> 'w) \<Rightarrow> 'w \<Rightarrow> ui list \<times> 'w" where
  "signOut dispatch_logout w = (let (r, w1) = dispatch_logout w in ([Navigate ''/login''], w1))"

definition LINK_ICONS :: "string \<rightharpoonup> string" where
  "LINK_ICONS = map_of
     [(''/my-requests'', ''ScrollTextIcon''), (''/my-offers'', ''ReceiptTextIcon''), (''/contacts'', ''ContactIcon''),
      (''/admin/queue'', ''GavelIcon''), (''/admin/access'', ''KeyIcon'')]"

definition nav_link :: "bool \<Rightarrow> nav_item \<Rightarrow> view" where
  "nav_link in_sheet link =
     El ''NavLink''
       ([(''key'', Str (nav_to link)), (''to'', Str (nav_to link))] @
        (if in_sheet then [(''onClick'', On CloseMenu)] else []))
       [icon (nullish (LINK_ICONS (nav_to link)) []), Text (nav_label link)]"

definition notifications_link :: "root_state \<Rightarrow> view list" where
  "notifications_link s =
     only_if (auth_user (auth s) \<noteq> None)
       [El ''NavLink'' [(''to'', Str ''/notifications''), (''onClick'', On CloseMenu)]
          ([icon ''BellIcon'', Text ''Notifications''] @
           only_if (nf_unread (notifications s) > 0)
             [Badge (Some ''destructive'') False [] (number_of (Some (nf_unread (notifications s))))])]"

definition account_menu :: "string \<Rightarrow> user \<Rightarrow> view" where
  "account_menu displayName user =
     DropdownMenu []
       [DropdownMenuTrigger [(''asChild'', Flag True)]
          [Button (Some ''ghost'') (Some ''sm'') False []
             [Avatar None [] [AvatarFallback [] [Text (initials displayName)]],
              plain ''span'' [Text displayName]]],
        DropdownMenuContent (Some ''end'') None []
          [DropdownMenuLabel None []
             [plain ''span'' [Text displayName], plain ''span'' (text_of (usr_email user)),
              plain ''span'' (Text ''Signed in as '' #
                text_of (map_option (\<lambda>r. map to_lower (role_name r)) (usr_role user)))],
           DropdownMenuSeparator [],
           DropdownMenuItem None (Some ''destructive'') [(''onSelect'', On SignOut)]
             [icon ''LogOutIcon'', Text ''Sign out'']]]"

definition visitor_links :: "string \<Rightarrow> view list" where
  "visitor_links location =
     [Button (Some ''ghost'') (Some ''sm'') True []
        [El ''Link'' [(''to'', Str ''/login''), (''state'', FromLocation location)]
           [icon ''LogInIcon'', Text ''Sign in'']],
      Button None (Some ''sm'') True [] [El ''Link'' [(''to'', Str ''/register'')] [Text ''Create account'']]]"

definition AppLayout_view :: "string option \<Rightarrow> string \<Rightarrow> bool \<Rightarrow> root_state \<Rightarrow> view list \<Rightarrow> view" where
  "AppLayout_view theme location menuOpen s outlet =
     (let nav = AppLayout_links (auth s)
      in plain ''div''
           [plain ''header''
              [plain ''div''
                 ([Sheet [(''open'', Flag menuOpen), (''onOpenChange'', On MenuOpenChange)]
                     [SheetTrigger [(''asChild'', Flag True)]
                        [Button (Some ''ghost'') (Some ''icon-sm'') False [(''aria-label'', Str ''Open menu'')]
                           [icon ''MenuIcon'']],
                      SheetContent (Some ''left'') None []
                        [SheetHeader [] [SheetTitle [] [icon ''StoreIcon'', Text ''Marketplace'']],
                         plain ''nav'' (map (nav_link True) nav @ notifications_link s)]],
                   El ''NavLink'' [(''to'', Str ''/requests'')]
                     [plain ''span'' [icon ''StoreIcon''], plain ''span'' [Text ''Marketplace'']]] @
                  only_if (length nav > 0) [Separator (Some ''vertical'') None []] @
                  [plain ''nav'' (map (nav_link False) nav @ notifications_link s),
                   plain ''div''
                     (ModeToggle theme #
                      (case auth_user (auth s) of
                         Some user \<Rightarrow> [account_menu (selectDisplayName (auth s)) user]
                       | None \<Rightarrow> visitor_links location))])],
            plain ''main'' outlet])"

section \<open>Facts\<close>

lemma to_upper_not_lower: "\<not> (97 \<le> (of_char (to_upper c) :: nat) \<and> (of_char (to_upper c) :: nat) \<le> 122)"
proof (cases "97 \<le> (of_char c :: nat) \<and> (of_char c :: nat) \<le> 122")
  case True
  then have "(of_char (to_upper c) :: nat) = (of_char c - 32) mod 256" by (simp add: to_upper_def)
  also have "\<dots> = of_char c - 32" using True by (intro mod_less) linarith
  finally have "(of_char (to_upper c) :: nat) = of_char c - 32" .
  with True show ?thesis by linarith
qed (auto simp: to_upper_def)

text \<open>
  The avatar never overflows and never comes out blank: whatever the name, the initials are one
  or two characters, none of them a small letter.
\<close>

theorem initials_fit:
  "1 \<le> length (initials name) \<and> length (initials name) \<le> 2 \<and>
   list_all (\<lambda>c. \<not> (97 \<le> (of_char c :: nat) \<and> (of_char c :: nat) \<le> 122)) (initials name)"
proof -
  let ?words = "filter (\<lambda>w. w \<noteq> []) (split_spaces (trim name))"
  have "1 \<le> length (initials name) \<and> length (initials name) \<le> 2"
  proof (cases ?words)
    case (Cons w ws)
    then have "w \<in> set ?words" by simp
    then have "w \<noteq> []" by simp
    with Cons show ?thesis by (cases ws) (simp_all add: initials_def Let_def Suc_le_eq)
  qed (simp add: initials_def)
  moreover have "list_all (\<lambda>c. \<not> (97 \<le> (of_char c :: nat) \<and> (of_char c :: nat) \<le> 122)) (map to_upper s)" for s
    using to_upper_not_lower by (simp add: list_all_iff)
  ultimately show ?thesis by (simp add: initials_def Let_def)
qed

end
