(* ===== verification/AccountViews.thy ===== *)
theory AccountViews
  imports Shell
begin

text \<open>
  What \<open>frontend/src/pages/Login.tsx\<close>, \<open>frontend/src/pages/Register.tsx\<close> and
  \<open>frontend/src/pages/ProfileSetup.tsx\<close> render.
\<close>

text \<open>A field with its label, its control and what is said under it; the pattern of every form.\<close>

definition labelled :: "string \<Rightarrow> string \<Rightarrow> view \<Rightarrow> view list \<Rightarrow> view" where
  "labelled i label control notes =
     Field None []
       ([FieldLabel [(''htmlFor'', Str i)] [Text label], control] @ notes)"

text \<open>The props of a text control.\<close>

definition typed :: "string \<Rightarrow> string \<Rightarrow> string \<Rightarrow> event props" where
  "typed i key v = [(''id'', Str i), (''value'', Str v), (''onChange'', On (TypeInto key))]"

abbreviation required :: "string \<times> event val" where
  "required \<equiv> (''required'', Flag True)"

text \<open>The button that submits: a spinner and another label while the call is out.\<close>

definition submit_button :: "bool \<Rightarrow> string \<Rightarrow> string \<Rightarrow> view" where
  "submit_button busy waiting label =
     Button None (Some ''lg'') False [(''type'', Str ''submit''), (''disabled'', Flag busy)]
       (only_if busy [Spinner []] @ [Text (if busy then waiting else label)])"

definition browse_footer :: "view list" where
  "browse_footer =
     [plain ''br'' [], El ''Link'' [(''to'', Str ''/requests'')] [Text ''Browse requests''], Text '' '',
      Text ''without an account'']"

definition Login_view :: "string option \<Rightarrow> auth_state \<Rightarrow> login_request \<Rightarrow> view" where
  "Login_view theme a f =
     (let busy = (auth_status a = Loading)
      in AuthShell theme ''LogInIcon'' ''Sign in'' ''Buyers pool demand, sellers bid against the total.''
           [El ''form'' [(''onSubmit'', On SubmitForm)]
              [FieldGroup []
                 ([labelled ''email'' ''Email''
                     (Input (Some ''email'')
                        (typed ''email'' ''email'' (lr_email f) @
                         [required, (''autoComplete'', Str ''email''),
                          (''placeholder'', Str ''you@example.com'')])) [],
                   labelled ''password'' ''Password''
                     (Input (Some ''password'')
                        (typed ''password'' ''password'' (lr_password f) @
                         [required, (''autoComplete'', Str ''current-password'')])) []] @
                  ErrorAlert_view (auth_error a) (Some ''Could not sign in'') True @
                  [submit_button busy (''Signing in'' @ ellipsis) ''Sign in''])]]
           ([Text ''No account?'', Text '' '', El ''Link'' [(''to'', Str ''/register'')] [Text ''Register'']] @
            browse_footer))"

text \<open>\<open>error?.includes('already registered')\<close>.\<close>

definition says_registered :: "string option \<Rightarrow> bool" where
  "says_registered e = (case e of None \<Rightarrow> False | Some m \<Rightarrow> sublist ''already registered'' m)"

definition role_select :: "role \<Rightarrow> view" where
  "role_select r =
     Select [(''value'', Str (role_name r)), (''onValueChange'', On ChooseRole)]
       [SelectTrigger None [(''id'', Str ''role'')] [SelectValue []],
        SelectContent None None []
          [SelectItem [(''value'', Str ''CUSTOMER'')]
             [icon ''ShoppingBasketIcon'', Text (''Customer '' @ em_dash @ '' I want to buy'')],
           SelectItem [(''value'', Str ''SELLER'')]
             [icon ''StoreIcon'', Text (''Seller '' @ em_dash @ '' I want to supply'')]]]"

definition Register_view :: "string option \<Rightarrow> auth_state \<Rightarrow> register_form \<Rightarrow> view" where
  "Register_view theme a f =
     (let busy = (auth_status a = Loading)
      in AuthShell theme ''UserPlusIcon'' ''Create an account''
           (''One account, one role '' @ em_dash @ '' buying or supplying.'')
           [El ''form'' [(''onSubmit'', On SubmitForm)]
              [FieldGroup []
                 ([labelled ''role'' ''I am a'' (role_select (rf_role f)) [],
                   labelled ''email'' ''Email''
                     (Input (Some ''email'')
                        (typed ''email'' ''email'' (rf_email f) @
                         [required, (''autoComplete'', Str ''email''),
                          (''placeholder'', Str ''you@example.com'')])) [],
                   labelled ''password'' ''Password''
                     (Input (Some ''password'')
                        (typed ''password'' ''password'' (rf_password f) @
                         [required, (''minLength'', Num (JInt 8)),
                          (''autoComplete'', Str ''new-password'')]))
                     [FieldDescription [] [Text ''At least 8 characters.'']],
                   labelled ''phoneNumber'' ''Phone number''
                     (Input None
                        (typed ''phoneNumber'' ''phoneNumber'' (rf_phoneNumber f) @
                         [(''placeholder'', Str ''+216 00 000 000''), (''autoComplete'', Str ''tel''),
                          required]))
                     [FieldDescription []
                        [Text (''Digits and an optional leading +, and it must not already be registered. '' @
                           ''Your phone number never leaves the auth service. A seller sees it only after '' @
                           ''an administrator approves their offer on a request you joined.'')]]] @
                  ErrorAlert_view (auth_error a) (Some ''Could not create the account'') True @
                  only_if (says_registered (auth_error a))
                    [Button (Some ''outline'') None True []
                       [El ''Link'' [(''to'', Str ''/login'')] [Text ''Go to sign in'']]] @
                  [submit_button busy (''Creating'' @ ellipsis) ''Create account''])]]
           ([Text ''Already registered?'', Text '' '', El ''Link'' [(''to'', Str ''/login'')] [Text ''Sign in'']] @
            browse_footer))"

definition seller_fields :: "profile_form \<Rightarrow> view list" where
  "seller_fields f =
     [labelled ''storeName'' ''Store name''
        (Input None (typed ''storeName'' ''storeName'' (pf_storeName f) @ [required])) [],
      labelled ''description'' ''What you supply''
        (Textarea (typed ''description'' ''description'' (pf_description f) @
           [(''rows'', Num (JInt 3)), required])) [],
      labelled ''city'' ''City'' (Input None (typed ''city'' ''city'' (pf_city f) @ [required])) [],
      labelled ''address'' ''Address'' (Input None (typed ''address'' ''address'' (pf_address f) @ [required]))
        [FieldDescription []
           [Text (''Your address stays private '' @ em_dash @ '' buyers see only your store name and city.'')]]]"

definition customer_fields :: "profile_form \<Rightarrow> view list" where
  "customer_fields f =
     [labelled ''firstName'' ''First name''
        (Input None (typed ''firstName'' ''firstName'' (pf_firstName f) @ [required])) [],
      labelled ''lastName'' ''Last name''
        (Input None (typed ''lastName'' ''lastName'' (pf_lastName f) @ [required])) []]"

text \<open>An account with its profile is sent on instead.\<close>

definition ProfileSetup_view :: "string option \<Rightarrow> auth_state \<Rightarrow> profile_form \<Rightarrow> form_state \<Rightarrow> view" where
  "ProfileSetup_view theme a f st =
     (if hasProfile a = Some True
      then El ''Navigate'' [(''to'', Str ''/requests''), (''replace'', Flag True)] []
      else
        AuthShell theme (if isSeller a then ''StoreIcon'' else ''UserRoundIcon'')
          (if isSeller a then ''Set up your store'' else ''Complete your profile'')
          (''Your account exists, but '' @ (if isSeller a then ''offers'' else ''requests'') @
           '' are made by a profile. This is the last step.'')
          [El ''form'' [(''onSubmit'', On SubmitForm)]
             [FieldGroup []
                ((if isSeller a then seller_fields f else customer_fields f) @
                 ErrorAlert_view (fs_error st) (Some ''Could not save your profile'') True @
                 [submit_button (fs_saving st) (''Saving'' @ ellipsis) ''Continue''])]]
          [])"

section \<open>What they hold\<close>

lemma attrs_all_ErrorAlert [view_simps]:
  "k \<noteq> ''data-slot'' \<Longrightarrow> k \<noteq> ''role'' \<Longrightarrow> attrs_all k (ErrorAlert_view c t e) = []"
  by (simp add: ErrorAlert_view_def ui_defs view_simps split: option.split cong: Text_cong)

lemmas account_view_defs =
  AuthShell_def labelled_def typed_def submit_button_def browse_footer_def role_select_def
  seller_fields_def customer_fields_def ModeToggle_def OPTIONS_def

lemma Login_holds:
  "ids (Login_view theme a f) = [Str ''email'', Str ''password'']"
  "label_targets (Login_view theme a f) = [Str ''email'', Str ''password'']"
  "links (Login_view theme a f) = [Str ''/register'', Str ''/requests'']"
  "hrefs (Login_view theme a f) = []"
  by (simp_all add: Login_view_def account_view_defs ui_defs holds_defs view_simps Let_def cong: Text_cong)

lemma Register_holds:
  "ids (Register_view theme a f) = [Str ''role'', Str ''email'', Str ''password'', Str ''phoneNumber'']"
  "label_targets (Register_view theme a f) = [Str ''role'', Str ''email'', Str ''password'', Str ''phoneNumber'']"
  "links (Register_view theme a f) =
     (if says_registered (auth_error a) then [Str ''/login''] else []) @ [Str ''/login'', Str ''/requests'']"
  "hrefs (Register_view theme a f) = []"
  by (simp_all add: Register_view_def account_view_defs ui_defs holds_defs view_simps Let_def cong: Text_cong)

lemma ProfileSetup_holds:
  assumes "hasProfile a \<noteq> Some True"
  shows "ids (ProfileSetup_view theme a f st) =
      (if isSeller a then [Str ''storeName'', Str ''description'', Str ''city'', Str ''address'']
       else [Str ''firstName'', Str ''lastName''])"
    and "label_targets (ProfileSetup_view theme a f st) = ids (ProfileSetup_view theme a f st)"
    and "links (ProfileSetup_view theme a f st) = []" and "hrefs (ProfileSetup_view theme a f st) = []"
  using assms
  by (simp_all add: ProfileSetup_view_def account_view_defs ui_defs holds_defs view_simps Let_def cong: Text_cong)

end
