(* ===== verification/RequestViews.thy ===== *)
theory RequestViews
  imports AccountViews
begin

text \<open>
  What \<open>frontend/src/pages/BrowseRequests.tsx\<close> and \<open>frontend/src/pages/RequestDetail.tsx\<close> render: the
  list and its two dialogs, the page of one request, the participation card and the offer form.
\<close>

definition interpolated_int :: "int option \<Rightarrow> string" where
  "interpolated_int v = (case v of None \<Rightarrow> ''undefined'' | Some i \<Rightarrow> js_String (JNum (JInt i)))"

definition request_link :: "string option \<Rightarrow> string" where
  "request_link i = ''/requests/'' @ interpolated i"

section \<open>A card of the list\<close>

definition figure :: "string \<Rightarrow> string \<Rightarrow> view list \<Rightarrow> view" where
  "figure symbol label value =
     plain ''div'' [plain ''p'' [icon symbol, Text label], plain ''p'' value]"

definition RequestCard_view :: "string \<Rightarrow> purchase_request \<Rightarrow> view" where
  "RequestCard_view base r =
     El ''Link'' [(''to'', Str (request_link (req_requestId r)))]
       [Card None []
          ([CardHeader []
              [plain ''div''
                 [plain ''h2'' (text_of (req_itemName r)),
                  StatusBadge_view (Some (nullish (req_status r) ''OPEN''))],
               CardDescription [] (text_of (req_description r))]] @
           only_if (truthy_flag (req_hasImage r))
             [CardContent [] (RequestImage_view base (req_requestId r) (req_hasImage r))] @
           [CardContent []
              [figure ''UsersIcon'' ''Buyers'' (number_of (req_totalCustomers r)),
               figure ''PackageIcon'' ''Units wanted'' (number_of (req_totalQuantity r)),
               figure ''HandshakeIcon'' ''Offers'' (number_of (Some (nullish (req_totalOffers r) 0)))]])]"

section \<open>The suggestions\<close>

definition looks_like :: "purchase_request list \<Rightarrow> string" where
  "looks_like similar =
     (if length similar = 1 then ''One request looks''
      else js_String (JNum (JInt (int (length similar)))) @ '' requests look'') @ '' like this''"

definition suggestion :: "purchase_request \<Rightarrow> string \<Rightarrow> view \<Rightarrow> view" where
  "suggestion r demand button =
     El ''li'' [(''key'', str_prop (req_requestId r))]
       [plain ''div'' [plain ''p'' (text_of (req_itemName r)), plain ''p'' [Text demand]], button]"

text \<open>The panel both dialogs show when something similar is asked for.\<close>

definition suggestions_panel ::
  "purchase_request list \<Rightarrow> string \<Rightarrow> string \<Rightarrow> string \<Rightarrow> (purchase_request \<Rightarrow> view) \<Rightarrow> view list" where
  "suggestions_panel similar exact_title exact_hint close_hint row =
     only_if (length similar > 0)
       [plain ''div''
          [plain ''p''
             [icon ''SearchIcon'',
              Text (if exactMatch similar \<noteq> None then exact_title else looks_like similar)],
           plain ''p'' [Text (if exactMatch similar \<noteq> None then exact_hint else close_hint)],
           plain ''ul'' (map row similar)]]"

definition buyers_units :: "purchase_request \<Rightarrow> string" where
  "buyers_units r =
     interpolated_int (req_totalCustomers r) @ '' buyers'' @ dot @
     interpolated_int (req_totalQuantity r) @ '' units''"

section \<open>The new-request dialog\<close>

definition join_row :: "new_request \<Rightarrow> purchase_request \<Rightarrow> view" where
  "join_row n r =
     suggestion r
       (if req_totalCustomers r = Some 0 then ''No buyers yet '' @ em_dash @ '' a seller is offering on it''
        else buyers_units r)
       (Button None (Some ''sm'') False
          [(''type'', Str ''button''), (''disabled'', Flag (nr_saving n)),
           (''onClick'', On (JoinSuggested (req_requestId r)))]
          [Text ''Join with '', Text (js_String (JNum (nr_quantity n)))])"

definition NewRequest_footer :: "purchase_request list \<Rightarrow> new_request \<Rightarrow> view" where
  "NewRequest_footer similar n =
     DialogFooter None []
       (Button (Some ''outline'') None False [(''type'', Str ''button''), (''onClick'', On CloseDialog)]
          [Text ''Cancel''] #
        only_if (exactMatch similar = None)
          [Button (Some (if length similar > 0 then ''outline'' else ''default'')) None False
             [(''type'', Str ''submit''), (''disabled'', Flag (nr_saving n))]
             (only_if (nr_saving n) [Spinner []] @
              [Text (if length similar > 0 then ''Create a separate request'' else ''Create request'')])])"

definition NewRequest_form :: "purchase_request list \<Rightarrow> new_request \<Rightarrow> picker \<Rightarrow> string option \<Rightarrow> view" where
  "NewRequest_form similar n p preview =
     El ''form'' [(''onSubmit'', On SubmitForm)]
       [FieldGroup []
          ([labelled ''itemName'' ''Item''
              (Input None (typed ''itemName'' ''itemName'' (nr_itemName n) @
                 [(''placeholder'', Str ''Espresso Machine''), required]))
              [FieldDescription []
                 [Text (''The name is what pools the demand: an item already being asked for lands you in '' @
                    ''that request.'')]]] @
           suggestions_panel similar ''A request for this item already exists''
             (''You cannot open a second request for the same item. Join this one and your quantity is '' @
              ''added to its demand.'')
             (''If one of these is what you meant, join it - your demand pools with theirs and sellers bid '' @
              ''against the combined total. Otherwise carry on and open your own.'')
             (join_row n) @
           [labelled ''quantity'' ''How many you want''
              (Input (Some ''number'')
                 [(''id'', Str ''quantity''), (''min'', Num (JInt 1)), (''value'', Num (nr_quantity n)),
                  (''onChange'', On (TypeInto ''quantity'')), required])
              [FieldDescription [] [Text (''Yours alone '' @ em_dash @ '' joining buyers add theirs on top.'')]],
            labelled ''requestImage'' ''Picture (optional)''
              (ImageField_view ''requestImage'' preview (nr_saving n) p)
              [FieldDescription []
                 [Text ''What you are looking for, if a picture says it better than the name does.'']]] @
           ErrorAlert_view (nr_error n) (Some ''Could not create this request'') True @
           [NewRequest_footer similar n])]"

definition NewRequestDialog_view ::
  "purchase_request list \<Rightarrow> new_request \<Rightarrow> picker \<Rightarrow> string option \<Rightarrow> view" where
  "NewRequestDialog_view similar n p preview =
     Dialog [(''open'', Flag (nr_open n)), (''onOpenChange'', On DialogOpenChange)]
       [DialogTrigger [(''asChild'', Flag True)]
          [Button None (Some ''lg'') False [] [icon ''PlusIcon'', Text ''New request'']],
        DialogContent None []
          [DialogHeader []
             [DialogTitle [] [Text ''New request''],
              DialogDescription []
                [Text (''Name the item and say how many you want. If someone has already asked for it, you '' @
                   ''join them - sellers offer against the combined demand, not your quantity alone.'')]],
           NewRequest_form similar n p preview]]"

section \<open>The dialog for a new item\<close>

definition offer_row :: "purchase_request \<Rightarrow> view" where
  "offer_row r =
     suggestion r (buyers_units r)
       (Button None (Some ''sm'') False
          [(''type'', Str ''button''), (''onClick'', On (FollowSuggested (req_requestId r)))]
          [Text ''Offer on this''])"

definition NewOffer_terms :: "new_offer \<Rightarrow> view" where
  "NewOffer_terms n =
     plain ''div''
       [labelled ''offerItemCategory'' ''Category''
          (Input None (typed ''offerItemCategory'' ''category'' (no_category n) @
             [(''placeholder'', Str ''Kitchen'')])) [],
        labelled ''offerItemQuantity'' ''Units you can supply''
          (Input (Some ''number'')
             [(''id'', Str ''offerItemQuantity''), (''min'', Num (JInt 1)),
              (''value'', Num (no_availableQuantity n)), (''onChange'', On (TypeInto ''availableQuantity'')),
              required]) [],
        labelled ''offerItemPrice'' ''Price per unit''
          (Input None (typed ''offerItemPrice'' ''pricePerUnit'' (no_pricePerUnit n) @ [required])) [],
        labelled ''offerItemCurrency'' ''Currency''
          (Input None (typed ''offerItemCurrency'' ''currency'' (no_currency n) @
             [(''maxLength'', Num (JInt 3)), required])) []]"

definition NewOffer_form :: "purchase_request list \<Rightarrow> new_offer \<Rightarrow> picker \<Rightarrow> string option \<Rightarrow> view" where
  "NewOffer_form similar n p preview =
     El ''form'' [(''onSubmit'', On SubmitForm)]
       [FieldGroup []
          ([labelled ''offerItemName'' ''Item''
              (Input None (typed ''offerItemName'' ''itemName'' (no_itemName n) @
                 [(''placeholder'', Str ''Espresso Machine''), required]))
              [FieldDescription []
                 [Text (''The name is what pools the demand. If buyers are already asking for this item, '' @
                    ''your offer joins their request rather than opening a second one.'')]]] @
           suggestions_panel similar ''This item already has a request''
             ''Your offer would land on it. Open it to read the demand first.''
             (''A name that is merely close opens a separate request, and you would be bidding against '' @
              ''nobody. If one of these is the same product, offer against it instead.'')
             offer_row @
           [NewOffer_terms n,
            labelled ''offerItemDescription'' ''What the item is''
              (Textarea (typed ''offerItemDescription'' ''itemDescription'' (no_itemDescription n) @
                 [(''rows'', Num (JInt 2))]))
              [FieldDescription []
                 [Text ''Shown on the request itself, so buyers can tell whether it is what they want.'']],
            labelled ''offerItemNotes'' ''Notes on your offer''
              (Textarea (typed ''offerItemNotes'' ''description'' (no_description n) @ [(''rows'', Num (JInt 2))]))
              [FieldDescription []
                 [Text (''What the buyers get for that price '' @ em_dash @ '' lead time, condition, warranty.'')]],
            labelled ''offerItemImage'' ''Picture (optional)''
              (ImageField_view ''offerItemImage'' preview (no_saving n) p)
              [FieldDescription []
                 [Text (''Stays with your offer '' @ em_dash @ '' buyers and the reviewing admin see it, rival '' @
                    ''sellers do not. It does not become the item's own picture: the request you open here '' @
                    ''is listed without one until a buyer adds it.'')]]] @
           ErrorAlert_view (no_error n) (Some ''Could not submit this offer'') True @
           [DialogFooter None []
              [Button (Some ''outline'') None False [(''type'', Str ''button''), (''onClick'', On CloseDialog)]
                 [Text ''Cancel''],
               Button (Some (if exactMatch similar \<noteq> None then ''outline'' else ''default'')) None False
                 [(''type'', Str ''submit''), (''disabled'', Flag (no_saving n))]
                 (only_if (no_saving n) [Spinner []] @ [Text ''Submit offer''])]])]"

definition OfferOnANewItemDialog_view ::
  "purchase_request list \<Rightarrow> new_offer \<Rightarrow> picker \<Rightarrow> string option \<Rightarrow> view" where
  "OfferOnANewItemDialog_view similar n p preview =
     Dialog [(''open'', Flag (no_open n)), (''onOpenChange'', On DialogOpenChange)]
       [DialogTrigger [(''asChild'', Flag True)]
          [Button None (Some ''lg'') False [] [icon ''HandshakeIcon'', Text ''Offer on a new item'']],
        DialogContent None []
          [DialogHeader []
             [DialogTitle [] [Text ''Offer on a new item''],
              DialogDescription []
                [Text (''For stock nobody has asked for yet. The request opens with no buyers on it and your '' @
                   ''offer is what it carries '' @ em_dash @ '' buyers join it afterwards, and an '' @
                   ''administrator reviews the offer as usual.'')]],
           NewOffer_form similar n p preview]]"

section \<open>The list\<close>

definition nothing_found :: "role option \<Rightarrow> bool \<Rightarrow> view" where
  "nothing_found role searching =
     Empty []
       [EmptyHeader []
          [EmptyMedia (Some ''icon'') [] [icon ''SearchIcon''],
           EmptyTitle [] [Text (if searching then ''Nothing matches that search'' else ''No open demand yet'')],
           EmptyDescription []
             [Text (if role = Some SELLER
                then ''If nobody has asked for what you sell, offer on it anyway '' @ em_dash @
                  '' the request opens with no buyers and they join it.''
                else if searching
                then ''Nothing carries that name, dormant requests included. Open a request for it and '' @
                  ''other buyers can join you.''
                else ''Nobody is asking for anything at the moment. Open the first request and sellers '' @
                  ''will bid against it.'')]]]"

definition skeleton_card :: "nat \<Rightarrow> view" where
  "skeleton_card i =
     Card None [(''key'', Num (JInt (int i)))]
       [CardHeader [] [Skeleton [], Skeleton []], CardContent [] [Skeleton []]]"

text \<open>The state of the page itself: what is searched for and the two dialogs.\<close>

record browse_page =
  bp_query :: string
  bp_request :: new_request
  bp_offer :: new_offer
  bp_picker :: picker
  bp_preview :: "string option"

definition BrowseRequests_view :: "string \<Rightarrow> string \<Rightarrow> root_state \<Rightarrow> browse_page \<Rightarrow> view" where
  "BrowseRequests_view base location s b =
     (let role = Option.bind (auth_user (auth s)) usr_role;
          signedIn = truthy (accessToken (auth s));
          searching = length (trim (bp_query b)) > 0;
          rq = requests s
      in plain ''div''
           ([PageHeader ''Open demand''
               (Some (''Every request buyers have pooled. Sellers bid against the combined total, not one '' @
                  ''buyer's quantity.''))
               (only_if (role = Some CUSTOMER)
                  [NewRequestDialog_view (rq_similar rq) (bp_request b) (bp_picker b) (bp_preview b)] @
                only_if (role = Some SELLER)
                  [OfferOnANewItemDialog_view (rq_similar rq) (bp_offer b) (bp_picker b) (bp_preview b)] @
                only_if (\<not> signedIn)
                  [Button None (Some ''lg'') True []
                     [El ''Link'' [(''to'', Str ''/login''), (''state'', FromLocation location)]
                        [icon ''LogInIcon'', Text ''Sign in to post a request'']]]),
             Card (Some ''sm'') []
               [CardContent []
                  [plain ''div''
                     [icon ''SearchIcon'',
                      Input None
                        [(''value'', Str (bp_query b)),
                         (''placeholder'', Str (''Search for an espresso machine'' @ ellipsis)),
                         (''aria-label'', Str ''Search requests''), (''onChange'', On (TypeInto ''query''))]]]]] @
            ErrorAlert_view (rq_error rq) None True @
            only_if (rq_loading rq \<and> rq_browse rq = [])
              [plain ''div'' (map skeleton_card [0 ..< 6])] @
            only_if (\<not> rq_loading rq \<and> rq_browse rq = []) [nothing_found role searching] @
            [plain ''div'' (map (\<lambda>r. El ''RequestCard'' [(''key'', str_prop (req_requestId r))]
                                     [RequestCard_view base r]) (rq_browse rq))]))"

section \<open>The page of one request\<close>

definition SignInButtons_view :: "string \<Rightarrow> view" where
  "SignInButtons_view location =
     plain ''div''
       [Button None None True []
          [El ''Link'' [(''to'', Str ''/login''), (''state'', FromLocation location)]
             [icon ''LogInIcon'', Text ''Sign in'']],
        Button (Some ''outline'') None True []
          [El ''Link'' [(''to'', Str ''/register'')] [Text ''Create an account'']]]"

definition SignInToTakePart_view :: "string \<Rightarrow> view" where
  "SignInToTakePart_view location =
     Card None []
       [CardHeader []
          [CardTitle [] [Text ''Join this request, or offer against it''],
           CardDescription []
             [Text (''Buyers add their quantity to the total; sellers bid against that total. Both need an '' @
                ''account '' @ em_dash @ '' looking does not.'')]],
        CardContent [] [SignInButtons_view location]]"

definition Stat_view :: "string \<Rightarrow> string \<Rightarrow> view list \<Rightarrow> view" where
  "Stat_view symbol label value =
     Card (Some ''sm'') []
       [CardContent [] [plain ''p'' [icon symbol, Text label], plain ''p'' value]]"

text \<open>The buttons by \<open>Participation_buttons\<close>, each with what it looks like.\<close>

definition participation_button :: "participation \<Rightarrow> view" where
  "participation_button b =
     (case b of
        Update \<Rightarrow> Button (Some ''outline'') None False [(''onClick'', On (Participate Update))]
          [Text ''Update my quantity'']
      | Leave \<Rightarrow> Button (Some ''ghost'') None False [(''onClick'', On (Participate Leave))]
          [icon ''LogOutIcon'', Text ''Leave'']
      | Join \<Rightarrow> Button None None False [(''onClick'', On (Participate Join))] [Text ''Join''])"

definition Participation_view :: "bool \<Rightarrow> bool \<Rightarrow> jnum \<Rightarrow> view" where
  "Participation_view joined has_buyers quantity =
     Card None []
       [CardHeader []
          [CardTitle [] [Text ''Your participation''],
           CardDescription []
             [Text (if joined
                then ''You are on this request. Change the quantity you asked for, or leave it.''
                else if has_buyers then ''Joining adds your quantity to the total.''
                else ''Nobody is on this request yet. Joining is what makes it demand '' @ em_dash @
                  '' and sellers bid against that total, not your quantity alone.'')]],
        CardContent []
          (labelled ''quantity'' ''Quantity''
             (Input (Some ''number'')
                [(''id'', Str ''quantity''), (''min'', Num (JInt 1)), (''value'', Num quantity),
                 (''onChange'', On (TypeInto ''quantity''))]) [] #
           map participation_button (Participation_buttons joined))]"

section \<open>The offer form\<close>

definition OfferForm_description :: "offer option \<Rightarrow> bool \<Rightarrow> view list" where
  "OfferForm_description mine has_buyers =
     Text (if mine \<noteq> None
       then (if editable mine
             then ''You have answered this request. Change the terms here '' @ em_dash @
               '' bidding twice on the same demand is one offer changed, not two.''
             else ''This offer has been approved, so its terms are fixed: contact details were released '' @
               ''against exactly these.'')
       else ''An administrator reviews every offer. Contact details are released only if yours is approved.'') #
     only_if (mine = None \<and> \<not> has_buyers)
       [Text ('' Nobody has joined this request yet, so there are no contacts to release until '' @
          ''somebody does.'')]"

definition OfferForm_buttons :: "offer option \<Rightarrow> bool \<Rightarrow> view list" where
  "OfferForm_buttons mine saving =
     only_if (editable mine)
       [plain ''div''
          (Button None None False [(''type'', Str ''submit''), (''disabled'', Flag saving)]
             (only_if saving [Spinner []] @
              [Text (if mine \<noteq> None then ''Update offer'' else ''Submit offer'')]) #
           only_if (mine \<noteq> None)
             [Button (Some ''ghost'') None False
                [(''type'', Str ''button''), (''disabled'', Flag saving), (''onClick'', On WithdrawOffer)]
                [Text ''Withdraw offer'']])]"

definition OfferForm_view ::
  "offer option \<Rightarrow> bool \<Rightarrow> offer_form \<Rightarrow> offer_form_state \<Rightarrow> picker \<Rightarrow> string option \<Rightarrow> view" where
  "OfferForm_view mine has_buyers f st p preview =
     (let frozen = (''disabled'', Flag (\<not> editable mine))
      in Card None []
           [CardHeader []
              [CardTitle [] [Text (if mine \<noteq> None then ''Your offer'' else ''Make an offer'')],
               CardDescription [] (OfferForm_description mine has_buyers)],
            CardContent []
              [El ''form'' [(''onSubmit'', On SubmitForm)]
                 [FieldGroup []
                    ([plain ''div''
                        [labelled ''availableQuantity'' ''Units you can supply''
                           (Input (Some ''number'')
                              [(''id'', Str ''availableQuantity''), (''min'', Num (JInt 1)),
                               (''value'', Num (fm_availableQuantity f)),
                               (''onChange'', On (TypeInto ''availableQuantity'')), frozen]) [],
                         labelled ''pricePerUnit'' ''Price per unit''
                           (Input None (typed ''pricePerUnit'' ''pricePerUnit'' (fm_pricePerUnit f) @
                              [frozen, required])) [],
                         labelled ''currency'' ''Currency''
                           (Input None (typed ''currency'' ''currency'' (fm_currency f) @
                              [(''maxLength'', Num (JInt 3)), frozen, required])) []],
                      labelled ''offerDescription'' ''Notes''
                        (Textarea (typed ''offerDescription'' ''description'' (fm_description f) @
                           [(''rows'', Num (JInt 2)), frozen]))
                        [FieldDescription []
                           [Text (''What the buyers get for that price '' @ em_dash @
                              '' lead time, condition, warranty.'')]],
                      labelled ''offerImage'' ''Picture (optional)''
                        (ImageField_view ''offerImage'' preview (\<not> editable mine \<or> ofs_saving st) p)
                        [FieldDescription []
                           [Text (''Stays with your offer '' @ em_dash @ '' buyers and the reviewing admin see '' @
                              ''it, rival sellers do not. The picture of the item itself belongs to the '' @
                              ''request, and is the buyers' to add.'')]]] @
                     OfferForm_buttons mine (ofs_saving st))]]])"

section \<open>The offers on a request\<close>

definition terms :: "int option \<Rightarrow> string option \<Rightarrow> string option \<Rightarrow> view list" where
  "terms quantity price currency =
     number_of quantity @ [Text ('' units'' @ dot)] @ text_of price @ [Text '' ''] @ text_of currency"

definition offer_row_view :: "pictures \<Rightarrow> offer \<Rightarrow> view" where
  "offer_row_view picture f =
     Card (Some ''sm'') [(''key'', Str (off_offerId f))]
       [CardContent []
          (OfferImage_view picture (Some (off_offerId f))
             (if isFullOffer f then off_hasImage f else Some False)
             (if isFullOffer f then off_updatedAt f else None) @
           [plain ''div''
              [plain ''p'' (terms (off_availableQuantity f) (off_pricePerUnit f) (off_currency f)),
               if isFullOffer f then plain ''p'' (text_of (off_description f))
               else plain ''p''
                 [icon ''EyeOffIcon'',
                  Text (''Competing offer '' @ em_dash @ '' the seller is not disclosed'')]],
            StatusBadge_view (Some (nullish (off_status f) ''PENDING''))])]"

definition offers_section :: "pictures \<Rightarrow> string \<Rightarrow> bool \<Rightarrow> offer list \<Rightarrow> view" where
  "offers_section picture location signedIn fs =
     plain ''section''
       [plain ''h2''
          [Text ''Offers'',
           Text (if signedIn then '' ('' @ js_String (JNum (JInt (int (length fs)))) @ '')'' else [])],
        if \<not> signedIn
        then Empty []
          [EmptyHeader []
             [EmptyMedia (Some ''icon'') [] [icon ''EyeOffIcon''],
              EmptyTitle [] [Text ''Offers are visible once you sign in''],
              EmptyDescription []
                [Text (''Who has bid, and for how much, is shown differently depending on who is asking '' @
                   em_dash @ '' a rival seller does not get to see whose offer is whose.'')]],
           EmptyContent [] [SignInButtons_view location]]
        else if fs = []
        then Empty []
          [EmptyHeader []
             [EmptyMedia (Some ''icon'') [] [icon ''HandshakeIcon''],
              EmptyTitle [] [Text ''No offers yet''],
              EmptyDescription []
                [Text (''Sellers bid against the combined demand. More buyers makes this request worth '' @
                   ''bidding on.'')]]]
        else plain ''div'' (map (offer_row_view picture) fs)]"

section \<open>The whole page\<close>

text \<open>The state of the page itself: the quantity of the participation card, the offer form and its
  picture field.\<close>

record detail_page =
  dp_quantity :: jnum
  dp_form :: offer_form
  dp_state :: offer_form_state
  dp_picker :: picker
  dp_preview :: "string option"

definition RequestDetail_view ::
  "string \<Rightarrow> pictures \<Rightarrow> string \<Rightarrow> root_state \<Rightarrow> string \<Rightarrow> detail_page \<Rightarrow> view" where
  "RequestDetail_view base picture location s i d =
     (case rq_current (requests s) of
        None \<Rightarrow> plain ''div'' [Skeleton [], Skeleton [], Skeleton []]
      | Some r \<Rightarrow>
          (let fs = of_forRequest (offers s);
               role = Option.bind (auth_user (auth s)) usr_role;
               signedIn = truthy (accessToken (auth s));
               mine = myOffer fs
           in plain ''div''
                ([Button (Some ''ghost'') (Some ''sm'') True []
                    [El ''Link'' [(''to'', Str ''/requests'')]
                       [icon ''ArrowLeftIcon'', Text ''Back to open demand'']],
                  plain ''div''
                    [plain ''div''
                       [plain ''h1'' (text_of (req_itemName r)), plain ''p'' (text_of (req_description r))],
                     StatusBadge_view (Some (nullish (req_status r) ''OPEN''))]] @
                 RequestImage_view base (req_requestId r) (req_hasImage r) @
                 [plain ''div''
                    [Stat_view ''UsersIcon'' ''Buyers'' (number_of (req_totalCustomers r)),
                     Stat_view ''PackageIcon'' ''Units wanted'' (number_of (req_totalQuantity r)),
                     Stat_view ''HandshakeIcon'' ''Offers'' (number_of (Some (nullish (req_totalOffers r) 0))),
                     Stat_view ''TagIcon'' ''Category'' (text_of (req_category r))]] @
                 ErrorAlert_view
                   (if truthy (rq_error (requests s)) then rq_error (requests s) else of_error (offers s))
                   None True @
                 only_if (role = Some CUSTOMER)
                   [Participation_view (hasJoined i (rq_mine (requests s))) (hasBuyers r) (dp_quantity d)] @
                 only_if (role = Some SELLER)
                   [El ''OfferForm'' [(''key'', Str (nullish (map_option off_offerId mine) ''new''))]
                      [OfferForm_view mine (hasBuyers r) (dp_form d) (dp_state d) (dp_picker d) (dp_preview d)]] @
                 only_if (\<not> signedIn) [SignInToTakePart_view location] @
                 [offers_section picture location signedIn fs])))"

section \<open>What they hold\<close>

lemmas request_view_defs =
  PageHeader_def figure_def suggestion_def suggestions_panel_def join_row_def offer_row_def
  NewRequest_footer_def NewRequest_form_def NewRequestDialog_view_def NewOffer_terms_def
  NewOffer_form_def OfferOnANewItemDialog_view_def nothing_found_def skeleton_card_def
  ImageField_view_def labelled_def typed_def close_cross_def RequestCard_view_def

lemma attrs_StatusBadge:
  "attrs ''id'' (StatusBadge_view v) = []" "attrs ''htmlFor'' (StatusBadge_view v) = []"
  "attrs ''to'' (StatusBadge_view v) = []" "attrs ''href'' (StatusBadge_view v) = []"
  by (simp_all add: StatusBadge_view_def ui_defs Let_def view_simps split: option.split)

lemma attrs_pictures:
  "attrs_all ''id'' (RequestImage_view b i h) = []" "attrs_all ''htmlFor'' (RequestImage_view b i h) = []"
  "attrs_all ''to'' (RequestImage_view b i h) = []" "attrs_all ''href'' (RequestImage_view b i h) = []"
  "attrs_all ''id'' (OfferImage_view p j h v) = []" "attrs_all ''htmlFor'' (OfferImage_view p j h v) = []"
  "attrs_all ''to'' (OfferImage_view p j h v) = []" "attrs_all ''href'' (OfferImage_view p j h v) = []"
  by (simp_all add: RequestImage_view_def OfferImage_view_def Let_def view_simps split: option.split)

declare attrs_StatusBadge [view_simps] attrs_pictures [view_simps]

lemma RequestCard_holds:
  "ids (RequestCard_view base r) = []" "label_targets (RequestCard_view base r) = []"
  "links (RequestCard_view base r) = [Str (request_link (req_requestId r))]"
  "hrefs (RequestCard_view base r) = []"
  by (simp_all add: request_view_defs ui_defs holds_defs view_simps cong: Text_cong)

lemma concat_Nil [view_simps]: "concat (map (\<lambda>x. []) xs) = []"
  by simp

lemma NewRequestDialog_holds:
  "ids (NewRequestDialog_view sim n p v) = [Str ''itemName'', Str ''quantity'', Str ''requestImage'']"
  "label_targets (NewRequestDialog_view sim n p v) = [Str ''itemName'', Str ''quantity'', Str ''requestImage'']"
  "links (NewRequestDialog_view sim n p v) = []" "hrefs (NewRequestDialog_view sim n p v) = []"
  by (simp_all add: request_view_defs ui_defs holds_defs view_simps cong: Text_cong)

lemma OfferOnANewItemDialog_holds:
  "ids (OfferOnANewItemDialog_view sim n p v) =
     map Str [''offerItemName'', ''offerItemCategory'', ''offerItemQuantity'', ''offerItemPrice'',
              ''offerItemCurrency'', ''offerItemDescription'', ''offerItemNotes'', ''offerItemImage'']"
  "label_targets (OfferOnANewItemDialog_view sim n p v) =
     map Str [''offerItemName'', ''offerItemCategory'', ''offerItemQuantity'', ''offerItemPrice'',
              ''offerItemCurrency'', ''offerItemDescription'', ''offerItemNotes'', ''offerItemImage'']"
  "links (OfferOnANewItemDialog_view sim n p v) = []" "hrefs (OfferOnANewItemDialog_view sim n p v) = []"
  by (simp_all add: request_view_defs ui_defs holds_defs view_simps cong: Text_cong)

lemma attrs_PageHeader [view_simps]: "attrs k (PageHeader t d cs) = attrs_all k cs"
  by (cases "cs = []") (simp_all add: PageHeader_def view_simps)

lemma BrowseRequests_holds:
  "ids (BrowseRequests_view base loc s b) =
     (case Option.bind (auth_user (auth s)) usr_role of
        Some CUSTOMER \<Rightarrow> [Str ''itemName'', Str ''quantity'', Str ''requestImage'']
      | Some SELLER \<Rightarrow>
          map Str [''offerItemName'', ''offerItemCategory'', ''offerItemQuantity'', ''offerItemPrice'',
            ''offerItemCurrency'', ''offerItemDescription'', ''offerItemNotes'', ''offerItemImage'']
      | _ \<Rightarrow> [])" (is ?ids)
  "label_targets (BrowseRequests_view base loc s b) = ids (BrowseRequests_view base loc s b)" (is ?labels)
  "links (BrowseRequests_view base loc s b) =
     (if truthy (accessToken (auth s)) then [] else [Str ''/login'']) @
     map (\<lambda>r. Str (request_link (req_requestId r))) (rq_browse (requests s))" (is ?links)
  "hrefs (BrowseRequests_view base loc s b) = []" (is ?hrefs)
proof -
  note parts = NewRequestDialog_holds[unfolded holds_defs] OfferOnANewItemDialog_holds[unfolded holds_defs]
    RequestCard_holds[unfolded holds_defs]
  show ?ids ?labels ?links ?hrefs
    by (simp_all add: BrowseRequests_view_def nothing_found_def skeleton_card_def parts ui_defs holds_defs
        view_simps Let_def split: option.split role.split cong: Text_cong)
qed

lemma Participation_holds:
  "ids (Participation_view j h q) = [Str ''quantity'']"
  "label_targets (Participation_view j h q) = [Str ''quantity'']"
  "links (Participation_view j h q) = []" "hrefs (Participation_view j h q) = []"
  by (simp_all add: Participation_view_def Participation_buttons_def participation_button_def labelled_def
      ui_defs holds_defs view_simps cong: Text_cong)

lemma OfferForm_holds:
  "ids (OfferForm_view m h f st p v) =
     map Str [''availableQuantity'', ''pricePerUnit'', ''currency'', ''offerDescription'', ''offerImage'']"
  "label_targets (OfferForm_view m h f st p v) =
     map Str [''availableQuantity'', ''pricePerUnit'', ''currency'', ''offerDescription'', ''offerImage'']"
  "links (OfferForm_view m h f st p v) = []" "hrefs (OfferForm_view m h f st p v) = []"
  by (simp_all add: OfferForm_view_def OfferForm_description_def OfferForm_buttons_def labelled_def typed_def
      ImageField_view_def ui_defs holds_defs view_simps Let_def cong: Text_cong)

lemma offer_row_holds:
  "ids (offer_row_view picture f) = []" "label_targets (offer_row_view picture f) = []"
  "links (offer_row_view picture f) = []" "hrefs (offer_row_view picture f) = []"
  by (simp_all add: offer_row_view_def terms_def ui_defs holds_defs view_simps cong: Text_cong)

lemma offers_section_holds:
  "ids (offers_section picture loc signed fs) = []" "label_targets (offers_section picture loc signed fs) = []"
  "links (offers_section picture loc signed fs) = (if signed then [] else [Str ''/login'', Str ''/register''])"
  "hrefs (offers_section picture loc signed fs) = []"
  using offer_row_holds[unfolded holds_defs]
  by (simp_all add: offers_section_def SignInButtons_view_def ui_defs holds_defs view_simps cong: Text_cong)

lemma RequestDetail_holds:
  assumes "rq_current (requests s) = Some r"
  shows "ids (RequestDetail_view base picture loc s i d) =
     (case Option.bind (auth_user (auth s)) usr_role of
        Some CUSTOMER \<Rightarrow> [Str ''quantity'']
      | Some SELLER \<Rightarrow>
          map Str [''availableQuantity'', ''pricePerUnit'', ''currency'', ''offerDescription'', ''offerImage'']
      | _ \<Rightarrow> [])" (is ?ids)
    and "label_targets (RequestDetail_view base picture loc s i d) =
      ids (RequestDetail_view base picture loc s i d)" (is ?labels)
    and "links (RequestDetail_view base picture loc s i d) =
      Str ''/requests'' # (if truthy (accessToken (auth s)) then []
        else [Str ''/login'', Str ''/register'', Str ''/login'', Str ''/register''])" (is ?links)
    and "hrefs (RequestDetail_view base picture loc s i d) = []" (is ?hrefs)
proof -
  note parts = Participation_holds[unfolded holds_defs] OfferForm_holds[unfolded holds_defs]
    offers_section_holds[unfolded holds_defs]
  show ?ids ?labels ?links ?hrefs
    by (simp_all add: assms RequestDetail_view_def SignInToTakePart_view_def SignInButtons_view_def Stat_view_def
        parts ui_defs holds_defs view_simps Let_def split: option.split role.split cong: Text_cong)
qed

section \<open>Properties of the request views\<close>

text \<open>Two offers a rival cannot tell apart by what the page may disclose of them.\<close>

definition indistinct :: "offer \<Rightarrow> offer \<Rightarrow> bool" where
  "indistinct f g \<longleftrightarrow>
     (if isFullOffer f then f = g
      else \<not> isFullOffer g \<and> off_offerId f = off_offerId g \<and>
        off_availableQuantity f = off_availableQuantity g \<and> off_pricePerUnit f = off_pricePerUnit g \<and>
        off_currency f = off_currency g \<and> off_status f = off_status g)"

lemma indistinct_row: "indistinct f g \<Longrightarrow> offer_row_view picture f = offer_row_view picture g"
  by (cases "isFullOffer f") (simp_all add: indistinct_def offer_row_view_def cong: Text_cong)

lemma indistinct_rows: "list_all2 indistinct fs gs \<Longrightarrow> map (offer_row_view picture) fs = map (offer_row_view picture) gs"
  by (induction rule: list_all2_induct) (simp_all add: indistinct_row)

lemma indistinct_myOffer: "list_all2 indistinct fs gs \<Longrightarrow> myOffer fs = myOffer gs"
  by (induction rule: list_all2_induct) (auto simp: myOffer_def indistinct_def split: if_splits)

text \<open>
  C6. A rival's offer shows its terms and nothing else: the page of a request is the same whatever
  description, picture, dates or request an offer has whose seller is withheld; only its number
  of units, price, currency and status reach the screen, and no picture is asked for.
\<close>

theorem rival_offer_hidden:
  assumes "list_all2 indistinct fs gs"
  shows "RequestDetail_view base picture loc (s\<lparr>offers := (offers s)\<lparr>of_forRequest := fs\<rparr>\<rparr>) i d =
    RequestDetail_view base picture loc (s\<lparr>offers := (offers s)\<lparr>of_forRequest := gs\<rparr>\<rparr>) i d"
proof -
  have "offers_section picture loc signed fs = offers_section picture loc signed gs" for signed
    using indistinct_rows[OF assms, of picture] list_all2_lengthD[OF assms] assms
    by (auto simp: offers_section_def)
  then show ?thesis
    by (cases "rq_current (requests s)")
       (simp_all add: RequestDetail_view_def indistinct_myOffer[OF assms] Let_def cong: Text_cong)
qed

text \<open>An offer as a rival reads it, and the same with a description.\<close>

definition rival_offer :: "string option \<Rightarrow> offer" where
  "rival_offer description =
     (as_offer (JObj [(''offerId'', JStr ''f1''), (''requestId'', JStr ''r1''),
        (''status'', JStr ''PENDING'')]))\<lparr>off_description := description\<rparr>"

theorem rival_offer_hidden_witness:
  "\<forall>base picture s i d.
     RequestDetail_view base picture ''/requests/r1''
       (s\<lparr>offers := (offers s)\<lparr>of_forRequest := [rival_offer None]\<rparr>\<rparr>) i d =
     RequestDetail_view base picture ''/requests/r1''
       (s\<lparr>offers := (offers s)\<lparr>of_forRequest := [rival_offer (Some ''Ada's tools'')]\<rparr>\<rparr>) i d"
proof -
  have "\<not> isFullOffer (rival_offer v)" for v
    by (simp add: rival_offer_def isFullOffer_def as_offer_def prop_field_def in_obj_def)
  then have "list_all2 indistinct [rival_offer None] [rival_offer (Some ''Ada's tools'')]"
    by (simp add: indistinct_def) (simp add: rival_offer_def)
  from rival_offer_hidden[OF this] show ?thesis by blast
qed

lemma submits_ErrorAlert [view_simps]: "select_all submits k (ErrorAlert_view c t e) = []"
  by (simp add: ErrorAlert_view_def ui_defs view_simps split: option.split cong: Text_cong)

lemmas select_simps = view_simps prop_of_spread map_of_spread str_prop_def

lemma submits_StatusBadge [view_simps]: "select submits k (StatusBadge_view v) = []"
  by (simp add: StatusBadge_view_def ui_defs Let_def select_simps split: option.split cong: Text_cong)

lemma submits_pictures [view_simps]:
  "select_all submits k (RequestImage_view b i h) = []" "select_all submits k (OfferImage_view p j h v) = []"
  by (simp_all add: RequestImage_view_def OfferImage_view_def Let_def view_simps split: option.split)

lemma submit_buttons:
  "select submits ''disabled'' (Login_view theme a lf) = [Flag (auth_status a = Loading)]"
  "select submits ''disabled'' (Register_view theme a rf) = [Flag (auth_status a = Loading)]"
  "hasProfile a \<noteq> Some True \<Longrightarrow> select submits ''disabled'' (ProfileSetup_view theme a pf st) = [Flag (fs_saving st)]"
  "select submits ''disabled'' (NewRequestDialog_view sim n p v) =
     (if exactMatch sim = None then [Flag (nr_saving n)] else [])"
  "select submits ''disabled'' (OfferOnANewItemDialog_view sim m p v) = [Flag (no_saving m)]"
  "select submits ''disabled'' (OfferForm_view mine h f os p v) =
     (if editable mine then [Flag (ofs_saving os)] else [])"
proof -
  note sub = account_view_defs ui_defs select_simps Let_def
  show "select submits ''disabled'' (Login_view theme a lf) = [Flag (auth_status a = Loading)]"
    by (simp add: Login_view_def sub cong: Text_cong)
  show "select submits ''disabled'' (Register_view theme a rf) = [Flag (auth_status a = Loading)]"
    by (simp add: Register_view_def sub cong: Text_cong)
  show "select submits ''disabled'' (ProfileSetup_view theme a pf st) = [Flag (fs_saving st)]"
    if "hasProfile a \<noteq> Some True"
    using that by (simp add: ProfileSetup_view_def sub cong: Text_cong)
  show "select submits ''disabled'' (NewRequestDialog_view sim n p v) =
     (if exactMatch sim = None then [Flag (nr_saving n)] else [])"
    by (simp add: request_view_defs ui_defs select_simps cong: Text_cong)
  show "select submits ''disabled'' (OfferOnANewItemDialog_view sim m p v) = [Flag (no_saving m)]"
    by (simp add: request_view_defs ui_defs select_simps cong: Text_cong)
  show "select submits ''disabled'' (OfferForm_view mine h f os p v) =
     (if editable mine then [Flag (ofs_saving os)] else [])"
    by (simp add: OfferForm_view_def OfferForm_description_def OfferForm_buttons_def labelled_def typed_def
        ImageField_view_def ui_defs select_simps Let_def cong: Text_cong)
qed

text \<open>
  An approved offer cannot be edited: when the seller's offer is no longer pending, every control
  of the form is disabled and there is neither a submit nor a withdraw button.
\<close>

theorem approved_offer_frozen:
  assumes "mine = Some g" and "off_status g = Some ''APPROVED''"
  shows "set (select entry ''disabled'' (OfferForm_view mine h f os p v)) = {Flag True} \<and>
    select submits ''disabled'' (OfferForm_view mine h f os p v) = [] \<and>
    On WithdrawOffer \<notin> set (attrs ''onClick'' (OfferForm_view mine h f os p v))"
proof -
  have "\<not> editable mine" using assms by (simp add: editable_def)
  then show ?thesis
    by (simp add: OfferForm_view_def OfferForm_description_def OfferForm_buttons_def labelled_def typed_def
        ImageField_view_def ui_defs select_simps Let_def cong: Text_cong)
qed

theorem approved_offer_frozen_witness:
  "On WithdrawOffer \<notin> set (attrs ''onClick'' (OfferForm_view
     (Some (waiting_offer\<lparr>off_status := Some ''APPROVED''\<rparr>)) True (OfferForm_seed None)
     \<lparr>ofs_saving = False, ofs_image = None\<rparr> picker_initial None))"
  using approved_offer_frozen[of "Some (waiting_offer\<lparr>off_status := Some ''APPROVED''\<rparr>)"
      "waiting_offer\<lparr>off_status := Some ''APPROVED''\<rparr>" True "OfferForm_seed None"
      "\<lparr>ofs_saving = False, ofs_image = None\<rparr>" picker_initial None]
  by simp

end
