(* ===== verification/ListViews.thy ===== *)
theory ListViews
  imports RequestViews
begin

text \<open>
  What \<open>frontend/src/pages/MyRequests.tsx\<close>, \<open>frontend/src/pages/MyOffers.tsx\<close>,
  \<open>frontend/src/pages/Contacts.tsx\<close>, \<open>frontend/src/pages/Notifications.tsx\<close>,
  \<open>frontend/src/pages/admin/Queue.tsx\<close> and \<open>frontend/src/pages/admin/Access.tsx\<close> render, and what
  the first two load.
\<close>

text \<open>The box shown in place of an empty list.\<close>

definition empty_box :: "string \<Rightarrow> string \<Rightarrow> string \<Rightarrow> view list \<Rightarrow> view" where
  "empty_box symbol title description actions =
     Empty []
       (EmptyHeader []
          [EmptyMedia (Some ''icon'') [] [icon symbol], EmptyTitle [] [Text title],
           EmptyDescription [] [Text description]] #
        actions)"

section \<open>One's own requests\<close>

text \<open>The effects of the two pages, as the thunks they start.\<close>

definition MyRequests_effect :: "('w \<Rightarrow> (purchase_request list, unit) outcome \<times> 'w) \<Rightarrow> 'w \<Rightarrow> 'w" where
  "MyRequests_effect dispatch_fetchMyRequests w = snd (dispatch_fetchMyRequests w)"

definition MyRequests_row :: "string \<Rightarrow> purchase_request \<Rightarrow> view" where
  "MyRequests_row base r =
     El ''Link'' [(''key'', str_prop (req_requestId r)), (''to'', Str (request_link (req_requestId r)))]
       [Card (Some ''sm'') []
          [CardContent []
             (RequestImage_view base (req_requestId r) (req_hasImage r) @
              [plain ''div''
                 [plain ''p'' (text_of (req_itemName r)),
                  plain ''p''
                    (number_of (req_totalCustomers r) @ [Text ('' buyers'' @ dot)] @
                     number_of (req_totalQuantity r) @ [Text '' units''])],
               plain ''div''
                 [StatusBadge_view (Some (nullish (req_status r) ''OPEN'')), icon ''ChevronRightIcon'']])]]"

definition MyRequests_view :: "string \<Rightarrow> root_state \<Rightarrow> view" where
  "MyRequests_view base s =
     plain ''div''
       [PageHeader ''My requests''
          (Some (''Everything you created or joined. Quantities shown are the combined demand, not yours '' @
             ''alone.'')) [],
        if rq_mine (requests s) = []
        then empty_box ''ScrollTextIcon'' ''You have not joined a request yet''
          (''Joining an open request adds your quantity to its total, which is what sellers bid against.'')
          [EmptyContent []
             [Button None None True [] [El ''Link'' [(''to'', Str ''/requests'')] [Text ''Browse open demand'']]]]
        else plain ''div'' (map (MyRequests_row base) (rq_mine (requests s)))]"

section \<open>One's own offers\<close>

definition MyOffers_effect :: "('w \<Rightarrow> (offer list, unit) outcome \<times> 'w) \<Rightarrow> 'w \<Rightarrow> 'w" where
  "MyOffers_effect dispatch_fetchMyOffers w = snd (dispatch_fetchMyOffers w)"

definition view_request :: "string \<Rightarrow> view" where
  "view_request path = El ''Link'' [(''to'', Str path)] [Text ''View the request'']"

definition MyOffers_row :: "pictures \<Rightarrow> offer \<Rightarrow> view" where
  "MyOffers_row picture f =
     Card (Some ''sm'') [(''key'', Str (off_offerId f))]
       [CardContent []
          (OfferImage_view picture (Some (off_offerId f)) (off_hasImage f) (off_updatedAt f) @
           [plain ''div''
              [plain ''p'' (terms (off_availableQuantity f) (off_pricePerUnit f) (off_currency f)),
               plain ''p'' (text_of (off_description f)),
               view_request (request_link (Some (off_requestId f)))],
            plain ''div''
              (StatusBadge_view (Some (nullish (off_status f) ''PENDING'')) #
               only_if (off_status f = Some ''APPROVED'')
                 [Button (Some ''outline'') (Some ''sm'') True []
                    [El ''Link'' [(''to'', Str ''/contacts'')] [icon ''ContactIcon'', Text ''Contacts released'']]])])]"

definition MyOffers_view :: "pictures \<Rightarrow> root_state \<Rightarrow> view" where
  "MyOffers_view picture s =
     plain ''div''
       (PageHeader ''My offers''
          (Some (''Every offer you have made. An administrator reviews each one '' @ em_dash @
             '' approval is also what releases the buyers' phone numbers to you.'')) [] #
        ErrorAlert_view (of_error (offers s)) None True @
        [if of_mine (offers s) = []
         then empty_box ''ReceiptTextIcon'' ''You have not made an offer yet''
           (''Open requests show the combined demand of every buyer who joined '' @ em_dash @
            '' that is what you bid against. Nobody asking for what you sell is not a reason to wait: '' @
            ''offer on the item anyway and the request opens with no buyers, ready for them to join.'')
           [EmptyContent []
              [Button None None True [] [El ''Link'' [(''to'', Str ''/requests'')] [Text ''Find a request'']]]]
         else plain ''div'' (map (MyOffers_row picture) (of_mine (offers s)))])"

section \<open>Contacts\<close>

definition contact_name :: "contact \<Rightarrow> string" where
  "contact_name c =
     (let name = join '' '' (filter_truthy [ct_firstName c, ct_lastName c])
      in if name = [] then ''Unnamed customer'' else name)"

definition contact_row :: "contact \<Rightarrow> view" where
  "contact_row c =
     El ''li'' [(''key'', str_prop (ct_customerId c))]
       [plain ''span'' [icon ''UserRoundIcon'', Text (contact_name c)],
        El ''a'' [(''href'', Str (''tel:'' @ interpolated (ct_phoneNumber c)))] (text_of (ct_phoneNumber c))]"

definition Contacts_card :: "admin_state \<Rightarrow> offer \<Rightarrow> view" where
  "Contacts_card a f =
     (let is_open = contacts_open a f;
          people = nullish (Option.bind (ad_contacts a) cl_contacts) []
      in Card None [(''key'', Str (off_offerId f))]
           [CardContent []
              (plain ''div''
                 [plain ''div''
                    [plain ''p'' (terms (off_availableQuantity f) (off_pricePerUnit f) (off_currency f)),
                     view_request (request_link (Some (off_requestId f)))],
                  Button (Some (if is_open then ''outline'' else ''default'')) None False
                    [(''onClick'', On (ToggleContacts (off_requestId f)))]
                    [icon (if is_open then ''EyeOffIcon'' else ''PhoneIcon''),
                     Text (if is_open then ''Hide'' else ''Show contacts'')]] #
               only_if is_open
                 [Separator None None [],
                  plain ''ul''
                    (if people \<noteq> [] then map contact_row people
                     else [plain ''li'' [Text ''No buyers on this request.'']])])])"

text \<open>\<open>error?.includes('granted')\<close>.\<close>

definition not_released :: "string option \<Rightarrow> bool" where
  "not_released e = (case e of None \<Rightarrow> False | Some m \<Rightarrow> sublist ''granted'' m)"

definition Contacts_view :: "root_state \<Rightarrow> view" where
  "Contacts_view s =
     (let approved = approved_offers (offers s);
          e = ad_error (admin s)
      in plain ''div''
           ([PageHeader ''Customer contacts''
               (Some (''Released to you when an administrator approves one of your offers, for the buyers on '' @
                  ''that request only. Every lookup is checked and recorded, and access can be revoked.'')) [],
             if approved = []
             then empty_box ''ContactIcon'' ''No approved offers yet''
               (''Contacts unlock when an administrator approves one of your offers '' @ em_dash @
                '' nothing else in the platform releases a phone number.'')
               [EmptyContent []
                  [Button (Some ''outline'') None True []
                     [El ''Link'' [(''to'', Str ''/my-offers'')] [Text ''See your offers'']]]]
             else plain ''div'' (map (Contacts_card (admin s)) approved)] @
            ErrorAlert_view e (if not_released e then Some ''Not released yet'' else None) (\<not> not_released e)))"

section \<open>The inbox\<close>

definition Notifications_row :: "(string \<Rightarrow> string) \<Rightarrow> notification \<Rightarrow> view" where
  "Notifications_row local_time n =
     Card (Some ''sm'') [(''key'', Str (nt_notificationId n))]
       [CardContent []
          (plain ''div''
             [plain ''p''
                (only_if (isUnread n) [El ''span'' [(''aria-hidden'', Flag True)] []] @ text_of (nt_title n)),
              plain ''p'' (text_of (nt_message n)),
              plain ''p''
                (text_of (nt_type n) @
                 [Text (if truthy (nt_createdAt n) then dot @ local_time (the (nt_createdAt n)) else [])])] #
           only_if (isUnread n)
             [Button (Some ''ghost'') (Some ''sm'') False
                [(''onClick'', On (ReadNotification (nt_notificationId n)))]
                [icon ''CheckIcon'', Text ''Mark read'']])]"

definition Notifications_view :: "(string \<Rightarrow> string) \<Rightarrow> root_state \<Rightarrow> view" where
  "Notifications_view local_time s =
     (let nf = notifications s
      in plain ''div''
           ([PageHeader ''Notifications''
               (Some (''Events reach you a couple of seconds after they happen '' @ em_dash @
                  '' producers publish through an outbox, so this list refreshes on a timer.''))
               (only_if (nf_unread nf > 0)
                  [Badge (Some ''destructive'') False [] (number_of (Some (nf_unread nf)) @ [Text '' unread''])])] @
            only_if (nf_loading nf \<and> nf_items nf = [])
              [plain ''div'' (map (\<lambda>i. Skeleton [(''key'', Num (JInt (int i)))]) [0 ..< 4])] @
            only_if (\<not> nf_loading nf \<and> nf_items nf = [])
              [empty_box ''BellIcon'' ''Nothing yet''
                 ''Joining a request, an offer on one you are part of, or an admin decision all land here.'' []] @
            [plain ''div'' (map (Notifications_row local_time) (nf_items nf))]))"

section \<open>The approval queue\<close>

definition approve_dialog :: "string option \<Rightarrow> view" where
  "approve_dialog offerId =
     AlertDialog []
       [AlertDialogTrigger [(''asChild'', Flag True)]
          [Button None None False [] [icon ''CircleCheckIcon'', Text ''Approve & release'']],
        AlertDialogContent None []
          [AlertDialogHeader []
             [AlertDialogTitle [] [Text ''Release the buyers' phone numbers?''],
              AlertDialogDescription []
                [Text (''Approving this offer grants the seller the phone number of every customer on this '' @
                   ''request. The grant is recorded and can be revoked, but the numbers will have been seen.'')]],
           AlertDialogFooter []
             [AlertDialogCancel None None [] [Text ''Cancel''],
              AlertDialogAction None None [(''onClick'', On (Decide offerId True))]
                [Text ''Approve & release'']]]]"

definition PendingOfferCard_view :: "pictures \<Rightarrow> pending_offer \<Rightarrow> string \<Rightarrow> view" where
  "PendingOfferCard_view picture f reason =
     (let reasonId = ''reason-'' @ interpolated (po_offerId f)
      in Card None []
           [CardContent []
              [plain ''div''
                 (OfferImage_view picture (po_offerId f) (po_hasImage f) None @
                  [plain ''div''
                     [plain ''p'' (terms (po_availableQuantity f) (po_pricePerUnit f) (po_currency f)),
                      plain ''p'' (text_of (po_description f)), view_request (request_link (po_requestId f))],
                   plain ''span'' (text_of (po_offerId f))]),
               labelled reasonId ''Reason (recorded with the decision)''
                 (Textarea
                    [(''id'', Str reasonId), (''value'', Str reason), (''rows'', Num (JInt 2)),
                     (''onChange'', On (TypeReason (po_offerId f))),
                     (''placeholder'', Str ''Best price for the aggregated demand'')]) [],
               plain ''div''
                 [approve_dialog (po_offerId f),
                  Button (Some ''outline'') None False [(''onClick'', On (Decide (po_offerId f) False))]
                    [icon ''CircleXIcon'', Text ''Reject'']]]])"

definition Queue_view :: "pictures \<Rightarrow> root_state \<Rightarrow> (string \<rightharpoonup> string) \<Rightarrow> view" where
  "Queue_view picture s reasons =
     (let a = admin s
      in plain ''div''
           ([PageHeader ''Approval queue''
               (Some (''Offers waiting on a decision. Yours is the only one in the platform that releases a '' @
                  ''phone number.'')) [],
             Alert []
               [icon ''PhoneIcon'', AlertTitle [] [Text ''Approving releases contact details''],
                AlertDescription []
                  [Text (''It grants the seller the phone numbers of every customer on that request, for that '' @
                     ''request only. Rejecting releases nothing.'')]]] @
            ErrorAlert_view (ad_error a) None True @
            only_if (ad_loading a \<and> ad_pending a = [])
              [plain ''div'' (map (\<lambda>i. Skeleton [(''key'', Num (JInt (int i)))]) [0 ..< 3])] @
            only_if (\<not> ad_loading a \<and> ad_pending a = [])
              [empty_box ''GavelIcon'' ''Nothing is waiting for a decision''
                 ''New offers land here the moment a seller submits one.'' []] @
            [plain ''div'' (map (\<lambda>f. El ''PendingOfferCard'' [(''key'', str_prop (po_offerId f))]
               [PendingOfferCard_view picture f (nullish (reasons (nullish (po_offerId f) [])) [])])
              (ad_pending a))]))"

text \<open>\<open>onReason\<close>: the reason typed for one offer.\<close>

definition Queue_setReason :: "string option \<Rightarrow> string \<Rightarrow> (string \<rightharpoonup> string) \<Rightarrow> (string \<rightharpoonup> string)" where
  "Queue_setReason offerId reason reasons = reasons(nullish offerId [] \<mapsto> reason)"

section \<open>Contact access\<close>

definition revoke_dialog :: "string option \<Rightarrow> view" where
  "revoke_dialog accessId =
     AlertDialog []
       [AlertDialogTrigger [(''asChild'', Flag True)]
          [Button (Some ''destructive'') (Some ''sm'') False [] [icon ''BanIcon'', Text ''Revoke'']],
        AlertDialogContent None []
          [AlertDialogHeader []
             [AlertDialogTitle [] [Text ''Revoke this access?''],
              AlertDialogDescription []
                [Text (''The seller stops being able to look the numbers up. It does not undo what they have '' @
                   ''already seen, and the grant stays on the record as revoked.'')]],
           AlertDialogFooter []
             [AlertDialogCancel None None [] [Text ''Cancel''],
              AlertDialogAction None None [(''onClick'', On (Revoke accessId))] [Text ''Revoke'']]]]"

definition Access_row :: "contact_access \<Rightarrow> view" where
  "Access_row g =
     TableRow [(''key'', str_prop (ca_accessId g))]
       [TableCell [] (text_of (ca_sellerId g)), TableCell [] (text_of (ca_requestId g)),
        TableCell [] [StatusBadge_view (ca_status g)],
        TableCell [] (only_if (ca_status g = Some ''GRANTED'') [revoke_dialog (ca_accessId g)])]"

definition Access_view :: "root_state \<Rightarrow> view" where
  "Access_view s =
     plain ''div''
       (PageHeader ''Contact access''
          (Some (''Every grant ever issued. Revoking keeps the record '' @ em_dash @
             '' it marks access withdrawn rather than deleting the fact it was given.'')) [] #
        ErrorAlert_view (ad_error (admin s)) None True @
        [if ad_grants (admin s) = []
         then empty_box ''KeyIcon'' ''No contact access has been granted yet''
           ''A grant appears here the moment an offer is approved in the queue.'' []
         else Card None []
           [CardContent []
              [Table []
                 [TableHeader []
                    [TableRow []
                       [TableHead [] [Text ''Seller''], TableHead [] [Text ''Request''],
                        TableHead [] [Text ''Status''], TableHead [] [Text ''Action'']]],
                  TableBody [] (map Access_row (ad_grants (admin s)))]]]])"

section \<open>What they hold\<close>

lemmas list_view_defs = empty_box_def view_request_def terms_def

lemma MyRequests_row_holds:
  "ids (MyRequests_row base r) = []" "label_targets (MyRequests_row base r) = []"
  "links (MyRequests_row base r) = [Str (request_link (req_requestId r))]" "hrefs (MyRequests_row base r) = []"
  by (simp_all add: MyRequests_row_def ui_defs holds_defs view_simps cong: Text_cong)

lemma MyRequests_holds:
  "ids (MyRequests_view base s) = []" "label_targets (MyRequests_view base s) = []"
  "links (MyRequests_view base s) =
     (if rq_mine (requests s) = [] then [Str ''/requests'']
      else map (\<lambda>r. Str (request_link (req_requestId r))) (rq_mine (requests s)))"
  "hrefs (MyRequests_view base s) = []"
  using MyRequests_row_holds[unfolded holds_defs]
  by (simp_all add: MyRequests_view_def list_view_defs ui_defs holds_defs view_simps cong: Text_cong)

lemma MyOffers_row_holds:
  "ids (MyOffers_row picture f) = []" "label_targets (MyOffers_row picture f) = []"
  "links (MyOffers_row picture f) =
     Str (request_link (Some (off_requestId f))) #
     (if off_status f = Some ''APPROVED'' then [Str ''/contacts''] else [])"
  "hrefs (MyOffers_row picture f) = []"
  by (simp_all add: MyOffers_row_def list_view_defs ui_defs holds_defs view_simps cong: Text_cong)

lemma MyOffers_holds:
  "ids (MyOffers_view picture s) = []" "label_targets (MyOffers_view picture s) = []"
  "links (MyOffers_view picture s) =
     (if of_mine (offers s) = [] then [Str ''/requests'']
      else concat (map (links \<circ> MyOffers_row picture) (of_mine (offers s))))"
  "hrefs (MyOffers_view picture s) = []"
  using MyOffers_row_holds(1,2,4)[unfolded holds_defs]
  by (simp_all add: MyOffers_view_def list_view_defs ui_defs holds_defs view_simps comp_def cong: Text_cong)

text \<open>The numbers to dial on one card of the contacts.\<close>

definition card_numbers :: "admin_state \<Rightarrow> offer \<Rightarrow> event val list" where
  "card_numbers a f =
     (if contacts_open a f
      then map (\<lambda>c. Str (''tel:'' @ interpolated (ct_phoneNumber c)))
             (nullish (Option.bind (ad_contacts a) cl_contacts) [])
      else [])"

lemma contact_row_holds:
  "attrs ''id'' (contact_row c) = []" "attrs ''htmlFor'' (contact_row c) = []"
  "attrs ''to'' (contact_row c) = []"
  "attrs ''href'' (contact_row c) = [Str (''tel:'' @ interpolated (ct_phoneNumber c))]"
  by (simp_all add: contact_row_def view_simps str_prop_def split: option.split cong: Text_cong)

lemma Contacts_card_holds:
  "ids (Contacts_card a f) = []" "label_targets (Contacts_card a f) = []"
  "links (Contacts_card a f) = [Str (request_link (Some (off_requestId f)))]"
  "hrefs (Contacts_card a f) = card_numbers a f"
  by (simp_all add: Contacts_card_def card_numbers_def contact_row_holds list_view_defs ui_defs holds_defs
      view_simps Let_def concat_map_singleton cong: Text_cong)

lemma Contacts_holds:
  "ids (Contacts_view s) = []" "label_targets (Contacts_view s) = []"
  "links (Contacts_view s) =
     (if approved_offers (offers s) = [] then [Str ''/my-offers'']
      else map (\<lambda>f. Str (request_link (Some (off_requestId f)))) (approved_offers (offers s)))"
  "hrefs (Contacts_view s) = concat (map (card_numbers (admin s)) (approved_offers (offers s)))"
  using Contacts_card_holds[unfolded holds_defs]
  by (simp_all add: Contacts_view_def list_view_defs ui_defs holds_defs view_simps Let_def cong: Text_cong)

lemma Notifications_row_holds:
  "ids (Notifications_row lt n) = []" "label_targets (Notifications_row lt n) = []"
  "links (Notifications_row lt n) = []" "hrefs (Notifications_row lt n) = []"
  by (simp_all add: Notifications_row_def ui_defs holds_defs view_simps cong: Text_cong)

lemma Notifications_holds:
  "ids (Notifications_view lt s) = []" "label_targets (Notifications_view lt s) = []"
  "links (Notifications_view lt s) = []" "hrefs (Notifications_view lt s) = []"
  using Notifications_row_holds[unfolded holds_defs]
  by (simp_all add: Notifications_view_def list_view_defs ui_defs holds_defs view_simps Let_def cong: Text_cong)

lemma PendingOfferCard_holds:
  "ids (PendingOfferCard_view picture f reason) = [Str (''reason-'' @ interpolated (po_offerId f))]"
  "label_targets (PendingOfferCard_view picture f reason) = [Str (''reason-'' @ interpolated (po_offerId f))]"
  "links (PendingOfferCard_view picture f reason) = [Str (request_link (po_requestId f))]"
  "hrefs (PendingOfferCard_view picture f reason) = []"
  by (simp_all add: PendingOfferCard_view_def approve_dialog_def labelled_def list_view_defs ui_defs holds_defs
      view_simps Let_def cong: Text_cong)

lemma Queue_holds:
  "ids (Queue_view picture s reasons) =
     map (\<lambda>f. Str (''reason-'' @ interpolated (po_offerId f))) (ad_pending (admin s))"
  "label_targets (Queue_view picture s reasons) = ids (Queue_view picture s reasons)"
  "links (Queue_view picture s reasons) =
     map (\<lambda>f. Str (request_link (po_requestId f))) (ad_pending (admin s))"
  "hrefs (Queue_view picture s reasons) = []"
  using PendingOfferCard_holds[unfolded holds_defs]
  by (simp_all add: Queue_view_def list_view_defs ui_defs holds_defs view_simps Let_def cong: Text_cong)

lemma Access_row_holds:
  "ids (Access_row g) = []" "label_targets (Access_row g) = []" "links (Access_row g) = []"
  "hrefs (Access_row g) = []"
  by (simp_all add: Access_row_def revoke_dialog_def ui_defs holds_defs view_simps cong: Text_cong)

lemma Access_holds:
  "ids (Access_view s) = []" "label_targets (Access_view s) = []" "links (Access_view s) = []"
  "hrefs (Access_view s) = []"
  using Access_row_holds[unfolded holds_defs]
  by (simp_all add: Access_view_def list_view_defs ui_defs holds_defs view_simps cong: Text_cong)

lemma AppLayout_holds:
  "ids (AppLayout_view theme loc m s outlet) = attrs_all ''id'' outlet"
  "label_targets (AppLayout_view theme loc m s outlet) = attrs_all ''htmlFor'' outlet"
  "set (links (AppLayout_view theme loc m s outlet)) =
     Str ` nav_to ` set (AppLayout_links (auth s)) \<union> {Str ''/requests''} \<union>
     (if auth_user (auth s) = None then {Str ''/login'', Str ''/register''} else {Str ''/notifications''}) \<union>
     set (attrs_all ''to'' outlet)"
  "hrefs (AppLayout_view theme loc m s outlet) = attrs_all ''href'' outlet"
proof -
  have nav: "attrs ''id'' (nav_link b l) = []" "attrs ''htmlFor'' (nav_link b l) = []"
    "attrs ''to'' (nav_link b l) = [Str (nav_to l)]" "attrs ''href'' (nav_link b l) = []" for b l
    by (simp_all add: nav_link_def view_simps cong: Text_cong)
  note unfold = AppLayout_view_def nav notifications_link_def account_menu_def visitor_links_def
    ModeToggle_def OPTIONS_def ui_defs holds_defs view_simps Let_def
  show "ids (AppLayout_view theme loc m s outlet) = attrs_all ''id'' outlet"
    "label_targets (AppLayout_view theme loc m s outlet) = attrs_all ''htmlFor'' outlet"
    "hrefs (AppLayout_view theme loc m s outlet) = attrs_all ''href'' outlet"
    by (simp_all add: unfold split: option.split cong: Text_cong)
  show "set (links (AppLayout_view theme loc m s outlet)) =
     Str ` nav_to ` set (AppLayout_links (auth s)) \<union> {Str ''/requests''} \<union>
     (if auth_user (auth s) = None then {Str ''/login'', Str ''/register''} else {Str ''/notifications''}) \<union>
     set (attrs_all ''to'' outlet)"
    by (cases "auth_user (auth s)") (auto simp: unfold cong: Text_cong)
qed

section \<open>Asking again\<close>

lemma outside_pieces [view_simps]:
  "attrs_outside u ''onClick'' (StatusBadge_view v) = []" "attrs_outside_all u ''onClick'' (OfferImage_view p j h w) = []"
  "attrs_outside_all u ''onClick'' (ErrorAlert_view c t e) = []"
  by (simp_all add: StatusBadge_view_def OfferImage_view_def ErrorAlert_view_def Let_def ui_defs view_simps
      split: option.split cong: Text_cong)

lemma outside_PageHeader [view_simps]: "attrs_outside u ''onClick'' (PageHeader t d []) = []"
  by (simp add: PageHeader_def view_simps cong: Text_cong)

lemma PendingOfferCard_outside:
  "attrs_outside ''AlertDialogPrimitive.Content'' ''onClick'' (PendingOfferCard_view picture f reason) =
     [On (Decide (po_offerId f) False)]"
  "On (Decide (po_offerId f) True) \<in> set (attrs ''onClick'' (PendingOfferCard_view picture f reason))"
  by (simp_all add: PendingOfferCard_view_def approve_dialog_def labelled_def list_view_defs ui_defs
      view_simps Let_def cong: Text_cong)

lemma Access_row_outside:
  "attrs_outside ''AlertDialogPrimitive.Content'' ''onClick'' (Access_row g) = []"
  by (simp add: Access_row_def revoke_dialog_def ui_defs view_simps cong: Text_cong)

text \<open>
  C17. Releasing phone numbers and taking them back always ask again: in the queue every waiting offer
  can be approved, but outside the confirmation the only decision a click can make is to reject;
  in the list of grants no click outside the confirmation revokes anything.
\<close>

theorem decisions_confirmed:
  "attrs_outside ''AlertDialogPrimitive.Content'' ''onClick'' (Queue_view picture s reasons) =
     map (\<lambda>f. On (Decide (po_offerId f) False)) (ad_pending (admin s)) \<and>
   (\<forall>f. f \<in> set (ad_pending (admin s)) \<longrightarrow>
      On (Decide (po_offerId f) True) \<in> set (attrs ''onClick'' (Queue_view picture s reasons))) \<and>
   attrs_outside ''AlertDialogPrimitive.Content'' ''onClick'' (Access_view s) = []"
proof -
  have "attrs_outside ''AlertDialogPrimitive.Content'' ''onClick'' (Queue_view picture s reasons) =
     map (\<lambda>f. On (Decide (po_offerId f) False)) (ad_pending (admin s))"
    using PendingOfferCard_outside(1)
    by (simp add: Queue_view_def list_view_defs ui_defs view_simps Let_def cong: Text_cong)
  moreover have "On (Decide (po_offerId f) True) \<in> set (attrs ''onClick'' (Queue_view picture s reasons))"
    if "f \<in> set (ad_pending (admin s))" for f
    using that PendingOfferCard_outside(2)
    by (auto simp: Queue_view_def ui_defs view_simps Let_def cong: Text_cong)
  moreover have "attrs_outside ''AlertDialogPrimitive.Content'' ''onClick'' (Access_view s) = []"
    using Access_row_outside
    by (simp add: Access_view_def list_view_defs ui_defs view_simps cong: Text_cong)
  ultimately show ?thesis by blast
qed

theorem decisions_confirmed_witness:
  "\<exists>s. \<forall>picture reasons. On (Decide (Some ''f1'') True) \<in> set (attrs ''onClick'' (Queue_view picture s reasons))"
proof -
  let ?f = "(as_pending JNull)\<lparr>po_offerId := Some ''f1''\<rparr>"
  let ?s = "(initial_store empty_storage)\<lparr>admin := admin_initial\<lparr>ad_pending := [?f]\<rparr>\<rparr>"
  have "?f \<in> set (ad_pending (admin ?s))" by simp
  then show ?thesis
    using decisions_confirmed[of _ ?s] by (intro exI[of _ ?s]) auto
qed

end
