(* ===== verification/Timers.thy ===== *)
theory Timers
  imports AdminPages
begin

text \<open>
  The effects that wait: the debounced search and suggestions of
  \<open>frontend/src/pages/BrowseRequests.tsx\<close>, the unread badge of
  \<open>frontend/src/components/app-layout.tsx\<close> and the inbox of \<open>frontend/src/pages/Notifications.tsx\<close>.
  The browser's timers are a table and a clock that counts milliseconds; a timer fires in the
  millisecond it is due. An effect is what it does at once and the timer it sets; React runs it
  when its dependencies change, after the clean-up of the run before.
\<close>

section \<open>The browser's timers\<close>

record 'a timer =
  tm_id :: nat
  tm_due :: nat
  tm_period :: "nat option"
  tm_do :: 'a

record 'a clock =
  ck_now :: nat
  ck_next :: nat
  ck_timers :: "'a timer list"
  ck_log :: "(nat \<times> 'a) list"

definition fresh_clock :: "'a clock" where
  "fresh_clock = \<lparr>ck_now = 0, ck_next = 0, ck_timers = [], ck_log = []\<rparr>"

definition set_timer :: "nat \<Rightarrow> nat option \<Rightarrow> 'a \<Rightarrow> 'a clock \<Rightarrow> nat \<times> 'a clock" where
  "set_timer delay period a c =
     (ck_next c,
      c\<lparr>ck_next := Suc (ck_next c),
        ck_timers := ck_timers c @
          [\<lparr>tm_id = ck_next c, tm_due = ck_now c + delay, tm_period = period, tm_do = a\<rparr>]\<rparr>)"

definition setTimeout :: "'a \<Rightarrow> nat \<Rightarrow> 'a clock \<Rightarrow> nat \<times> 'a clock" where
  "setTimeout a ms = set_timer ms None a"

definition setInterval :: "'a \<Rightarrow> nat \<Rightarrow> 'a clock \<Rightarrow> nat \<times> 'a clock" where
  "setInterval a ms = set_timer ms (Some ms) a"

text \<open>\<open>clearTimeout\<close> and \<open>clearInterval\<close>.\<close>

definition clear_timer :: "nat \<Rightarrow> 'a clock \<Rightarrow> 'a clock" where
  "clear_timer i c = c\<lparr>ck_timers := filter (\<lambda>t. tm_id t \<noteq> i) (ck_timers c)\<rparr>"

text \<open>Something done now.\<close>

definition perform :: "'a \<Rightarrow> 'a clock \<Rightarrow> 'a clock" where
  "perform a c = c\<lparr>ck_log := ck_log c @ [(ck_now c, a)]\<rparr>"

text \<open>A timer after it fired: gone, or waiting for its next turn.\<close>

definition rescheduled :: "nat \<Rightarrow> 'a timer \<Rightarrow> 'a timer list" where
  "rescheduled n t =
     (if tm_due t \<le> n
      then (case tm_period t of None \<Rightarrow> [] | Some p \<Rightarrow> [t\<lparr>tm_due := n + p\<rparr>])
      else [t])"

definition tick :: "'a clock \<Rightarrow> 'a clock" where
  "tick c =
     (let n = Suc (ck_now c)
      in c\<lparr>ck_now := n, ck_timers := concat (map (rescheduled n) (ck_timers c)),
           ck_log := ck_log c @ map (\<lambda>t. (n, tm_do t)) (filter (\<lambda>t. tm_due t \<le> n) (ck_timers c))\<rparr>)"

section \<open>Effects with a timer\<close>

datatype 'a schedule = After nat 'a | Every nat 'a

text \<open>What one run of an effect does: calls at once, and the timer its clean-up clears.\<close>

datatype 'a plan = Plan (at_once: "'a list") (later: "'a schedule option")

definition start :: "'a plan \<Rightarrow> 'a clock \<Rightarrow> nat option \<times> 'a clock" where
  "start p c =
     (let c1 = fold perform (at_once p) c
      in case later p of
           None \<Rightarrow> (None, c1)
         | Some (After ms a) \<Rightarrow> (let (i, c2) = setTimeout a ms c1 in (Some i, c2))
         | Some (Every ms a) \<Rightarrow> (let (i, c2) = setInterval a ms c1 in (Some i, c2)))"

text \<open>A mounted effect: the dependencies it last ran for and what its clean-up clears.\<close>

record ('d, 'a) hook =
  hk_deps :: "'d option"
  hk_cleanup :: "nat option"
  hk_clock :: "'a clock"

definition fresh_hook :: "('d, 'a) hook" where
  "fresh_hook = \<lparr>hk_deps = None, hk_cleanup = None, hk_clock = fresh_clock\<rparr>"

definition stop :: "('d, 'a) hook \<Rightarrow> ('d, 'a) hook" where
  "stop h =
     h\<lparr>hk_deps := None, hk_cleanup := None,
       hk_clock := (case hk_cleanup h of None \<Rightarrow> hk_clock h | Some i \<Rightarrow> clear_timer i (hk_clock h))\<rparr>"

datatype 'd hook_event = Commit 'd | Wait nat | Leave_page

fun hook_step :: "('d \<Rightarrow> 'a plan) \<Rightarrow> 'd hook_event \<Rightarrow> ('d, 'a) hook \<Rightarrow> ('d, 'a) hook" where
  "hook_step eff (Commit d) h =
     (if hk_deps h = Some d then h
      else (let h1 = stop h; (i, c) = start (eff d) (hk_clock h1)
            in h1\<lparr>hk_deps := Some d, hk_cleanup := i, hk_clock := c\<rparr>))"
| "hook_step eff (Wait n) h = h\<lparr>hk_clock := (tick ^^ n) (hk_clock h)\<rparr>"
| "hook_step eff Leave_page h = stop h"

section \<open>The four effects\<close>

datatype timed_call =
    CallFetchRequests request_filters
  | CallFetchSimilar string
  | CallSimilarCleared
  | CallFetchUnreadCount
  | CallFetchNotifications

definition browse_effect :: "string \<Rightarrow> timed_call plan" where
  "browse_effect query = Plan [] (Some (After 250 (CallFetchRequests (browse_filters query))))"

definition suggestions_effect :: "bool \<times> string \<Rightarrow> timed_call plan" where
  "suggestions_effect d =
     (case similar_lookup (fst d) (snd d) of
        ClearSimilar \<Rightarrow> Plan [CallSimilarCleared] None
      | AskSimilar itemName \<Rightarrow> Plan [] (Some (After 250 (CallFetchSimilar itemName))))"

definition UNREAD_POLL_MS :: nat where
  "UNREAD_POLL_MS = 10000"

text \<open>The account is compared by identity, which the number stands for.\<close>

definition unread_effect :: "user option \<times> nat \<Rightarrow> timed_call plan" where
  "unread_effect u =
     (case fst u of
        None \<Rightarrow> Plan [] None
      | Some _ \<Rightarrow> Plan [CallFetchUnreadCount] (Some (Every UNREAD_POLL_MS CallFetchUnreadCount)))"

definition REFRESH_MS :: nat where
  "REFRESH_MS = 10000"

definition inbox_effect :: "unit \<Rightarrow> timed_call plan" where
  "inbox_effect _ =
     Plan [CallFetchNotifications, CallFetchUnreadCount]
       (Some (Every REFRESH_MS CallFetchNotifications))"

section \<open>The contract of an effect\<close>

text \<open>What a run of an effect calls, and when, over a given time: the reference the timers are
  compared with. It knows no timer table, no ids and no clean-up.\<close>

definition promised :: "'a plan \<Rightarrow> nat \<Rightarrow> nat \<Rightarrow> (nat \<times> 'a) list" where
  "promised p t w =
     map (Pair t) (at_once p) @
     (case later p of
        None \<Rightarrow> []
      | Some (After ms a) \<Rightarrow> if ms \<le> w then [(t + ms, a)] else []
      | Some (Every ms a) \<Rightarrow> map (\<lambda>j. (t + j * ms, a)) [1 ..< Suc (w div ms)])"

text \<open>The dependencies one after the other, each with the time until the next.\<close>

fun promised_all :: "('d \<Rightarrow> 'a plan) \<Rightarrow> nat \<Rightarrow> ('d \<times> nat) list \<Rightarrow> (nat \<times> 'a) list" where
  "promised_all eff t [] = []"
| "promised_all eff t ((d, w) # r) = promised (eff d) t w @ promised_all eff (t + w) r"

definition events_of :: "('d \<times> nat) list \<Rightarrow> 'd hook_event list" where
  "events_of r = concat (map (\<lambda>(d, w). [Commit d, Wait w]) r)"

lemma log_performed: "fold perform as c = c\<lparr>ck_log := ck_log c @ map (Pair (ck_now c)) as\<rparr>"
  by (induction as arbitrary: c) (simp_all add: perform_def)

lemma ticks_idle:
  "ck_timers c = [] \<Longrightarrow> (tick ^^ k) c = c\<lparr>ck_now := ck_now c + k\<rparr>"
  by (induction k) (simp_all add: tick_def Let_def)

lemma ticks_once:
  assumes "ck_timers c = [\<lparr>tm_id = i, tm_due = ck_now c + ms, tm_period = None, tm_do = a\<rparr>]" and "0 < ms"
  shows "(tick ^^ k) c =
    (if ms \<le> k then c\<lparr>ck_now := ck_now c + k, ck_timers := [], ck_log := ck_log c @ [(ck_now c + ms, a)]\<rparr>
     else c\<lparr>ck_now := ck_now c + k\<rparr>)"
  using assms
  by (induction k) (auto simp: tick_def Let_def rescheduled_def)

lemma ticks_repeating:
  assumes "ck_timers c = [\<lparr>tm_id = i, tm_due = ck_now c + ms, tm_period = Some ms, tm_do = a\<rparr>]" and "0 < ms"
  shows "(tick ^^ k) c =
    c\<lparr>ck_now := ck_now c + k,
      ck_timers := [\<lparr>tm_id = i, tm_due = ck_now c + ms * Suc (k div ms), tm_period = Some ms, tm_do = a\<rparr>],
      ck_log := ck_log c @ map (\<lambda>j. (ck_now c + j * ms, a)) [1 ..< Suc (k div ms)]\<rparr>"
proof (induction k)
  case 0
  with assms show ?case by simp
next
  case (Suc k)
  show ?case
  proof (cases "ms dvd Suc k")
    case True
    define q where "q = k div ms"
    have "Suc k mod ms = 0" using True by (rule dvd_imp_mod_0)
    then have q: "Suc k div ms = Suc q" unfolding q_def div_Suc by (rule if_P)
    have k: "ms * Suc q = Suc k" using dvd_mult_div_cancel[OF True] unfolding q .
    have "ck_now c + ms * Suc (Suc q) = Suc (ck_now c + k) + ms" and "Suc q * ms = Suc k"
      using k by (simp_all add: mult.commute)
    with Suc k show ?thesis
      unfolding q q_def[symmetric] by (simp add: tick_def Let_def rescheduled_def)
  next
    case False
    then have "Suc k mod ms \<noteq> 0" by (metis mod_0_imp_dvd)
    then have "Suc k div ms = k div ms" unfolding div_Suc by (rule if_not_P)
    moreover have "Suc k < ms * Suc (k div ms)"
    proof -
      have "k < ms * Suc (k div ms)"
        using assms(2) by (metis dividend_less_times_div mult_Suc_right)
      moreover have "Suc k \<noteq> ms * Suc (k div ms)" using False by auto
      ultimately show ?thesis by linarith
    qed
    ultimately show ?thesis
      using Suc by (simp add: tick_def Let_def rescheduled_def)
  qed
qed

text \<open>At most one timer is set, and it is the one the clean-up clears.\<close>

definition owned :: "('d, 'a) hook \<Rightarrow> bool" where
  "owned h \<longleftrightarrow> (case ck_timers (hk_clock h) of
     [] \<Rightarrow> True
   | [t] \<Rightarrow> hk_cleanup h = Some (tm_id t) \<and> hk_deps h \<noteq> None
   | _ \<Rightarrow> False)"

lemma owned_stop: "owned h \<Longrightarrow> ck_timers (hk_clock (stop h)) = []"
  by (auto simp: owned_def stop_def clear_timer_def split: option.splits list.splits)

lemma stop_simps [simp]:
  "ck_now (hk_clock (stop h)) = ck_now (hk_clock h)"
  "ck_log (hk_clock (stop h)) = ck_log (hk_clock h)"
  "hk_deps (stop h) = None"
  by (simp_all add: stop_def clear_timer_def split: option.split)

lemma owned_tick: "owned h \<Longrightarrow> owned (h\<lparr>hk_clock := tick (hk_clock h)\<rparr>)"
  by (auto simp: owned_def tick_def Let_def rescheduled_def split: list.splits option.splits)

lemma owned_ticks: "owned h \<Longrightarrow> owned (h\<lparr>hk_clock := (tick ^^ n) (hk_clock h)\<rparr>)"
  by (induction n) (simp, use owned_tick in fastforce)

lemma owned_fresh: "owned fresh_hook"
  by (simp add: owned_def fresh_hook_def fresh_clock_def)

text \<open>The calls a plan can make.\<close>

definition plan_calls :: "'a plan \<Rightarrow> 'a set" where
  "plan_calls p =
     set (at_once p) \<union>
     (case later p of None \<Rightarrow> {} | Some (After ms a) \<Rightarrow> {a} | Some (Every ms a) \<Rightarrow> {a})"

definition calls_in :: "'a set \<Rightarrow> 'a clock \<Rightarrow> bool" where
  "calls_in A c \<longleftrightarrow> snd ` set (ck_log c) \<subseteq> A \<and> tm_do ` set (ck_timers c) \<subseteq> A"

lemma calls_in_tick: "calls_in A c \<Longrightarrow> calls_in A (tick c)"
  by (auto simp: calls_in_def tick_def Let_def rescheduled_def split: if_splits option.splits)

lemma calls_in_ticks: "calls_in A c \<Longrightarrow> calls_in A ((tick ^^ n) c)"
  by (induction n) (simp_all add: calls_in_tick)

lemma calls_in_stop: "calls_in A (hk_clock h) \<Longrightarrow> calls_in A (hk_clock (stop h))"
  by (auto simp: calls_in_def stop_def clear_timer_def split: option.split)

lemma calls_in_start: "calls_in A c \<Longrightarrow> plan_calls p \<subseteq> A \<Longrightarrow> calls_in A (snd (start p c))"
  by (auto simp: calls_in_def start_def Let_def log_performed setTimeout_def setInterval_def
      set_timer_def plan_calls_def split: option.splits schedule.splits)

text \<open>
  The interface of an effect with a timer: the plan of each run, of which only a positive delay is
  required. What holds of the timers whatever the effect waits for is proved here once.
\<close>

locale timed_effect =
  fixes eff :: "'d \<Rightarrow> 'a plan"
  assumes delay_once: "later (eff d) = Some (After ms a) \<Longrightarrow> 0 < ms"
    and delay_every: "later (eff d) = Some (Every ms a) \<Longrightarrow> 0 < ms"
begin

lemma owned_step: "owned h \<Longrightarrow> owned (hook_step eff e h)"
proof (cases e)
  case (Commit d)
  assume "owned h"
  then have "ck_timers (hk_clock (stop h)) = []" by (rule owned_stop)
  with \<open>owned h\<close> Commit show ?thesis
    by (auto simp: Let_def start_def log_performed setTimeout_def setInterval_def set_timer_def owned_def
        split: option.split schedule.split)
next
  case (Wait n)
  assume "owned h"
  with Wait show ?thesis using owned_ticks by simp
next
  case Leave_page
  assume "owned h"
  then have "ck_timers (hk_clock (stop h)) = []" by (rule owned_stop)
  with Leave_page show ?thesis by (simp add: owned_def)
qed

lemma one_timer: "owned h \<Longrightarrow> length (ck_timers (hk_clock (fold (hook_step eff) es h))) \<le> 1"
proof -
  have "owned h \<Longrightarrow> owned (fold (hook_step eff) es h)"
    by (induction es arbitrary: h) (auto intro: owned_step)
  then show "owned h \<Longrightarrow> ?thesis" by (auto simp: owned_def split: list.splits)
qed

text \<open>One run of the effect, left alone for \<open>w\<close> milliseconds, keeps what it promised.\<close>

lemma run_promised:
  assumes "owned h" and "hk_deps h \<noteq> Some d"
    and "h' = hook_step eff (Wait w) (hook_step eff (Commit d) h)"
  shows "ck_log (hk_clock h') = ck_log (hk_clock h) @ promised (eff d) (ck_now (hk_clock h)) w"
    and "ck_now (hk_clock h') = ck_now (hk_clock h) + w" and "hk_deps h' = Some d"
proof -
  have idle: "ck_timers (hk_clock (stop h)) = []" using assms(1) by (rule owned_stop)
  note defs = assms(3) Let_def start_def log_performed setTimeout_def setInterval_def set_timer_def
    promised_def
  show "ck_log (hk_clock h') = ck_log (hk_clock h) @ promised (eff d) (ck_now (hk_clock h)) w"
    and "ck_now (hk_clock h') = ck_now (hk_clock h) + w" and "hk_deps h' = Some d"
    using assms(2) idle delay_once[of d] delay_every[of d]
    by (auto simp: defs ticks_idle ticks_once ticks_repeating split: option.split schedule.split)
qed

lemma trace_promised:
  assumes "owned h" and "distinct_adj (map fst r)" and "r \<noteq> [] \<Longrightarrow> hk_deps h \<noteq> Some (fst (hd r))"
  shows "ck_log (hk_clock (fold (hook_step eff) (events_of r) h)) =
    ck_log (hk_clock h) @ promised_all eff (ck_now (hk_clock h)) r"
  using assms
proof (induction r arbitrary: h)
  case (Cons x r)
  obtain d w where x: "x = (d, w)" by (cases x)
  let ?h = "hook_step eff (Wait w) (hook_step eff (Commit d) h)"
  have "hk_deps h \<noteq> Some d" using Cons.prems(3) x by simp
  note one = run_promised[OF Cons.prems(1) this refl, of w]
  have "owned ?h" using Cons.prems(1) by (intro owned_step)
  moreover have "distinct_adj (map fst r)" and "r \<noteq> [] \<Longrightarrow> hk_deps ?h \<noteq> Some (fst (hd r))"
    using Cons.prems(2) one(3) x by (cases r; auto)+
  ultimately have "ck_log (hk_clock (fold (hook_step eff) (events_of r) ?h)) =
      ck_log (hk_clock ?h) @ promised_all eff (ck_now (hk_clock ?h)) r"
    using Cons.IH by blast
  then show ?case using one x by (simp add: events_of_def)
qed (simp add: events_of_def)

text \<open>After the page is left nothing is called any more.\<close>

lemma silent_after_leaving:
  assumes "owned h"
  shows "ck_log (hk_clock (hook_step eff (Wait w) (hook_step eff Leave_page h))) = ck_log (hk_clock h)"
  using owned_stop[OF assms] by (simp add: ticks_idle)

text \<open>Whatever happens, only what some run planned is ever called.\<close>

lemma calls_in_step:
  assumes "\<And>d. plan_calls (eff d) \<subseteq> A" and "calls_in A (hk_clock h)"
  shows "calls_in A (hk_clock (hook_step eff e h))"
proof (cases e)
  case (Commit d)
  have "calls_in A (snd (start (eff d) (hk_clock (stop h))))"
    using assms by (intro calls_in_start calls_in_stop)
  with Commit assms(2) show ?thesis by (simp add: Let_def case_prod_beta)
qed (use assms(2) in \<open>simp_all add: calls_in_ticks calls_in_stop\<close>)

lemma calls_in_run:
  assumes "\<And>d. plan_calls (eff d) \<subseteq> A"
  shows "calls_in A (hk_clock (fold (hook_step eff) es fresh_hook))"
proof -
  have "calls_in A (hk_clock h) \<Longrightarrow> calls_in A (hk_clock (fold (hook_step eff) es h))" for h
    by (induction es arbitrary: h) (auto intro: calls_in_step[OF assms])
  then show ?thesis by (simp add: fresh_hook_def fresh_clock_def calls_in_def)
qed

end

interpretation search_timer: timed_effect browse_effect
  by unfold_locales (simp_all add: browse_effect_def)

interpretation suggestions_timer: timed_effect suggestions_effect
  by unfold_locales (auto simp: suggestions_effect_def split: similar_effect.splits)

interpretation unread_timer: timed_effect unread_effect
  by unfold_locales (auto simp: unread_effect_def UNREAD_POLL_MS_def split: option.splits)

interpretation inbox_timer: timed_effect inbox_effect
  by unfold_locales (simp_all add: inbox_effect_def REFRESH_MS_def)

section \<open>Properties of the effects\<close>

text \<open>The searches a typist makes who leaves each text standing for a while.\<close>

fun searches :: "nat \<Rightarrow> (string \<times> nat) list \<Rightarrow> (nat \<times> timed_call) list" where
  "searches t [] = []"
| "searches t ((query, w) # r) =
     (if 250 \<le> w then [(t + 250, CallFetchRequests (browse_filters query))] else []) @
     searches (t + w) r"

text \<open>
  C5. The search box asks once per pause: whatever is typed and however fast, the requests the timers
  make are those of a typist's pauses and no others. A text left standing for 250 milliseconds or
  more is searched for once, 250 milliseconds after it was typed; a text replaced sooner is never
  asked for.
\<close>

theorem search_debounced:
  assumes "distinct_adj (map fst r)"
  shows "ck_log (hk_clock (fold (hook_step browse_effect) (events_of r) fresh_hook)) = searches 0 r"
proof -
  have "promised_all browse_effect t r = searches t r" for t
    by (induction t r rule: searches.induct) (auto simp: promised_def browse_effect_def)
  then show ?thesis
    using search_timer.trace_promised[OF owned_fresh assms]
    by (simp add: fresh_hook_def fresh_clock_def)
qed

theorem search_debounced_witness:
  "ck_log (hk_clock (fold (hook_step browse_effect)
     (events_of [([], 100), (''d'', 90), (''dr'', 300)]) fresh_hook)) =
   [(440, CallFetchRequests (browse_filters ''dr''))]"
  using search_debounced[of "[([], 100), (''d'', 90), (''dr'', 300)]"] by simp

text \<open>
  Nothing is looked up for a name too short to tell: in every order of typing, opening, closing,
  waiting and leaving, a lookup of similar requests is for a name of at least three characters
  with no blanks around it.
\<close>

theorem suggestions_floor:
  assumes "(t, CallFetchSimilar name) \<in>
    set (ck_log (hk_clock (fold (hook_step suggestions_effect) es fresh_hook)))"
  shows "3 \<le> length name \<and> (\<exists>typed. name = trim typed)"
proof -
  let ?A = "insert CallSimilarCleared
      {CallFetchSimilar n | n. 3 \<le> length n \<and> (\<exists>typed. n = trim typed)}"
  have "plan_calls (suggestions_effect d) \<subseteq> ?A" for d
    by (auto simp: plan_calls_def suggestions_effect_def similar_lookup_def Let_def
        split: similar_effect.splits if_splits)
  from suggestions_timer.calls_in_run[OF this, of es] assms show ?thesis
    by (force simp: calls_in_def)
qed

text \<open>
  C39. The inbox is kept fresh while it is on screen and not afterwards: opening the page fetches the
  list and the count at once, the list again every ten seconds for as long as the page stays, and
  after it is left no timer fires, however long one waits.
\<close>

theorem inbox_polls:
  "ck_log (hk_clock (fold (hook_step inbox_effect) [Commit (), Wait w, Leave_page, Wait v] fresh_hook)) =
     [(0, CallFetchNotifications), (0, CallFetchUnreadCount)] @
     map (\<lambda>j. (j * 10000, CallFetchNotifications)) [1 ..< Suc (w div 10000)]"
proof -
  let ?h = "hook_step inbox_effect (Wait w) (hook_step inbox_effect (Commit ()) fresh_hook)"
  have "ck_log (hk_clock ?h) = promised (inbox_effect ()) 0 w"
    using inbox_timer.run_promised(1)[OF owned_fresh _ refl, of "()" w]
    by (simp add: fresh_hook_def fresh_clock_def)
  moreover have "owned ?h" by (intro inbox_timer.owned_step owned_fresh)
  then have "ck_log (hk_clock (hook_step inbox_effect (Wait v) (hook_step inbox_effect Leave_page ?h))) =
      ck_log (hk_clock ?h)"
    by (rule inbox_timer.silent_after_leaving)
  moreover have "promised (inbox_effect ()) 0 w =
      [(0, CallFetchNotifications), (0, CallFetchUnreadCount)] @
      map (\<lambda>j. (j * 10000, CallFetchNotifications)) [1 ..< Suc (w div 10000)]"
    by (simp add: promised_def inbox_effect_def REFRESH_MS_def)
  ultimately show ?thesis by simp
qed

text \<open>
  C38. Suggestions can be those of a name no longer in the field: two names left standing are both
  looked up, and the store keeps whichever answer arrives last. When the first name's answer is
  the slower one, its requests are suggested for the second name, and if one of them was an
  exact match the second request cannot be created until the name changes again.
\<close>

theorem suggestions_overtaken:
  assumes "a \<noteq> b" and "3 \<le> length (trim a)" and "3 \<le> length (trim b)"
    and "250 \<le> v" and "250 \<le> w" and "exactMatch for_a = Some r"
  shows "ck_log (hk_clock (fold (hook_step suggestions_effect)
        (events_of [((True, a), v), ((True, b), w)]) fresh_hook)) =
      [(250, CallFetchSimilar (trim a)), (v + 250, CallFetchSimilar (trim b))] \<and>
    (\<forall>x. rq_similar (requests (store (dispatch_all
        [FetchSimilarRequests (Fulfilled for_b), FetchSimilarRequests (Fulfilled for_a)] x))) = for_a \<and>
      \<not> create_offered (requests (store (dispatch_all
        [FetchSimilarRequests (Fulfilled for_b), FetchSimilarRequests (Fulfilled for_a)] x))))"
proof -
  have "distinct_adj (map fst [((True, a), v), ((True, b), w)])" using assms(1) by simp
  note trace = suggestions_timer.trace_promised[OF owned_fresh this]
  have "ck_log (hk_clock (fold (hook_step suggestions_effect)
        (events_of [((True, a), v), ((True, b), w)]) fresh_hook)) =
      [(250, CallFetchSimilar (trim a)), (v + 250, CallFetchSimilar (trim b))]"
    using trace assms(2-5)
    by (simp add: fresh_hook_def fresh_clock_def promised_def suggestions_effect_def similar_lookup_def)
  then show ?thesis using assms(6) by (simp add: reducer_simps create_offered_def)
qed

theorem suggestions_floor_witness:
  "\<exists>t name. (t, CallFetchSimilar name) \<in> set (ck_log (hk_clock (fold (hook_step suggestions_effect)
      (events_of [((True, ''Drill''), 250)]) fresh_hook))) \<and> 3 \<le> length name"
proof -
  have drill: "trim ''Drill'' = ''Drill''" by (simp add: trim_def is_space_def)
  have "distinct_adj (map fst [((True, ''Drill''), 250::nat)])" by simp
  from suggestions_timer.trace_promised[OF owned_fresh this]
  have "(250, CallFetchSimilar ''Drill'') \<in> set (ck_log (hk_clock (fold (hook_step suggestions_effect)
      (events_of [((True, ''Drill''), 250)]) fresh_hook)))"
    by (simp add: fresh_hook_def fresh_clock_def promised_def suggestions_effect_def
        similar_lookup_def drill)
  with suggestions_floor[OF this] show ?thesis by blast
qed

theorem suggestions_overtaken_witness:
  "\<not> create_offered (requests (store (dispatch_all
     [FetchSimilarRequests (Fulfilled []),
      FetchSimilarRequests (Fulfilled [(as_request JNull)\<lparr>req_exact := Some True\<rparr>])]
     (page_load empty_storage 0 ()))))"
proof -
  let ?r = "(as_request JNull)\<lparr>req_exact := Some True\<rparr>"
  have names: "3 \<le> length (trim ''Drill'')" "3 \<le> length (trim ''Drill bit'')"
    by (simp_all add: trim_def is_space_def)
  have ne: "''Drill'' \<noteq> ''Drill bit''" by simp
  have m: "exactMatch [?r] = Some ?r" by (simp add: exactMatch_def truthy_flag_def)
  show ?thesis
    using suggestions_overtaken[OF ne names order.refl order.refl m, of "[]"] by blast
qed

end
