(* ===== verification/Submission.thy ===== *)
theory Submission
  imports RequestViews
begin

text \<open>
  The forms that write, over time: \<open>frontend/src/pages/ProfileSetup.tsx\<close>, the two dialogs of
  \<open>frontend/src/pages/BrowseRequests.tsx\<close> and the offer form of \<open>frontend/src/pages/RequestDetail.tsx\<close>.
  A mounted form is used through its buttons, as far as what it renders leaves them enabled, typed
  into and closed, while its calls are under way; the number of calls under way is counted. Each
  form keeps a flag while it saves, and the locale \<open>saving_form\<close> says what a form has to do with its
  flag for its buttons to start one call at a time.
\<close>

section \<open>A form over time\<close>

text \<open>
  \<open>form_reach starts settles edits s0 s k\<close>: from the state \<open>s0\<close> it is mounted in, a form can come to
  the state \<open>s\<close> with \<open>k\<close> of its calls under way.
\<close>

inductive form_reach ::
  "('s \<Rightarrow> 's \<Rightarrow> bool) \<Rightarrow> ('s \<Rightarrow> 's \<Rightarrow> bool) \<Rightarrow> ('s \<Rightarrow> 's \<Rightarrow> bool) \<Rightarrow> 's \<Rightarrow> 's \<Rightarrow> nat \<Rightarrow> bool"
  for starts settles edits s0 where
  mounted: "form_reach starts settles edits s0 s0 0"
| started: "form_reach starts settles edits s0 s k \<Longrightarrow> starts s s' \<Longrightarrow>
    form_reach starts settles edits s0 s' (Suc k)"
| answered: "form_reach starts settles edits s0 s (Suc k) \<Longrightarrow> settles s s' \<Longrightarrow>
    form_reach starts settles edits s0 s' k"
| edited: "form_reach starts settles edits s0 s k \<Longrightarrow> edits s s' \<Longrightarrow>
    form_reach starts settles edits s0 s' k"

locale saving_form =
  fixes saving :: "'s \<Rightarrow> bool" and starts settles edits :: "'s \<Rightarrow> 's \<Rightarrow> bool"
  assumes starts_free: "starts s s' \<Longrightarrow> \<not> saving s"
    and starts_saving: "starts s s' \<Longrightarrow> saving s'"
    and edits_keep: "edits s s' \<Longrightarrow> saving s' = saving s"
begin

lemma one_call:
  assumes "form_reach starts settles edits s0 s k"
  shows "k \<le> 1 \<and> (k = 1 \<longrightarrow> saving s)"
  using assms
proof (induction rule: form_reach.induct)
  case (started s k s')
  with starts_free[OF started.hyps(2)] starts_saving[OF started.hyps(2)] show ?case by auto
next
  case (edited s k s')
  then show ?case using edits_keep[OF edited.hyps(2)] by simp
qed auto

text \<open>While a call is under way, no button starts another.\<close>

lemma no_second:
  assumes "form_reach starts settles edits s0 s 1"
  shows "\<not> starts s s'"
  using one_call[OF assms] starts_free by blast

end

section \<open>The buttons that start a call\<close>

text \<open>A button of a rendered form can be used unless it is disabled.\<close>

definition usable :: "(string \<Rightarrow> event props \<Rightarrow> bool) \<Rightarrow> view \<Rightarrow> bool" where
  "usable P v \<longleftrightarrow> list_ex (\<lambda>d. d \<noteq> Flag True) (select P ''disabled'' v)"

fun asks_join :: "event val \<Rightarrow> bool" where
  "asks_join (On (JoinSuggested i)) \<longleftrightarrow> True"
| "asks_join _ \<longleftrightarrow> False"

definition joins :: "string \<Rightarrow> event props \<Rightarrow> bool" where
  "joins tag ps \<longleftrightarrow> asks_join (prop_of ''onClick'' ps)"

definition withdraws :: "string \<Rightarrow> event props \<Rightarrow> bool" where
  "withdraws tag ps \<longleftrightarrow> prop_of ''onClick'' ps = On WithdrawOffer"

lemma clicks_ErrorAlert:
  "select_all joins k (ErrorAlert_view c t e) = []" "select_all withdraws k (ErrorAlert_view c t e) = []"
  by (simp_all add: ErrorAlert_view_def joins_def withdraws_def ui_defs select_simps
      split: option.split cong: Text_cong)

lemma join_buttons: "set (select joins ''disabled'' (NewRequestDialog_view sim n p v)) \<subseteq> {Flag (nr_saving n)}"
  by (auto simp: request_view_defs joins_def ui_defs select_simps clicks_ErrorAlert cong: Text_cong)

lemma create_button: "set (select submits ''disabled'' (NewRequestDialog_view sim n p v)) \<subseteq> {Flag (nr_saving n)}"
  by (auto simp: submit_buttons(4))

lemma withdraw_buttons:
  "set (select withdraws ''disabled'' (OfferForm_view mine h f st p v)) \<subseteq> {Flag (ofs_saving st)}"
  by (auto simp: OfferForm_view_def OfferForm_description_def OfferForm_buttons_def labelled_def typed_def
      ImageField_view_def withdraws_def ui_defs select_simps clicks_ErrorAlert Let_def cong: Text_cong)

lemma usableD: "usable P v \<Longrightarrow> set (select P ''disabled'' v) \<subseteq> {Flag b} \<Longrightarrow> \<not> b"
  by (auto simp: usable_def list_ex_iff)

section \<open>The new-request dialog\<close>

text \<open>
  Creating, or joining a suggested request; the answer to either; typing, opening and closing, and
  choosing a picture. What a form sets of its own state does not depend on the world.
\<close>

definition NewRequest_starts :: "new_request \<Rightarrow> new_request \<Rightarrow> bool" where
  "NewRequest_starts n n' \<longleftrightarrow>
     (\<exists>sim p v. usable submits (NewRequestDialog_view sim n p v) \<and> n' = NewRequest_begin n) \<or>
     (\<exists>sim p v. usable joins (NewRequestDialog_view sim n p v) \<and> n' = NewRequest_join_begin n)"

definition NewRequest_settles :: "new_request \<Rightarrow> new_request \<Rightarrow> bool" where
  "NewRequest_settles n n' \<longleftrightarrow>
     (\<exists>res w. n' = fst (NewRequest_end res n (w :: unit world))) \<or>
     (\<exists>r q res w. n' = fst (NewRequest_join_end r q res n (w :: unit world)))"

definition NewRequest_edits :: "new_request \<Rightarrow> new_request \<Rightarrow> bool" where
  "NewRequest_edits n n' \<longleftrightarrow>
     (\<exists>k v. n' = NewRequest_set k v n) \<or>
     (\<exists>next w. n' = fst (NewRequest_openChange next n (w :: unit world))) \<or>
     (\<exists>b. n' = n\<lparr>nr_image := b\<rparr>)"

interpretation new_request: saving_form nr_saving NewRequest_starts NewRequest_settles NewRequest_edits
proof
  fix n n'
  assume s: "NewRequest_starts n n'"
  show "\<not> nr_saving n"
    using s usableD[OF _ join_buttons] usableD[OF _ create_button]
    unfolding NewRequest_starts_def by blast
  show "nr_saving n'"
    using s by (auto simp: NewRequest_starts_def NewRequest_begin_def NewRequest_join_begin_def)
next
  fix n n'
  assume "NewRequest_edits n n'"
  then show "nr_saving n' = nr_saving n"
    by (auto simp: NewRequest_edits_def NewRequest_set_def NewRequest_openChange_def Let_def
        split: if_splits)
qed

section \<open>The dialog for an offer on a new item\<close>

definition NewOffer_starts :: "new_offer \<Rightarrow> new_offer \<Rightarrow> bool" where
  "NewOffer_starts n n' \<longleftrightarrow>
     (\<exists>sim p v. usable submits (OfferOnANewItemDialog_view sim n p v)) \<and> n' = OfferOnANewItem_begin n"

definition NewOffer_settles :: "new_offer \<Rightarrow> new_offer \<Rightarrow> bool" where
  "NewOffer_settles n n' \<longleftrightarrow>
     (\<exists>itemName res w. n' = fst (OfferOnANewItem_end itemName res n (w :: unit world)))"

definition NewOffer_edits :: "new_offer \<Rightarrow> new_offer \<Rightarrow> bool" where
  "NewOffer_edits n n' \<longleftrightarrow>
     (\<exists>k v. n' = NewOffer_set k v n) \<or>
     (\<exists>next w. n' = fst (NewOffer_openChange next n (w :: unit world))) \<or>
     (\<exists>r w. n' = fst (NewOffer_follow r n (w :: unit world))) \<or>
     (\<exists>b. n' = n\<lparr>no_image := b\<rparr>)"

lemma no_saving_set: "no_saving (NewOffer_set k v n) = no_saving n"
  by (simp add: NewOffer_set_def Let_def)

interpretation new_offer: saving_form no_saving NewOffer_starts NewOffer_settles NewOffer_edits
proof
  fix n n'
  assume s: "NewOffer_starts n n'"
  show "\<not> no_saving n"
    using s submit_buttons(5)[of _ n] by (auto simp: NewOffer_starts_def usable_def)
  show "no_saving n'"
    using s by (simp add: NewOffer_starts_def OfferOnANewItem_begin_def)
next
  fix n n'
  assume "NewOffer_edits n n'"
  then show "no_saving n' = no_saving n"
    by (auto simp: NewOffer_edits_def no_saving_set NewOffer_openChange_def NewOffer_follow_def)
qed

section \<open>The offer form\<close>

text \<open>The form is mounted anew for another offer; \<open>mine\<close> is the offer of one mount.\<close>

definition OfferForm_starts :: "offer option \<Rightarrow> offer_form_state \<Rightarrow> offer_form_state \<Rightarrow> bool" where
  "OfferForm_starts mine st st' \<longleftrightarrow>
     (\<exists>h f p v. usable submits (OfferForm_view mine h f st p v) \<or>
        usable withdraws (OfferForm_view mine h f st p v)) \<and> st' = OfferForm_begin st"

definition OfferForm_settles :: "offer_form_state \<Rightarrow> offer_form_state \<Rightarrow> bool" where
  "OfferForm_settles st st' \<longleftrightarrow>
     (\<exists>i u (res :: (offer, offer create_rejection) outcome). st' = fst (OfferForm_end i u res st ())) \<or>
     (\<exists>i res. st' = fst (OfferForm_withdraw_end i res st ()))"

definition OfferForm_edits :: "offer_form_state \<Rightarrow> offer_form_state \<Rightarrow> bool" where
  "OfferForm_edits st st' \<longleftrightarrow> (\<exists>b. st' = st\<lparr>ofs_image := b\<rparr>)"

interpretation offer_form: saving_form ofs_saving "OfferForm_starts mine" OfferForm_settles OfferForm_edits
  for mine
proof
  fix st st'
  assume s: "OfferForm_starts mine st st'"
  show "\<not> ofs_saving st"
    using s usableD[OF _ withdraw_buttons] submit_buttons(6)[of mine _ _ st]
    by (auto simp: OfferForm_starts_def usable_def split: if_splits)
  show "ofs_saving st'"
    using s by (auto simp: OfferForm_starts_def OfferForm_begin_def)
qed (auto simp: OfferForm_edits_def)

section \<open>The profile form\<close>

definition ProfileSetup_starts :: "form_state \<Rightarrow> form_state \<Rightarrow> bool" where
  "ProfileSetup_starts st st' \<longleftrightarrow>
     (\<exists>theme a f. hasProfile a \<noteq> Some True \<and> usable submits (ProfileSetup_view theme a f st)) \<and>
     st' = ProfileSetup_begin st"

definition ProfileSetup_settles :: "form_state \<Rightarrow> form_state \<Rightarrow> bool" where
  "ProfileSetup_settles st st' \<longleftrightarrow> (\<exists>r w. st' = fst (ProfileSetup_end r st (w :: unit world)))"

text \<open>What is typed is kept apart from this state.\<close>

definition ProfileSetup_edits :: "form_state \<Rightarrow> form_state \<Rightarrow> bool" where
  "ProfileSetup_edits st st' \<longleftrightarrow> st' = st"

interpretation profile_form: saving_form fs_saving ProfileSetup_starts ProfileSetup_settles ProfileSetup_edits
proof
  fix st st'
  assume s: "ProfileSetup_starts st st'"
  show "\<not> fs_saving st"
    using s submit_buttons(3)[of _ _ _ st] by (auto simp: ProfileSetup_starts_def usable_def)
  show "fs_saving st'"
    using s by (auto simp: ProfileSetup_starts_def ProfileSetup_begin_def)
qed (auto simp: ProfileSetup_edits_def)

section \<open>Properties of submitting\<close>

text \<open>
  C16. A form that saves is submitted once: however a mounted copy of the profile form, the
  new-request dialog, the dialog for an offer on a new item or the offer form is clicked, typed
  into, opened and closed, at most one of its calls is under way, and while one is, no button it
  renders starts another: neither submitting, nor joining a suggested request, nor withdrawing.
\<close>

theorem submitted_once:
  "(form_reach ProfileSetup_starts ProfileSetup_settles ProfileSetup_edits
      \<lparr>fs_error = None, fs_saving = False\<rparr> st k \<longrightarrow>
      k \<le> 1 \<and> (k = 1 \<longrightarrow> (\<forall>st'. \<not> ProfileSetup_starts st st'))) \<and>
   (form_reach NewRequest_starts NewRequest_settles NewRequest_edits NewRequest_initial n k \<longrightarrow>
      k \<le> 1 \<and> (k = 1 \<longrightarrow> (\<forall>n'. \<not> NewRequest_starts n n'))) \<and>
   (form_reach NewOffer_starts NewOffer_settles NewOffer_edits NewOffer_initial m k \<longrightarrow>
      k \<le> 1 \<and> (k = 1 \<longrightarrow> (\<forall>m'. \<not> NewOffer_starts m m'))) \<and>
   (form_reach (OfferForm_starts mine) OfferForm_settles OfferForm_edits
      \<lparr>ofs_saving = False, ofs_image = None\<rparr> os k \<longrightarrow>
      k \<le> 1 \<and> (k = 1 \<longrightarrow> (\<forall>os'. \<not> OfferForm_starts mine os os')))"
  using profile_form.one_call profile_form.no_second new_request.one_call new_request.no_second
    new_offer.one_call new_offer.no_second offer_form.one_call offer_form.no_second
  by metis

theorem submitted_once_witness:
  "form_reach NewRequest_starts NewRequest_settles NewRequest_edits NewRequest_initial
     (NewRequest_begin NewRequest_initial) 1 \<and>
   \<not> NewRequest_starts (NewRequest_begin NewRequest_initial) NewRequest_initial"
proof -
  have "usable submits (NewRequestDialog_view [] NewRequest_initial picker_initial None)"
    by (simp add: usable_def submit_buttons(4) exactMatch_def NewRequest_initial_def)
  then have "NewRequest_starts NewRequest_initial (NewRequest_begin NewRequest_initial)"
    unfolding NewRequest_starts_def by blast
  then have r: "form_reach NewRequest_starts NewRequest_settles NewRequest_edits NewRequest_initial
     (NewRequest_begin NewRequest_initial) 1"
    using form_reach.mounted[where starts = NewRequest_starts and ?s0.0 = NewRequest_initial]
    unfolding One_nat_def by (rule form_reach.started[rotated])
  with submitted_once[where n = "NewRequest_begin NewRequest_initial" and k = 1] show ?thesis by blast
qed

text \<open>
  The sign-in and registration forms do not keep to this: their buttons go by the session's status,
  which is no longer loading once the sign-in has been answered, while the handler still waits for
  the account to load. The form is on screen all that time, with its button enabled.
\<close>

theorem sign_in_again:
  assumes "s = fst (auth_reducer t (LoadSession Pending) (auth_reducer t (Login (Fulfilled (Some tokens))) (a, st)))"
  shows "visit s ''/login'' = ShowPage LoginPage \<and>
    usable submits (Login_view theme s lf) \<and> usable submits (Register_view theme s rf)"
  using assms by (simp add: usable_def submit_buttons Let_def)

end
