(* ===== verification/Pages.thy ===== *)
theory Pages
  imports ListViews Timers Submission
begin

text \<open>
  The pages of \<open>frontend/src/App.tsx\<close> as they appear on screen: the account forms on their own,
  every other page inside the shell. What spans the pages is proved here: labels and ids, where
  links lead, where phone numbers appear, and what a click can do without being asked again.
\<close>

section \<open>What is on screen\<close>

text \<open>What the pages keep besides the store: the theme and the place, the gateway's address, the
  pictures fetched, the browser's way to write a date, and the forms being filled in.\<close>

record screen =
  sc_theme :: "string option"
  sc_location :: string
  sc_menuOpen :: bool
  sc_base :: string
  sc_picture :: pictures
  sc_local_time :: "string \<Rightarrow> string"
  sc_login :: login_request
  sc_register :: register_form
  sc_profile :: profile_form
  sc_profile_state :: form_state
  sc_browse :: browse_page
  sc_detail :: detail_page
  sc_reasons :: "string \<rightharpoonup> string"

text \<open>A page inside the shell.\<close>

fun outlet :: "screen \<Rightarrow> root_state \<Rightarrow> page \<Rightarrow> view list" where
  "outlet x s BrowsePage = [BrowseRequests_view (sc_base x) (sc_location x) s (sc_browse x)]"
| "outlet x s (DetailPage i) =
     [RequestDetail_view (sc_base x) (sc_picture x) (sc_location x) s i (sc_detail x)]"
| "outlet x s NotificationsPage = [Notifications_view (sc_local_time x) s]"
| "outlet x s MyRequestsPage = [MyRequests_view (sc_base x) s]"
| "outlet x s MyOffersPage = [MyOffers_view (sc_picture x) s]"
| "outlet x s ContactsPage = [Contacts_view s]"
| "outlet x s QueuePage = [Queue_view (sc_picture x) s (sc_reasons x)]"
| "outlet x s AccessPage = [Access_view s]"
| "outlet x s _ = []"

fun page_view :: "screen \<Rightarrow> root_state \<Rightarrow> page \<Rightarrow> view" where
  "page_view x s LoginPage = Login_view (sc_theme x) (auth s) (sc_login x)"
| "page_view x s RegisterPage = Register_view (sc_theme x) (auth s) (sc_register x)"
| "page_view x s ProfilePage =
     ProfileSetup_view (sc_theme x) (auth s) (sc_profile x) (sc_profile_state x)"
| "page_view x s p =
     AppLayout_view (sc_theme x) (sc_location x) (sc_menuOpen x) s (outlet x s p)"

section \<open>Facts\<close>

text \<open>A page is one of the account forms or stands in the shell.\<close>

lemma page_view_cases:
  obtains "p = LoginPage" | "p = RegisterPage" | "p = ProfilePage"
  | "page_view x s p = AppLayout_view (sc_theme x) (sc_location x) (sc_menuOpen x) s (outlet x s p)"
  by (cases p) simp_all

text \<open>The page of a request before the request is there.\<close>

lemma RequestDetail_waiting:
  assumes "rq_current (requests s) = None"
  shows "ids (RequestDetail_view base picture loc s i d) = []"
    "label_targets (RequestDetail_view base picture loc s i d) = []"
    "links (RequestDetail_view base picture loc s i d) = []"
    "hrefs (RequestDetail_view base picture loc s i d) = []"
  using assms by (simp_all add: RequestDetail_view_def ui_defs holds_defs view_simps)

lemma ProfileSetup_leaving:
  assumes "hasProfile a = Some True"
  shows "ids (ProfileSetup_view theme a f st) = []" "label_targets (ProfileSetup_view theme a f st) = []"
    "hrefs (ProfileSetup_view theme a f st) = []"
  using assms by (simp_all add: ProfileSetup_view_def holds_defs view_simps)

lemma well_labelled_same:
  "label_targets n = ids n \<Longrightarrow> distinct (ids n) \<Longrightarrow> well_labelled n"
  by (simp add: well_labelled_def)

text \<open>At most one tree, and well labelled: what stands in the shell's outlet.\<close>

definition labelled_slot :: "view list \<Rightarrow> bool" where
  "labelled_slot vs \<longleftrightarrow> length vs \<le> 1 \<and> list_all well_labelled vs"

lemma labelled_slot_simps [simp]:
  "labelled_slot []" "labelled_slot [v] \<longleftrightarrow> well_labelled v"
  by (simp_all add: labelled_slot_def)

lemma AppLayout_labelled:
  assumes "labelled_slot vs"
  shows "well_labelled (AppLayout_view theme loc m s vs)"
proof (cases vs)
  case Nil
  then show ?thesis by (simp add: well_labelled_def AppLayout_holds attrs_all_simps)
next
  case (Cons v ws)
  with assms have "vs = [v]" and "well_labelled v" by (simp_all add: labelled_slot_def)
  then show ?thesis
    unfolding well_labelled_def AppLayout_holds by (simp add: attrs_all_simps ids_def label_targets_def)
qed

lemma RequestDetail_labelled: "well_labelled (RequestDetail_view base picture loc s i d)"
proof (cases "rq_current (requests s)")
  case None
  then show ?thesis by (simp add: well_labelled_def RequestDetail_waiting)
next
  case (Some r)
  then show ?thesis
    by (intro well_labelled_same RequestDetail_holds(2)[OF Some])
       (simp add: RequestDetail_holds(1)[OF Some] split: option.split role.split)
qed

lemma BrowseRequests_labelled: "well_labelled (BrowseRequests_view base loc s b)"
  by (intro well_labelled_same BrowseRequests_holds(2))
     (simp add: BrowseRequests_holds(1) split: option.split role.split)

lemma ProfileSetup_labelled: "well_labelled (ProfileSetup_view theme a f st)"
proof (cases "hasProfile a = Some True")
  case True
  then show ?thesis by (simp add: well_labelled_def ProfileSetup_leaving)
next
  case False
  then show ?thesis
    by (intro well_labelled_same ProfileSetup_holds(2)[OF False]) (simp add: ProfileSetup_holds(1)[OF False])
qed

lemma Queue_labelled:
  assumes "distinct (map (\<lambda>f. interpolated (po_offerId f)) (ad_pending (admin s)))"
  shows "well_labelled (Queue_view picture s reasons)"
proof (intro well_labelled_same Queue_holds(2))
  have "distinct (map (\<lambda>n. Str (''reason-'' @ n)) ns)" if "distinct ns" for ns :: "string list"
    using that by (simp add: distinct_map inj_on_def)
  from this[OF assms] show "distinct (ids (Queue_view picture s reasons))"
    by (simp add: Queue_holds(1) comp_def)
qed

text \<open>The offers waiting for a decision have different ids.\<close>

definition pending_distinct :: "root_state \<Rightarrow> bool" where
  "pending_distinct s \<longleftrightarrow> distinct (map (\<lambda>f. interpolated (po_offerId f)) (ad_pending (admin s)))"

lemma outlet_labelled:
  assumes "p = QueuePage \<longrightarrow> pending_distinct s"
  shows "labelled_slot (outlet x s p)"
  using assms Queue_labelled[of s, folded pending_distinct_def]
  by (cases p) (auto simp: BrowseRequests_labelled RequestDetail_labelled, simp_all add: well_labelled_def
      Notifications_holds MyRequests_holds MyOffers_holds Contacts_holds Access_holds)

lemma page_labelled:
  assumes "p = QueuePage \<longrightarrow> pending_distinct s"
  shows "well_labelled (page_view x s p)"
  by (cases rule: page_view_cases[where p = p and x = x and s = s])
     (simp_all add: ProfileSetup_labelled AppLayout_labelled outlet_labelled[OF assms],
      simp_all add: well_labelled_def Login_holds Register_holds)

text \<open>A link leads somewhere when the router shows a page for it, with no redirect.\<close>

definition leads :: "auth_state \<Rightarrow> event val \<Rightarrow> bool" where
  "leads a v \<longleftrightarrow> (\<exists>t p. v = Str t \<and> visit a t = ShowPage p)"

lemma leads_open [simp]:
  "leads a (Str ''/login'')" "leads a (Str ''/register'')" "leads a (Str ''/requests'')"
  by (simp_all add: leads_def) (simp add: visit_def)

lemma strip_slashes_last: "xs \<noteq> [] \<Longrightarrow> last xs \<noteq> CHR ''/'' \<Longrightarrow> strip_slashes xs = xs"
  by (cases xs rule: rev_cases) (auto simp: strip_slashes_def)

lemma lower_requests: "map lower ''/requests/'' = ''/requests/''" "map lower ''requests'' = ''requests''"
  by code_simp+

lemma leads_request:
  assumes "plain_id (interpolated i)"
  shows "leads a (Str (request_link i))"
proof -
  let ?j = "interpolated i"
  have "last ?j \<noteq> CHR ''/''" "?j \<noteq> []" using assms by (metis last_in_set plain_id_def)+
  then have strip: "strip_slashes (''/requests/'' @ ?j) = ''/requests/'' @ ?j"
    using strip_slashes_last[of "''/requests/'' @ ?j"] by simp
  have split: "split_slash (''/requests/'' @ ?j) = [[], ''requests'', ?j]"
    using assms split_slash_append[of "[]" "''requests/'' @ ?j"] split_slash_append[of "''requests''" ?j]
    by (simp add: plain_id_def split_slash_plain)
  have "detail_id (''/requests/'' @ ?j) = Some ?j"
    unfolding detail_id_def strip split using assms lower_requests(2) by (simp add: plain_id_def)
  moreover have "route_key (''/requests/'' @ ?j) = ''/requests/'' @ map lower ?j"
    unfolding route_key_def strip map_append lower_requests ..
  ultimately have "routes (''/requests/'' @ ?j) = Open (DetailPage ?j)"
    using assms unfolding routes_def Let_def by (simp add: plain_id_def)
  then show ?thesis by (simp add: leads_def visit_def request_link_def)
qed

lemma leads_guarded:
  assumes "truthy (accessToken a)" and "auth_user a = Some u" and "hasProfile a \<noteq> Some False"
  shows "leads a (Str ''/notifications'')" and "usr_role u = Some SELLER \<Longrightarrow> leads a (Str ''/contacts'')"
    and "usr_role u = Some SELLER \<Longrightarrow> leads a (Str ''/my-offers'')"
    and "l \<in> set (AppLayout_links a) \<Longrightarrow> leads a (Str (nav_to l))"
proof -
  show "leads a (Str ''/notifications'')" and "usr_role u = Some SELLER \<Longrightarrow> leads a (Str ''/contacts'')"
    and "usr_role u = Some SELLER \<Longrightarrow> leads a (Str ''/my-offers'')"
    using assms by (simp_all add: leads_def visit_def ProtectedRoute_def)
  show "leads a (Str (nav_to l))" if "l \<in> set (AppLayout_links a)"
    using nav_links_lead[OF assms that] by (auto simp: leads_def)
qed

text \<open>The ids the pages link to can stand in a path.\<close>

definition linkable :: "root_state \<Rightarrow> bool" where
  "linkable s \<longleftrightarrow>
     list_all (\<lambda>r. plain_id (interpolated (req_requestId r))) (rq_browse (requests s) @ rq_mine (requests s)) \<and>
     list_all (\<lambda>f. plain_id (off_requestId f)) (of_mine (offers s)) \<and>
     list_all (\<lambda>f. plain_id (interpolated (po_requestId f))) (ad_pending (admin s))"

lemma interpolated_Some [simp]: "interpolated (Some i) = i"
  by (simp add: interpolated_def)

lemma outlet_leads:
  assumes "linkable s" and "visit (auth s) path = ShowPage p" and "outlet x s p = [v]"
  shows "list_all (leads (auth s)) (links v)"
proof -
  have ids: "list_all (\<lambda>r. leads (auth s) (Str (request_link (req_requestId r)))) (rq_browse (requests s))"
    "list_all (\<lambda>r. leads (auth s) (Str (request_link (req_requestId r)))) (rq_mine (requests s))"
    "list_all (\<lambda>f. leads (auth s) (Str (request_link (Some (off_requestId f))))) (of_mine (offers s))"
    "list_all (\<lambda>f. leads (auth s) (Str (request_link (po_requestId f)))) (ad_pending (admin s))"
    using assms(1) by (auto simp: linkable_def list_all_iff intro!: leads_request)
  have seller: "leads (auth s) (Str ''/contacts'') \<and> leads (auth s) (Str ''/my-offers'')"
    if "p = MyOffersPage \<or> p = ContactsPage"
  proof -
    have "guarded p" and "page_roles p = Some [SELLER]" using that by auto
    with visit_guarded[OF assms(2)] that obtain u where
      "truthy (accessToken (auth s))" "auth_user (auth s) = Some u" "hasProfile (auth s) \<noteq> Some False"
      "usr_role u = Some SELLER"
      by auto
    then show ?thesis using leads_guarded(2,3) by blast
  qed
  show ?thesis
  proof (cases p)
    case (DetailPage i)
    with assms(3) show ?thesis
      by (cases "rq_current (requests s)") (auto simp: RequestDetail_waiting RequestDetail_holds)
  next
    case MyOffersPage
    with assms(3) ids(3) seller show ?thesis
      by (auto simp: MyOffers_holds MyOffers_row_holds list_all_iff split: if_splits)
  next
    case ContactsPage
    with assms(3) ids(3) seller show ?thesis
      by (auto simp: Contacts_holds approved_offers_def list_all_iff split: if_splits)
  qed (use assms(3) ids in \<open>auto simp: BrowseRequests_holds Notifications_holds MyRequests_holds Queue_holds
      Access_holds list_all_iff split: if_splits\<close>)
qed

section \<open>Properties of the pages\<close>

text \<open>
  C9. No link is dead or forbidden: for a session whose account, if it has one, has its profile and
  its token, every link of the page on screen, those of the shell included, shows a page at once;
  none is caught by the catch-all route or turned away by a guard.
\<close>

theorem links_lead:
  assumes "visit (auth s) path = ShowPage p" and "linkable s"
    and "auth_user (auth s) \<noteq> None \<Longrightarrow> truthy (accessToken (auth s)) \<and> hasProfile (auth s) \<noteq> Some False"
  shows "list_all (leads (auth s)) (links (page_view x s p))"
proof (cases rule: page_view_cases[where p = p and x = x and s = s])
  case 1
  then show ?thesis by (simp add: Login_holds)
next
  case 2
  then show ?thesis by (simp add: Register_holds)
next
  case 3
  then show ?thesis
    by (cases "hasProfile (auth s) = Some True")
       (simp_all add: ProfileSetup_holds, simp add: ProfileSetup_view_def holds_defs view_simps)
next
  case 4
  have out: "list_all (leads (auth s)) (attrs_all ''to'' (outlet x s p))"
  proof (cases "outlet x s p")
    case (Cons v vs)
    then have "outlet x s p = [v]" by (cases p) auto
    with outlet_leads[OF assms(2,1) this] show ?thesis by (simp add: attrs_all_simps links_def)
  qed (simp add: attrs_all_simps)
  have "leads (auth s) v" if "v \<in> set (links (page_view x s p))" for v
  proof (cases "auth_user (auth s)")
    case None
    with that out show ?thesis
      by (auto simp: 4 AppLayout_holds(3) AppLayout_links_def list_all_iff)
  next
    case (Some u)
    with assms(3) have sess: "truthy (accessToken (auth s))" "hasProfile (auth s) \<noteq> Some False" by auto
    show ?thesis
      using that out Some leads_guarded(1,4)[OF sess(1) Some sess(2)]
      by (auto simp: 4 AppLayout_holds(3) list_all_iff)
  qed
  then show ?thesis by (simp add: list_all_iff)
qed

text \<open>
  C3. A phone number is on screen in one place only, and only once released: a page that shows a
  number to dial is the contacts page, shown to a signed-in seller; the number is that of a buyer
  on the list last fetched, and that list is for the request of an offer of the seller's own that
  an administrator approved.
\<close>

theorem phone_numbers_released:
  assumes "visit (auth s) path = ShowPage p" and "v \<in> set (hrefs (page_view x s p))"
  shows "p = ContactsPage \<and> (\<exists>u. auth_user (auth s) = Some u \<and> usr_role u = Some SELLER) \<and>
    (\<exists>f l c. f \<in> set (of_mine (offers s)) \<and> off_status f = Some ''APPROVED'' \<and>
       ad_contacts (admin s) = Some l \<and> cl_requestId l = Some (off_requestId f) \<and>
       c \<in> set (nullish (cl_contacts l) []) \<and> v = Str (''tel:'' @ interpolated (ct_phoneNumber c)))"
proof -
  have p: "p = ContactsPage"
  proof (cases rule: page_view_cases[where p = p and x = x and s = s])
    case 3
    with assms(2) show ?thesis
      by (cases "hasProfile (auth s) = Some True") (simp_all add: ProfileSetup_holds ProfileSetup_leaving)
  next
    case 4
    then have "v \<in> set (attrs_all ''href'' (outlet x s p))" using assms(2) by (simp add: AppLayout_holds)
    then show ?thesis
      using RequestDetail_waiting(4)[unfolded hrefs_def] RequestDetail_holds(4)[unfolded hrefs_def]
      by (cases p; cases "rq_current (requests s)")
         (auto simp: attrs_all_simps BrowseRequests_holds(4)[unfolded hrefs_def]
            Notifications_holds(4)[unfolded hrefs_def] MyRequests_holds(4)[unfolded hrefs_def]
            MyOffers_holds(4)[unfolded hrefs_def] Queue_holds(4)[unfolded hrefs_def]
            Access_holds(4)[unfolded hrefs_def])
  qed (use assms(2) in \<open>simp_all add: Login_holds Register_holds\<close>)
  with assms(2) have "v \<in> set (hrefs (Contacts_view s))"
    by (simp add: AppLayout_holds attrs_all_simps) (simp add: hrefs_def)
  then obtain f where f: "f \<in> set (approved_offers (offers s))" "v \<in> set (card_numbers (admin s) f)"
    by (auto simp: Contacts_holds)
  then have "\<exists>l c. ad_contacts (admin s) = Some l \<and> cl_requestId l = Some (off_requestId f) \<and>
       c \<in> set (nullish (cl_contacts l) []) \<and> v = Str (''tel:'' @ interpolated (ct_phoneNumber c))"
    by (auto simp: card_numbers_def contacts_open_def split: if_splits option.splits)
  moreover have "\<exists>u. auth_user (auth s) = Some u \<and> usr_role u = Some SELLER"
    using visit_guarded[OF assms(1)] p by auto
  ultimately show ?thesis using p f(1) by (auto simp: approved_offers_def)
qed

text \<open>
  Signing in brings a visitor back to the page they were on: the sign-in links of the shell and
  of a request carry the page, and a sign-in that succeeds leads back to it. Creating an account
  does not: the link beside the sign-in link carries nothing.
\<close>

theorem sign_in_returns:
  assumes "dispatch_login credentials w = (Return t, w1)" and "\<forall>e. fst (dispatch_load w1) \<noteq> Crash e"
  shows "select (goes_to ''/login'') ''state'' (SignInButtons_view loc) = [FromLocation loc] \<and>
    select_all (goes_to ''/login'') ''state'' (visitor_links loc) = [FromLocation loc] \<and>
    fst (Login_submit dispatch_login dispatch_load (Some loc) credentials w) = [Navigate loc] \<and>
    select (goes_to ''/register'') ''state'' (SignInButtons_view loc) = [Undefined]"
proof -
  have "fst (Login_submit dispatch_login dispatch_load (Some loc) credentials w) = [Navigate loc]"
    using assms by (cases "dispatch_load w1") (auto simp: Login_submit_def after_load_def split: outcome.split)
  then show ?thesis
    by (simp add: SignInButtons_view_def visitor_links_def goes_to_def ui_defs select_simps cong: Text_cong)
qed

theorem sign_in_returns_witness:
  "fst (Login_submit (\<lambda>c w. (Return None, w)) (\<lambda>w. (RejectWith (), w)) (Some ''/requests/r1'')
     \<lparr>lr_email = ''a'', lr_password = ''b''\<rparr> ()) = [Navigate ''/requests/r1'']"
  using sign_in_returns[of "\<lambda>c w. (Return None, w)" "\<lparr>lr_email = ''a'', lr_password = ''b''\<rparr>" "()"
      None "()" "\<lambda>w. (RejectWith (), w)" "''/requests/r1''"]
  by simp

section \<open>The rendered application\<close>

text \<open>What a guarded route shows while the session is loaded, and a redirect.\<close>

definition loading_box :: view where
  "loading_box = plain ''div'' [Spinner [], plain ''p'' [Text (''Loading your session'' @ ellipsis)]]"

definition navigate_to :: "string \<Rightarrow> string option \<Rightarrow> view" where
  "navigate_to path from =
     El ''Navigate''
       ((''to'', Str path) # (case from of None \<Rightarrow> [] | Some l \<Rightarrow> [(''state'', FromLocation l)]) @
        [(''replace'', Flag True)]) []"

definition guard_view :: "auth_state \<Rightarrow> string \<Rightarrow> role list option \<Rightarrow> view list \<Rightarrow> view list" where
  "guard_view a path rs children =
     (case ProtectedRoute a path rs of
        NavigateTo to from \<Rightarrow> [navigate_to to from]
      | LoadingSession \<Rightarrow> [loading_box]
      | Children \<Rightarrow> children)"

text \<open>The routes: the account forms on their own, everything else in the shell, the rest sent on.\<close>

definition App_view :: "screen \<Rightarrow> root_state \<Rightarrow> string \<Rightarrow> view list" where
  "App_view x s path =
     (case routes path of
        Open p \<Rightarrow> [page_view x s p]
      | Redirect to \<Rightarrow> [navigate_to to None]
      | Protected rs p \<Rightarrow>
          (if p = ProfilePage then guard_view (auth s) path rs [page_view x s ProfilePage]
           else [AppLayout_view (sc_theme x) (sc_location x) (sc_menuOpen x) s
                   (guard_view (auth s) path rs (outlet x s p))]))"

lemma nodes_self: "n \<in> set (nodes n)"
  by (cases n) (simp_all add: nodes_El)

lemma nodes_child: "m \<in> set (nodes c) \<Longrightarrow> c \<in> set cs \<Longrightarrow> m \<in> set (nodes (El t ps cs))"
  by (auto simp: nodes_El nodes_all_def)

lemma nodes_outlet:
  assumes "m \<in> set ns"
  shows "m \<in> set (nodes (AppLayout_view theme loc b s ns))"
proof -
  have "m \<in> set (nodes (plain ''main'' ns))" using nodes_child[OF nodes_self assms] .
  then show ?thesis unfolding AppLayout_view_def Let_def by (rule nodes_child) simp
qed

text \<open>The redirects on screen: where each leads and what location it carries.\<close>

definition is_redirect :: "string \<Rightarrow> event props \<Rightarrow> bool" where
  "is_redirect tag ps \<longleftrightarrow> tag = ''Navigate''"

abbreviation redirects :: "string \<Rightarrow> view list \<Rightarrow> event val list" where
  "redirects \<equiv> select_all is_redirect"

lemma select_nav_link: "select is_redirect k (nav_link b l) = []"
proof -
  have "nullish (LINK_ICONS (nav_to l)) [] \<noteq> ''Navigate''" by (simp add: LINK_ICONS_def)
  then show ?thesis by (simp add: nav_link_def is_redirect_def select_simps cong: Text_cong)
qed

lemma redirects_AppLayout: "select is_redirect k (AppLayout_view theme loc m s vs) = redirects k vs"
  by (cases "auth_user (auth s)")
     (simp_all add: AppLayout_view_def select_nav_link notifications_link_def account_menu_def
      visitor_links_def ModeToggle_def OPTIONS_def ui_defs select_simps is_redirect_def Let_def cong: Text_cong)

lemma redirects_navigate:
  "select is_redirect ''to'' (navigate_to t from) = [Str t]"
  "select is_redirect ''state'' (navigate_to t from) =
     [case from of None \<Rightarrow> Undefined | Some l \<Rightarrow> FromLocation l]"
  by (simp_all add: navigate_to_def is_redirect_def select_simps split: option.split)

lemma redirects_loading: "select is_redirect k loading_box = []"
  by (simp add: loading_box_def is_redirect_def ui_defs select_simps cong: Text_cong)

lemma redirects_profile:
  assumes "hasProfile a = Some True"
  shows "select is_redirect ''to'' (ProfileSetup_view theme a f st) = [Str ''/requests'']"
    "select is_redirect ''state'' (ProfileSetup_view theme a f st) = [Undefined]"
  using assms by (simp_all add: ProfileSetup_view_def is_redirect_def select_simps)

text \<open>
  The site map, as a visitor is told it: the page at each address, and for each page who may see
  it and where anyone else is sent.
\<close>

definition SITEMAP :: "(string \<times> page) list" where
  "SITEMAP =
     [(''/login'', LoginPage), (''/register'', RegisterPage), (''/profile'', ProfilePage),
      (''/requests'', BrowsePage), (''/notifications'', NotificationsPage),
      (''/my-requests'', MyRequestsPage), (''/my-offers'', MyOffersPage), (''/contacts'', ContactsPage),
      (''/admin/queue'', QueuePage), (''/admin/access'', AccessPage)]"

definition page_at :: "string \<Rightarrow> page option" where
  "page_at path =
     (case map_of SITEMAP (route_key path) of
        Some p \<Rightarrow> Some p
      | None \<Rightarrow> map_option DetailPage (detail_id path))"

definition admitted :: "auth_state \<Rightarrow> page \<Rightarrow> bool" where
  "admitted a p \<longleftrightarrow>
     (case page_roles p of
        None \<Rightarrow> True
      | Some rs \<Rightarrow> list_ex (\<lambda>r. Option.bind (auth_user a) usr_role = Some r) rs)"

definition due :: "auth_state \<Rightarrow> string \<Rightarrow> shown" where
  "due a path =
     (case page_at path of
        None \<Rightarrow> Bounce ''/requests''
      | Some p \<Rightarrow>
          if \<not> guarded p then ShowPage p
          else if accessToken a = None \<or> accessToken a = Some [] then Bounce ''/login''
          else if auth_user a = None then ShowLoading
          else if hasProfile a = Some False \<and> path \<noteq> ''/profile'' then Bounce ''/profile''
          else if \<not> admitted a p then Bounce ''/requests''
          else if p = ProfilePage \<and> hasProfile a = Some True then Bounce ''/requests''
          else ShowPage p)"

lemma routes_SITEMAP:
  "routes path =
     (case page_at path of
        None \<Rightarrow> Redirect ''/requests''
      | Some p \<Rightarrow> if guarded p then Protected (page_roles p) p else Open p)"
  by (auto simp: routes_def page_at_def SITEMAP_def Let_def split: option.split)

lemma guard_due:
  "ProtectedRoute a path (page_roles p) =
     (if accessToken a = None \<or> accessToken a = Some [] then NavigateTo ''/login'' (Some path)
      else if auth_user a = None then LoadingSession
      else if hasProfile a = Some False \<and> path \<noteq> ''/profile'' then NavigateTo ''/profile'' None
      else if \<not> admitted a p then NavigateTo ''/requests'' None else Children)"
  by (auto simp: ProtectedRoute_def admitted_def list_ex_iff js_simps split: option.split)

text \<open>
  C13. The application renders its site map: on every path and in every state of the session, where
  the page at that address may be seen that page is rendered and nothing else; while the account is
  loaded the loading box is, with no redirect; and anyone else meets exactly one redirect, to the
  place the site map names for them, which for the sign-in form carries the page to come back to.
\<close>

theorem App_view_refines_sitemap:
  "case due (auth s) path of
     ShowPage p \<Rightarrow> App_view x s path = [page_view x s p]
   | ShowLoading \<Rightarrow>
       loading_box \<in> set (nodes_all (App_view x s path)) \<and> redirects ''to'' (App_view x s path) = []
   | Bounce to \<Rightarrow>
       redirects ''to'' (App_view x s path) = [Str to] \<and>
       redirects ''state'' (App_view x s path) = [if to = ''/login'' then FromLocation path else Undefined]"
proof (cases "page_at path")
  case None
  then show ?thesis
    by (simp add: due_def App_view_def routes_SITEMAP select_all_simps redirects_navigate)
next
  case (Some p)
  have boxed: "page_view x s p = AppLayout_view (sc_theme x) (sc_location x) (sc_menuOpen x) s (outlet x s p)"
    if "guarded p" "p \<noteq> ProfilePage"
    using that by (cases p) auto
  have box: "loading_box \<in> set (nodes_all [AppLayout_view (sc_theme x) (sc_location x) (sc_menuOpen x) s [loading_box]])"
    "loading_box \<in> set (nodes_all [loading_box])"
    using nodes_outlet[of loading_box "[loading_box]"] nodes_self[of loading_box] by (simp_all add: nodes_all_simps)
  show ?thesis
  proof (cases "guarded p")
    case True
    have routes: "routes path = Protected (page_roles p) p" by (simp add: routes_SITEMAP Some True)
    have due: "due (auth s) path = (case ProtectedRoute (auth s) path (page_roles p) of
        NavigateTo to from \<Rightarrow> Bounce to
      | LoadingSession \<Rightarrow> ShowLoading
      | Children \<Rightarrow> if p = ProfilePage \<and> hasProfile (auth s) = Some True then Bounce ''/requests'' else ShowPage p)"
      unfolding guard_due by (simp add: due_def Some True)
    have state: "l = (if to = ''/login'' then Some path else None)"
      if "ProtectedRoute (auth s) path (page_roles p) = NavigateTo to l" for to l
      using that unfolding guard_due by (auto split: if_splits)
    show ?thesis
      using boxed[OF True] box state
      by (auto simp: due App_view_def routes guard_view_def select_all_simps redirects_AppLayout
          redirects_navigate redirects_loading redirects_profile split: guard_result.split)
  qed (simp add: due_def App_view_def routes_SITEMAP Some)
qed

section \<open>The mounted application\<close>

text \<open>
  What \<open>main.tsx\<close> mounts: the application and the toaster inside the providers. The store is a
  prop of its provider there and the argument \<open>s\<close> here.
\<close>

definition main_view :: "screen \<Rightarrow> root_state \<Rightarrow> string \<Rightarrow> view" where
  "main_view x s path =
     plain ''StrictMode''
       [plain ''Provider''
          [ThemeProvider []
             [TooltipProvider None []
                [plain ''BrowserRouter''
                   (App_view x s path @
                    [Toaster (sc_theme x)
                       [(''position'', Str ''bottom-right''), (''richColors'', Flag True),
                        (''closeButton'', Flag True)]])]]]]"

lemma main_holds:
  "ids (main_view x s path) = attrs_all ''id'' (App_view x s path)"
  "label_targets (main_view x s path) = attrs_all ''htmlFor'' (App_view x s path)"
  by (simp_all add: main_view_def ThemeProvider_def ui_defs holds_defs view_simps)

lemma navigate_labelled: "well_labelled (navigate_to t from)"
  by (simp add: well_labelled_def navigate_to_def holds_defs view_simps split: option.split)

lemma loading_labelled: "well_labelled loading_box"
  by (simp add: well_labelled_def loading_box_def ui_defs holds_defs view_simps)

lemma guard_labelled:
  "(ProtectedRoute a path rs = Children \<Longrightarrow> labelled_slot children) \<Longrightarrow>
     labelled_slot (guard_view a path rs children)"
  by (simp add: guard_view_def navigate_labelled loading_labelled split: guard_result.split)

lemma App_labelled:
  assumes "visit (auth s) path = ShowPage QueuePage \<longrightarrow> pending_distinct s"
  shows "labelled_slot (App_view x s path)"
proof (cases "routes path")
  case (Open p)
  then have "p \<noteq> QueuePage" using routes_Open[OF Open] by auto
  then show ?thesis by (simp add: App_view_def Open page_labelled)
next
  case (Redirect to)
  then show ?thesis by (simp add: App_view_def navigate_labelled)
next
  case (Protected rs p)
  have queue: "p = QueuePage \<longrightarrow> pending_distinct s" if "ProtectedRoute (auth s) path rs = Children"
    using assms that by (auto simp: visit_def Protected)
  have "well_labelled (page_view x s ProfilePage)" by (rule page_labelled) simp
  then have "labelled_slot (guard_view (auth s) path rs [page_view x s ProfilePage])"
    by (intro guard_labelled) (simp only: labelled_slot_simps)
  moreover have "labelled_slot (guard_view (auth s) path rs (outlet x s p))"
    using queue by (intro guard_labelled outlet_labelled)
  ultimately show ?thesis
    by (simp add: App_view_def Protected AppLayout_labelled)
qed

text \<open>
  C12. The mounted application is well formed: on every path and in every state, redirects and the
  loading box included, no two elements on screen share an id and every label names a control
  that is there, in the queue provided the offers waiting there have different ids.
\<close>

theorem pages_well_labelled:
  assumes "visit (auth s) path = ShowPage QueuePage \<longrightarrow>
      distinct (map (\<lambda>f. interpolated (po_offerId f)) (ad_pending (admin s)))"
  shows "well_labelled (main_view x s path)"
proof (cases "App_view x s path")
  case Nil
  then show ?thesis by (simp add: well_labelled_def main_holds attrs_all_simps)
next
  case (Cons v ws)
  with App_labelled[OF assms[folded pending_distinct_def], of x] have "App_view x s path = [v]" and "well_labelled v"
    by (simp_all add: labelled_slot_def)
  then show ?thesis
    unfolding well_labelled_def main_holds by (simp add: attrs_all_simps ids_def label_targets_def)
qed

section \<open>Concrete pages\<close>

definition blank_screen :: screen where
  "blank_screen =
     \<lparr>sc_theme = None, sc_location = ''/requests'', sc_menuOpen = False, sc_base = [],
      sc_picture = (\<lambda>i h v. None), sc_local_time = (\<lambda>t. t),
      sc_login = \<lparr>lr_email = [], lr_password = []\<rparr>, sc_register = Register_form,
      sc_profile = ProfileSetup_form, sc_profile_state = \<lparr>fs_error = None, fs_saving = False\<rparr>,
      sc_browse = \<lparr>bp_query = [], bp_request = NewRequest_initial, bp_offer = NewOffer_initial,
        bp_picker = picker_initial, bp_preview = None\<rparr>,
      sc_detail = \<lparr>dp_quantity = JInt 1, dp_form = OfferForm_seed None,
        dp_state = \<lparr>ofs_saving = False, ofs_image = None\<rparr>, dp_picker = picker_initial, dp_preview = None\<rparr>,
      sc_reasons = Map.empty\<rparr>"

text \<open>A seller with an approved offer and its contacts open.\<close>

definition selling :: root_state where
  "selling =
     (initial_store empty_storage)
       \<lparr>auth := session_of SELLER (Some True),
        offers := offers_initial\<lparr>of_mine := [waiting_offer\<lparr>off_status := Some ''APPROVED''\<rparr>]\<rparr>,
        admin := admin_initial\<lparr>ad_contacts := Some \<lparr>cl_contacts =
          Some [\<lparr>ct_customerId = Some ''c1'', ct_firstName = Some ''Ada'', ct_lastName = None,
                 ct_phoneNumber = Some ''+21600000000''\<rparr>],
          cl_requestId = Some ''r1''\<rparr>\<rparr>\<rparr>"

lemma waiting_offer_simps [simp]: "off_requestId waiting_offer = ''r1''"
  by (simp add: waiting_offer_def as_offer_def str_field_def)

lemma selling_simps [simp]:
  "auth selling = session_of SELLER (Some True)"
  "of_mine (offers selling) = [waiting_offer\<lparr>off_status := Some ''APPROVED''\<rparr>]"
  "rq_browse (requests selling) = []" "rq_mine (requests selling) = []" "ad_pending (admin selling) = []"
  by (simp_all add: selling_def initial_store_def requests_initial_def admin_initial_def)

lemma selling_visits: "visit (auth selling) ''/contacts'' = ShowPage ContactsPage"
  by (simp add: visit_def ProtectedRoute_def)

theorem pages_well_labelled_witness: "well_labelled (main_view blank_screen selling ''/requests'')"
  using pages_well_labelled[of selling "''/requests''" blank_screen] by simp

theorem links_lead_witness:
  "list_all (leads (auth selling)) (links (page_view blank_screen selling ContactsPage))"
proof -
  have "linkable selling" by (simp add: linkable_def plain_id_def)
  moreover have "truthy (accessToken (auth selling)) \<and> hasProfile (auth selling) \<noteq> Some False" by simp
  ultimately show ?thesis by (rule links_lead[OF selling_visits])
qed

theorem phone_numbers_released_witness:
  "Str ''tel:+21600000000'' \<in> set (hrefs (page_view blank_screen selling ContactsPage)) \<and>
   (\<exists>f. f \<in> set (of_mine (offers selling)) \<and> off_status f = Some ''APPROVED'')"
proof -
  have "card_numbers (admin selling) (waiting_offer\<lparr>off_status := Some ''APPROVED''\<rparr>) = [Str ''tel:+21600000000'']"
    by (simp add: card_numbers_def contacts_open_def selling_def)
  then have "hrefs (Contacts_view selling) = [Str ''tel:+21600000000'']"
    by (simp add: Contacts_holds approved_offers_def)
  then have shown: "Str ''tel:+21600000000'' \<in> set (hrefs (page_view blank_screen selling ContactsPage))"
    by (simp add: AppLayout_holds attrs_all_simps) (simp add: hrefs_def)
  with phone_numbers_released[OF selling_visits shown] show ?thesis by blast
qed

end
