(* ===== verification/Spec2Isabelle.thy ===== *)
theory Spec2Isabelle
  imports Pages
begin

text \<open>
  The browser client of the marketplace, \<open>src/frontend/src\<close>: a model of its logic in HOL and
  the properties that make it correct.

  \<^bold>\<open>The program.\<close> Customers pool demand into purchase requests, sellers offer against the total, an
  administrator decides on the offers and a decision opens the buyers' phone numbers to the
  seller. The client is a single page over seven services behind one gateway. Its parts, and
  how they interact:

  \<^item> \<open>api/client.ts\<close> is the only code that talks to the gateway; every thunk goes through \<open>api\<close>, which
    retries once through a handler when it is refused with a 401.
  \<^item> \<open>api/schema/*.ts\<close> and \<open>api/types.ts\<close> record what the services publish: their paths, methods,
    parameters and bodies, and the shapes of what they answer.
  \<^item> \<open>store/*.ts\<close> is the state: five slices, each a set of thunks (asynchronous calls) and a reducer
    over the actions the thunks dispatch. The session's reducer also writes to \<open>localStorage\<close>.
  \<^item> \<open>auth/refresh.ts\<close> is the 401 handler, installed by \<open>main.tsx\<close>; it reads and writes the session.
  \<^item> \<open>App.tsx\<close>, \<open>components/protected-route.tsx\<close> and \<open>components/app-layout.tsx\<close> decide which page a
    path shows for the state of the session.
  \<^item> \<open>api/images.ts\<close> and the two image components fetch, show and scale pictures.
  \<^item> \<open>pages/*.tsx\<close> are the pages: forms with their own state, effects that search or poll on a timer,
    and what they render from the store with the components of \<open>components/ui\<close>.

  \<^bold>\<open>The theories,\<close> in the order they build on each other.

  \<^item> \<open>Prelude\<close>: JavaScript's operators on absent values, strings, arrays of records with an id; the
    locales \<open>keyed\<close> (a list of records read as a map from ids, interpreted for requests, offers and
    notifications) and \<open>reducer\<close> (an invariant every action keeps holds after every run,
    interpreted for the session, the unread badge, the picture hook and the picture field).
  \<^item> \<open>Json\<close>, \<open>JsonCodec\<close>: \<open>JSON.stringify\<close> and \<open>JSON.parse\<close> as the client uses them. The parser runs
    on fuel, twice the length of the text and one, and two lemmas show this enough: on every text
    more fuel changes nothing, and on every text \<open>stringify\<close> writes the value comes back (locale
    \<open>codec\<close>). Numbers that are not integers keep their text.
  \<^item> \<open>Url\<close>: \<open>encodeURIComponent\<close>, the form encoding of \<open>URLSearchParams\<close>, and their decoders.
  \<^item> \<open>Schema\<close>: one record per shape, the view \<open>as_T\<close> that reads it off a decoded value (the type
    argument of \<open>api<T>\<close> is a cast and checks nothing) and the encoder of each body the client
    sends. An answer of another shape than declared reads as one with nothing in it; an answer
    that is \<open>null\<close> is kept apart where the session depends on it (signing in, refreshing, loading
    the account and its profile).
  \<^item> \<open>Endpoints\<close>: the contract, an \<open>operation\<close> per endpoint and a table per service.
  \<^item> \<open>Client\<close>: \<open>api\<close>, \<open>send\<close>, \<open>parse\<close>, \<open>multipart\<close>. \<open>fetch\<close> is a field of the client, any function of
    the request and the world; since it may change the world, what other code does while a call
    is awaited is part of what it does, and a statement for every \<open>fetch\<close> holds under every
    interleaving. Shown: one request or one retry, the body and the identity on the wire, the
    platform's errors.
  \<^item> \<open>Contract\<close>: when a request keeps to the contract, and query strings.
  \<^item> \<open>Actions\<close>: the thunks' three phases and the plain actions as one datatype with the type strings
    the matchers test.
  \<^item> \<open>AuthSlice\<close>, \<open>RequestsSlice\<close>, \<open>OffersSlice\<close>, \<open>AdminSlice\<close>, \<open>NotificationsSlice\<close>: one per slice, its
    state as a record, its thunks and its reducer, function by function. Each reducer refines an
    abstract one (the token cell; maps from ids; the last contact list fetched), errors reach the
    screen and lose nothing, and every request keeps to the contract. Dates are arguments.
  \<^item> \<open>Store\<close>: the root state, \<open>dispatch\<close>, and the session's thunks run end to end. The toolkit's
    \<open>createAsyncThunk\<close> is not part of the sources: it is the parameter \<open>run\<close>, with what it
    documents (pending, the creator, the action of its outcome, and a rejected promise when a
    reducer throws on that action) as the hypothesis \<open>thunk_lifecycle\<close>. Shown: slices do not
    interfere; registration, session load and sign-out always settle, whatever the network does,
    and how a sign-in ends.
  \<^item> \<open>Refresh\<close>: the 401 handler; at most three requests per call, what a good and a bad refresh do.
  \<^item> \<open>Routing\<close>: the route table, the guard, the redirects and the navigation. Paths are compared as
    the router documents: fixed segments in any case, slashes at the end ignored. Shown: redirects end,
    guarded pages are safe, the spinner is transient, links lead where they say.
  \<^item> \<open>AccountPages\<close>, \<open>RequestPages\<close>, \<open>AdminPages\<close>: the submit and click handlers of the pages, the
    data they derive from the store and the buttons they offer. A handler takes the store's
    dispatch on its thunks as arguments and gives the component's new state, what it does on
    screen and the world; a thunk it starts without awaiting is in the list of what it does.
    Shown: how the forms end, on every outcome; what the buttons offer after a join or a leave.
  \<^item> \<open>Images\<close>: the picture hook as a state machine with its reachable states, and the scaling.
    Shown: no object URL leaks, no picture is shown against another offer.
  \<^item> \<open>Forms\<close>: what typing into a field does. The locale \<open>form_fields\<close> says what a form's change handler
    promises (a field holds what was typed into it last and typing leaves the others alone) and is
    interpreted for the five forms.
  \<^item> \<open>Picker\<close>: the picture field as a state machine: the preview's object URLs, a picture still being
    read, and the form around it.
  \<^item> \<open>Timers\<close>: the browser's timers and the effects that wait on them. The clock counts milliseconds
    and a timer fires on the millisecond it is due; a real browser may fire later. The locale
    \<open>timed_effect\<close> relates an effect's timers to a reference that looks only at how long each input
    stood, interpreted for the search, the suggestions, the badge and the inbox.
  \<^item> \<open>View\<close>, \<open>Ui\<close>: React elements as trees, what can be asked of a tree (the values of a prop, what is
    inside or outside an element, ids and labels, links), and every component of
    \<open>components/ui\<close> as the element it wraps with the props it sets and forwards.
  \<^item> \<open>Shell\<close>, \<open>AccountViews\<close>, \<open>RequestViews\<close>, \<open>ListViews\<close>: what each component and page renders, from the
    same state the handlers' theories work on. Handlers are the events they stand for. Shown, for
    every state: what the trees hold (ids, labels, links, numbers to dial), that decisions are
    confirmed and that a rival's offer stays hidden.
  \<^item> \<open>Submission\<close>: a mounted form over time, through the buttons it renders and the handlers' two
    halves, before and after the wait. The locale \<open>saving_form\<close> says how a form uses its saving flag;
    it is interpreted for the four forms that have one. Shown: one call at a time. The sign-in and
    registration forms have no such flag and can be submitted again (\<open>sign_in_again\<close>).
  \<^item> \<open>Pages\<close>: the routes, the guard and the pages put together, up to the tree \<open>main.tsx\<close> mounts.
    Shown: what is rendered is what the site map says, stated apart from the routes and the guard;
    every link leads to a page, labels name their controls, and phone numbers appear only where an
    approval released them.

  This theory holds what spans the slices.

  \<^bold>\<open>Where the code falls short\<close> the theorems say so: the refresh request lacks the header its
  endpoint requires (\<open>refresh_lacks_header\<close>), signing out sends an undeclared body
  (\<open>logout_body_undeclared\<close>) and leaves the other slices' data (\<open>session_end_keeps_slices\<close>), a late
  session load revives a session that ended (\<open>loadSession_overtaken\<close>), a failed inbox fetch loads
  for ever (\<open>notifications_loading_stuck\<close>), a new token shows a revoked picture
  (\<open>offer_image_revoked_shown\<close>), the offer form can edit another request's offer
  (\<open>offer_form_stale\<close>), creating a request drops the filter of the list (\<open>browse_filter_lost\<close>),
  a late answer refills the contact list of a page that is gone (\<open>contacts_late_answer\<close>) or suggests
  for a name no longer typed (\<open>suggestions_overtaken\<close>), a picture read too late goes with the next
  request (\<open>picture_outlives_form\<close>), an accepted sign-in with no body leaves the form loading for
  good (\<open>empty_sign_in_stuck\<close>), and the suggestions keep stale copies (\<open>requests_copies_agree\<close>).

  \<^bold>\<open>Not modelled:\<close> class names and inline styles; the inside of what is not under \<open>src/\<close>: React's
  scheduling, the router, the dialog and icon libraries (their components stay elements of the
  trees), the toast and theme libraries, decoding and encoding of pictures and the formatting of
  dates (parameters); and the services, written in other languages and reached only through
  \<open>fetch\<close>. Strings are 8-bit code units.
\<close>

section \<open>Every request keeps to the contract\<close>

text \<open>
  C2. The client only asks for what the services publish: for any client, any state of the world
  and any ids that can stand in a path, every request of every thunk of the five slices, signing
  out excepted, is one the contract accepts: a published path and method, no undeclared query
  key, a body of a declared kind and every required parameter.
\<close>

theorem thunks_conform:
  assumes "plain_id i" and "CHR ''&'' \<notin> set i"
  shows "list_all (conforms (BASE cl))
    (requests_of (\<lambda>c. login c credentials) cl w @
     requests_of (\<lambda>c. register c (login c) form) cl w @
     requests_of (\<lambda>c. loadSession c auth_of) cl w @
     requests_of (\<lambda>c. fetchRequests c t f) cl w @
     requests_of (\<lambda>c. fetchMyRequests c t) cl w @
     requests_of (\<lambda>c. fetchRequest c t i) cl w @
     requests_of (\<lambda>c. fetchSimilarRequests c n) cl w @
     requests_of (\<lambda>c. createRequest c t b img) cl w @
     requests_of (\<lambda>c. joinRequest c t i q) cl w @
     requests_of (\<lambda>c. updateQuantity c t i q) cl w @
     requests_of (\<lambda>c. leaveRequest c t i) cl w @
     requests_of (\<lambda>c. fetchMyOffers c t) cl w @
     requests_of (\<lambda>c. fetchOffersForRequest c t i) cl w @
     requests_of (\<lambda>c. createOffer c t ob img) cl w @
     requests_of (\<lambda>c. updateOffer c t i ou img) cl w @
     requests_of (\<lambda>c. cancelOffer c t i) cl w @
     requests_of (\<lambda>c. fetchPending c t) cl w @
     requests_of (\<lambda>c. decideOffer c t i approve reason) cl w @
     requests_of (\<lambda>c. fetchGrants c t None) cl w @
     requests_of (\<lambda>c. fetchGrants c t (Some i)) cl w @
     requests_of (\<lambda>c. revokeGrant c t i) cl w @
     requests_of (\<lambda>c. fetchContacts c t i) cl w @
     requests_of (\<lambda>c. fetchNotifications c t) cl w @
     requests_of (\<lambda>c. fetchUnreadCount c t) cl w @
     requests_of (\<lambda>c. markRead c t i) cl w)"
  using auth_thunks_conform[of cl credentials w form auth_of]
    requests_thunks_conform[OF assms(1), of cl t f w n b img q]
    offers_thunks_conform[OF assms(1), of cl t w ob img ou]
    admin_thunks_conform[OF assms, of cl t w approve reason]
    notifications_thunks_conform[OF assms(1), of cl t w]
  by simp

theorem thunks_conform_witness:
  "list_all (conforms [])
    (requests_of (\<lambda>c. joinRequest c (\<lambda>w. Some ''t'') ''r1'' (JInt 2)) (answering 200 JNull) ())"
  using thunks_conform[of "''r1''" "answering 200 JNull :: unit client" credentials "()" form auth_of
      "\<lambda>w. Some ''t''" no_filters "[]" b None "JInt 2" ob ou True "[]" for credentials form auth_of b ob ou]
  by (simp add: plain_id_def answering_def)

end
